(* ===== verification/Prelude.thy ===== *)
theory Prelude
  imports Main "HOL-Library.Word"
begin

text \<open>
  What every other theory of the library shares.

  \<^item> The machine integers of the Rust sources as words: \<open>u8\<close>, \<open>u32\<close>, \<open>u64\<close>, \<open>u128\<close> are read with
    \<open>unat\<close>; \<open>i64\<close> is a 64-bit word read with \<open>sint\<close>. The standard library operations the sources use
    (\<open>checked_add\<close>, \<open>checked_sub\<close>, \<open>checked_mul\<close>, \<open>saturating_sub\<close>, their \<open>i64\<close> versions, \<open>as\<close> casts,
    truncating division) are defined here once, with the laws that turn every checked operation
    into an equation between \<open>nat\<close> or \<open>int\<close> values.
  \<^item> The result type: \<open>Inl\<close> an error, \<open>Inr\<close> a value, with the sequencing operator \<open>rbind\<close> that stands
    for Rust's \<open>?\<close> and \<open>require\<close> for a guarded early return.
  \<^item> Byte lists of words, little endian, as \<open>to_le_bytes\<close> gives them.

  The collection \<open>rust_simps\<close> holds the inversion laws: \<open>auto simp: rust_simps\<close> turns the fact that a
  handler returned \<open>Inr\<close> into the chain of equations the handler established on its way.
\<close>

named_theorems rust_simps \<open>inversion of results and checked arithmetic\<close>

section \<open>Integers\<close>

type_synonym u8 = "8 word"
type_synonym u32 = "32 word"
type_synonym u64 = "64 word"
type_synonym u128 = "128 word"
type_synonym i64 = "64 word"
type_synonym pubkey = "256 word"
type_synonym bytes = "8 word list"

definition checked_add :: "'a::len word \<Rightarrow> 'a word \<Rightarrow> 'a word option" where
  "checked_add a b = (if unat a + unat b < 2 ^ LENGTH('a) then Some (a + b) else None)"

definition checked_sub :: "'a::len word \<Rightarrow> 'a word \<Rightarrow> 'a word option" where
  "checked_sub a b = (if b \<le> a then Some (a - b) else None)"

definition checked_mul :: "'a::len word \<Rightarrow> 'a word \<Rightarrow> 'a word option" where
  "checked_mul a b = (if unat a * unat b < 2 ^ LENGTH('a) then Some (a * b) else None)"

definition checked_div :: "'a::len word \<Rightarrow> 'a word \<Rightarrow> 'a word option" where
  "checked_div a b = (if b = 0 then None else Some (a div b))"

definition saturating_add :: "'a::len word \<Rightarrow> 'a word \<Rightarrow> 'a word" where
  "saturating_add a b = (if unat a + unat b < 2 ^ LENGTH('a) then a + b else - 1)"

definition saturating_sub :: "'a::len word \<Rightarrow> 'a word \<Rightarrow> 'a word" where
  "saturating_sub a b = (if b \<le> a then a - b else 0)"

text \<open>Signed operations on \<open>i64\<close>: computed on the integers, then checked against the range.\<close>

definition i64_fits :: "int \<Rightarrow> bool" where
  "i64_fits s \<longleftrightarrow> - (2 ^ 63) \<le> s \<and> s < 2 ^ 63"

definition i64_checked :: "int \<Rightarrow> i64 option" where
  "i64_checked s = (if i64_fits s then Some (word_of_int s) else None)"

definition i64_checked_add :: "i64 \<Rightarrow> i64 \<Rightarrow> i64 option" where
  "i64_checked_add a b = i64_checked (sint a + sint b)"

definition i64_checked_sub :: "i64 \<Rightarrow> i64 \<Rightarrow> i64 option" where
  "i64_checked_sub a b = i64_checked (sint a - sint b)"

definition i64_checked_mul :: "i64 \<Rightarrow> i64 \<Rightarrow> i64 option" where
  "i64_checked_mul a b = i64_checked (sint a * sint b)"

definition i64_saturating_add :: "i64 \<Rightarrow> i64 \<Rightarrow> i64" where
  "i64_saturating_add a b =
     (let s = sint a + sint b
      in word_of_int (if s < - (2 ^ 63) then - (2 ^ 63) else if 2 ^ 63 \<le> s then 2 ^ 63 - 1 else s))"

definition i64_saturating_sub :: "i64 \<Rightarrow> i64 \<Rightarrow> i64" where
  "i64_saturating_sub a b = word_of_int (max (- (2 ^ 63)) (min (2 ^ 63 - 1) (sint a - sint b)))"

text \<open>Rust's \<open>/\<close> on \<open>i64\<close> truncates towards zero.\<close>

definition i64_div :: "i64 \<Rightarrow> i64 \<Rightarrow> i64" where
  "i64_div a b = word_of_int (sgn (sint a) * sgn (sint b) * (\<bar>sint a\<bar> div \<bar>sint b\<bar>))"

text \<open>The \<open>as\<close> casts: \<open>u64 as u128\<close> zero-extends, \<open>i64 as u128\<close> sign-extends, \<open>u128 as u64\<close> truncates.\<close>

definition u64_as_u128 :: "u64 \<Rightarrow> u128" where
  "u64_as_u128 a = ucast a"

definition i64_as_u128 :: "i64 \<Rightarrow> u128" where
  "i64_as_u128 a = scast a"

definition u128_as_u64 :: "u128 \<Rightarrow> u64" where
  "u128_as_u64 a = ucast a"

definition u32_as_i64 :: "u32 \<Rightarrow> i64" where
  "u32_as_i64 a = ucast a"

subsection \<open>Laws of the unsigned operations\<close>

lemma checked_add_eq_Some [rust_simps]:
  "checked_add a b = Some c \<longleftrightarrow> unat c = unat a + unat b" for a b c :: "'a::len word"
proof
  assume "checked_add a b = Some c"
  then show "unat c = unat a + unat b"
    by (auto simp: checked_add_def unat_add_lem [THEN iffD1] split: if_splits)
next
  assume c: "unat c = unat a + unat b"
  then have lt: "unat a + unat b < 2 ^ LENGTH('a)"
    by (metis unsigned_less)
  then have "a + b = c"
    using c by (simp add: word_unat_eq_iff unat_add_lem [THEN iffD1])
  then show "checked_add a b = Some c"
    using lt by (simp add: checked_add_def)
qed

lemma checked_sub_eq_Some [rust_simps]:
  "checked_sub a b = Some c \<longleftrightarrow> unat a = unat b + unat c" for a b c :: "'a::len word"
proof
  assume "checked_sub a b = Some c"
  then show "unat a = unat b + unat c"
    by (auto simp: checked_sub_def unat_sub word_le_nat_alt split: if_splits)
next
  assume eq: "unat a = unat b + unat c"
  then have "b \<le> a" by (simp add: word_le_nat_alt)
  moreover from this eq have "unat (a - b) = unat c" by (simp add: unat_sub)
  then have "a - b = c" by (simp add: word_unat_eq_iff)
  ultimately show "checked_sub a b = Some c" by (simp add: checked_sub_def)
qed

lemma checked_mul_eq_Some [rust_simps]:
  "checked_mul a b = Some c \<longleftrightarrow> unat c = unat a * unat b" for a b c :: "'a::len word"
proof
  assume "checked_mul a b = Some c"
  then show "unat c = unat a * unat b"
    by (auto simp: checked_mul_def unat_mult_lem [THEN iffD1] split: if_splits)
next
  assume c: "unat c = unat a * unat b"
  then have lt: "unat a * unat b < 2 ^ LENGTH('a)"
    by (metis unsigned_less)
  then have "a * b = c"
    using c by (simp add: word_unat_eq_iff unat_mult_lem [THEN iffD1])
  then show "checked_mul a b = Some c"
    using lt by (simp add: checked_mul_def)
qed

lemma checked_add_eq_None: "checked_add a b = None \<longleftrightarrow> 2 ^ LENGTH('a) \<le> unat a + unat b"
  for a b :: "'a::len word"
  by (auto simp: checked_add_def)

lemma checked_sub_eq_None: "checked_sub a b = None \<longleftrightarrow> unat a < unat b" for a b :: "'a::len word"
  by (auto simp: checked_sub_def word_le_nat_alt)

lemma checked_mul_eq_None: "checked_mul a b = None \<longleftrightarrow> 2 ^ LENGTH('a) \<le> unat a * unat b"
  for a b :: "'a::len word"
  by (auto simp: checked_mul_def)

lemma checked_div_eq_Some [rust_simps]: "checked_div a b = Some c \<longleftrightarrow> b \<noteq> 0 \<and> c = a div b"
  by (auto simp: checked_div_def)

lemma unat_saturating_add_le: "unat (saturating_add a b) \<le> unat a + unat b" for a b :: "'a::len word"
proof (cases "unat a + unat b < 2 ^ LENGTH('a)")
  case True
  then show ?thesis by (simp add: saturating_add_def unat_add_lem [THEN iffD1])
next
  case False
  have "unat (- 1 :: 'a word) < 2 ^ LENGTH('a)" by (rule unsigned_less)
  with False have "unat (- 1 :: 'a word) \<le> unat a + unat b" by linarith
  with False show ?thesis by (simp only: saturating_add_def if_False)
qed

lemma unat_saturating_add_ge: "unat a \<le> unat (saturating_add a b)" for a b :: "'a::len word"
proof (cases "unat a + unat b < 2 ^ LENGTH('a)")
  case True
  then show ?thesis by (simp add: saturating_add_def unat_add_lem [THEN iffD1])
next
  case False
  have "a \<le> - 1" by simp
  then have "unat a \<le> unat (- 1 :: 'a word)" by (simp only: word_le_nat_alt)
  with False show ?thesis by (simp only: saturating_add_def if_False)
qed

lemma u128_mult_fits:
  fixes a b :: u128
  assumes "unat a * unat b < 2 ^ 128"
  shows "checked_mul a b = Some (a * b)" and "unat (a * b) = unat a * unat b"
  using assms by (simp_all add: checked_mul_def unat_word_ariths)

lemma unat_saturating_sub [simp]: "unat (saturating_sub a b) = unat a - unat b"
  by (auto simp: saturating_sub_def unat_sub word_le_nat_alt)

lemma unat_u64_as_u128 [simp]: "unat (u64_as_u128 a) = unat a"
  using unsigned_less [of a, where ?'a = nat]
  by (simp add: u64_as_u128_def unsigned_ucast_eq take_bit_eq_mod)

lemma unat_u128_as_u64: "unat (u128_as_u64 a) = unat a mod 2 ^ 64"
  by (simp add: u128_as_u64_def unsigned_ucast_eq take_bit_eq_mod)

lemma unat_u128_as_u64_le: "unat (u128_as_u64 a) \<le> unat a"
  by (simp add: unat_u128_as_u64)

lemma u64_as_u128_eq_0 [simp]: "u64_as_u128 a = 0 \<longleftrightarrow> a = 0"
  by (metis unat_0 unat_eq_zero unat_u64_as_u128)

lemma unat_u64_bound: "unat (a :: u64) < 18446744073709551616"
  using unsigned_less [of a, where ?'a = nat] by simp

lemma unat_u128_bound: "unat (a :: u128) < 340282366920938463463374607431768211456"
  using unsigned_less [of a, where ?'a = nat] by simp

lemma unat_min [simp]: "unat (min a b) = min (unat a) (unat b)" for a b :: "'a::len word"
  by (simp add: min_def word_le_nat_alt)

subsection \<open>Laws of the signed operations\<close>

lemma sint_i64_bounds: "- (2 ^ 63) \<le> sint (a :: i64)" "sint (a :: i64) < 2 ^ 63"
  using sint_ge [of a] sint_lt [of a] by simp_all

lemma i64_fits_sint [simp]: "i64_fits (sint (a :: i64))"
  using sint_i64_bounds [of a] by (simp add: i64_fits_def)

lemma sint_word_of_int_fits: "i64_fits s \<Longrightarrow> sint (word_of_int s :: i64) = s"
  by (simp add: i64_fits_def int_word_sint)

lemma i64_checked_eq_Some [rust_simps]: "i64_checked s = Some c \<longleftrightarrow> sint c = s"
proof
  show "sint c = s" if "i64_checked s = Some c"
    using that by (auto simp: i64_checked_def sint_word_of_int_fits split: if_splits)
  show "i64_checked s = Some c" if "sint c = s"
    using that by (auto simp: i64_checked_def)
qed

lemma i64_checked_add_eq_Some [rust_simps]: "i64_checked_add a b = Some c \<longleftrightarrow> sint c = sint a + sint b"
  by (simp add: i64_checked_add_def i64_checked_eq_Some)

lemma i64_checked_sub_eq_Some [rust_simps]: "i64_checked_sub a b = Some c \<longleftrightarrow> sint c = sint a - sint b"
  by (simp add: i64_checked_sub_def i64_checked_eq_Some)

lemma i64_checked_mul_eq_Some [rust_simps]: "i64_checked_mul a b = Some c \<longleftrightarrow> sint c = sint a * sint b"
  by (simp add: i64_checked_mul_def i64_checked_eq_Some)

lemma sint_i64_div:
  assumes "0 \<le> sint a" and "0 < sint b"
  shows "sint (i64_div a b) = sint a div sint b"
proof -
  have "sint a div sint b \<le> sint a"
    using assms zdiv_mono2 [of "sint a" 1 "sint b"] by simp
  then have "i64_fits (sint a div sint b)"
    using assms sint_i64_bounds [of a] pos_imp_zdiv_nonneg_iff [of "sint b" "sint a"]
    by (simp add: i64_fits_def)
  moreover have "sgn (sint a) * sgn (sint b) * (\<bar>sint a\<bar> div \<bar>sint b\<bar>) = sint a div sint b"
    using assms by (cases "sint a = 0") simp_all
  ultimately show ?thesis
    by (simp add: i64_div_def sint_word_of_int_fits)
qed

lemma unat_i64_as_u128:
  assumes "0 \<le> sint a"
  shows "unat (i64_as_u128 a) = nat (sint a)"
proof -
  have "uint (i64_as_u128 a) = take_bit 128 (sint a)"
    unfolding i64_as_u128_def scast_eq uint_word_of_int_eq by simp
  also have "\<dots> = sint a"
    using assms sint_i64_bounds [of a] by (intro take_bit_int_eq_self) simp_all
  finally show ?thesis by (metis nat_uint_eq)
qed

lemma sint_eq_unat:
  assumes "unat (a :: i64) < 2 ^ 63"
  shows "sint a = int (unat a)"
proof -
  have "int (unat a) < int (2 ^ 63)" using assms by (simp only: of_nat_less_iff)
  then have "uint a < 2 ^ 63" by simp
  moreover have "- (2 ^ 63) \<le> uint a" by (rule order_trans [OF _ unsigned_greater_eq]) simp
  ultimately have "signed_take_bit 63 (uint a) = uint a" by (intro signed_take_bit_int_eq_self)
  then have "sint a = uint a" by (simp add: sint_uint)
  then show ?thesis by simp
qed

lemma sint_u32_as_i64 [simp]: "sint (u32_as_i64 a) = int (unat a)"
proof -
  have bound: "unat a < 2 ^ 32"
    using unsigned_less [of a, where ?'a = nat] by simp
  then have "unat (u32_as_i64 a) = unat a"
    by (simp add: u32_as_i64_def unsigned_ucast_eq take_bit_eq_mod)
  with bound show ?thesis by (simp add: sint_eq_unat)
qed

section \<open>Results\<close>

text \<open>
  \<open>rbind\<close> is Rust's \<open>?\<close>: it returns the first error, or goes on with the value.
  \<open>ok_or\<close> is \<open>Option::ok_or\<close>.
\<close>

definition rbind :: "'e + 'a \<Rightarrow> ('a \<Rightarrow> 'e + 'b) \<Rightarrow> 'e + 'b" where
  "rbind m f = (case m of Inl e \<Rightarrow> Inl e | Inr x \<Rightarrow> f x)"

definition ok_or :: "'a option \<Rightarrow> 'e \<Rightarrow> 'e + 'a" where
  "ok_or m e = (case m of None \<Rightarrow> Inl e | Some x \<Rightarrow> Inr x)"

text \<open>\<open>Option::unwrap_or\<close>.\<close>

definition unwrap_or :: "'a option \<Rightarrow> 'a \<Rightarrow> 'a" where
  "unwrap_or m d = (case m of None \<Rightarrow> d | Some x \<Rightarrow> x)"

lemma unwrap_or_simps [simp]: "unwrap_or None d = d" "unwrap_or (Some x) d = x"
  by (simp_all add: unwrap_or_def)

lemma rbind_Inl [simp]: "rbind (Inl e) f = Inl e"
  by (simp add: rbind_def)

lemma rbind_Inr [simp]: "rbind (Inr x) f = f x"
  by (simp add: rbind_def)

lemma ok_or_None [simp]: "ok_or None e = Inl e"
  by (simp add: ok_or_def)

lemma ok_or_Some [simp]: "ok_or (Some x) e = Inr x"
  by (simp add: ok_or_def)

lemma rbind_eq_Inr [rust_simps]: "rbind m f = Inr y \<longleftrightarrow> (\<exists>x. m = Inr x \<and> f x = Inr y)"
  by (auto simp: rbind_def split: sum.splits)

lemmas [rust_simps] = Let_def

lemma rbind_eq_Inl: "rbind m f = Inl e \<longleftrightarrow> m = Inl e \<or> (\<exists>x. m = Inr x \<and> f x = Inl e)"
  by (auto simp: rbind_def split: sum.splits)

lemma ok_or_eq_Inr [rust_simps]: "ok_or m e = Inr x \<longleftrightarrow> m = Some x"
  by (auto simp: ok_or_def split: option.splits)

lemma if_Inl_eq_Inr [rust_simps]:
  "(if b then Inl e else k) = Inr y \<longleftrightarrow> \<not> b \<and> k = Inr y"
  "(if b then k else Inl e) = Inr y \<longleftrightarrow> b \<and> k = Inr y"
  by auto

lemma rbind_cong [fundef_cong]:
  "m = m' \<Longrightarrow> (\<And>x. m' = Inr x \<Longrightarrow> f x = g x) \<Longrightarrow> rbind m f = rbind m' g"
  by (simp add: rbind_def split: sum.split)

text \<open>A left fold that stops at the first error: a \<open>for\<close> loop whose body uses \<open>?\<close>.\<close>

fun rfold :: "('a \<Rightarrow> 's \<Rightarrow> 'e + 's) \<Rightarrow> 'a list \<Rightarrow> 's \<Rightarrow> 'e + 's" where
  "rfold f [] s = Inr s"
| "rfold f (x # xs) s = rbind (f x s) (rfold f xs)"

lemma rfold_append: "rfold f (xs @ ys) s = rbind (rfold f xs s) (rfold f ys)"
  by (induction xs arbitrary: s) (auto simp: rbind_def split: sum.splits)

lemma rfold_invariant:
  assumes "rfold f xs s = Inr t" and "P s"
    and "\<And>x s t. x \<in> set xs \<Longrightarrow> P s \<Longrightarrow> f x s = Inr t \<Longrightarrow> P t"
  shows "P t"
  using assms
proof (induction xs arbitrary: s)
  case Nil
  then show ?case by simp
next
  case (Cons x xs)
  from Cons.prems(1) obtain s' where s': "f x s = Inr s'" and t: "rfold f xs s' = Inr t"
    by (auto simp: rbind_eq_Inr)
  have "P s'"
    using Cons.prems(3) [OF _ Cons.prems(2) s'] by simp
  then show ?case
    using t Cons.prems(3) by (intro Cons.IH) auto
qed

section \<open>Bytes\<close>

text \<open>Little-endian byte lists, as \<open>to_le_bytes\<close> and \<open>from_le_bytes\<close>.\<close>

fun nat_le :: "nat \<Rightarrow> nat \<Rightarrow> bytes" where
  "nat_le 0 x = []"
| "nat_le (Suc n) x = word_of_nat x # nat_le n (x div 256)"

fun nat_of_le :: "bytes \<Rightarrow> nat" where
  "nat_of_le [] = 0"
| "nat_of_le (b # bs) = unat b + 256 * nat_of_le bs"

definition to_le_bytes :: "'a::len word \<Rightarrow> bytes" where
  "to_le_bytes w = nat_le (LENGTH('a) div 8) (unat w)"

lemma length_nat_le [simp]: "length (nat_le n x) = n"
  by (induction n arbitrary: x) simp_all

lemma length_to_le_bytes [simp]: "length (to_le_bytes (w :: 'a::len word)) = LENGTH('a) div 8"
  by (simp add: to_le_bytes_def)

lemma nat_of_le_nat_le: "nat_of_le (nat_le n x) = x mod 256 ^ n"
proof (induction n arbitrary: x)
  case 0
  then show ?case by simp
next
  case (Suc n)
  have "unat (word_of_nat x :: u8) = x mod 256"
    by (simp add: unat_of_nat)
  then show ?case
    by (simp add: Suc.IH mod_mult2_eq [of x 256 "256 ^ n"])
qed

lemma nat_le_nat_of_le: "nat_le (length bs) (nat_of_le bs) = bs"
proof (induction bs)
  case Nil
  then show ?case by simp
next
  case (Cons b bs)
  have b: "unat b < 256"
    using unsigned_less [of b, where ?'a = nat] by simp
  have "word_of_nat (unat b + 256 * nat_of_le bs) = b"
    using b by (simp only: word_unat_eq_iff unat_of_nat) simp
  moreover have "(unat b + 256 * nat_of_le bs) div 256 = nat_of_le bs"
    using b by simp
  ultimately show ?case
    using Cons.IH by simp
qed

lemma to_le_bytes_inverse:
  fixes w :: "'a::len word"
  assumes "LENGTH('a) = 8 * k"
  shows "word_of_nat (nat_of_le (to_le_bytes w)) = w"
proof -
  have "(256 :: nat) ^ k = 2 ^ LENGTH('a)"
    by (simp add: assms power_mult)
  then have "nat_of_le (to_le_bytes w) = unat w"
    using assms unsigned_less [of w, where ?'a = nat]
    by (simp add: to_le_bytes_def nat_of_le_nat_le)
  then show ?thesis by simp
qed

lemma to_le_bytes_inject:
  fixes v w :: "'a::len word"
  assumes "LENGTH('a) = 8 * k" and "to_le_bytes v = to_le_bytes w"
  shows "v = w"
  using assms to_le_bytes_inverse [of k v] to_le_bytes_inverse [of k w] by metis

lemma checked_sub_chain:
  fixes a b c d :: "'a::len word"
  assumes "unat b + unat c + unat d \<le> unat a"
  shows "checked_sub a b = Some (a - b)" and "checked_sub (a - b) c = Some (a - b - c)"
    and "checked_sub (a - b - c) d = Some (a - b - c - d)"
proof -
  have 1: "unat (a - b) = unat a - unat b" using assms by (simp add: unat_sub word_le_nat_alt)
  have 2: "unat (a - b - c) = unat a - unat b - unat c"
    using assms 1 by (simp add: unat_sub [of c "a - b"] word_le_nat_alt)
  show "checked_sub a b = Some (a - b)" "checked_sub (a - b) c = Some (a - b - c)"
    "checked_sub (a - b - c) d = Some (a - b - c - d)"
    using assms 1 2 by (simp_all add: checked_sub_def word_le_nat_alt)
qed

text \<open>
  \<open>(a as u128).checked_mul(x as u128)? / y as u128\<close> cast back to \<open>u64\<close>, for \<open>0 \<le> x \<le> y\<close>: no overflow and
  no truncation.
\<close>

lemma u128_scale:
  fixes a :: u64 and x y :: i64
  assumes "0 \<le> sint x" and "sint x \<le> sint y" and "0 < sint y"
  shows "checked_mul (u64_as_u128 a) (i64_as_u128 x) = Some (u64_as_u128 a * i64_as_u128 x)"
    and "unat (u128_as_u64 (u64_as_u128 a * i64_as_u128 x div i64_as_u128 y))
       = unat a * nat (sint x) div nat (sint y)"
proof -
  have x: "nat (sint x) < 2 ^ 63" using sint_i64_bounds [of x] by simp
  have "unat a * nat (sint x) < 2 ^ 64 * 2 ^ 63"
    by (rule mult_strict_mono) (use x unsigned_less [of a, where ?'a = nat] in simp_all)
  then have lt: "unat (u64_as_u128 a) * unat (i64_as_u128 x) < 2 ^ LENGTH(128)"
    using assms by (simp add: unat_i64_as_u128)
  then show "checked_mul (u64_as_u128 a) (i64_as_u128 x) = Some (u64_as_u128 a * i64_as_u128 x)"
    by (simp add: checked_mul_def)
  have prod: "unat (u64_as_u128 a * i64_as_u128 x) = unat a * nat (sint x)"
    using unat_mult_lem [THEN iffD1, OF lt] assms by (simp add: unat_i64_as_u128)
  have "unat a * nat (sint x) div nat (sint y) \<le> unat a * nat (sint y) div nat (sint y)"
    using assms by (intro div_le_mono mult_le_mono2) simp
  also have "\<dots> = unat a" using assms by simp
  also have "unat a < 2 ^ 64" using unsigned_less [of a, where ?'a = nat] by simp
  finally show "unat (u128_as_u64 (u64_as_u128 a * i64_as_u128 x div i64_as_u128 y))
      = unat a * nat (sint x) div nat (sint y)"
    using assms by (simp add: unat_u128_as_u64 unat_div_distrib prod unat_i64_as_u128)
qed

text \<open>Byte strings: \<open>b"..."\<close> literals.\<close>

definition ascii :: "string \<Rightarrow> bytes" where
  "ascii s = map of_char s"

lemma unat_u64_div: "unat ((a :: u64) div b) = unat a div unat b"
  by (simp add: unat_div_distrib)

section \<open>Duplicates\<close>

text \<open>
  \<open>sorted.windows(2)\<close> on a sorted copy: equal neighbours. The result does not depend on the order of the keys.
\<close>

definition has_duplicates :: "'a::linorder list \<Rightarrow> bool" where
  "has_duplicates ks = (let sorted = sort ks in list_ex (\<lambda>(a, b). a = b) (zip sorted (tl sorted)))"

lemma sorted_neighbours: "sorted xs \<Longrightarrow> list_ex (\<lambda>(a, b). a = b) (zip xs (tl xs)) \<longleftrightarrow> \<not> distinct xs"
proof (induction xs rule: induct_list012)
  case (3 x y zs)
  then have "x \<in> set (y # zs) \<longleftrightarrow> x = y" by (auto intro: antisym)
  with 3 show ?case by auto
qed auto

lemma has_duplicates_iff: "has_duplicates ks \<longleftrightarrow> \<not> distinct ks"
  by (simp add: has_duplicates_def sorted_neighbours)

end
