(* ===== verification/Borsh.thy ===== *)
theory Borsh
  imports Prelude
begin

text \<open>
  The interface between the on-chain programs and the Borsh serialisation library.

  The programs keep their state in account data: they read it with \<open>T::try_from_slice(&data)?\<close> and
  write it back with \<open>value.serialize(&mut &mut data[..])?\<close>. The library is third-party code, so a
  \<open>borsh\<close> record, a reader and a writer for one type, is a parameter of every definition that reads or
  writes account data. What the programs rely on is the locale \<open>borsh_struct\<close>: reading back what was
  written gives the value, a value of the type takes exactly \<open>len\<close> bytes, and \<open>try_from_slice\<close>
  refuses input of any other length.

  The second half gives the byte layout the Borsh specification documents for the types the
  programs use (little-endian integers, one byte per \<open>bool\<close> and per enum tag, fields in order) as
  combinators, so that each program can interpret the locale at the layout of its own structs.
\<close>

section \<open>Errors\<close>

text \<open>
  \<open>SystemError\<close> and the variants of \<open>InstructionError\<close> and \<open>ProgramError\<close> that the modelled code
  returns. A program's own error enum arrives as \<open>Custom\<close> of its discriminant.
\<close>

datatype system_error =
    AccountAlreadyInUse
  | ResultWithNegativeLamports
  | InvalidAccountDataLength
  | AddressWithSeedMismatch

datatype instruction_error =
    Custom u32
  | SystemErr system_error
  | InvalidArgument
  | InvalidInstructionData
  | InvalidAccountData
  | InvalidAccountOwner
  | IncorrectProgramId
  | MissingRequiredSignature
  | NotEnoughAccountKeys
  | InvalidSeeds
  | UninitializedAccount
  | AccountAlreadyInitialized
  | AccountDataTooSmall
  | AccountNotRentExempt
  | InsufficientFunds
  | IllegalOwner
  | BorshIoError
  | ArithmeticOverflow
  | ProgramFailedToComplete
  | UnsupportedSysvar
  | UnsupportedProgramId
  | MissingAccount
  | UnbalancedInstruction
  | ModifiedProgramId
  | ExternalAccountLamportSpend
  | ExternalAccountDataModified
  | ReadonlyLamportChange
  | ReadonlyDataModified
  | AccountDataSizeChanged
  | InvalidRealloc
  | MaxAccountsDataAllocationsExceeded
  | PrivilegeEscalation
  | MaxSeedLengthExceeded
  | TooManySigners
  | BadSeeds
  | ProgramNotSupported

type_synonym 'a res = "instruction_error + 'a"

section \<open>Readers and writers\<close>

record 'a borsh =
  try_from_slice :: "bytes \<Rightarrow> 'a option"
  to_vec :: "'a \<Rightarrow> bytes"

text \<open>\<open>T::try_from_slice(&data)?\<close>: a failure becomes \<open>ProgramError::BorshIoError\<close>.\<close>

definition load :: "'a borsh \<Rightarrow> bytes \<Rightarrow> 'a res" where
  "load c d = ok_or (try_from_slice c d) BorshIoError"

text \<open>
  \<open>value.serialize(&mut &mut data[..])?\<close>: the writer overwrites a prefix of the slice and fails when
  the slice is too short; the bytes after the prefix stay.
\<close>

definition store :: "'a borsh \<Rightarrow> 'a \<Rightarrow> bytes \<Rightarrow> bytes res" where
  "store c x d =
     (let bs = to_vec c x
      in if length bs \<le> length d then Inr (bs @ drop (length bs) d) else Inl BorshIoError)"

lemma load_eq_Inr [rust_simps]: "load c d = Inr x \<longleftrightarrow> try_from_slice c d = Some x"
  by (simp add: load_def ok_or_eq_Inr)

lemma length_store: "store c x d = Inr d' \<Longrightarrow> length d' = length d"
  by (auto simp: store_def Let_def split: if_splits)

locale borsh_struct =
  fixes c :: "'a borsh" and len :: nat
  assumes from_to: "try_from_slice c (to_vec c x) = Some x"
    and to_length: "length (to_vec c x) = len"
    and from_length: "try_from_slice c bs = Some x \<Longrightarrow> length bs = len"
begin

lemma store_exact: "length d = len \<Longrightarrow> store c x d = Inr (to_vec c x)"
  by (simp add: store_def to_length)

lemma store_short: "length d < len \<Longrightarrow> store c x d = Inl BorshIoError"
  by (simp add: store_def to_length)

lemma load_to_vec [simp]: "load c (to_vec c x) = Inr x"
  by (simp add: load_def from_to)

lemma load_store: "length d = len \<Longrightarrow> store c x d = Inr d' \<Longrightarrow> load c d' = Inr x"
  by (auto simp: store_exact)

lemma load_length: "load c d = Inr x \<Longrightarrow> length d = len"
  by (simp add: load_eq_Inr from_length)

lemma store_after_load: "load c d = Inr x \<Longrightarrow> store c y d = Inr (to_vec c y)"
  by (simp add: load_length store_exact)

lemma load_after_store: "load c d = Inr x \<Longrightarrow> store c y d = Inr d' \<Longrightarrow> load c d' = Inr y"
  by (auto simp: store_after_load)

text \<open>An account with any other data length can never be read as this struct.\<close>

lemma load_wrong_length: "length d \<noteq> len \<Longrightarrow> load c d = Inl BorshIoError"
  using load_length by (cases "load c d") (auto simp: load_def ok_or_def split: option.splits)

lemma to_vec_inject: "to_vec c x = to_vec c y \<longleftrightarrow> x = y"
  by (metis from_to option.inject)

end

text \<open>
  Types of variable length (a struct with a \<open>Vec\<close> or a \<open>String\<close>) promise less: what was written can be
  read back, for the values \<open>valid\<close> the format can represent, and bytes after the value are an error.
  Fixed-length structs are a special case.
\<close>

locale borsh_type =
  fixes c :: "'a borsh" and valid :: "'a \<Rightarrow> bool"
  assumes from_to_valid: "valid x \<Longrightarrow> try_from_slice c (to_vec c x) = Some x"
    and from_trailing: "valid x \<Longrightarrow> r \<noteq> [] \<Longrightarrow> try_from_slice c (to_vec c x @ r) = None"
begin

lemma load_valid: "valid x \<Longrightarrow> load c (to_vec c x) = Inr x"
  by (simp add: load_def from_to_valid)

lemma store_exact_length: "length d = length (to_vec c x) \<Longrightarrow> store c x d = Inr (to_vec c x)"
  by (simp add: store_def)

text \<open>A value stored in an account that is larger than its encoding cannot be read again.\<close>

lemma load_oversized:
  assumes "valid x" and "store c x d = Inr d'" and "length (to_vec c x) < length d"
  shows "load c d' = Inl BorshIoError"
proof -
  have "d' = to_vec c x @ drop (length (to_vec c x)) d" and "drop (length (to_vec c x)) d \<noteq> []"
    using assms by (auto simp: store_def Let_def split: if_splits)
  then show ?thesis using from_trailing [OF assms(1)] by (simp add: load_def)
qed

end

sublocale borsh_struct \<subseteq> borsh_type c "\<lambda>_. True"
proof
  show "try_from_slice c (to_vec c x) = Some x" for x by (rule from_to)
  show "try_from_slice c (to_vec c x @ r) = None" if "r \<noteq> []" for x r
    using from_length [of "to_vec c x @ r"] to_length [of x] that by (cases "try_from_slice c (to_vec c x @ r)") auto
qed

section \<open>Byte layouts\<close>

record 'a layout =
  get :: "bytes \<Rightarrow> ('a \<times> bytes) option"
  put :: "'a \<Rightarrow> bytes"

text \<open>A well-formed layout of \<open>n\<close> bytes.\<close>

definition wf_layout :: "nat \<Rightarrow> 'a layout \<Rightarrow> bool" where
  "wf_layout n l \<longleftrightarrow>
     (\<forall>x r. get l (put l x @ r) = Some (x, r)) \<and> (\<forall>x. length (put l x) = n) \<and>
     (\<forall>bs x r. get l bs = Some (x, r) \<longrightarrow> length bs = n + length r)"

definition of_layout :: "'a layout \<Rightarrow> 'a borsh" where
  "of_layout l =
     \<lparr>try_from_slice = (\<lambda>bs. case get l bs of Some (x, []) \<Rightarrow> Some x | _ \<Rightarrow> None), to_vec = put l\<rparr>"

definition word_layout :: "'a::len word layout" where
  "word_layout =
     \<lparr>get = (\<lambda>bs. let n = LENGTH('a) div 8
                  in if length bs < n then None else Some (word_of_nat (nat_of_le (take n bs)), drop n bs)),
      put = to_le_bytes\<rparr>"

definition bool_layout :: "bool layout" where
  "bool_layout =
     \<lparr>get = (\<lambda>bs. case bs of [] \<Rightarrow> None
                  | b # r \<Rightarrow> if b = 0 then Some (False, r) else if b = 1 then Some (True, r) else None),
      put = (\<lambda>x. if x then [1] else [0])\<rparr>"

text \<open>A field-less enum is written as its tag byte; \<open>dec\<close> refuses unknown tags.\<close>

definition enum_layout :: "('a \<Rightarrow> u8) \<Rightarrow> (u8 \<Rightarrow> 'a option) \<Rightarrow> 'a layout" where
  "enum_layout enc dec =
     \<lparr>get = (\<lambda>bs. case bs of [] \<Rightarrow> None
                  | b # r \<Rightarrow> (case dec b of None \<Rightarrow> None | Some x \<Rightarrow> Some (x, r))),
      put = (\<lambda>x. [enc x])\<rparr>"

definition pair_layout :: "'a layout \<Rightarrow> 'b layout \<Rightarrow> ('a \<times> 'b) layout" where
  "pair_layout l m =
     \<lparr>get = (\<lambda>bs. case get l bs of None \<Rightarrow> None
                  | Some (x, r) \<Rightarrow> (case get m r of None \<Rightarrow> None | Some (y, q) \<Rightarrow> Some ((x, y), q))),
      put = (\<lambda>(x, y). put l x @ put m y)\<rparr>"

definition iso_layout :: "('a \<Rightarrow> 'b) \<Rightarrow> ('b \<Rightarrow> 'a) \<Rightarrow> 'a layout \<Rightarrow> 'b layout" where
  "iso_layout f g l =
     \<lparr>get = (\<lambda>bs. case get l bs of None \<Rightarrow> None | Some (x, r) \<Rightarrow> Some (f x, r)),
      put = (\<lambda>y. put l (g y))\<rparr>"

lemma wf_word_layout:
  assumes "LENGTH('a::len) = 8 * n"
  shows "wf_layout n (word_layout :: 'a word layout)"
  using assms by (auto simp: wf_layout_def word_layout_def Let_def to_le_bytes_inverse split: if_splits)

lemma wf_bool_layout: "wf_layout 1 bool_layout"
  by (auto simp: wf_layout_def bool_layout_def split: list.splits if_splits)

lemma wf_enum_layout: "(\<And>x. dec (enc x) = Some x) \<Longrightarrow> wf_layout 1 (enum_layout enc dec)"
  by (auto simp: wf_layout_def enum_layout_def split: list.splits option.splits)

lemma wf_pair_layout:
  "wf_layout n l \<Longrightarrow> wf_layout m k \<Longrightarrow> wf_layout (n + m) (pair_layout l k)"
  unfolding wf_layout_def pair_layout_def
  by (auto split: option.splits prod.splits)

lemma wf_iso_layout: "wf_layout n l \<Longrightarrow> (\<And>y. f (g y) = y) \<Longrightarrow> wf_layout n (iso_layout f g l)"
  by (auto simp: wf_layout_def iso_layout_def split: option.splits)

lemma wf_layout_eq: "wf_layout n l \<Longrightarrow> n = m \<Longrightarrow> wf_layout m l"
  by simp

lemma wf_word_layouts:
  "wf_layout 1 (word_layout :: u8 layout)" "wf_layout 4 (word_layout :: u32 layout)"
  "wf_layout 8 (word_layout :: u64 layout)" "wf_layout 16 (word_layout :: u128 layout)"
  "wf_layout 32 (word_layout :: pubkey layout)"
  by (rule wf_word_layout; simp)+

lemmas wf_layouts = wf_iso_layout wf_pair_layout wf_bool_layout wf_word_layouts

lemma borsh_struct_of_layout: "wf_layout n l \<Longrightarrow> borsh_struct (of_layout l) n"
proof (unfold_locales, goal_cases)
  case (1 x)
  then have "get l (put l x @ []) = Some (x, [])" by (simp only: wf_layout_def)
  then show ?case by (simp add: of_layout_def)
next
  case (2 x)
  then show ?case by (simp add: of_layout_def wf_layout_def)
next
  case (3 bs x)
  then have "get l bs = Some (x, [])"
    by (auto simp: of_layout_def split: option.splits list.splits)
  with 3(1) show ?case by (fastforce simp: wf_layout_def)
qed

text \<open>Evaluation of reads and writes of a well-formed layout.\<close>

lemma of_layout_io:
  assumes "wf_layout n l"
  shows "load (of_layout l) (put l x) = Inr x" and "length (put l x) = n"
    and "length d = n \<Longrightarrow> store (of_layout l) x d = Inr (put l x)"
proof -
  note s = borsh_struct_of_layout [OF assms]
  have put: "to_vec (of_layout l) = put l" by (simp add: of_layout_def)
  show "load (of_layout l) (put l x) = Inr x" using borsh_struct.load_to_vec [OF s, of x] by (simp add: put)
  show "length (put l x) = n" using borsh_struct.to_length [OF s, of x] by (simp add: put)
  show "store (of_layout l) x d = Inr (put l x)" if "length d = n"
    using borsh_struct.store_exact [OF s that] by (simp add: put)
qed

section \<open>Layouts of variable length\<close>

definition var_layout :: "('a \<Rightarrow> bool) \<Rightarrow> 'a layout \<Rightarrow> bool" where
  "var_layout valid l \<longleftrightarrow> (\<forall>x r. valid x \<longrightarrow> get l (put l x @ r) = Some (x, r))"

fun get_many :: "'a layout \<Rightarrow> nat \<Rightarrow> bytes \<Rightarrow> ('a list \<times> bytes) option" where
  "get_many l 0 bs = Some ([], bs)"
| "get_many l (Suc n) bs =
     (case get l bs of None \<Rightarrow> None
      | Some (x, r) \<Rightarrow> (case get_many l n r of None \<Rightarrow> None | Some (xs, q) \<Rightarrow> Some (x # xs, q)))"

text \<open>A \<open>Vec\<close> is its length as a \<open>u32\<close> followed by its elements.\<close>

definition vec_layout :: "'a layout \<Rightarrow> 'a list layout" where
  "vec_layout l =
     \<lparr>get = (\<lambda>bs. case get (word_layout :: u32 layout) bs of None \<Rightarrow> None
                  | Some (n, r) \<Rightarrow> get_many l (unat n) r),
      put = (\<lambda>xs. to_le_bytes (word_of_nat (length xs) :: u32) @ concat (map (put l) xs))\<rparr>"

lemma var_layout_fixed: "wf_layout n l \<Longrightarrow> var_layout (\<lambda>_. True) l"
  by (simp add: wf_layout_def var_layout_def)

lemma var_layout_mono: "var_layout p l \<Longrightarrow> (\<And>x. q x \<Longrightarrow> p x) \<Longrightarrow> var_layout q l"
  by (simp add: var_layout_def)

lemma get_many_put:
  "var_layout valid l \<Longrightarrow> list_all valid xs \<Longrightarrow> get_many l (length xs) (concat (map (put l) xs) @ r) = Some (xs, r)"
  by (induction xs) (simp_all add: var_layout_def)

lemma var_vec_layout:
  assumes "var_layout valid l"
  shows "var_layout (\<lambda>xs. list_all valid xs \<and> length xs < 2 ^ 32) (vec_layout l)"
proof -
  have "get (vec_layout l) (put (vec_layout l) xs @ r) = Some (xs, r)" if "list_all valid xs" "length xs < 2 ^ 32" for xs r
  proof -
    have n: "unat (word_of_nat (length xs) :: u32) = length xs" using that(2) by (simp add: unat_of_nat take_bit_nat_eq_self)
    have "get (word_layout :: u32 layout) (to_le_bytes (word_of_nat (length xs) :: u32) @ r') = Some (word_of_nat (length xs), r')" for r'
      using wf_word_layouts(2) by (simp add: wf_layout_def word_layout_def)
    then show ?thesis
      using get_many_put [OF assms that(1)] by (simp add: vec_layout_def n)
  qed
  then show ?thesis by (simp add: var_layout_def)
qed

lemma var_pair_layout:
  "var_layout p l \<Longrightarrow> var_layout q k \<Longrightarrow> var_layout (\<lambda>(x, y). p x \<and> q y) (pair_layout l k)"
  by (simp add: var_layout_def pair_layout_def)

lemma var_iso_layout: "var_layout p l \<Longrightarrow> (\<And>y. f (g y) = y) \<Longrightarrow> var_layout (\<lambda>y. p (g y)) (iso_layout f g l)"
  by (simp add: var_layout_def iso_layout_def)

lemma borsh_type_of_layout: "var_layout valid l \<Longrightarrow> borsh_type (of_layout l) valid"
proof (unfold_locales, goal_cases)
  case (1 x)
  then have "get l (put l x @ []) = Some (x, [])" by (simp only: var_layout_def)
  then show ?case by (simp add: of_layout_def)
next
  case (2 x r)
  then have "get l (put l x @ r) = Some (x, r)" by (simp add: var_layout_def)
  with 2(3) show ?case by (simp add: of_layout_def split: list.split)
qed

section \<open>Exact lengths\<close>

text \<open>
  A value that was read is written back in as many bytes. An account that can be read therefore has no room
  for a longer value, and a shorter one leaves bytes behind that make it unreadable.
\<close>

locale borsh_exact = borsh_type c valid for c :: "'a borsh" and valid +
  assumes from_exact: "try_from_slice c d = Some x \<Longrightarrow> length (to_vec c x) = length d"
    and from_valid: "try_from_slice c d = Some x \<Longrightarrow> valid x"
begin

lemma no_room: "try_from_slice c d = Some x \<Longrightarrow> length (to_vec c x) < length (to_vec c y) \<Longrightarrow> length d < length (to_vec c y)"
  by (simp add: from_exact)

lemma rewritten_same_length:
  assumes "try_from_slice c d = Some x" and "length (to_vec c y) = length (to_vec c x)" and "valid y"
  shows "try_from_slice c (to_vec c y @ drop (length (to_vec c y)) d) = Some y"
  using assms from_exact [OF assms(1)] by (simp add: from_to_valid)

lemma rewritten_shorter:
  assumes "try_from_slice c d = Some x" and "length (to_vec c y) < length (to_vec c x)" and "valid y"
  shows "try_from_slice c (to_vec c y @ drop (length (to_vec c y)) d) = None"
  using assms from_exact [OF assms(1)] by (intro from_trailing) simp_all

end

definition exact_layout :: "('a \<Rightarrow> bool) \<Rightarrow> 'a layout \<Rightarrow> bool" where
  "exact_layout valid l \<longleftrightarrow>
     (\<forall>bs x r. get l bs = Some (x, r) \<longrightarrow> valid x \<and> length bs = length (put l x) + length r)"

lemma exact_layoutD: "exact_layout valid l \<Longrightarrow> get l bs = Some (x, r) \<Longrightarrow> valid x \<and> length bs = length (put l x) + length r"
  by (simp add: exact_layout_def)

lemma exact_fixed: "wf_layout n l \<Longrightarrow> exact_layout (\<lambda>_. True) l"
  by (simp add: wf_layout_def exact_layout_def)

lemma exact_layout_mono: "exact_layout p l \<Longrightarrow> (\<And>x. p x \<Longrightarrow> q x) \<Longrightarrow> exact_layout q l"
  by (simp add: exact_layout_def)

lemma exact_pair_layout:
  "exact_layout p l \<Longrightarrow> exact_layout q k \<Longrightarrow> exact_layout (\<lambda>(x, y). p x \<and> q y) (pair_layout l k)"
  unfolding exact_layout_def pair_layout_def by (auto split: option.splits prod.splits dest: spec)

lemma exact_iso_layout: "exact_layout p l \<Longrightarrow> (\<And>x. g (f x) = x) \<Longrightarrow> exact_layout (\<lambda>y. p (g y)) (iso_layout f g l)"
  by (auto simp: exact_layout_def iso_layout_def split: option.splits)

lemma get_many_exact:
  "exact_layout valid l \<Longrightarrow> get_many l n bs = Some (xs, r) \<Longrightarrow>
     list_all valid xs \<and> length xs = n \<and> length bs = length (concat (map (put l) xs)) + length r"
proof (induction n arbitrary: bs xs)
  case (Suc n)
  from Suc.prems(2) obtain x q ys where x: "get l bs = Some (x, q)" and ys: "get_many l n q = Some (ys, r)" and xs: "xs = x # ys"
    by (auto split: option.splits)
  show ?case using exact_layoutD [OF Suc.prems(1) x] Suc.IH [OF Suc.prems(1) ys] by (simp add: xs)
qed simp

lemma exact_vec_layout:
  assumes "exact_layout valid l"
  shows "exact_layout (\<lambda>xs. list_all valid xs \<and> length xs < 2 ^ 32) (vec_layout l)"
  unfolding exact_layout_def
proof (intro allI impI)
  fix bs xs r
  assume "get (vec_layout l) bs = Some (xs, r)"
  then obtain n :: u32 and q where n: "get (word_layout :: u32 layout) bs = Some (n, q)" and xs: "get_many l (unat n) q = Some (xs, r)"
    by (auto simp: vec_layout_def split: option.splits)
  have "length bs = 4 + length q" using n wf_word_layouts(2) unfolding wf_layout_def by blast
  then show "(list_all valid xs \<and> length xs < 2 ^ 32) \<and> length bs = length (put (vec_layout l) xs) + length r"
    using get_many_exact [OF assms xs] unsigned_less [of n, where ?'a = nat] by (simp add: vec_layout_def)
qed

text \<open>An \<open>Option\<close> is a tag byte, followed by the value if there is one.\<close>

definition option_layout :: "'a layout \<Rightarrow> 'a option layout" where
  "option_layout l =
     \<lparr>get = (\<lambda>bs. case bs of [] \<Rightarrow> None
                  | b # r \<Rightarrow> if b = 0 then Some (None, r)
                            else if b = 1 then (case get l r of None \<Rightarrow> None | Some (x, q) \<Rightarrow> Some (Some x, q)) else None),
      put = (\<lambda>m. case m of None \<Rightarrow> [0] | Some x \<Rightarrow> 1 # put l x)\<rparr>"

lemma var_option_layout: "var_layout valid l \<Longrightarrow> var_layout (\<lambda>m. case m of None \<Rightarrow> True | Some x \<Rightarrow> valid x) (option_layout l)"
  by (auto simp: var_layout_def option_layout_def split: option.splits)

lemma exact_option_layout: "exact_layout valid l \<Longrightarrow> exact_layout (\<lambda>m. case m of None \<Rightarrow> True | Some x \<Rightarrow> valid x) (option_layout l)"
  unfolding exact_layout_def option_layout_def by (auto split: list.splits option.splits if_splits dest: spec)

lemma to_vec_of_layout [simp]: "to_vec (of_layout l) = put l"
  by (simp add: of_layout_def)

lemma borsh_exact_of_layout:
  assumes "var_layout valid l" and "exact_layout valid l"
  shows "borsh_exact (of_layout l) valid"
proof (intro borsh_exact.intro borsh_type_of_layout [OF assms(1)] borsh_exact_axioms.intro)
  fix d x
  assume "try_from_slice (of_layout l) d = Some x"
  then have "get l d = Some (x, [])" by (auto simp: of_layout_def split: option.splits list.splits)
  then show "length (to_vec (of_layout l) x) = length d" and "valid x" using exact_layoutD [OF assms(2)] by fastforce+
qed

end
