(* ===== verification/Runtime.thy ===== *)
theory Runtime
  imports Borsh
begin

text \<open>
  The transaction context of the validator (\<open>validator/transaction-context\<close>) and the part of the
  program runtime (\<open>validator/program-runtime\<close>) that every instruction goes through.

  A transaction owns a table of accounts. The source indexes it by position and keeps the keys
  beside it; keys of a transaction are distinct, so the model indexes the table by key. An
  instruction sees some of the accounts, each with a signer and a writable flag. All changes to an
  account go through the methods of \<open>BorrowedInstructionAccount\<close>, which check ownership and
  writability and keep \<open>lamports_delta\<close>, the sum of all balance changes so far; an instruction that
  ends with a delta other than zero is rejected by \<open>pop\<close>.

  The lemmas show that each method keeps the difference between the total balance and the delta
  (\<open>balance_potential\<close>) and that it changes only what its checks allow.
\<close>

section \<open>Data\<close>

record account =
  lamports :: u64
  data :: bytes
  owner :: pubkey

text \<open>\<open>InstructionAccount\<close>: the key stands for \<open>index_in_transaction\<close>.\<close>

record instruction_account =
  key :: pubkey
  is_signer :: bool
  is_writable :: bool

text \<open>\<open>TransactionAccounts\<close>: keys, accounts, touched flags and the two running deltas.\<close>

record tx_accounts =
  account_keys :: "pubkey list"
  accounts :: "pubkey \<Rightarrow> account"
  touched_flags :: "pubkey \<Rightarrow> bool"
  resize_delta :: int
  lamports_delta :: int

definition MAX_ACCOUNT_DATA_LEN :: nat where
  "MAX_ACCOUNT_DATA_LEN = 10 * 1024 * 1024"

definition MAX_ACCOUNT_DATA_GROWTH_PER_TRANSACTION :: int where
  "MAX_ACCOUNT_DATA_GROWTH_PER_TRANSACTION = int MAX_ACCOUNT_DATA_LEN * 2"

definition MAX_ACCOUNT_DATA_GROWTH_PER_INSTRUCTION :: nat where
  "MAX_ACCOUNT_DATA_GROWTH_PER_INSTRUCTION = 10 * 1024"

section \<open>Transaction accounts\<close>

definition touch :: "pubkey \<Rightarrow> tx_accounts \<Rightarrow> tx_accounts res" where
  "touch k tx =
     (if k \<in> set (account_keys tx) then Inr (tx\<lparr>touched_flags := (touched_flags tx)(k := True)\<rparr>)
      else Inl MissingAccount)"

definition i64_clamp :: "int \<Rightarrow> int" where
  "i64_clamp x = max (- (2 ^ 63)) (min (2 ^ 63 - 1) x)"

definition update_accounts_resize_delta :: "nat \<Rightarrow> nat \<Rightarrow> tx_accounts \<Rightarrow> tx_accounts res" where
  "update_accounts_resize_delta old_len new_len tx =
     Inr (tx\<lparr>resize_delta := i64_clamp (resize_delta tx + i64_clamp (int new_len - int old_len))\<rparr>)"

definition tx_can_data_be_resized :: "nat \<Rightarrow> nat \<Rightarrow> tx_accounts \<Rightarrow> unit res" where
  "tx_can_data_be_resized old_len new_len tx =
     (if MAX_ACCOUNT_DATA_LEN < new_len then Inl InvalidRealloc
      else if MAX_ACCOUNT_DATA_GROWTH_PER_TRANSACTION
              < i64_clamp (resize_delta tx + i64_clamp (int new_len - int old_len))
      then Inl MaxAccountsDataAllocationsExceeded
      else Inr ())"

definition add_lamports_delta :: "int \<Rightarrow> tx_accounts \<Rightarrow> tx_accounts res" where
  "add_lamports_delta balance tx =
     (let d = lamports_delta tx + balance
      in if - (2 ^ 127) \<le> d \<and> d < 2 ^ 127 then Inr (tx\<lparr>lamports_delta := d\<rparr>)
         else Inl ArithmeticOverflow)"

text \<open>The account stored under a key is replaced: what a mutable borrow writes through.\<close>

definition upd_account :: "pubkey \<Rightarrow> (account \<Rightarrow> account) \<Rightarrow> tx_accounts \<Rightarrow> tx_accounts" where
  "upd_account k f tx = tx\<lparr>accounts := (accounts tx)(k := f (accounts tx k))\<rparr>"

section \<open>Borrowed instruction accounts\<close>

text \<open>
  The methods of \<open>BorrowedInstructionAccount\<close>. The arguments \<open>pid\<close> and \<open>ia\<close> are the program of the
  current instruction and the borrowed entry.
\<close>

definition is_owned_by_current_program :: "pubkey \<Rightarrow> instruction_account \<Rightarrow> tx_accounts \<Rightarrow> bool" where
  "is_owned_by_current_program pid ia tx \<longleftrightarrow> owner (accounts tx (key ia)) = pid"

definition can_data_be_changed :: "pubkey \<Rightarrow> instruction_account \<Rightarrow> tx_accounts \<Rightarrow> unit res" where
  "can_data_be_changed pid ia tx =
     (if \<not> is_writable ia then Inl ReadonlyDataModified
      else if \<not> is_owned_by_current_program pid ia tx then Inl ExternalAccountDataModified
      else Inr ())"

definition can_data_be_resized ::
  "pubkey \<Rightarrow> instruction_account \<Rightarrow> nat \<Rightarrow> tx_accounts \<Rightarrow> unit res" where
  "can_data_be_resized pid ia new_len tx =
     (let old_len = length (data (accounts tx (key ia)))
      in if new_len \<noteq> old_len \<and> \<not> is_owned_by_current_program pid ia tx then Inl AccountDataSizeChanged
         else rbind (tx_can_data_be_resized old_len new_len tx) (\<lambda>_. can_data_be_changed pid ia tx))"

text \<open>
  \<open>is_zeroed\<close> compares the buffer chunk by chunk with a block of 1024 zeros, then the remainder.
\<close>

definition ZEROS_LEN :: nat where
  "ZEROS_LEN = 1024"

function is_zeroed :: "bytes \<Rightarrow> bool" where
  "is_zeroed buf =
     (if ZEROS_LEN \<le> length buf
      then take ZEROS_LEN buf = replicate ZEROS_LEN 0 \<and> is_zeroed (drop ZEROS_LEN buf)
      else buf = replicate (length buf) 0)"
  by pat_completeness auto
termination
  by (relation "measure length") (auto simp: ZEROS_LEN_def)

declare is_zeroed.simps [simp del]

definition set_owner :: "pubkey \<Rightarrow> instruction_account \<Rightarrow> pubkey \<Rightarrow> tx_accounts \<Rightarrow> tx_accounts res" where
  "set_owner pid ia new_owner tx =
     (if \<not> is_owned_by_current_program pid ia tx then Inl ModifiedProgramId
      else if \<not> is_writable ia then Inl ModifiedProgramId
      else if \<not> is_zeroed (data (accounts tx (key ia))) then Inl ModifiedProgramId
      else if owner (accounts tx (key ia)) = new_owner then Inr tx
      else rbind (touch (key ia) tx) (\<lambda>tx.
        Inr (upd_account (key ia) (\<lambda>a. a\<lparr>owner := new_owner\<rparr>) tx)))"

definition set_lamports :: "pubkey \<Rightarrow> instruction_account \<Rightarrow> u64 \<Rightarrow> tx_accounts \<Rightarrow> tx_accounts res" where
  "set_lamports pid ia new tx =
     (let old = lamports (accounts tx (key ia))
      in if \<not> is_owned_by_current_program pid ia tx \<and> new < old then Inl ExternalAccountLamportSpend
         else if \<not> is_writable ia then Inl ReadonlyLamportChange
         else if old = new then Inr tx
         else rbind (add_lamports_delta (uint new - uint old) tx) (\<lambda>tx.
              rbind (touch (key ia) tx) (\<lambda>tx.
              Inr (upd_account (key ia) (\<lambda>a. a\<lparr>lamports := new\<rparr>) tx))))"

definition checked_add_lamports ::
  "pubkey \<Rightarrow> instruction_account \<Rightarrow> u64 \<Rightarrow> tx_accounts \<Rightarrow> tx_accounts res" where
  "checked_add_lamports pid ia n tx =
     rbind (ok_or (checked_add (lamports (accounts tx (key ia))) n) ArithmeticOverflow)
       (\<lambda>v. set_lamports pid ia v tx)"

definition checked_sub_lamports ::
  "pubkey \<Rightarrow> instruction_account \<Rightarrow> u64 \<Rightarrow> tx_accounts \<Rightarrow> tx_accounts res" where
  "checked_sub_lamports pid ia n tx =
     rbind (ok_or (checked_sub (lamports (accounts tx (key ia))) n) ArithmeticOverflow)
       (\<lambda>v. set_lamports pid ia v tx)"

definition set_data_from_slice ::
  "pubkey \<Rightarrow> instruction_account \<Rightarrow> bytes \<Rightarrow> tx_accounts \<Rightarrow> tx_accounts res" where
  "set_data_from_slice pid ia d tx =
     rbind (can_data_be_resized pid ia (length d) tx) (\<lambda>_.
     rbind (touch (key ia) tx) (\<lambda>tx.
     rbind (update_accounts_resize_delta (length (data (accounts tx (key ia)))) (length d) tx) (\<lambda>tx.
     Inr (upd_account (key ia) (\<lambda>a. a\<lparr>data := d\<rparr>) tx))))"

text \<open>Resizing truncates, or fills up with zeros.\<close>

definition resize :: "nat \<Rightarrow> bytes \<Rightarrow> bytes" where
  "resize n d = take n d @ replicate (n - length d) 0"

definition set_data_length ::
  "pubkey \<Rightarrow> instruction_account \<Rightarrow> nat \<Rightarrow> tx_accounts \<Rightarrow> tx_accounts res" where
  "set_data_length pid ia new_len tx =
     rbind (can_data_be_resized pid ia new_len tx) (\<lambda>_.
     if length (data (accounts tx (key ia))) = new_len then Inr tx
     else
     rbind (touch (key ia) tx) (\<lambda>tx.
     rbind (update_accounts_resize_delta (length (data (accounts tx (key ia)))) new_len tx) (\<lambda>tx.
     Inr (upd_account (key ia) (\<lambda>a. a\<lparr>data := resize new_len (data a)\<rparr>) tx))))"

definition extend_from_slice ::
  "pubkey \<Rightarrow> instruction_account \<Rightarrow> bytes \<Rightarrow> tx_accounts \<Rightarrow> tx_accounts res" where
  "extend_from_slice pid ia d tx =
     (let old_len = length (data (accounts tx (key ia))); new_len = old_len + length d
      in rbind (can_data_be_resized pid ia new_len tx) (\<lambda>_.
         if d = [] then Inr tx
         else
         rbind (touch (key ia) tx) (\<lambda>tx.
         rbind (update_accounts_resize_delta old_len new_len tx) (\<lambda>tx.
         Inr (upd_account (key ia) (\<lambda>a. a\<lparr>data := data a @ d\<rparr>) tx)))))"

section \<open>Entering and leaving an SBF program\<close>

text \<open>
  A program works on a copy of its accounts (\<open>AccountInfo\<close>, \<open>mem\<close> below). When it returns,
  \<open>deserialize_parameters\<close> writes the copy back, account by account, through the checked methods.
  A key that occurs twice in the instruction shares one copy, so only first occurrences are
  written back. The model follows the branch with \<open>virtual_address_space_adjustments\<close> off.
\<close>

fun dedup :: "instruction_account list \<Rightarrow> instruction_account list" where
  "dedup [] = []"
| "dedup (ia # ias) = ia # filter (\<lambda>x. key x \<noteq> key ia) (dedup ias)"

definition sync_lamports ::
  "pubkey \<Rightarrow> instruction_account \<Rightarrow> u64 \<Rightarrow> tx_accounts \<Rightarrow> tx_accounts res" where
  "sync_lamports pid ia l tx =
     (if lamports (accounts tx (key ia)) \<noteq> l then set_lamports pid ia l tx else Inr tx)"

definition sync_data :: "pubkey \<Rightarrow> instruction_account \<Rightarrow> bytes \<Rightarrow> tx_accounts \<Rightarrow> tx_accounts res" where
  "sync_data pid ia d tx =
     (case can_data_be_resized pid ia (length d) tx of
        Inr _ \<Rightarrow> set_data_from_slice pid ia d tx
      | Inl err \<Rightarrow> if data (accounts tx (key ia)) \<noteq> d then Inl err else Inr tx)"

definition sync_owner :: "pubkey \<Rightarrow> instruction_account \<Rightarrow> pubkey \<Rightarrow> tx_accounts \<Rightarrow> tx_accounts res" where
  "sync_owner pid ia k tx =
     (if owner (accounts tx (key ia)) \<noteq> k then set_owner pid ia k tx else Inr tx)"

definition deserialize_account ::
  "pubkey \<Rightarrow> nat \<Rightarrow> account \<Rightarrow> instruction_account \<Rightarrow> tx_accounts \<Rightarrow> tx_accounts res" where
  "deserialize_account pid pre_len a ia tx =
     rbind (sync_lamports pid ia (lamports a) tx) (\<lambda>tx.
     if MAX_ACCOUNT_DATA_GROWTH_PER_INSTRUCTION < length (data a) - pre_len
        \<or> MAX_ACCOUNT_DATA_LEN < length (data a) then Inl InvalidRealloc
     else
     rbind (sync_data pid ia (data a) tx) (\<lambda>tx.
     sync_owner pid ia (owner a) tx))"

definition deserialize_parameters ::
  "pubkey \<Rightarrow> (pubkey \<Rightarrow> nat) \<Rightarrow> (pubkey \<Rightarrow> account) \<Rightarrow> instruction_account list \<Rightarrow> tx_accounts
     \<Rightarrow> tx_accounts res" where
  "deserialize_parameters pid pre_lens m ias tx =
     rfold (\<lambda>ia. deserialize_account pid (pre_lens (key ia)) (m (key ia)) ia) (dedup ias) tx"

text \<open>
  The state of a running program: the transaction's accounts, the program's own copy, and the data
  lengths at entry. \<open>execute\<close> is one program run (\<open>vm.rs\<close>); \<open>process_instruction\<close> adds the check of
  \<open>pop\<close> that the balance changes of the instruction sum to zero.
\<close>

record vm =
  tx :: tx_accounts
  mem :: "pubkey \<Rightarrow> account"
  original_data_len :: "pubkey \<Rightarrow> nat"

type_synonym program = "instruction_account list \<Rightarrow> vm \<Rightarrow> vm res"

definition enter_vm :: "tx_accounts \<Rightarrow> vm" where
  "enter_vm t = \<lparr>tx = t, mem = accounts t, original_data_len = (\<lambda>k. length (data (accounts t k)))\<rparr>"

definition execute :: "pubkey \<Rightarrow> program \<Rightarrow> instruction_account list \<Rightarrow> tx_accounts \<Rightarrow> tx_accounts res" where
  "execute pid prog ias t =
     rbind (prog ias (enter_vm t)) (\<lambda>v.
     deserialize_parameters pid (original_data_len v) (mem v) ias (tx v))"

definition pop :: "tx_accounts \<Rightarrow> tx_accounts res" where
  "pop t = (if lamports_delta t \<noteq> 0 then Inl UnbalancedInstruction else Inr t)"

definition process_instruction ::
  "pubkey \<Rightarrow> program \<Rightarrow> instruction_account list \<Rightarrow> tx_accounts \<Rightarrow> tx_accounts res" where
  "process_instruction pid prog ias t = rbind (execute pid prog ias t) pop"

lemma enter_vm_simps [simp]: "tx (enter_vm t) = t" "mem (enter_vm t) = accounts t"
  by (simp_all add: enter_vm_def)

section \<open>What the account methods keep\<close>

definition total_lamports :: "tx_accounts \<Rightarrow> nat" where
  "total_lamports t = (\<Sum>k \<in> set (account_keys t). unat (lamports (accounts t k)))"

definition balance_potential :: "tx_accounts \<Rightarrow> int" where
  "balance_potential t = int (total_lamports t) - lamports_delta t"

text \<open>A step is tracked when the delta it leaves accounts for every balance it changed.\<close>

definition tracked :: "(tx_accounts \<Rightarrow> tx_accounts res) \<Rightarrow> bool" where
  "tracked f \<longleftrightarrow>
     (\<forall>t t'. f t = Inr t' \<longrightarrow>
        account_keys t' = account_keys t \<and> balance_potential t' = balance_potential t)"

named_theorems tracked_intros \<open>tracked steps\<close>

lemma is_zeroed_iff: "is_zeroed buf \<longleftrightarrow> list_all (\<lambda>b. b = 0) buf"
proof (induction buf rule: is_zeroed.induct)
  case (1 buf)
  show ?case
  proof (cases "ZEROS_LEN \<le> length buf")
    case True
    have "list_all (\<lambda>b. b = 0) buf \<longleftrightarrow>
        list_all (\<lambda>b. b = 0) (take ZEROS_LEN buf) \<and> list_all (\<lambda>b. b = 0) (drop ZEROS_LEN buf)"
      by (metis append_take_drop_id list_all_append)
    moreover have "list_all (\<lambda>b. b = 0) (take ZEROS_LEN buf) \<longleftrightarrow> take ZEROS_LEN buf = replicate ZEROS_LEN 0"
      using True by (auto simp: list_all_iff intro!: replicate_eqI)
    ultimately show ?thesis
      using 1 True by (subst is_zeroed.simps) simp
  next
    case False
    then show ?thesis
      by (subst is_zeroed.simps) (auto simp: list_all_iff intro!: replicate_eqI, metis in_set_replicate)
  qed
qed

lemma trackedI:
  "(\<And>t t'. f t = Inr t' \<Longrightarrow> account_keys t' = account_keys t \<and> balance_potential t' = balance_potential t)
   \<Longrightarrow> tracked f"
  by (simp add: tracked_def)

lemma trackedD:
  "tracked f \<Longrightarrow> f t = Inr t' \<Longrightarrow>
     account_keys t' = account_keys t \<and> balance_potential t' = balance_potential t"
  by (simp add: tracked_def)

lemma tracked_Inr [tracked_intros]: "tracked Inr"
  by (simp add: tracked_def)

lemma tracked_Inl [tracked_intros]: "tracked (\<lambda>t. Inl e)"
  by (simp add: tracked_def)

lemma tracked_rbind [tracked_intros]: "tracked f \<Longrightarrow> tracked g \<Longrightarrow> tracked (\<lambda>t. rbind (f t) g)"
  by (force simp: tracked_def rbind_eq_Inr)

lemma tracked_guard [tracked_intros]:
  "tracked g \<Longrightarrow> tracked (\<lambda>t. rbind (m t :: unit res) (\<lambda>_. g t))"
  "(\<And>n. tracked (h n)) \<Longrightarrow> tracked (\<lambda>t. rbind (l t :: u64 res) (\<lambda>n. h n t))"
  by (auto simp: tracked_def rbind_eq_Inr)

lemma tracked_if [tracked_intros]: "tracked f \<Longrightarrow> tracked g \<Longrightarrow> tracked (\<lambda>t. if b t then f t else g t)"
  by (simp add: tracked_def)

lemma tracked_rfold [tracked_intros]: "(\<And>x. tracked (f x)) \<Longrightarrow> tracked (rfold f xs)"
proof (induction xs)
  case Nil
  have "rfold f [] = Inr" by (simp add: fun_eq_iff)
  then show ?case by (simp add: tracked_Inr)
next
  case (Cons x xs)
  have "rfold f (x # xs) = (\<lambda>t. rbind (f x t) (rfold f xs))" by (simp add: fun_eq_iff)
  then show ?case using Cons by (simp add: tracked_rbind)
qed

lemma tracked_touch [tracked_intros]: "tracked (touch k)"
  by (auto simp: tracked_def touch_def balance_potential_def total_lamports_def split: if_splits)

lemma tracked_update_accounts_resize_delta [tracked_intros]:
  "tracked (\<lambda>t. update_accounts_resize_delta (a t) (b t) t)"
  by (auto simp: tracked_def update_accounts_resize_delta_def balance_potential_def total_lamports_def)

lemma tracked_upd_account [tracked_intros]:
  "(\<And>a. lamports (f a) = lamports a) \<Longrightarrow> tracked (\<lambda>t. Inr (upd_account k f t))"
  by (auto simp: tracked_def upd_account_def balance_potential_def total_lamports_def intro!: sum.cong)

lemma total_lamports_upd_account:
  assumes "k \<in> set (account_keys t)"
  shows "total_lamports (upd_account k f t) + unat (lamports (accounts t k))
       = total_lamports t + unat (lamports (f (accounts t k)))"
proof -
  have "total_lamports (upd_account k f t) = unat (lamports (f (accounts t k)))
      + (\<Sum>j \<in> set (account_keys t) - {k}. unat (lamports (accounts t j)))"
    using assms by (simp add: total_lamports_def upd_account_def sum.remove [of _ k])
  moreover have "total_lamports t = unat (lamports (accounts t k))
      + (\<Sum>j \<in> set (account_keys t) - {k}. unat (lamports (accounts t j)))"
    using assms by (simp add: total_lamports_def sum.remove [of _ k])
  ultimately show ?thesis by simp
qed

lemma tracked_set_lamports [tracked_intros]: "tracked (set_lamports pid ia l)"
proof (rule trackedI)
  fix t t'
  assume eq: "set_lamports pid ia l t = Inr t'"
  let ?k = "key ia" and ?old = "lamports (accounts t (key ia))"
  show "account_keys t' = account_keys t \<and> balance_potential t' = balance_potential t"
  proof (cases "?old = l")
    case True
    with eq show ?thesis by (auto simp: set_lamports_def split: if_splits)
  next
    case False
    with eq obtain u v where u: "add_lamports_delta (uint l - uint ?old) t = Inr u"
      and v: "touch ?k u = Inr v" and t': "t' = upd_account ?k (\<lambda>a. a\<lparr>lamports := l\<rparr>) v"
      by (auto simp: set_lamports_def rust_simps)
    have "?k \<in> set (account_keys v)" and keys: "account_keys t' = account_keys t"
      and same: "accounts v = accounts t" "account_keys v = account_keys t"
      and delta: "lamports_delta t' = lamports_delta t + (uint l - uint ?old)"
      using u v t'
      by (auto simp: add_lamports_delta_def touch_def upd_account_def Let_def split: if_splits)
    then have "total_lamports t' + unat ?old = total_lamports t + unat l"
      using total_lamports_upd_account [of ?k v "\<lambda>a. a\<lparr>lamports := l\<rparr>"] t'
      by (simp add: total_lamports_def)
    then have "int (total_lamports t') + uint ?old = int (total_lamports t) + uint l"
      by (metis of_nat_add of_nat_unat)
    then show ?thesis
      using keys delta by (simp add: balance_potential_def)
  qed
qed

lemma tracked_set_owner [tracked_intros]: "tracked (set_owner pid ia k)"
  unfolding set_owner_def by (intro tracked_intros) simp

lemma tracked_set_data_from_slice [tracked_intros]: "tracked (set_data_from_slice pid ia d)"
  unfolding set_data_from_slice_def by (intro tracked_intros) simp

lemma tracked_set_data_length [tracked_intros]: "tracked (set_data_length pid ia n)"
  unfolding set_data_length_def by (intro tracked_intros) simp

lemma tracked_checked_add_lamports [tracked_intros]: "tracked (checked_add_lamports pid ia n)"
  unfolding checked_add_lamports_def by (intro tracked_intros)

lemma tracked_checked_sub_lamports [tracked_intros]: "tracked (checked_sub_lamports pid ia n)"
  unfolding checked_sub_lamports_def by (intro tracked_intros)

lemma tracked_sync_lamports [tracked_intros]: "tracked (sync_lamports pid ia l)"
  unfolding sync_lamports_def by (intro tracked_intros)

lemma tracked_sync_data [tracked_intros]: "tracked (sync_data pid ia d)"
  by (rule trackedI)
    (auto simp: sync_data_def split: sum.splits if_splits dest: trackedD [OF tracked_set_data_from_slice])

lemma tracked_sync_owner [tracked_intros]: "tracked (sync_owner pid ia k)"
  unfolding sync_owner_def by (intro tracked_intros)

lemma tracked_deserialize_account [tracked_intros]: "tracked (deserialize_account pid n a ia)"
  unfolding deserialize_account_def by (intro tracked_intros)

lemma tracked_deserialize_parameters [tracked_intros]: "tracked (deserialize_parameters pid n m ias)"
  unfolding deserialize_parameters_def by (intro tracked_intros)

section \<open>What the account methods change\<close>

text \<open>
  \<open>permitted pid ia a b\<close>: program \<open>pid\<close>, holding entry \<open>ia\<close>, may turn account \<open>a\<close> into \<open>b\<close>.
\<close>

definition permitted :: "pubkey \<Rightarrow> instruction_account \<Rightarrow> account \<Rightarrow> account \<Rightarrow> bool" where
  "permitted pid ia a b \<longleftrightarrow>
     (\<not> is_writable ia \<longrightarrow> b = a) \<and>
     (owner a \<noteq> pid \<longrightarrow> data b = data a \<and> owner b = owner a \<and> unat (lamports a) \<le> unat (lamports b))"

lemma account_fields [simp]: "b\<lparr>lamports := lamports a, data := data a, owner := owner a\<rparr> = a"
  for a b :: account
  by simp

lemma permitted_refl [simp]: "permitted pid ia a a"
  by (simp add: permitted_def)

lemma set_lamports_effect:
  assumes "set_lamports pid ia l t = Inr t'"
  shows "accounts t' = (accounts t)(key ia := (accounts t (key ia))\<lparr>lamports := l\<rparr>)"
    and "account_keys t' = account_keys t" and "is_writable ia"
    and "owner (accounts t (key ia)) = pid \<or> unat (lamports (accounts t (key ia))) \<le> unat l"
    and "lamports_delta t' = lamports_delta t + (uint l - uint (lamports (accounts t (key ia))))"
  using assms
  by (auto simp: set_lamports_def add_lamports_delta_def touch_def upd_account_def
      is_owned_by_current_program_def rust_simps word_less_nat_alt split: if_splits)

lemma set_data_from_slice_effect:
  assumes "set_data_from_slice pid ia d t = Inr t'"
  shows "accounts t' = (accounts t)(key ia := (accounts t (key ia))\<lparr>data := d\<rparr>)"
    and "account_keys t' = account_keys t" and "lamports_delta t' = lamports_delta t"
    and "is_writable ia" and "owner (accounts t (key ia)) = pid"
  using assms
  by (auto simp: set_data_from_slice_def can_data_be_resized_def can_data_be_changed_def touch_def
      update_accounts_resize_delta_def upd_account_def is_owned_by_current_program_def rust_simps
      split: if_splits)

lemma set_owner_effect:
  assumes "set_owner pid ia k t = Inr t'"
  shows "accounts t' = (accounts t)(key ia := (accounts t (key ia))\<lparr>owner := k\<rparr>)"
    and "account_keys t' = account_keys t" and "lamports_delta t' = lamports_delta t"
    and "is_writable ia" and "owner (accounts t (key ia)) = pid"
    and "list_all (\<lambda>b. b = 0) (data (accounts t (key ia)))"
  using assms
  by (auto simp: set_owner_def touch_def upd_account_def is_owned_by_current_program_def is_zeroed_iff
      rust_simps split: if_splits)

lemma sync_lamports_effect:
  assumes "sync_lamports pid ia l t = Inr t'"
  shows "accounts t' = (accounts t)(key ia := (accounts t (key ia))\<lparr>lamports := l\<rparr>)"
    and "permitted pid ia (accounts t (key ia)) (accounts t' (key ia))"
  using assms set_lamports_effect [of pid ia l t t']
  by (auto simp: sync_lamports_def permitted_def split: if_splits)

lemma sync_data_effect:
  assumes "sync_data pid ia d t = Inr t'"
  shows "accounts t' = (accounts t)(key ia := (accounts t (key ia))\<lparr>data := d\<rparr>)"
    and "permitted pid ia (accounts t (key ia)) (accounts t' (key ia))"
  using assms set_data_from_slice_effect [of pid ia d t t']
  by (auto simp: sync_data_def permitted_def split: if_splits sum.splits)

lemma sync_owner_effect:
  assumes "sync_owner pid ia k t = Inr t'"
  shows "accounts t' = (accounts t)(key ia := (accounts t (key ia))\<lparr>owner := k\<rparr>)"
    and "permitted pid ia (accounts t (key ia)) (accounts t' (key ia))"
  using assms set_owner_effect [of pid ia k t t']
  by (auto simp: sync_owner_def permitted_def split: if_splits)

lemma deserialize_account_effect:
  assumes "deserialize_account pid n a ia t = Inr t'"
  shows "accounts t' = (accounts t)(key ia := a)"
    and "permitted pid ia (accounts t (key ia)) a"
proof -
  from assms obtain u v where u: "sync_lamports pid ia (lamports a) t = Inr u"
    and v: "sync_data pid ia (data a) u = Inr v" and t': "sync_owner pid ia (owner a) v = Inr t'"
    by (auto simp: deserialize_account_def rust_simps)
  note eff = sync_lamports_effect [OF u] sync_data_effect [OF v] sync_owner_effect [OF t']
  show "accounts t' = (accounts t)(key ia := a)"
    using eff by simp
  then have "a = accounts t' (key ia)" by simp
  then show "permitted pid ia (accounts t (key ia)) a"
    using eff by (auto simp: permitted_def)
qed

lemma set_dedup_subset: "set (dedup ias) \<subseteq> set ias"
  by (induction ias) auto

lemma keys_dedup [simp]: "key ` set (dedup ias) = key ` set ias"
proof (induction ias)
  case Nil
  then show ?case by simp
next
  case (Cons ia ias)
  have "key ` {x \<in> set (dedup ias). key x \<noteq> key ia} = key ` set (dedup ias) - {key ia}"
    by auto
  then show ?case using Cons by simp
qed

lemma distinct_keys_dedup: "distinct (map key (dedup ias))"
proof (induction ias)
  case Nil
  then show ?case by simp
next
  case (Cons ia ias)
  have "distinct (map key (filter (\<lambda>x. key x \<noteq> key ia) (dedup ias)))"
    using Cons by (simp add: distinct_map_filter)
  then show ?case by auto
qed

lemma deserialize_fold_effect:
  assumes "rfold (\<lambda>ia. deserialize_account pid (n (key ia)) (m (key ia)) ia) ias t = Inr t'"
    and "distinct (map key ias)"
  shows "accounts t' = (\<lambda>k. if k \<in> key ` set ias then m k else accounts t k) \<and>
    (\<forall>ia \<in> set ias. permitted pid ia (accounts t (key ia)) (m (key ia)))"
  using assms
proof (induction ias arbitrary: t)
  case Nil
  then show ?case by simp
next
  case (Cons x xs)
  from Cons.prems obtain u where u: "deserialize_account pid (n (key x)) (m (key x)) x t = Inr u"
    and rest: "rfold (\<lambda>ia. deserialize_account pid (n (key ia)) (m (key ia)) ia) xs u = Inr t'"
    by (auto simp: rbind_eq_Inr)
  from Cons.prems have d: "distinct (map key xs)" and x: "key x \<notin> key ` set xs" by auto
  note eff = deserialize_account_effect [OF u] and IH = Cons.IH [OF rest d]
  have "permitted pid ia (accounts t (key ia)) (m (key ia))" if "ia \<in> set xs" for ia
  proof -
    have "key ia \<noteq> key x" using that x by (metis image_eqI)
    then show ?thesis using IH that eff(1) by auto
  qed
  moreover have "accounts t' = (\<lambda>k. if k \<in> key ` set (x # xs) then m k else accounts t k)"
    using IH eff(1) x by (auto simp: fun_eq_iff)
  ultimately show ?case using eff(2) by auto
qed

lemma deserialize_parameters_effect:
  assumes "deserialize_parameters pid n m ias t = Inr t'"
  shows "accounts t' = (\<lambda>k. if k \<in> key ` set ias then m k else accounts t k)"
    and "ia \<in> set (dedup ias) \<Longrightarrow> permitted pid ia (accounts t (key ia)) (m (key ia))"
  using deserialize_fold_effect [OF assms [unfolded deserialize_parameters_def] distinct_keys_dedup]
  by simp_all

section \<open>Programs\<close>

text \<open>
  The contract of an on-chain program towards the runtime: whatever it does to the transaction's
  accounts on the way (only a cross-program invocation does anything to them before the write-back)
  is tracked by the delta.
\<close>

locale onchain_program =
  fixes prog :: program
  assumes prog_tracked: "prog ias v = Inr v' \<Longrightarrow>
    account_keys (tx v') = account_keys (tx v) \<and> balance_potential (tx v') = balance_potential (tx v)"
begin

lemma execute_tracked: "tracked (execute pid prog ias)"
proof (rule trackedI)
  fix t t'
  assume "execute pid prog ias t = Inr t'"
  then obtain v where v: "prog ias (enter_vm t) = Inr v"
    and t': "deserialize_parameters pid (original_data_len v) (mem v) ias (tx v) = Inr t'"
    by (auto simp: execute_def rust_simps)
  show "account_keys t' = account_keys t \<and> balance_potential t' = balance_potential t"
    using prog_tracked [OF v] trackedD [OF tracked_deserialize_parameters t'] by simp
qed

lemma conserves_lamports:
  assumes "process_instruction pid prog ias t = Inr t'" and "lamports_delta t = 0"
  shows "total_lamports t' = total_lamports t" and "lamports_delta t' = 0"
    and "account_keys t' = account_keys t"
proof -
  from assms(1) have ex: "execute pid prog ias t = Inr t'" and zero: "lamports_delta t' = 0"
    by (auto simp: process_instruction_def pop_def rust_simps split: if_splits)
  show "lamports_delta t' = 0" and "account_keys t' = account_keys t"
    using zero trackedD [OF execute_tracked ex] by auto
  show "total_lamports t' = total_lamports t"
    using trackedD [OF execute_tracked ex] zero assms(2) by (simp add: balance_potential_def)
qed

end

text \<open>A program that makes no cross-program invocation satisfies the contract whatever it computes.\<close>

lemma onchain_program_no_cpi:
  "(\<And>ias v v'. prog ias v = Inr v' \<Longrightarrow> tx v' = tx v) \<Longrightarrow> onchain_program prog"
  by unfold_locales auto

section \<open>Totals in machine arithmetic\<close>

text \<open>
  The total balance modulo \<open>2 ^ 64\<close>: insensitive to wrap-around and to two entries naming the same
  account, so the effect of a sequence of \<open>+=\<close> and \<open>-=\<close> on it is just their sum.
\<close>

definition word_total :: "pubkey list \<Rightarrow> (pubkey \<Rightarrow> account) \<Rightarrow> u64" where
  "word_total ks m = (\<Sum>k \<in> set ks. lamports (m k))"

lemma word_total_accounts: "word_total (account_keys t) (accounts t) = word_of_nat (total_lamports t)"
  by (simp add: word_total_def total_lamports_def)

lemma word_total_upd:
  assumes "k \<in> set ks"
  shows "word_total ks (m(k := a)) = word_total ks m - lamports (m k) + lamports a"
proof -
  have "word_total ks (m(k := a)) = lamports a + (\<Sum>j \<in> set ks - {k}. lamports (m j))"
    using assms by (simp add: word_total_def sum.remove [of _ k])
  moreover have "word_total ks m = lamports (m k) + (\<Sum>j \<in> set ks - {k}. lamports (m j))"
    using assms by (simp add: word_total_def sum.remove [of _ k])
  ultimately show ?thesis by simp
qed

lemma execute_no_cpi:
  assumes "execute pid prog ias t = Inr t'"
    and "\<And>v. prog ias (enter_vm t) = Inr v \<Longrightarrow> tx v = t \<and> (\<forall>k. k \<notin> key ` set ias \<longrightarrow> mem v k = accounts t k)"
  shows "\<exists>v. prog ias (enter_vm t) = Inr v \<and> accounts t' = mem v"
proof -
  from assms(1) obtain v where v: "prog ias (enter_vm t) = Inr v"
    and t': "deserialize_parameters pid (original_data_len v) (mem v) ias (tx v) = Inr t'"
    by (auto simp: execute_def rust_simps)
  have "accounts t' = mem v"
    using deserialize_parameters_effect(1) [OF t'] assms(2) [OF v] by (auto simp: fun_eq_iff)
  with v show ?thesis by blast
qed

section \<open>Evaluation\<close>

text \<open>A transaction over given accounts, before any instruction.\<close>

definition tx_of :: "pubkey list \<Rightarrow> (pubkey \<Rightarrow> account) \<Rightarrow> tx_accounts" where
  "tx_of ks m =
     \<lparr>account_keys = ks, accounts = m, touched_flags = (\<lambda>_. False), resize_delta = 0, lamports_delta = 0\<rparr>"

abbreviation account_ref :: "pubkey \<Rightarrow> bool \<Rightarrow> bool \<Rightarrow> instruction_account" where
  "account_ref k s w \<equiv> \<lparr>key = k, is_signer = s, is_writable = w\<rparr>"

lemmas runtime_eval = tx_of_def process_instruction_def execute_def enter_vm_def pop_def
  deserialize_parameters_def deserialize_account_def sync_lamports_def sync_data_def sync_owner_def
  set_lamports_def set_data_from_slice_def set_owner_def can_data_be_resized_def can_data_be_changed_def
  tx_can_data_be_resized_def is_owned_by_current_program_def touch_def update_accounts_resize_delta_def
  add_lamports_delta_def upd_account_def i64_clamp_def MAX_ACCOUNT_DATA_LEN_def
  MAX_ACCOUNT_DATA_GROWTH_PER_TRANSACTION_def MAX_ACCOUNT_DATA_GROWTH_PER_INSTRUCTION_def
  checked_add_def checked_sub_def checked_mul_def ok_or_def Let_def

lemma list_all_replicate_zero [simp]: "list_all (\<lambda>b. b = 0) (replicate n (0 :: u8))"
  by (simp add: list_all_iff)

section \<open>Properties\<close>

text \<open>
  C2. Access control of the write-back. When a program returns and its accounts are written back,
  the resulting table holds exactly the program's copies for the accounts of the instruction and the
  old accounts elsewhere; an account whose entry is not writable is unchanged; an account the
  program does not own keeps its data and owner and does not lose lamports.
\<close>

theorem write_back_permitted:
  assumes "deserialize_parameters pid lens m ias t = Inr t'"
  shows "(\<forall>k. accounts t' k = (if k \<in> key ` set ias then m k else accounts t k)) \<and>
    (\<forall>ia \<in> set (dedup ias). \<not> is_writable ia \<longrightarrow> accounts t' (key ia) = accounts t (key ia)) \<and>
    (\<forall>k. owner (accounts t k) \<noteq> pid \<longrightarrow>
       data (accounts t' k) = data (accounts t k) \<and> owner (accounts t' k) = owner (accounts t k) \<and>
       unat (lamports (accounts t k)) \<le> unat (lamports (accounts t' k)))"
proof -
  note eff = deserialize_parameters_effect [OF assms]
  have perm: "permitted pid ia (accounts t (key ia)) (accounts t' (key ia))" if "ia \<in> set (dedup ias)" for ia
    using eff(2) [OF that] that set_dedup_subset [of ias] by (auto simp: eff(1))
  have all: "\<exists>ia. permitted pid ia (accounts t k) (accounts t' k)" for k
  proof (cases "k \<in> key ` set ias")
    case True
    then obtain ia where "ia \<in> set (dedup ias)" "k = key ia"
      using keys_dedup [of ias] by (metis imageE)
    then show ?thesis using perm by blast
  next
    case False
    then show ?thesis by (simp add: eff(1))
  qed
  have "accounts t' (key ia) = accounts t (key ia)" if "ia \<in> set (dedup ias)" "\<not> is_writable ia" for ia
    using perm [OF that(1)] that(2) unfolding permitted_def by blast
  moreover have "\<forall>k. owner (accounts t k) \<noteq> pid \<longrightarrow>
       data (accounts t' k) = data (accounts t k) \<and> owner (accounts t' k) = owner (accounts t k) \<and>
       unat (lamports (accounts t k)) \<le> unat (lamports (accounts t' k))"
    using all unfolding permitted_def by blast
  ultimately show ?thesis using fun_cong [OF eff(1)] by blast
qed

theorem write_back_permitted_witness:
  "\<exists>t'. deserialize_parameters 9 (\<lambda>_. 0)
      (\<lambda>k. if k = 1 then \<lparr>lamports = 3, data = [7], owner = 9\<rparr> else \<lparr>lamports = 7, data = [], owner = 8\<rparr>)
      [account_ref 1 False True, account_ref 2 False True]
      (tx_of [1, 2] (\<lambda>k. \<lparr>lamports = 5, data = [], owner = (if k = 1 then 9 else 8)\<rparr>)) = Inr t' \<and>
    5 \<le> unat (lamports (accounts t' 2))"
proof -
  define t where "t = tx_of [1, 2] (\<lambda>k. \<lparr>lamports = 5, data = [], owner = (if k = 1 then 9 else 8)\<rparr>)"
  define m :: "pubkey \<Rightarrow> account" where
    "m = (\<lambda>k. if k = 1 then \<lparr>lamports = 3, data = [7], owner = 9\<rparr> else \<lparr>lamports = 7, data = [], owner = 8\<rparr>)"
  obtain t' where run: "deserialize_parameters 9 (\<lambda>_. 0) m [account_ref 1 False True, account_ref 2 False True] t = Inr t'"
    by (simp add: runtime_eval t_def m_def)
  have "unat (lamports (accounts t 2)) \<le> unat (lamports (accounts t' 2))"
    by (rule write_back_permitted [OF run, THEN conjunct2, THEN conjunct2, rule_format, THEN conjunct2, THEN conjunct2])
      (simp add: t_def tx_of_def)
  then show ?thesis using run by (auto simp: t_def m_def tx_of_def)
qed

end
