(* ===== verification/SystemProgram.thy ===== *)
theory SystemProgram
  imports Runtime
begin

text \<open>
  The system program (\<open>validator/programs/system/src/system_processor.rs\<close>): creating, allocating,
  assigning and funding accounts. Every on-chain program reaches it by cross-program invocation.

  Instruction data arrives decoded (\<open>system_instruction\<close>). \<open>Pubkey::create_with_seed\<close> is a
  parameter, as is the feature flag of \<open>CreateAccountAllowPrefund\<close>. The durable-nonce
  instructions of the processor are not modelled.
\<close>

section \<open>Definitions\<close>

text \<open>\<open>system_program::id()\<close> is the key whose 32 bytes are zero, which is also \<open>Pubkey::default()\<close>.\<close>

definition system_program_id :: pubkey where
  "system_program_id = 0"

datatype system_instruction =
    CreateAccount (sys_lamports: u64) (sys_space: u64) (sys_owner: pubkey)
  | Assign pubkey
  | Transfer u64
  | CreateAccountWithSeed pubkey string u64 u64 pubkey
  | Allocate u64
  | AllocateWithSeed pubkey string u64 pubkey
  | AssignWithSeed pubkey string pubkey
  | TransferWithSeed u64 string pubkey
  | CreateAccountAllowPrefund u64 u64 pubkey

type_synonym seed_fun = "pubkey \<Rightarrow> string \<Rightarrow> pubkey \<Rightarrow> pubkey res"

record address =
  addr :: pubkey
  base :: "pubkey option"

definition address_is_signer :: "address \<Rightarrow> pubkey list \<Rightarrow> bool" where
  "address_is_signer a signers \<longleftrightarrow>
     (case base a of Some b \<Rightarrow> b \<in> set signers | None \<Rightarrow> addr a \<in> set signers)"

definition address_create ::
  "seed_fun \<Rightarrow> pubkey \<Rightarrow> (pubkey \<times> string \<times> pubkey) option \<Rightarrow> address res" where
  "address_create create_with_seed a with_seed =
     (case with_seed of
        Some (b, seed, own) \<Rightarrow>
          rbind (create_with_seed b seed own) (\<lambda>derived.
          if a \<noteq> derived then Inl (SystemErr AddressWithSeedMismatch)
          else Inr \<lparr>addr = a, base = Some b\<rparr>)
      | None \<Rightarrow> Inr \<lparr>addr = a, base = None\<rparr>)"

text \<open>The instruction context: the accounts of the instruction, by position.\<close>

definition nth_account :: "instruction_account list \<Rightarrow> nat \<Rightarrow> instruction_account res" where
  "nth_account ias i = (if i < length ias then Inr (ias ! i) else Inl MissingAccount)"

definition check_number_of_instruction_accounts :: "instruction_account list \<Rightarrow> nat \<Rightarrow> unit res" where
  "check_number_of_instruction_accounts ias n = (if length ias < n then Inl MissingAccount else Inr ())"

definition get_signers :: "instruction_account list \<Rightarrow> pubkey list" where
  "get_signers ias = map key (filter is_signer ias)"

definition allocate ::
  "instruction_account \<Rightarrow> address \<Rightarrow> u64 \<Rightarrow> pubkey list \<Rightarrow> tx_accounts \<Rightarrow> tx_accounts res" where
  "allocate ia a space signers t =
     (if \<not> address_is_signer a signers then Inl MissingRequiredSignature
      else if data (accounts t (key ia)) \<noteq> [] \<or> owner (accounts t (key ia)) \<noteq> system_program_id
      then Inl (SystemErr AccountAlreadyInUse)
      else if MAX_ACCOUNT_DATA_LEN < unat space then Inl (SystemErr InvalidAccountDataLength)
      else set_data_length system_program_id ia (unat space) t)"

definition assign ::
  "instruction_account \<Rightarrow> address \<Rightarrow> pubkey \<Rightarrow> pubkey list \<Rightarrow> tx_accounts \<Rightarrow> tx_accounts res" where
  "assign ia a own signers t =
     (if owner (accounts t (key ia)) = own then Inr t
      else if \<not> address_is_signer a signers then Inl MissingRequiredSignature
      else set_owner system_program_id ia own t)"

definition allocate_and_assign ::
  "instruction_account \<Rightarrow> address \<Rightarrow> u64 \<Rightarrow> pubkey \<Rightarrow> pubkey list \<Rightarrow> tx_accounts \<Rightarrow> tx_accounts res" where
  "allocate_and_assign ia a space own signers t =
     rbind (allocate ia a space signers t) (assign ia a own signers)"

definition transfer_verified ::
  "nat \<Rightarrow> nat \<Rightarrow> u64 \<Rightarrow> instruction_account list \<Rightarrow> tx_accounts \<Rightarrow> tx_accounts res" where
  "transfer_verified from_index to_index n ias t =
     rbind (nth_account ias from_index) (\<lambda>from.
     if data (accounts t (key from)) \<noteq> [] then Inl InvalidArgument
     else if lamports (accounts t (key from)) < n then Inl (SystemErr ResultWithNegativeLamports)
     else
     rbind (checked_sub_lamports system_program_id from n t) (\<lambda>t.
     rbind (nth_account ias to_index) (\<lambda>to.
     checked_add_lamports system_program_id to n t)))"

definition transfer ::
  "nat \<Rightarrow> nat \<Rightarrow> u64 \<Rightarrow> instruction_account list \<Rightarrow> tx_accounts \<Rightarrow> tx_accounts res" where
  "transfer from_index to_index n ias t =
     rbind (nth_account ias from_index) (\<lambda>from.
     if \<not> is_signer from then Inl MissingRequiredSignature
     else transfer_verified from_index to_index n ias t)"

definition transfer_with_seed ::
  "seed_fun \<Rightarrow> nat \<Rightarrow> nat \<Rightarrow> string \<Rightarrow> pubkey \<Rightarrow> nat \<Rightarrow> u64 \<Rightarrow> instruction_account list
     \<Rightarrow> tx_accounts \<Rightarrow> tx_accounts res" where
  "transfer_with_seed create_with_seed from_index base_index seed own to_index n ias t =
     rbind (nth_account ias base_index) (\<lambda>b.
     if \<not> is_signer b then Inl MissingRequiredSignature
     else
     rbind (create_with_seed (key b) seed own) (\<lambda>derived.
     rbind (nth_account ias from_index) (\<lambda>from.
     if key from \<noteq> derived then Inl (SystemErr AddressWithSeedMismatch)
     else transfer_verified from_index to_index n ias t)))"

definition create_account ::
  "nat \<Rightarrow> nat \<Rightarrow> address \<Rightarrow> u64 \<Rightarrow> u64 \<Rightarrow> pubkey \<Rightarrow> instruction_account list
     \<Rightarrow> tx_accounts \<Rightarrow> tx_accounts res" where
  "create_account from_index to_index a n space own ias t =
     rbind (nth_account ias to_index) (\<lambda>to.
     if 0 < lamports (accounts t (key to)) then Inl (SystemErr AccountAlreadyInUse)
     else
     rbind (allocate_and_assign to a space own (get_signers ias) t)
       (transfer from_index to_index n ias))"

definition create_account_allow_prefund ::
  "nat \<Rightarrow> address \<Rightarrow> (nat \<times> u64) option \<Rightarrow> u64 \<Rightarrow> pubkey \<Rightarrow> instruction_account list
     \<Rightarrow> tx_accounts \<Rightarrow> tx_accounts res" where
  "create_account_allow_prefund to_index a from_and_lamports space own ias t =
     rbind (nth_account ias to_index) (\<lambda>to.
     rbind (allocate_and_assign to a space own (get_signers ias) t) (\<lambda>t.
     case from_and_lamports of
       Some (from_index, n) \<Rightarrow> if 0 < n then transfer from_index to_index n ias t else Inr t
     | None \<Rightarrow> Inr t))"

text \<open>The entrypoint: one case per instruction, as the processor's \<open>match\<close>.\<close>

fun system_process ::
  "seed_fun \<Rightarrow> bool \<Rightarrow> system_instruction \<Rightarrow> instruction_account list \<Rightarrow> tx_accounts \<Rightarrow> tx_accounts res" where
  "system_process cws allow_prefund (CreateAccount n space own) ias t =
     rbind (check_number_of_instruction_accounts ias 2) (\<lambda>_.
     rbind (nth_account ias 1) (\<lambda>to.
     rbind (address_create cws (key to) None) (\<lambda>a.
     create_account 0 1 a n space own ias t)))"
| "system_process cws allow_prefund (CreateAccountWithSeed b seed n space own) ias t =
     rbind (check_number_of_instruction_accounts ias 2) (\<lambda>_.
     rbind (nth_account ias 1) (\<lambda>to.
     rbind (address_create cws (key to) (Some (b, seed, own))) (\<lambda>a.
     create_account 0 1 a n space own ias t)))"
| "system_process cws allow_prefund (Assign own) ias t =
     rbind (check_number_of_instruction_accounts ias 1) (\<lambda>_.
     rbind (nth_account ias 0) (\<lambda>ia.
     rbind (address_create cws (key ia) None) (\<lambda>a.
     assign ia a own (get_signers ias) t)))"
| "system_process cws allow_prefund (Transfer n) ias t =
     rbind (check_number_of_instruction_accounts ias 2) (\<lambda>_.
     transfer 0 1 n ias t)"
| "system_process cws allow_prefund (TransferWithSeed n seed own) ias t =
     rbind (check_number_of_instruction_accounts ias 3) (\<lambda>_.
     transfer_with_seed cws 0 1 seed own 2 n ias t)"
| "system_process cws allow_prefund (Allocate space) ias t =
     rbind (check_number_of_instruction_accounts ias 1) (\<lambda>_.
     rbind (nth_account ias 0) (\<lambda>ia.
     rbind (address_create cws (key ia) None) (\<lambda>a.
     allocate ia a space (get_signers ias) t)))"
| "system_process cws allow_prefund (AllocateWithSeed b seed space own) ias t =
     rbind (check_number_of_instruction_accounts ias 1) (\<lambda>_.
     rbind (nth_account ias 0) (\<lambda>ia.
     rbind (address_create cws (key ia) (Some (b, seed, own))) (\<lambda>a.
     allocate_and_assign ia a space own (get_signers ias) t)))"
| "system_process cws allow_prefund (AssignWithSeed b seed own) ias t =
     rbind (check_number_of_instruction_accounts ias 1) (\<lambda>_.
     rbind (nth_account ias 0) (\<lambda>ia.
     rbind (address_create cws (key ia) (Some (b, seed, own))) (\<lambda>a.
     assign ia a own (get_signers ias) t)))"
| "system_process cws allow_prefund (CreateAccountAllowPrefund n space own) ias t =
     (if \<not> allow_prefund then Inl InvalidInstructionData
      else
      rbind (check_number_of_instruction_accounts ias (if 0 < n then 2 else 1)) (\<lambda>_.
      rbind (nth_account ias 0) (\<lambda>to.
      rbind (address_create cws (key to) None) (\<lambda>a.
      create_account_allow_prefund 0 a (if 0 < n then Some (1, n) else None) space own ias t))))"

section \<open>Balance tracking\<close>

lemma tracked_allocate [tracked_intros]: "tracked (allocate ia a space signers)"
  unfolding allocate_def by (intro tracked_intros)

lemma tracked_assign [tracked_intros]: "tracked (assign ia a own signers)"
  unfolding assign_def by (intro tracked_intros)

lemma tracked_allocate_and_assign [tracked_intros]:
  "tracked (allocate_and_assign ia a space own signers)"
  unfolding allocate_and_assign_def by (intro tracked_intros)

lemma tracked_constant_guard: "(\<And>x. tracked (g x)) \<Longrightarrow> tracked (\<lambda>t. rbind m (\<lambda>x. g x t))"
  by (auto simp: tracked_def rbind_eq_Inr)

lemma tracked_transfer_verified [tracked_intros]: "tracked (transfer_verified i j n ias)"
  unfolding transfer_verified_def
  by (rule tracked_constant_guard, (rule tracked_if tracked_Inl tracked_rbind tracked_checked_sub_lamports
      tracked_constant_guard tracked_checked_add_lamports)+)

lemma tracked_transfer [tracked_intros]: "tracked (transfer i j n ias)"
  unfolding transfer_def
  by (rule tracked_constant_guard, (rule tracked_if tracked_Inl tracked_transfer_verified)+)

lemma tracked_create_account [tracked_intros]: "tracked (create_account i j a n space own ias)"
  unfolding create_account_def
  by (rule tracked_constant_guard,
      (rule tracked_if tracked_Inl tracked_rbind tracked_allocate_and_assign tracked_transfer)+)

lemma tracked_transfer_with_seed: "tracked (transfer_with_seed cws i b seed own j n ias)"
  unfolding transfer_with_seed_def
  by (rule tracked_constant_guard,
      (rule tracked_if tracked_Inl tracked_constant_guard tracked_transfer_verified)+)

lemma tracked_create_account_allow_prefund:
  "tracked (create_account_allow_prefund i a f space own ias)"
proof (rule trackedI)
  fix t t'
  assume "create_account_allow_prefund i a f space own ias t = Inr t'"
  then show "account_keys t' = account_keys t \<and> balance_potential t' = balance_potential t"
    by (cases f; cases "the f") (auto simp: create_account_allow_prefund_def rust_simps split: if_splits
        dest!: trackedD [OF tracked_allocate_and_assign] trackedD [OF tracked_transfer])
qed

lemma tracked_system_process [tracked_intros]: "tracked (system_process cws p ix ias)"
proof (rule trackedI)
  fix t t'
  assume "system_process cws p ix ias t = Inr t'"
  then show "account_keys t' = account_keys t \<and> balance_potential t' = balance_potential t"
    by (cases ix)
      (auto simp: rust_simps dest!: trackedD [OF tracked_create_account] trackedD [OF tracked_assign]
        trackedD [OF tracked_transfer] trackedD [OF tracked_allocate]
        trackedD [OF tracked_allocate_and_assign] trackedD [OF tracked_transfer_with_seed]
        trackedD [OF tracked_create_account_allow_prefund])
qed

section \<open>Effect of funding and creating accounts\<close>

text \<open>Debiting and crediting one account of a table.\<close>

definition debit :: "pubkey \<Rightarrow> u64 \<Rightarrow> (pubkey \<Rightarrow> account) \<Rightarrow> pubkey \<Rightarrow> account" where
  "debit k n m = m(k := (m k)\<lparr>lamports := lamports (m k) - n\<rparr>)"

definition credit :: "pubkey \<Rightarrow> u64 \<Rightarrow> (pubkey \<Rightarrow> account) \<Rightarrow> pubkey \<Rightarrow> account" where
  "credit k n m = m(k := (m k)\<lparr>lamports := lamports (m k) + n\<rparr>)"

text \<open>A transfer of \<open>n\<close> lamports that the balances allow.\<close>

definition payable :: "pubkey \<Rightarrow> pubkey \<Rightarrow> u64 \<Rightarrow> (pubkey \<Rightarrow> account) \<Rightarrow> bool" where
  "payable f g n m \<longleftrightarrow>
     unat n \<le> unat (lamports (m f)) \<and> unat (lamports (debit f n m g)) + unat n < 2 ^ 64"

definition pay :: "pubkey \<Rightarrow> pubkey \<Rightarrow> u64 \<Rightarrow> (pubkey \<Rightarrow> account) \<Rightarrow> pubkey \<Rightarrow> account" where
  "pay f g n m = credit g n (debit f n m)"

lemma debit_fields [simp]:
  "data (debit k n m j) = data (m j)" "owner (debit k n m j) = owner (m j)"
  by (simp_all add: debit_def)

lemma credit_fields [simp]:
  "data (credit k n m j) = data (m j)" "owner (credit k n m j) = owner (m j)"
  by (simp_all add: credit_def)

lemma pay_fields [simp]:
  "data (pay f g n m j) = data (m j)" "owner (pay f g n m j) = owner (m j)"
  by (simp_all add: pay_def)

lemma pay_other [simp]: "j \<noteq> f \<Longrightarrow> j \<noteq> g \<Longrightarrow> pay f g n m j = m j"
  by (simp add: pay_def credit_def debit_def)

lemma unat_lamports_pay:
  assumes "payable f g n m" and "f \<noteq> g"
  shows "unat (lamports (pay f g n m f)) = unat (lamports (m f)) - unat n"
    and "unat (lamports (pay f g n m g)) = unat (lamports (m g)) + unat n"
  using assms
  by (auto simp: payable_def pay_def credit_def debit_def unat_sub word_le_nat_alt unat_add_lem [THEN iffD1])

lemma checked_sub_lamports_effect:
  assumes "checked_sub_lamports pid ia n t = Inr t'"
  shows "accounts t' = debit (key ia) n (accounts t)"
    and "unat n \<le> unat (lamports (accounts t (key ia)))" and "is_writable ia"
    and "n \<noteq> 0 \<Longrightarrow> owner (accounts t (key ia)) = pid"
proof -
  from assms obtain v where v: "unat (lamports (accounts t (key ia))) = unat n + unat v"
    and set: "set_lamports pid ia v t = Inr t'"
    by (auto simp: checked_sub_lamports_def rust_simps)
  from v have le: "n \<le> lamports (accounts t (key ia))" by (simp add: word_le_nat_alt)
  with v have v': "v = lamports (accounts t (key ia)) - n"
    by (simp add: word_unat_eq_iff unat_sub)
  show "accounts t' = debit (key ia) n (accounts t)"
    using set_lamports_effect(1) [OF set] v' by (simp add: debit_def)
  show "unat n \<le> unat (lamports (accounts t (key ia)))" using v by simp
  show "is_writable ia" using set_lamports_effect(3) [OF set] .
  show "owner (accounts t (key ia)) = pid" if "n \<noteq> 0"
  proof -
    have "unat n \<noteq> 0" using that by (simp add: unat_eq_zero)
    then show ?thesis using set_lamports_effect(4) [OF set] v by linarith
  qed
qed

lemma checked_add_lamports_effect:
  assumes "checked_add_lamports pid ia n t = Inr t'"
  shows "accounts t' = credit (key ia) n (accounts t)"
    and "unat (lamports (accounts t (key ia))) + unat n < 2 ^ 64" and "is_writable ia"
proof -
  from assms obtain v where v: "unat v = unat (lamports (accounts t (key ia))) + unat n"
    and set: "set_lamports pid ia v t = Inr t'"
    by (auto simp: checked_add_lamports_def rust_simps)
  have bound: "unat (lamports (accounts t (key ia))) + unat n < 2 ^ 64"
    using v unsigned_less [of v, where ?'a = nat] by simp
  then have v': "v = lamports (accounts t (key ia)) + n"
    using v by (simp add: word_unat_eq_iff unat_add_lem [THEN iffD1])
  show "accounts t' = credit (key ia) n (accounts t)"
    using set_lamports_effect(1) [OF set] v' by (simp add: credit_def)
  show "unat (lamports (accounts t (key ia))) + unat n < 2 ^ 64" by (rule bound)
  show "is_writable ia" using set_lamports_effect(3) [OF set] .
qed

lemma transfer_effect:
  assumes "transfer i j n ias t = Inr t'"
  defines "f \<equiv> key (ias ! i)" and "g \<equiv> key (ias ! j)"
  shows "accounts t' = pay f g n (accounts t)" and "payable f g n (accounts t)"
    and "is_signer (ias ! i)" and "is_writable (ias ! i)" and "is_writable (ias ! j)"
    and "data (accounts t f) = []"
    and "n \<noteq> 0 \<Longrightarrow> owner (accounts t f) = system_program_id"
    and "i < length ias" and "j < length ias"
proof -
  from assms(1) obtain u where i: "i < length ias" and j: "j < length ias" and sign: "is_signer (ias ! i)"
    and d: "data (accounts t f) = []"
    and u: "checked_sub_lamports system_program_id (ias ! i) n t = Inr u"
    and t': "checked_add_lamports system_program_id (ias ! j) n u = Inr t'"
    by (auto simp: transfer_def transfer_verified_def nth_account_def rust_simps f_def)
  note sub = checked_sub_lamports_effect [OF u, folded f_def]
  note add = checked_add_lamports_effect [OF t', folded g_def]
  show "accounts t' = pay f g n (accounts t)" using sub add by (simp add: pay_def)
  show "payable f g n (accounts t)" using sub add by (simp add: payable_def)
  show "is_signer (ias ! i)" "data (accounts t f) = []" "i < length ias" "j < length ias"
    by (fact sign d i j)+
  show "is_writable (ias ! i)" "is_writable (ias ! j)" using sub add by auto
  show "owner (accounts t f) = system_program_id" if "n \<noteq> 0" using sub(4) [OF that] .
qed

lemma resize_same [simp]: "resize (length d) d = d"
  by (simp add: resize_def)

lemma resize_Nil [simp]: "resize n [] = replicate n 0"
  by (simp add: resize_def)

lemma set_data_length_effect:
  assumes "set_data_length pid ia n t = Inr t'"
  shows "accounts t' =
    (accounts t)(key ia := (accounts t (key ia))\<lparr>data := resize n (data (accounts t (key ia)))\<rparr>)"
    and "is_writable ia"
  using assms
  by (auto simp: set_data_length_def can_data_be_resized_def can_data_be_changed_def touch_def
      update_accounts_resize_delta_def upd_account_def rust_simps split: if_splits)

lemma allocate_effect:
  assumes "allocate ia a space signers t = Inr t'"
  shows "accounts t' = (accounts t)(key ia := (accounts t (key ia))\<lparr>data := replicate (unat space) 0\<rparr>)"
    and "address_is_signer a signers" and "is_writable ia"
    and "data (accounts t (key ia)) = []" and "owner (accounts t (key ia)) = system_program_id"
    and "unat space \<le> MAX_ACCOUNT_DATA_LEN"
proof -
  from assms have set: "set_data_length system_program_id ia (unat space) t = Inr t'"
    and g: "address_is_signer a signers" "data (accounts t (key ia)) = []"
      "owner (accounts t (key ia)) = system_program_id" "unat space \<le> MAX_ACCOUNT_DATA_LEN"
    by (auto simp: allocate_def split: if_splits)
  show "accounts t' = (accounts t)(key ia := (accounts t (key ia))\<lparr>data := replicate (unat space) 0\<rparr>)"
    using set_data_length_effect(1) [OF set] g by simp
  show "is_writable ia" by (rule set_data_length_effect(2) [OF set])
  show "address_is_signer a signers" "data (accounts t (key ia)) = []"
    "owner (accounts t (key ia)) = system_program_id" "unat space \<le> MAX_ACCOUNT_DATA_LEN"
    by (fact g)+
qed

lemma assign_effect:
  assumes "assign ia a own signers t = Inr t'"
  shows "accounts t' = (accounts t)(key ia := (accounts t (key ia))\<lparr>owner := own\<rparr>)"
  using assms set_owner_effect(1) [of system_program_id ia own t t']
  by (auto simp: assign_def split: if_splits)

lemma create_account_effect:
  assumes "create_account i j \<lparr>addr = key (ias ! j), base = None\<rparr> n space own ias t = Inr t'"
  defines "f \<equiv> key (ias ! i)" and "g \<equiv> key (ias ! j)"
  defines "m \<equiv> (accounts t)(g := \<lparr>lamports = 0, data = replicate (unat space) 0, owner = own\<rparr>)"
  shows "accounts t' = pay f g n m" and "payable f g n m"
    and "accounts t g = \<lparr>lamports = 0, data = [], owner = system_program_id\<rparr>"
    and "is_signer (ias ! i)" and "g \<in> set (get_signers ias)"
    and "data (m f) = []"
    and "n \<noteq> 0 \<Longrightarrow> owner (m f) = system_program_id"
    and "is_writable (ias ! i)" and "is_writable (ias ! j)"
proof -
  from assms(1) obtain u v where zero: "lamports (accounts t g) = 0"
    and u: "allocate (ias ! j) \<lparr>addr = g, base = None\<rparr> space (get_signers ias) t = Inr u"
    and v: "assign (ias ! j) \<lparr>addr = g, base = None\<rparr> own (get_signers ias) u = Inr v"
    and t': "transfer i j n ias v = Inr t'"
    by (auto simp: create_account_def allocate_and_assign_def nth_account_def rust_simps g_def
        word_less_nat_alt unat_eq_zero)
  note al = allocate_effect [OF u, folded g_def] and as = assign_effect [OF v, folded g_def]
  have m: "accounts v = m"
    using al as zero by (simp add: m_def fun_eq_iff)
  note tr = transfer_effect [OF t', folded f_def g_def, unfolded m]
  show "accounts t' = pay f g n m" "payable f g n m" "is_signer (ias ! i)" "data (m f) = []"
    "is_writable (ias ! i)" "is_writable (ias ! j)"
    using tr by auto
  show "owner (m f) = system_program_id" if "n \<noteq> 0" using tr(7) [OF that] .
  show "accounts t g = \<lparr>lamports = 0, data = [], owner = system_program_id\<rparr>"
    using al zero by simp
  show "g \<in> set (get_signers ias)" using al(2) by (simp add: address_is_signer_def)
qed

text \<open>An account that only holds lamports.\<close>

definition wallet :: "u64 \<Rightarrow> account" where
  "wallet n = \<lparr>lamports = n, data = [], owner = system_program_id\<rparr>"

lemma wallet_simps [simp]:
  "lamports (wallet n) = n" "data (wallet n) = []" "owner (wallet n) = system_program_id"
  by (simp_all add: wallet_def)

lemmas system_eval = system_program_id_def nth_account_def check_number_of_instruction_accounts_def
  get_signers_def address_is_signer_def address_create_def allocate_def assign_def allocate_and_assign_def
  transfer_verified_def transfer_def create_account_def set_data_length_def resize_def
  checked_add_lamports_def checked_sub_lamports_def is_zeroed_iff

section \<open>Properties\<close>

text \<open>
  C4. A transfer of the system program is exact: it was signed by the payer, the payer held no data
  and belonged to the system program, the payer's balance went down and the recipient's up by exactly
  the amount (a transfer to oneself changes nothing), and nothing else changed.
\<close>

theorem system_transfer_exact:
  assumes "system_process cws p (Transfer n) ias t = Inr t'"
    and "f = key (ias ! 0)" and "g = key (ias ! 1)"
  shows "is_signer (ias ! 0) \<and> data (accounts t f) = [] \<and>
    (n \<noteq> 0 \<longrightarrow> owner (accounts t f) = system_program_id) \<and>
    (f \<noteq> g \<longrightarrow> unat (lamports (accounts t' f)) + unat n = unat (lamports (accounts t f)) \<and>
       unat (lamports (accounts t' g)) = unat (lamports (accounts t g)) + unat n) \<and>
    (f = g \<longrightarrow> accounts t' = accounts t) \<and>
    (\<forall>k. (k \<noteq> f \<and> k \<noteq> g \<longrightarrow> accounts t' k = accounts t k) \<and>
       data (accounts t' k) = data (accounts t k) \<and> owner (accounts t' k) = owner (accounts t k))"
proof -
  from assms(1) have "transfer 0 1 n ias t = Inr t'" by (auto simp: rust_simps)
  note eff = transfer_effect [OF this, folded assms(2,3)]
  have "unat n \<le> unat (lamports (accounts t f))" using eff(2) by (simp add: payable_def)
  then show ?thesis
    using eff(1,3,6,7) unat_lamports_pay [OF eff(2)]
    by (auto simp: pay_def credit_def debit_def fun_eq_iff)
qed

theorem system_transfer_exact_witness:
  "\<exists>t'. system_process (\<lambda>_ _ _. Inl InvalidSeeds) False (Transfer 30)
      [account_ref 1 True True, account_ref 2 False True] (tx_of [1, 2] (\<lambda>_. wallet 100)) = Inr t' \<and>
    unat (lamports (accounts t' 1)) = 70 \<and> unat (lamports (accounts t' 2)) = 130"
proof -
  obtain t' where run: "system_process (\<lambda>_ _ _. Inl InvalidSeeds) False (Transfer 30)
      [account_ref 1 True True, account_ref 2 False True] (tx_of [1, 2] (\<lambda>_. wallet 100)) = Inr t'"
    by (simp add: runtime_eval system_eval)
  show ?thesis using run system_transfer_exact [OF run refl refl] by (simp add: tx_of_def)
qed

text \<open>
  C5. Creating an account: it succeeds only on a signed target that was empty, unfunded and
  unassigned; afterwards the target has exactly the requested balance, zeroed data of the requested
  length and the requested owner, the payer has paid exactly that balance, and nothing else changed.
\<close>

theorem system_create_account_exact:
  assumes "system_process cws p (CreateAccount n space own) ias t = Inr t'"
    and "f = key (ias ! 0)" and "g = key (ias ! 1)" and "f \<noteq> g"
  shows "accounts t g = wallet 0 \<and> is_signer (ias ! 0) \<and> g \<in> set (get_signers ias) \<and>
    accounts t' g = \<lparr>lamports = n, data = replicate (unat space) 0, owner = own\<rparr> \<and>
    unat (lamports (accounts t' f)) + unat n = unat (lamports (accounts t f)) \<and>
    data (accounts t' f) = data (accounts t f) \<and> owner (accounts t' f) = owner (accounts t f) \<and>
    (\<forall>k. k \<noteq> f \<and> k \<noteq> g \<longrightarrow> accounts t' k = accounts t k)"
proof -
  from assms(1) have "create_account 0 1 \<lparr>addr = key (ias ! 1), base = None\<rparr> n space own ias t = Inr t'"
    by (auto simp: address_create_def nth_account_def rust_simps)
  note eff = create_account_effect [OF this, folded assms(2,3)]
  have "unat n \<le> unat (lamports (accounts t f))" using eff(2) assms(4) by (simp add: payable_def)
  then show ?thesis
    using eff assms(4) unat_lamports_pay(1) [OF eff(2) assms(4)]
    by (simp add: wallet_def pay_def credit_def debit_def)
qed

theorem system_create_account_exact_witness:
  "\<exists>t'. system_process (\<lambda>_ _ _. Inl InvalidSeeds) False (CreateAccount 60 3 9)
      [account_ref 1 True True, account_ref 2 True True]
      (tx_of [1, 2] (\<lambda>k. if k = 1 then wallet 100 else wallet 0)) = Inr t' \<and>
    accounts t' 2 = \<lparr>lamports = 60, data = replicate 3 0, owner = 9\<rparr>"
proof -
  obtain t' where run: "system_process (\<lambda>_ _ _. Inl InvalidSeeds) False (CreateAccount 60 3 9)
      [account_ref 1 True True, account_ref 2 True True]
      (tx_of [1, 2] (\<lambda>k. if k = 1 then wallet 100 else wallet 0)) = Inr t'"
    by (simp add: runtime_eval system_eval)
  show ?thesis
    using run system_create_account_exact [OF run refl refl] by (simp add: tx_of_def)
qed

end
