(* ===== verification/Cpi.thy ===== *)
theory Cpi
  imports SystemProgram
begin

text \<open>
  Cross-program invocation (\<open>validator/program-runtime/src/invoke_context.rs\<close> and \<open>cpi.rs\<close>) and the
  interface the on-chain programs of \<open>programs/\<close> are written against.

  \<open>prepare_next_cpi_instruction\<close> computes the callee's accounts and refuses any privilege the caller
  does not have. \<open>cpi_common\<close> then brings the caller's changes into the transaction, runs the callee
  between two balance checks, and copies the writable accounts back into the caller's memory.

  What is not in the repository is collected in the record \<open>env\<close>: address derivation, sysvars, the
  compilation mode, and the programs other than the system program (the SPL token program).
  The main lemmas, \<open>invoke_transfer_effect\<close> and \<open>invoke_create_account_effect\<close>, reduce a system
  program call to its effect on the caller's memory.
\<close>

section \<open>Privileges\<close>

record account_meta =
  meta_key :: pubkey
  meta_signer :: bool
  meta_writable :: bool

datatype cpi_data = SystemData system_instruction | RawData bytes

record cpi_instruction =
  cpi_program_id :: pubkey
  cpi_accounts :: "account_meta list"
  cpi_data_of :: cpi_data

definition find_account :: "pubkey \<Rightarrow> instruction_account list \<Rightarrow> instruction_account option" where
  "find_account k ias = List.find (\<lambda>ia. key ia = k) ias"

fun upd_first :: "instruction_account \<Rightarrow> instruction_account list \<Rightarrow> instruction_account list" where
  "upd_first ia [] = []"
| "upd_first ia (x # xs) = (if key x = key ia then ia # xs else x # upd_first ia xs)"

text \<open>First loop: one callee entry per meta; a repeated key merges its flags into the first entry.\<close>

definition merge_meta ::
  "pubkey list \<Rightarrow> account_meta \<Rightarrow> instruction_account list \<Rightarrow> instruction_account list res" where
  "merge_meta keys m ias =
     (if meta_key m \<notin> set keys then Inl MissingAccount
      else case find_account (meta_key m) ias of
        Some first \<Rightarrow>
          let ia = first\<lparr>is_signer := is_signer first \<or> meta_signer m,
                         is_writable := is_writable first \<or> meta_writable m\<rparr>
          in Inr (upd_first ia ias @ [ia])
      | None \<Rightarrow> Inr (ias @ [\<lparr>key = meta_key m, is_signer = meta_signer m, is_writable = meta_writable m\<rparr>]))"

definition check_privileges ::
  "instruction_account list \<Rightarrow> pubkey list \<Rightarrow> instruction_account \<Rightarrow> unit res" where
  "check_privileges caller signers ia =
     rbind (ok_or (find_account (key ia) caller) MissingAccount) (\<lambda>c.
     if is_writable ia \<and> \<not> is_writable c then Inl PrivilegeEscalation
     else if is_signer ia \<and> \<not> (is_signer c \<or> key ia \<in> set signers) then Inl PrivilegeEscalation
     else Inr ())"

text \<open>Second loop: a repeated entry takes the flags of the first one, a first entry is checked.\<close>

fun settle ::
  "instruction_account list \<Rightarrow> pubkey list \<Rightarrow> instruction_account list \<Rightarrow> pubkey list
     \<Rightarrow> instruction_account list \<Rightarrow> instruction_account list res" where
  "settle caller signers all seen [] = Inr []"
| "settle caller signers all seen (ia # rest) =
     (if key ia \<in> set seen then
        rbind (ok_or (find_account (key ia) all) MissingAccount) (\<lambda>r.
        rbind (settle caller signers all seen rest) (\<lambda>rs.
        Inr (ia\<lparr>is_signer := is_signer ia \<or> is_signer r, is_writable := is_writable ia \<or> is_writable r\<rparr> # rs)))
      else
        rbind (check_privileges caller signers ia) (\<lambda>_.
        rbind (settle caller signers all (key ia # seen) rest) (\<lambda>rs.
        Inr (ia # rs))))"

definition prepare_next_cpi_instruction ::
  "pubkey list \<Rightarrow> instruction_account list \<Rightarrow> cpi_instruction \<Rightarrow> pubkey list
     \<Rightarrow> instruction_account list res" where
  "prepare_next_cpi_instruction keys caller ix signers =
     rbind (rfold (merge_meta keys) (cpi_accounts ix) []) (\<lambda>all.
     rbind (settle caller signers all [] all) (\<lambda>ias.
     if cpi_program_id ix \<notin> set keys \<or> find_account (cpi_program_id ix) caller = None
     then Inl MissingAccount
     else Inr ias))"

subsection \<open>No escalation\<close>

lemma find_account_Some: "find_account k ias = Some ia \<Longrightarrow> key ia = k \<and> ia \<in> set ias"
  by (auto simp: find_account_def find_Some_iff)

lemma find_account_None: "find_account k ias = None \<longleftrightarrow> k \<notin> key ` set ias"
  by (auto simp: find_account_def find_None_iff)

lemma find_account_simps [simp]:
  "find_account k [] = None"
  "find_account k (x # xs) = (if key x = k then Some x else find_account k xs)"
  by (simp_all add: find_account_def)

lemma find_account_append:
  "find_account k (xs @ ys) = (case find_account k xs of Some x \<Rightarrow> Some x | None \<Rightarrow> find_account k ys)"
  by (induction xs) auto

lemma find_account_upd_first:
  "find_account k (upd_first ia ias) =
     (if k = key ia \<and> k \<in> key ` set ias then Some ia else find_account k ias)"
  by (induction ias) auto

lemma set_upd_first: "set (upd_first ia ias) \<subseteq> insert ia (set ias)"
  by (induction ias) auto

lemma keys_upd_first [simp]: "map key (upd_first ia ias) = map key ias"
  by (induction ias) auto

text \<open>Every entry's flags are among the flags of the first entry with its key.\<close>

definition flags_merged :: "instruction_account list \<Rightarrow> bool" where
  "flags_merged ias \<longleftrightarrow>
     (\<forall>ia \<in> set ias. \<forall>f. find_account (key ia) ias = Some f \<longrightarrow>
        (is_signer ia \<longrightarrow> is_signer f) \<and> (is_writable ia \<longrightarrow> is_writable f))"

lemma merge_meta_keys: "merge_meta keys m ias = Inr ias' \<Longrightarrow> map key ias' = map key ias @ [meta_key m]"
  by (auto simp: merge_meta_def rust_simps dest: find_account_Some split: option.splits)

lemma flags_merged_merge_meta:
  assumes "merge_meta keys m ias = Inr ias'" and "flags_merged ias"
  shows "flags_merged ias'"
proof (cases "find_account (meta_key m) ias")
  case None
  then have new: "meta_key m \<notin> key ` set ias" by (simp add: find_account_None)
  from None assms(1) have "ias' = ias @ [\<lparr>key = meta_key m, is_signer = meta_signer m, is_writable = meta_writable m\<rparr>]"
    by (auto simp: merge_meta_def split: if_splits)
  with assms(2) None new show ?thesis
    by (auto simp: flags_merged_def find_account_append split: option.splits)
next
  case (Some first)
  then have k: "key first = meta_key m" and mem: "meta_key m \<in> key ` set ias"
    by (auto dest!: find_account_Some intro: rev_image_eqI)
  define new where "new = first\<lparr>is_signer := is_signer first \<or> meta_signer m,
    is_writable := is_writable first \<or> meta_writable m\<rparr>"
  have new: "key new = meta_key m" "is_signer first \<longrightarrow> is_signer new" "is_writable first \<longrightarrow> is_writable new"
    by (simp_all add: new_def k)
  from Some assms(1) have ias': "ias' = upd_first new ias @ [new]"
    by (auto simp: merge_meta_def Let_def new_def split: if_splits)
  have find: "find_account j ias' = (if j = meta_key m then Some new else find_account j ias)"
    if "j \<in> key ` set ias" for j
    using that mem new(1)
    by (auto simp: ias' find_account_append find_account_upd_first find_account_None split: option.splits)
  show ?thesis
    unfolding flags_merged_def
  proof (intro ballI allI impI)
    fix ia f
    assume ia: "ia \<in> set ias'" and f: "find_account (key ia) ias' = Some f"
    then consider "ia = new" | "ia \<in> set ias"
      using set_upd_first [of new ias] by (auto simp: ias')
    then show "(is_signer ia \<longrightarrow> is_signer f) \<and> (is_writable ia \<longrightarrow> is_writable f)"
    proof cases
      case 1
      then show ?thesis using f find [OF mem] new(1) by simp
    next
      case 2
      then have "Some f = (if key ia = meta_key m then Some new else find_account (key ia) ias)"
        using find [of "key ia"] f by simp
      then show ?thesis
        using 2 assms(2) Some new unfolding flags_merged_def by (metis option.inject)
    qed
  qed
qed

lemma merge_fold_keys:
  "rfold (merge_meta keys) ms ias = Inr all \<Longrightarrow> map key all = map key ias @ map meta_key ms"
  by (induction ms arbitrary: ias) (auto simp: rbind_eq_Inr dest: merge_meta_keys)

lemma settle_keys: "settle caller signers all seen rest = Inr ias \<Longrightarrow> map key ias = map key rest"
  by (induction caller signers all seen rest arbitrary: ias rule: settle.induct)
    (auto simp: rust_simps split: if_splits)

definition privileged :: "instruction_account list \<Rightarrow> pubkey list \<Rightarrow> instruction_account \<Rightarrow> bool" where
  "privileged caller signers ia \<longleftrightarrow>
     (\<exists>c. find_account (key ia) caller = Some c \<and> (is_writable ia \<longrightarrow> is_writable c) \<and>
        (is_signer ia \<longrightarrow> is_signer c \<or> key ia \<in> set signers))"

lemma check_privileges_eq: "check_privileges caller signers ia = Inr () \<longleftrightarrow> privileged caller signers ia"
  by (auto simp: check_privileges_def privileged_def rust_simps)

lemma settle_privileged:
  assumes "settle caller signers all seen rest = Inr ias"
    and "flags_merged all" and "set rest \<subseteq> set all"
    and "\<And>k. k \<in> set seen \<Longrightarrow> \<exists>f. find_account k all = Some f \<and> privileged caller signers f"
    and "\<And>ia. ia \<in> set rest \<Longrightarrow> key ia \<notin> set seen \<Longrightarrow>
           find_account (key ia) all = find_account (key ia) rest"
  shows "\<forall>ia \<in> set ias. privileged caller signers ia"
  using assms
proof (induction caller signers all seen rest arbitrary: ias rule: settle.induct)
  case (1 caller signers all seen)
  then show ?case by simp
next
  case (2 caller signers all seen ia rest)
  show ?case
  proof (cases "key ia \<in> set seen")
    case True
    with "2.prems"(1) obtain r rs where r: "find_account (key ia) all = Some r"
      and rs: "settle caller signers all seen rest = Inr rs"
      and ias: "ias = ia\<lparr>is_signer := is_signer ia \<or> is_signer r, is_writable := is_writable ia \<or> is_writable r\<rparr> # rs"
      by (auto simp: rust_simps)
    from "2.prems"(4) [OF True] r have "privileged caller signers r" by simp
    moreover have "key r = key ia" using find_account_Some [OF r] by simp
    moreover have "(is_signer ia \<longrightarrow> is_signer r) \<and> (is_writable ia \<longrightarrow> is_writable r)"
      using "2.prems"(2,3) r by (auto simp: flags_merged_def)
    ultimately have "privileged caller signers (hd ias)"
      by (auto simp: privileged_def ias)
    moreover have "\<forall>x \<in> set rs. privileged caller signers x"
    proof (rule "2.IH"(1) [OF True r [THEN ok_or_eq_Inr [THEN iffD2]] rs "2.prems"(2)])
      show "set rest \<subseteq> set all" using "2.prems"(3) by simp
      show "\<And>k. k \<in> set seen \<Longrightarrow> \<exists>f. find_account k all = Some f \<and> privileged caller signers f"
        by (fact "2.prems"(4))
      show "find_account (key x) all = find_account (key x) rest"
        if "x \<in> set rest" "key x \<notin> set seen" for x
        using "2.prems"(5) [of x] that True by (auto split: if_splits)
    qed
    ultimately show ?thesis by (simp add: ias)
  next
    case False
    with "2.prems"(1) obtain rs where ok: "check_privileges caller signers ia = Inr ()"
      and rs: "settle caller signers all (key ia # seen) rest = Inr rs" and ias: "ias = ia # rs"
      by (auto simp: rust_simps)
    have p: "privileged caller signers ia" using ok by (simp add: check_privileges_eq)
    have "\<forall>x \<in> set rs. privileged caller signers x"
    proof (rule "2.IH"(2) [OF False ok rs "2.prems"(2)])
      show "set rest \<subseteq> set all" using "2.prems"(3) by simp
      show "\<exists>f. find_account k all = Some f \<and> privileged caller signers f" if "k \<in> set (key ia # seen)" for k
        using that "2.prems"(4) [of k] "2.prems"(5) [of ia] False p by auto
      show "find_account (key x) all = find_account (key x) rest"
        if "x \<in> set rest" "key x \<notin> set (key ia # seen)" for x
        using "2.prems"(5) [of x] that by auto
    qed
    with p show ?thesis by (simp add: ias)
  qed
qed

lemma prepare_keys:
  assumes "prepare_next_cpi_instruction keys caller ix signers = Inr ias"
  shows "map key ias = map meta_key (cpi_accounts ix)"
  using assms by (auto simp: prepare_next_cpi_instruction_def rust_simps dest!: merge_fold_keys settle_keys)

lemma prepare_privileged:
  assumes "prepare_next_cpi_instruction keys caller ix signers = Inr ias" and "ia \<in> set ias"
  shows "privileged caller signers ia"
proof -
  from assms(1) obtain all where all: "rfold (merge_meta keys) (cpi_accounts ix) [] = Inr all"
    and s: "settle caller signers all [] all = Inr ias"
    by (auto simp: prepare_next_cpi_instruction_def rust_simps)
  have "flags_merged all"
    by (rule rfold_invariant [OF all, where P = flags_merged])
      (simp add: flags_merged_def, blast intro: flags_merged_merge_meta)
  then have "\<forall>ia \<in> set ias. privileged caller signers ia"
    by (intro settle_privileged [OF s]) auto
  with assms(2) show ?thesis by blast
qed

section \<open>Environment\<close>

text \<open>
  Code outside the repository, as parameters: \<open>create_program_address\<close> and \<open>find_program_address\<close> of
  \<open>Pubkey\<close>, \<open>create_with_seed\<close>, the \<open>Rent\<close> and \<open>Clock\<close> sysvars, SHA-256, the programs other than the
  system program, the feature flag of the system program, the identifiers of the loaders with the tests
  on their instructions and the precompiles (\<open>loaders\<close>), and whether the program was compiled
  with arithmetic overflow checks.
\<close>

record clock =
  slot :: u64
  epoch :: u64
  unix_timestamp :: i64

record loaders =
  native_loader_id :: pubkey
  bpf_loader_id :: pubkey
  bpf_loader_deprecated_id :: pubkey
  bpf_loader_upgradeable_id :: pubkey
  is_upgrade_instruction :: "bytes \<Rightarrow> bool"
  is_set_authority_instruction :: "bytes \<Rightarrow> bool"
  is_set_authority_checked_instruction :: "bytes \<Rightarrow> bool"
  is_extend_program_checked_instruction :: "bytes \<Rightarrow> bool"
  is_close_instruction :: "bytes \<Rightarrow> bool"
  enable_bpf_loader_set_authority_checked_ix :: bool
  enable_extend_program_checked :: bool
  is_precompile :: "pubkey \<Rightarrow> bool"

record env =
  create_program_address :: "bytes list \<Rightarrow> pubkey \<Rightarrow> pubkey option"
  find_program_address :: "bytes list \<Rightarrow> pubkey \<Rightarrow> pubkey \<times> u8"
  create_with_seed :: seed_fun
  rent_get :: "(nat \<Rightarrow> u64) res"
  clock_get :: "clock res"
  clock_from_account_info :: "pubkey \<Rightarrow> account \<Rightarrow> clock res"
  sha256 :: "bytes \<Rightarrow> bytes"
  other_program :: "pubkey \<Rightarrow> bytes \<Rightarrow> instruction_account list \<Rightarrow> tx_accounts \<Rightarrow> tx_accounts res"
  loaders_of :: loaders
  allow_prefund :: bool
  overflow_checks :: bool

text \<open>
  Any program the runtime runs satisfies \<open>onchain_program\<close>, so a callee keeps the balance potential;
  and a derived address is the one its own seeds and bump derive.
\<close>

definition callees_tracked :: "env \<Rightarrow> bool" where
  "callees_tracked e \<longleftrightarrow> (\<forall>p d ias. tracked (other_program e p d ias))"

definition derivation_ok :: "env \<Rightarrow> bool" where
  "derivation_ok e \<longleftrightarrow>
     (\<forall>seeds p k b. find_program_address e seeds p = (k, b) \<longrightarrow>
        create_program_address e (seeds @ [[b]]) p = Some k)"

section \<open>Cross-program invocation\<close>

text \<open>\<open>process_executable_chain\<close>: the system program is built in, others are parameters.\<close>

definition callee :: "env \<Rightarrow> cpi_instruction \<Rightarrow> instruction_account list \<Rightarrow> tx_accounts \<Rightarrow> tx_accounts res" where
  "callee e ix ias t =
     (case cpi_data_of ix of
        SystemData d \<Rightarrow> system_process (create_with_seed e) (allow_prefund e) d ias t
      | RawData d \<Rightarrow> other_program e (cpi_program_id ix) d ias t)"

definition update_callee_account ::
  "pubkey \<Rightarrow> instruction_account \<Rightarrow> account \<Rightarrow> tx_accounts \<Rightarrow> tx_accounts res" where
  "update_callee_account pid c a t =
     rbind (sync_lamports pid c (lamports a) t) (\<lambda>t.
     rbind (sync_data pid c (data a) t) (\<lambda>t.
     sync_owner pid c (owner a) t))"

definition translate_account ::
  "pubkey \<Rightarrow> instruction_account list \<Rightarrow> pubkey list \<Rightarrow> (pubkey \<Rightarrow> account) \<Rightarrow> instruction_account
     \<Rightarrow> tx_accounts \<Rightarrow> tx_accounts res" where
  "translate_account pid caller infos m ia t =
     rbind (ok_or (find_account (key ia) caller) MissingAccount) (\<lambda>c.
     if key ia \<notin> set infos then Inl MissingAccount
     else update_callee_account pid c (m (key ia)) t)"

definition update_caller_account :: "instruction_account \<Rightarrow> vm \<Rightarrow> vm res" where
  "update_caller_account ia v =
     (let k = key ia; a = accounts (tx v) k; prev = length (data (mem v k)); post = length (data a)
      in if \<not> is_writable ia then Inr v
         else if original_data_len v k + MAX_ACCOUNT_DATA_GROWTH_PER_INSTRUCTION < post \<and> prev \<noteq> post
         then Inl InvalidRealloc
         else Inr (v\<lparr>mem := (mem v)(k := a)\<rparr>))"

definition MAX_SIGNERS :: nat where
  "MAX_SIGNERS = 16"

definition MAX_SEEDS :: nat where
  "MAX_SEEDS = 16"

definition translate_signer :: "env \<Rightarrow> pubkey \<Rightarrow> bytes list \<Rightarrow> pubkey list \<Rightarrow> pubkey list res" where
  "translate_signer e pid seeds signers =
     (if MAX_SEEDS < length seeds then Inl MaxSeedLengthExceeded
      else rbind (ok_or (create_program_address e seeds pid) BadSeeds) (\<lambda>signer. Inr (signers @ [signer])))"

definition translate_signers :: "env \<Rightarrow> pubkey \<Rightarrow> bytes list list \<Rightarrow> pubkey list res" where
  "translate_signers e pid seeds =
     (if MAX_SIGNERS < length seeds then Inl TooManySigners
      else rfold (translate_signer e pid) seeds [])"

text \<open>
  Loaders and precompiles cannot be called, the upgradeable loader apart for five of its instructions.
  An instruction given as \<open>SystemData\<close> is one for the system program, which is neither.
\<close>

definition check_authorized_program :: "loaders \<Rightarrow> pubkey \<Rightarrow> bytes \<Rightarrow> unit res" where
  "check_authorized_program l p d =
     (if p = native_loader_id l \<or> p = bpf_loader_id l \<or> p = bpf_loader_deprecated_id l \<or>
         (p = bpf_loader_upgradeable_id l \<and>
          \<not> (is_upgrade_instruction l d \<or> is_set_authority_instruction l d \<or>
             (enable_bpf_loader_set_authority_checked_ix l \<and> is_set_authority_checked_instruction l d) \<or>
             (enable_extend_program_checked l \<and> is_extend_program_checked_instruction l d) \<or>
             is_close_instruction l d)) \<or>
         is_precompile l p
      then Inl ProgramNotSupported else Inr ())"

definition check_authorized :: "env \<Rightarrow> cpi_instruction \<Rightarrow> unit res" where
  "check_authorized e ix =
     (case cpi_data_of ix of
        SystemData _ \<Rightarrow> Inr ()
      | RawData d \<Rightarrow> check_authorized_program (loaders_of e) (cpi_program_id ix) d)"

text \<open>\<open>push\<close> refuses an unbalanced caller, \<open>pop\<close> an unbalanced callee.\<close>

definition cpi_common ::
  "env \<Rightarrow> pubkey \<Rightarrow> instruction_account list \<Rightarrow> cpi_instruction \<Rightarrow> pubkey list \<Rightarrow> bytes list list
     \<Rightarrow> vm \<Rightarrow> vm res" where
  "cpi_common e pid caller ix infos seeds v =
     rbind (translate_signers e pid seeds) (\<lambda>signers.
     rbind (check_authorized e ix) (\<lambda>_.
     rbind (prepare_next_cpi_instruction (account_keys (tx v)) caller ix signers) (\<lambda>ias.
     rbind (rfold (translate_account pid caller infos (mem v)) (dedup ias) (tx v)) (\<lambda>t.
     if lamports_delta t \<noteq> 0 then Inl UnbalancedInstruction
     else
     rbind (callee e ix ias t) (\<lambda>t.
     rbind (pop t) (\<lambda>t.
     rfold update_caller_account (dedup ias) (v\<lparr>tx := t\<rparr>)))))))"

text \<open>The calls of the SDK, and the two instructions of the system program the programs build.\<close>

abbreviation invoke_signed ::
  "env \<Rightarrow> pubkey \<Rightarrow> instruction_account list \<Rightarrow> cpi_instruction \<Rightarrow> instruction_account list
     \<Rightarrow> bytes list list \<Rightarrow> vm \<Rightarrow> vm res" where
  "invoke_signed e pid caller ix infos seeds \<equiv> cpi_common e pid caller ix (map key infos) seeds"

abbreviation invoke ::
  "env \<Rightarrow> pubkey \<Rightarrow> instruction_account list \<Rightarrow> cpi_instruction \<Rightarrow> instruction_account list \<Rightarrow> vm \<Rightarrow> vm res" where
  "invoke e pid caller ix infos \<equiv> invoke_signed e pid caller ix infos []"

definition system_create_account :: "pubkey \<Rightarrow> pubkey \<Rightarrow> u64 \<Rightarrow> u64 \<Rightarrow> pubkey \<Rightarrow> cpi_instruction" where
  "system_create_account f g n space own =
     \<lparr>cpi_program_id = system_program_id,
      cpi_accounts = [\<lparr>meta_key = f, meta_signer = True, meta_writable = True\<rparr>,
                      \<lparr>meta_key = g, meta_signer = True, meta_writable = True\<rparr>],
      cpi_data_of = SystemData (CreateAccount n space own)\<rparr>"

definition system_transfer :: "pubkey \<Rightarrow> pubkey \<Rightarrow> u64 \<Rightarrow> cpi_instruction" where
  "system_transfer f g n =
     \<lparr>cpi_program_id = system_program_id,
      cpi_accounts = [\<lparr>meta_key = f, meta_signer = True, meta_writable = True\<rparr>,
                      \<lparr>meta_key = g, meta_signer = False, meta_writable = True\<rparr>],
      cpi_data_of = SystemData (Transfer n)\<rparr>"

section \<open>Account infos\<close>

definition next_account_info :: "instruction_account list \<Rightarrow> (instruction_account \<times> instruction_account list) res" where
  "next_account_info ias = (case ias of [] \<Rightarrow> Inl NotEnoughAccountKeys | a # rest \<Rightarrow> Inr (a, rest))"

text \<open>
  The plain operators of Rust: they panic on overflow when the program was compiled with overflow checks
  and wrap otherwise; a division by zero always panics.
\<close>

definition op_add :: "env \<Rightarrow> 'a::len word \<Rightarrow> 'a word \<Rightarrow> 'a word res" where
  "op_add e a b =
     (if overflow_checks e \<and> 2 ^ LENGTH('a) \<le> unat a + unat b then Inl ProgramFailedToComplete else Inr (a + b))"

definition op_sub :: "env \<Rightarrow> 'a::len word \<Rightarrow> 'a word \<Rightarrow> 'a word res" where
  "op_sub e a b = (if overflow_checks e \<and> a < b then Inl ProgramFailedToComplete else Inr (a - b))"

definition op_mul :: "env \<Rightarrow> 'a::len word \<Rightarrow> 'a word \<Rightarrow> 'a word res" where
  "op_mul e a b =
     (if overflow_checks e \<and> 2 ^ LENGTH('a) \<le> unat a * unat b then Inl ProgramFailedToComplete else Inr (a * b))"

definition op_div :: "'a::len word \<Rightarrow> 'a word \<Rightarrow> 'a word res" where
  "op_div a b = (if b = 0 then Inl ProgramFailedToComplete else Inr (a div b))"

text \<open>Writing the data of an account, and \<open>=\<close>, \<open>-=\<close> and \<open>+=\<close> on its lamports.\<close>

text \<open>
  Waiting for a point in time. The message of the refusal computes the remaining time with a plain subtraction.
\<close>

definition wait_until :: "env \<Rightarrow> instruction_error \<Rightarrow> i64 \<Rightarrow> i64 \<Rightarrow> unit res" where
  "wait_until e err t now =
     (if sint now < sint t
      then if overflow_checks e \<and> \<not> i64_fits (sint t - sint now) then Inl ProgramFailedToComplete else Inl err
      else Inr ())"

lemma wait_until_eq_Inr [rust_simps]: "wait_until e err t now = Inr u \<longleftrightarrow> sint t \<le> sint now"
  by (simp add: wait_until_def)

definition set_mem_data :: "pubkey \<Rightarrow> bytes \<Rightarrow> vm \<Rightarrow> vm" where
  "set_mem_data k d v = v\<lparr>mem := (mem v)(k := (mem v k)\<lparr>data := d\<rparr>)\<rparr>"

definition lamports_assign :: "pubkey \<Rightarrow> u64 \<Rightarrow> vm \<Rightarrow> vm res" where
  "lamports_assign k n v = Inr (v\<lparr>mem := (mem v)(k := (mem v k)\<lparr>lamports := n\<rparr>)\<rparr>)"

definition lamports_sub_assign :: "env \<Rightarrow> pubkey \<Rightarrow> u64 \<Rightarrow> vm \<Rightarrow> vm res" where
  "lamports_sub_assign e k n v =
     (if overflow_checks e \<and> lamports (mem v k) < n then Inl ProgramFailedToComplete
      else Inr (v\<lparr>mem := debit k n (mem v)\<rparr>))"

definition lamports_add_assign :: "env \<Rightarrow> pubkey \<Rightarrow> u64 \<Rightarrow> vm \<Rightarrow> vm res" where
  "lamports_add_assign e k n v =
     (if overflow_checks e \<and> 2 ^ 64 \<le> unat (lamports (mem v k)) + unat n then Inl ProgramFailedToComplete
      else Inr (v\<lparr>mem := credit k n (mem v)\<rparr>))"

text \<open>
  The idiom of the programs to pay out of an account they own, with their error for an overflow:
  \<open>**from = balance - n; **to = to + n\<close>, where the balance was read before.
\<close>

definition move_lamports :: "instruction_error \<Rightarrow> pubkey \<Rightarrow> u64 \<Rightarrow> pubkey \<Rightarrow> u64 \<Rightarrow> vm \<Rightarrow> vm res" where
  "move_lamports overflow from_key balance to_key n v =
     rbind (ok_or (checked_sub balance n) overflow) (\<lambda>b.
     rbind (lamports_assign from_key b v) (\<lambda>v.
     rbind (ok_or (checked_add (lamports (mem v to_key)) n) overflow) (\<lambda>r.
     lamports_assign to_key r v)))"

text \<open>\<open>Account::try_from_slice\<close> on the data of an account, and \<open>serialize\<close> into it.\<close>

definition load_account :: "'a borsh \<Rightarrow> pubkey \<Rightarrow> vm \<Rightarrow> 'a res" where
  "load_account c k v = load c (data (mem v k))"

definition store_account :: "'a borsh \<Rightarrow> 'a \<Rightarrow> pubkey \<Rightarrow> vm \<Rightarrow> vm res" where
  "store_account c x k v = rbind (store c x (data (mem v k))) (\<lambda>d. Inr (set_mem_data k d v))"

text \<open>
  The idiom of programs that keep records with vectors: \<open>try_from_slice\<close> with an error of their own, and
  \<open>data[..bytes.len()].copy_from_slice(&bytes)\<close>, which panics where the account is too short.
\<close>

definition load_or :: "instruction_error \<Rightarrow> 'a borsh \<Rightarrow> pubkey \<Rightarrow> vm \<Rightarrow> 'a res" where
  "load_or err c k v = ok_or (try_from_slice c (data (mem v k))) err"

definition copy_account :: "'a borsh \<Rightarrow> 'a \<Rightarrow> pubkey \<Rightarrow> vm \<Rightarrow> vm res" where
  "copy_account c x k v =
     (let encoded = to_vec c x; d = data (mem v k) in
      if length d < length encoded then Inl ProgramFailedToComplete
      else Inr (set_mem_data k (encoded @ drop (length encoded) d) v))"

section \<open>What an invocation does to the caller's memory\<close>

lemma next_account_info_eq_Inr [rust_simps]: "next_account_info ias = Inr (a, rest) \<longleftrightarrow> ias = a # rest"
  by (cases ias) (auto simp: next_account_info_def)

lemma next_account_info_Cons [simp]: "next_account_info (a # rest) = Inr (a, rest)"
  by (simp add: next_account_info_def)

lemma next_account_info_Nil [simp]: "next_account_info [] = Inl NotEnoughAccountKeys"
  by (simp add: next_account_info_def)

lemma update_callee_account_effect:
  assumes "update_callee_account pid c a t = Inr t'"
  shows "accounts t' = (accounts t)(key c := a)"
proof -
  from assms obtain u v where u: "sync_lamports pid c (lamports a) t = Inr u"
    and v: "sync_data pid c (data a) u = Inr v" and t': "sync_owner pid c (owner a) v = Inr t'"
    by (auto simp: update_callee_account_def rust_simps)
  then show ?thesis
    using sync_lamports_effect(1) [OF u] sync_data_effect(1) [OF v] sync_owner_effect(1) [OF t'] by simp
qed

lemma tracked_update_callee_account [tracked_intros]: "tracked (update_callee_account pid c a)"
  unfolding update_callee_account_def by (intro tracked_intros)

lemma tracked_translate_account [tracked_intros]: "tracked (translate_account pid caller infos m ia)"
  unfolding translate_account_def
  by (rule tracked_constant_guard) (intro tracked_intros)

lemma translate_account_effect:
  assumes "translate_account pid caller infos m ia t = Inr t'"
  shows "accounts t' = (accounts t)(key ia := m (key ia))"
  using assms
  by (auto simp: translate_account_def rust_simps dest!: update_callee_account_effect find_account_Some)

lemma translate_fold_effect:
  "rfold (translate_account pid caller infos m) ias t = Inr t' \<Longrightarrow>
     accounts t' = (\<lambda>k. if k \<in> key ` set ias then m k else accounts t k)"
proof (induction ias arbitrary: t)
  case (Cons ia ias)
  from Cons.prems obtain u where u: "translate_account pid caller infos m ia t = Inr u"
    and rest: "rfold (translate_account pid caller infos m) ias u = Inr t'"
    by (auto simp: rbind_eq_Inr)
  show ?case
    unfolding Cons.IH [OF rest] translate_account_effect [OF u] by auto
qed simp

lemma update_caller_fold_effect:
  "rfold update_caller_account ias v = Inr v' \<Longrightarrow>
     tx v' = tx v \<and> original_data_len v' = original_data_len v \<and>
     mem v' = (\<lambda>k. if k \<in> key ` {ia \<in> set ias. is_writable ia} then accounts (tx v) k else mem v k)"
proof (induction ias arbitrary: v)
  case (Cons ia ias)
  from Cons.prems obtain u where u: "update_caller_account ia v = Inr u"
    and rest: "rfold update_caller_account ias u = Inr v'"
    by (auto simp: rbind_eq_Inr)
  from u have "u = (if is_writable ia then v\<lparr>mem := (mem v)(key ia := accounts (tx v) (key ia))\<rparr> else v)"
    by (auto simp: update_caller_account_def Let_def split: if_splits)
  then show ?case
    using Cons.IH [OF rest] by (auto simp: fun_eq_iff)
qed simp

lemma cpi_common_effect:
  assumes "cpi_common e pid caller ix infos seeds v = Inr v'"
  obtains signers ias t where
    "translate_signers e pid seeds = Inr signers"
    "prepare_next_cpi_instruction (account_keys (tx v)) caller ix signers = Inr ias"
    "accounts t = (\<lambda>k. if k \<in> key ` set ias then mem v k else accounts (tx v) k)"
    "account_keys t = account_keys (tx v)"
    "balance_potential t = balance_potential (tx v)"
    "callee e ix ias t = Inr (tx v')"
    "lamports_delta (tx v') = 0"
    "mem v' = (\<lambda>k. if k \<in> key ` {ia \<in> set (dedup ias). is_writable ia}
                  then accounts (tx v') k else mem v k)"
    "original_data_len v' = original_data_len v"
proof -
  from assms obtain signers ias t where
    1: "translate_signers e pid seeds = Inr signers"
      "prepare_next_cpi_instruction (account_keys (tx v)) caller ix signers = Inr ias"
    and 2: "rfold (translate_account pid caller infos (mem v)) (dedup ias) (tx v) = Inr t"
    and 3: "\<exists>u. callee e ix ias t = Inr u \<and> lamports_delta u = 0 \<and>
      rfold update_caller_account (dedup ias) (v\<lparr>tx := u\<rparr>) = Inr v'"
    by (auto simp: cpi_common_def pop_def rust_simps)
  from 3 obtain u where u: "callee e ix ias t = Inr u" "lamports_delta u = 0"
    and fold: "rfold update_caller_account (dedup ias) (v\<lparr>tx := u\<rparr>) = Inr v'"
    by blast
  have eff: "tx v' = u" "original_data_len v' = original_data_len v"
    "mem v' = (\<lambda>k. if k \<in> key ` {ia \<in> set (dedup ias). is_writable ia} then accounts (tx v') k else mem v k)"
    using update_caller_fold_effect [OF fold] by (auto simp: fun_eq_iff)
  have tr: "account_keys t = account_keys (tx v) \<and> balance_potential t = balance_potential (tx v)"
    by (rule trackedD [OF tracked_rfold 2]) (rule tracked_translate_account)
  show thesis
    by (rule that [OF 1, of t]) (use translate_fold_effect [OF 2] tr u eff in simp_all)
qed

lemma tracked_callee: "callees_tracked e \<Longrightarrow> tracked (callee e ix ias)"
  by (rule trackedI, cases "cpi_data_of ix")
    (auto simp: callee_def callees_tracked_def dest: trackedD [OF tracked_system_process] trackedD)

lemma cpi_common_tracked:
  assumes "callees_tracked e" and "cpi_common e pid caller ix infos seeds v = Inr v'"
  shows "account_keys (tx v') = account_keys (tx v) \<and> balance_potential (tx v') = balance_potential (tx v)"
  by (rule cpi_common_effect [OF assms(2)]) (use trackedD [OF tracked_callee [OF assms(1)]] in auto)

text \<open>
  No invocation makes an account grow beyond the limit, counted from its length at the program's entry.
\<close>

lemma update_caller_fold_growth:
  "rfold update_caller_account ias v = Inr v' \<Longrightarrow>
     length (data (mem v' k)) \<le> original_data_len v k + MAX_ACCOUNT_DATA_GROWTH_PER_INSTRUCTION \<or>
     length (data (mem v' k)) = length (data (mem v k))"
proof (induction ias arbitrary: v)
  case (Cons ia ias)
  from Cons.prems obtain u where u: "update_caller_account ia v = Inr u"
    and rest: "rfold update_caller_account ias u = Inr v'"
    by (auto simp: rbind_eq_Inr)
  have "original_data_len u = original_data_len v"
    and "length (data (mem u k)) \<le> original_data_len v k + MAX_ACCOUNT_DATA_GROWTH_PER_INSTRUCTION \<or>
      length (data (mem u k)) = length (data (mem v k))"
    using u by (auto simp: update_caller_account_def Let_def split: if_splits)
  with Cons.IH [OF rest] show ?case by auto
qed simp

lemma cpi_common_growth:
  assumes "cpi_common e pid caller ix infos seeds v = Inr v'"
  shows "length (data (mem v' k)) \<le> original_data_len v k + MAX_ACCOUNT_DATA_GROWTH_PER_INSTRUCTION \<or>
     length (data (mem v' k)) = length (data (mem v k))"
proof -
  from assms obtain ias t where "rfold update_caller_account (dedup ias) (v\<lparr>tx := t\<rparr>) = Inr v'"
    by (auto simp: cpi_common_def rbind_eq_Inr split: if_splits)
  then show ?thesis using update_caller_fold_growth [of "dedup ias" "v\<lparr>tx := t\<rparr>" v' k] by simp
qed

text \<open>Accounts the instruction does not name keep their copy.\<close>

lemma cpi_common_frame:
  assumes "cpi_common e pid caller ix infos seeds v = Inr v'" and "k \<notin> meta_key ` set (cpi_accounts ix)"
  shows "mem v' k = mem v k"
proof (rule cpi_common_effect [OF assms(1)])
  fix signers ias t
  assume prep: "prepare_next_cpi_instruction (account_keys (tx v)) caller ix signers = Inr ias"
    and m: "mem v' = (\<lambda>k. if k \<in> key ` {ia \<in> set (dedup ias). is_writable ia} then accounts (tx v') k else mem v k)"
  have "key ` set ias = meta_key ` set (cpi_accounts ix)"
    using prepare_keys [OF prep] by (metis list.set_map)
  then have "k \<notin> key ` {ia \<in> set (dedup ias). is_writable ia}"
    using assms(2) set_dedup_subset [of ias] by (metis (no_types, lifting) imageE image_eqI mem_Collect_eq subsetD)
  then show ?thesis unfolding m by simp
qed

text \<open>A call of \<open>Transfer\<close>, seen from the caller.\<close>

lemma dedup_pair_keys:
  assumes "map key ias = [f, g]" and "is_writable (ias ! 0)" and "is_writable (ias ! 1)"
  shows "key ` {ia \<in> set (dedup ias). is_writable ia} = {f, g}" and "key ` set ias = {f, g}"
proof -
  from assms(1) obtain a b where "ias = [a, b]" "key a = f" "key b = g" by (auto simp: map_eq_Cons_conv)
  then show "key ` {ia \<in> set (dedup ias). is_writable ia} = {f, g}" and "key ` set ias = {f, g}"
    using assms(2,3) by auto
qed

lemma privileged_signer: "privileged caller [] ia \<Longrightarrow> is_signer ia \<Longrightarrow> \<exists>c \<in> set caller. key c = key ia \<and> is_signer c"
  by (auto simp: privileged_def dest!: find_account_Some)

lemma privileged_writable: "privileged caller s ia \<Longrightarrow> is_writable ia \<Longrightarrow> \<exists>c \<in> set caller. key c = key ia \<and> is_writable c"
  by (auto simp: privileged_def dest!: find_account_Some)

lemma invoke_transfer_effect:
  assumes "cpi_common e pid caller (system_transfer f g n) infos seeds v = Inr v'"
  shows "mem v' = pay f g n (mem v)" and "payable f g n (mem v)"
    and "data (mem v f) = []" and "n \<noteq> 0 \<Longrightarrow> owner (mem v f) = system_program_id"
    and "original_data_len v' = original_data_len v"
    and "\<exists>s. translate_signers e pid seeds = Inr s \<and> (\<exists>c \<in> set caller. key c = f \<and> (is_signer c \<or> f \<in> set s))"
proof -
  obtain signers ias t where s: "translate_signers e pid seeds = Inr signers"
    and ias: "prepare_next_cpi_instruction (account_keys (tx v)) caller (system_transfer f g n) signers = Inr ias"
    and t: "accounts t = (\<lambda>k. if k \<in> key ` set ias then mem v k else accounts (tx v) k)"
    and c: "callee e (system_transfer f g n) ias t = Inr (tx v')"
    and m: "mem v' = (\<lambda>k. if k \<in> key ` {ia \<in> set (dedup ias). is_writable ia} then accounts (tx v') k else mem v k)"
    and o: "original_data_len v' = original_data_len v"
    by (rule cpi_common_effect [OF assms])
  have keys: "map key ias = [f, g]" using prepare_keys [OF ias] by (simp add: system_transfer_def)
  then have nth: "key (ias ! 0) = f" "key (ias ! 1) = g" and len: "length ias = 2"
    by (auto simp: map_eq_Cons_conv)
  from c have "transfer 0 1 n ias t = Inr (tx v')"
    by (auto simp: callee_def system_transfer_def rust_simps)
  note eff = transfer_effect [OF this, unfolded nth]
  note pair = dedup_pair_keys [OF keys eff(4,5)]
  have tf: "accounts t f = mem v f" and tg: "accounts t g = mem v g"
    using t pair by auto
  have p: "payable f g n (mem v)" "pay f g n (accounts t) f = pay f g n (mem v) f" "pay f g n (accounts t) g = pay f g n (mem v) g"
    using eff(2) tf tg by (auto simp: payable_def pay_def debit_def credit_def)
  show "mem v' = pay f g n (mem v)"
    unfolding m pair eff(1) using p(2,3) by (auto simp: fun_eq_iff)
  show "payable f g n (mem v)" "data (mem v f) = []" "original_data_len v' = original_data_len v"
    using p(1) eff(6) tf o by auto
  show "owner (mem v f) = system_program_id" if "n \<noteq> 0" using eff(7) [OF that] tf by simp
  have "privileged caller signers (ias ! 0)"
    by (rule prepare_privileged [OF ias]) (use len in simp)
  then show "\<exists>s. translate_signers e pid seeds = Inr s \<and> (\<exists>c \<in> set caller. key c = f \<and> (is_signer c \<or> f \<in> set s))"
    using s eff(3) nth by (auto simp: privileged_def dest!: find_account_Some)
qed

text \<open>A call of \<open>CreateAccount\<close>, seen from the caller: the new account was untouched before.\<close>

definition fresh_account :: "u64 \<Rightarrow> pubkey \<Rightarrow> account" where
  "fresh_account space own = \<lparr>lamports = 0, data = replicate (unat space) 0, owner = own\<rparr>"

lemma invoke_create_account_effect:
  assumes "cpi_common e pid caller (system_create_account f g n space own) infos seeds v = Inr v'"
  defines "m \<equiv> (mem v)(g := fresh_account space own)"
  shows "mem v' = pay f g n m" and "payable f g n m"
    and "mem v g = \<lparr>lamports = 0, data = [], owner = system_program_id\<rparr>"
    and "original_data_len v' = original_data_len v"
    and "\<exists>s. translate_signers e pid seeds = Inr s \<and> (\<exists>c \<in> set caller. key c = f \<and> (is_signer c \<or> f \<in> set s))"
proof -
  let ?ix = "system_create_account f g n space own"
  obtain signers ias t where s: "translate_signers e pid seeds = Inr signers"
    and ias: "prepare_next_cpi_instruction (account_keys (tx v)) caller ?ix signers = Inr ias"
    and t: "accounts t = (\<lambda>k. if k \<in> key ` set ias then mem v k else accounts (tx v) k)"
    and c: "callee e ?ix ias t = Inr (tx v')"
    and m: "mem v' = (\<lambda>k. if k \<in> key ` {ia \<in> set (dedup ias). is_writable ia} then accounts (tx v') k else mem v k)"
    and o: "original_data_len v' = original_data_len v"
    by (rule cpi_common_effect [OF assms(1)])
  have keys: "map key ias = [f, g]" using prepare_keys [OF ias] by (simp add: system_create_account_def)
  then have nth: "key (ias ! 0) = f" "key (ias ! 1) = g" and len: "length ias = 2"
    by (auto simp: map_eq_Cons_conv)
  from c have "create_account 0 1 \<lparr>addr = key (ias ! 1), base = None\<rparr> n space own ias t = Inr (tx v')"
    by (auto simp: callee_def system_create_account_def nth_account_def address_create_def rust_simps)
  note eff = create_account_effect [OF this, unfolded nth, folded fresh_account_def]
  note pair = dedup_pair_keys [OF keys eff(8,9)]
  let ?t = "(accounts t)(g := fresh_account space own)"
  have tf: "?t f = m f" and tg: "?t g = m g" and g: "accounts t g = mem v g"
    using t pair by (auto simp: m_def)
  have p: "payable f g n m" "pay f g n ?t f = pay f g n m f" "pay f g n ?t g = pay f g n m g"
    using eff(2) tf tg by (auto simp: payable_def pay_def debit_def credit_def)
  show "mem v' = pay f g n m"
    unfolding m pair eff(1) using p(2,3) by (auto simp: fun_eq_iff m_def)
  show "payable f g n m" "original_data_len v' = original_data_len v"
    "mem v g = \<lparr>lamports = 0, data = [], owner = system_program_id\<rparr>"
    using p(1) o eff(3) g by auto
  have "privileged caller signers (ias ! 0)"
    by (rule prepare_privileged [OF ias]) (use len in simp)
  then show "\<exists>s. translate_signers e pid seeds = Inr s \<and> (\<exists>c \<in> set caller. key c = f \<and> (is_signer c \<or> f \<in> set s))"
    using s eff(4) nth by (auto simp: privileged_def dest!: find_account_Some)
qed

text \<open>Steps of a program that leave the transaction's accounts alone.\<close>

lemma set_mem_data_simps [simp]:
  "tx (set_mem_data k d v) = tx v" "original_data_len (set_mem_data k d v) = original_data_len v"
  "mem (set_mem_data k d v) = (mem v)(k := (mem v k)\<lparr>data := d\<rparr>)"
  by (simp_all add: set_mem_data_def)

lemma lamports_assign_eq_Inr [rust_simps]:
  "lamports_assign k n v = Inr v' \<longleftrightarrow> v' = v\<lparr>mem := (mem v)(k := (mem v k)\<lparr>lamports := n\<rparr>)\<rparr>"
  by (auto simp: lamports_assign_def)

lemma move_lamports_effect:
  assumes "move_lamports err k (lamports (mem v k)) j n v = Inr v'"
  shows "v' = v\<lparr>mem := pay k j n (mem v)\<rparr>" and "payable k j n (mem v)"
  using assms by (auto simp: move_lamports_def rbind_eq_Inr ok_or_eq_Inr lamports_assign_eq_Inr checked_sub_def
      checked_add_def payable_def pay_def credit_def debit_def word_le_nat_alt split: if_splits)

lemma lamports_sub_assign_effect:
  assumes "lamports_sub_assign e k n v = Inr v'"
  shows "v' = v\<lparr>mem := debit k n (mem v)\<rparr>"
  using assms by (auto simp: lamports_sub_assign_def split: if_splits)

lemma lamports_add_assign_effect:
  assumes "lamports_add_assign e k n v = Inr v'"
  shows "v' = v\<lparr>mem := credit k n (mem v)\<rparr>"
  using assms by (auto simp: lamports_add_assign_def split: if_splits)

lemma lamports_assign_tx:
  "lamports_sub_assign e k n v = Inr v' \<Longrightarrow> tx v' = tx v"
  "lamports_add_assign e k n v = Inr v' \<Longrightarrow> tx v' = tx v"
  by (auto dest: lamports_sub_assign_effect lamports_add_assign_effect)

lemma word_total_debit [simp]: "k \<in> set ks \<Longrightarrow> word_total ks (debit k n m) = word_total ks m - n"
  by (simp add: debit_def word_total_upd)

lemma word_total_credit [simp]: "k \<in> set ks \<Longrightarrow> word_total ks (credit k n m) = word_total ks m + n"
  by (simp add: credit_def word_total_upd)

lemma debit_credit_other [simp]: "j \<noteq> k \<Longrightarrow> debit k n m j = m j" "j \<noteq> k \<Longrightarrow> credit k n m j = m j"
  by (simp_all add: debit_def credit_def)

lemma word_total_data [simp]: "word_total ks (m(k := (m k)\<lparr>data := d\<rparr>)) = word_total ks m"
  by (cases "k \<in> set ks") (simp_all add: word_total_upd, auto simp: word_total_def intro!: sum.cong)

lemma load_or_eq_Inr [rust_simps]: "load_or err c k v = Inr x \<longleftrightarrow> try_from_slice c (data (mem v k)) = Some x"
  by (simp add: load_or_def ok_or_eq_Inr)

lemma copy_account_eq_Inr:
  "copy_account c x k v = Inr v' \<longleftrightarrow> length (to_vec c x) \<le> length (data (mem v k)) \<and>
     v' = set_mem_data k (to_vec c x @ drop (length (to_vec c x)) (data (mem v k))) v"
  by (auto simp: copy_account_def Let_def not_le)

lemma store_account_eq_Inr [rust_simps]:
  "store_account c x k v = Inr v' \<longleftrightarrow> (\<exists>d. store c x (data (mem v k)) = Inr d \<and> v' = set_mem_data k d v)"
  by (auto simp: store_account_def rust_simps)

subsection \<open>Records of two kinds\<close>

text \<open>
  Most programs keep records of two kinds in accounts of different sizes. An account then holds a
  record of one kind at most, and storing one record and then the other changes exactly these two.
\<close>

locale account_pair = fst: borsh_struct ca la + snd: borsh_struct cb lb
  for ca :: "'a borsh" and la :: nat and cb :: "'b borsh" and lb :: nat +
  assumes lengths: "la \<noteq> lb"
begin

lemma swapped: "account_pair cb lb ca la"
  using lengths by (intro account_pair.intro account_pair_axioms.intro snd.borsh_struct_axioms fst.borsh_struct_axioms) simp

lemma kinds_apart: "load ca d = Inr x \<Longrightarrow> load cb d' = Inr y \<Longrightarrow> d \<noteq> d'"
  using fst.load_length [of d x] snd.load_length [of d' y] lengths by auto

lemma accounts_apart: "load ca (data (m k)) = Inr x \<Longrightarrow> load cb (data (m j)) = Inr y \<Longrightarrow> k \<noteq> j"
  using kinds_apart [of "data (m k)" x "data (m j)" y] by auto

lemma store_fst:
  assumes "length (data (mem v k)) = la" and "store_account ca x k v = Inr u"
  shows "load ca (data (mem u k)) = Inr x" and "lamports (mem u i) = lamports (mem v i)"
    and "owner (mem u i) = owner (mem v i)" and "i \<noteq> k \<Longrightarrow> mem u i = mem v i" and "tx u = tx v"
proof -
  from assms(2) obtain d where d: "store ca x (data (mem v k)) = Inr d" and u: "u = set_mem_data k d v"
    by (auto simp: store_account_eq_Inr)
  show "load ca (data (mem u k)) = Inr x" using fst.load_store [OF assms(1) d] u by simp
  show "lamports (mem u i) = lamports (mem v i)" "owner (mem u i) = owner (mem v i)" "tx u = tx v" by (simp_all add: u)
  show "mem u i = mem v i" if "i \<noteq> k" using that by (simp add: u)
qed

lemma store_two:
  assumes x: "length (data (mem v k)) = la" and u: "store_account ca x k v = Inr u"
    and y: "length (data (mem u j)) = lb" and v': "store_account cb y j u = Inr v'"
  shows "load ca (data (mem v' k)) = Inr x" and "load cb (data (mem v' j)) = Inr y"
    and "data (mem u j) = data (mem v j)" and "k \<noteq> j" and "lamports (mem v' i) = lamports (mem v i)"
    and "owner (mem v' i) = owner (mem v i)" and "i \<noteq> k \<Longrightarrow> i \<noteq> j \<Longrightarrow> mem v' i = mem v i" and "tx v' = tx v"
proof -
  note eu = store_fst [OF x u] and ev = account_pair.store_fst [OF swapped y v']
  show ne: "k \<noteq> j" using fst.load_length [OF eu(1)] y lengths by auto
  then show "load ca (data (mem v' k)) = Inr x" using eu(1) ev(4) by simp
  show "load cb (data (mem v' j)) = Inr y" by (rule ev(1))
  show "data (mem u j) = data (mem v j)" using eu(4) [of j] ne by simp
  show "lamports (mem v' i) = lamports (mem v i)" "owner (mem v' i) = owner (mem v i)" "tx v' = tx v"
    by (simp_all add: eu ev)
  show "mem v' i = mem v i" if "i \<noteq> k" "i \<noteq> j" using eu(4) [OF that(1)] ev(4) [OF that(2)] by simp
qed

end

subsection \<open>Handlers that keep the balance potential\<close>

text \<open>
  A handler may change its own copies of the accounts, but reaches the transaction's accounts only
  through invocations. \<open>keeps v r\<close>: the memory in the result \<open>r\<close> has the transaction of \<open>v\<close> up to
  changes that keep the list of accounts and the balance potential. The rules follow the shape of the
  handlers, so a handler is discharged by \<open>intro keeps_intros\<close>.
\<close>

definition keeps :: "vm \<Rightarrow> vm res \<Rightarrow> bool" where
  "keeps v r \<longleftrightarrow> (\<forall>v'. r = Inr v' \<longrightarrow>
     account_keys (tx v') = account_keys (tx v) \<and> balance_potential (tx v') = balance_potential (tx v))"

lemma keepsD: "keeps v (Inr v') \<Longrightarrow>
    account_keys (tx v') = account_keys (tx v) \<and> balance_potential (tx v') = balance_potential (tx v)"
  by (simp add: keeps_def)

lemma keeps_tx: "tx u = tx v \<Longrightarrow> keeps u r \<longleftrightarrow> keeps v r"
  by (simp add: keeps_def)

lemma keeps_Inl: "keeps v (Inl x)"
  by (simp add: keeps_def)

lemma keeps_Inr: "keeps v (Inr v)"
  by (simp add: keeps_def)

lemma keeps_bind_vm: "keeps v m \<Longrightarrow> (\<And>u. keeps u (f u)) \<Longrightarrow> keeps v (rbind m f)"
  by (fastforce simp: keeps_def rbind_eq_Inr)

lemma keeps_bind: "(\<And>x. keeps v (f x)) \<Longrightarrow> keeps v (rbind m f)"
  by (auto simp: keeps_def rbind_eq_Inr)

lemma keeps_if: "keeps v a \<Longrightarrow> keeps v b \<Longrightarrow> keeps v (if c then a else b)"
  by simp

lemma keeps_let: "(\<And>x. keeps v (f x)) \<Longrightarrow> keeps v (Let a f)"
  by (simp add: Let_def)

lemma keeps_case_prod: "(\<And>a b. keeps v (f a b)) \<Longrightarrow> keeps v (case p of (a, b) \<Rightarrow> f a b)"
  by (cases p) simp

lemma keeps_case_option: "keeps v a \<Longrightarrow> (\<And>x. keeps v (f x)) \<Longrightarrow> keeps v (case p of None \<Rightarrow> a | Some x \<Rightarrow> f x)"
  by (cases p) simp_all

lemma keeps_store_account: "keeps v (store_account c x k v)"
  by (auto simp: keeps_def store_account_eq_Inr)

lemma keeps_lamports:
  "keeps v (lamports_assign k n v)"
  "keeps v (lamports_sub_assign e k n v)" "keeps v (lamports_add_assign e k n v)"
  by (auto simp: keeps_def lamports_assign_def dest: lamports_assign_tx)

lemma keeps_move_lamports: "keeps v (move_lamports err k b j n v)"
  unfolding move_lamports_def by (intro keeps_lamports keeps_bind_vm keeps_bind)

lemma keeps_copy_account: "keeps v (copy_account c x k v)"
  by (simp add: copy_account_def Let_def keeps_def set_mem_data_def)

lemma keeps_set_mem_data: "keeps v (Inr (set_mem_data k d v))"
  by (simp add: keeps_def)

lemmas keeps_intros = keeps_copy_account keeps_set_mem_data keeps_move_lamports keeps_store_account keeps_lamports keeps_bind_vm keeps_bind keeps_if keeps_let
  keeps_case_prod keeps_case_option keeps_Inl keeps_Inr

section \<open>Chains\<close>

text \<open>
  A chain provides an environment whose other programs keep the balance potential. Every program of
  the repository is an \<open>onchain_program\<close> on every chain: the program theories prove it as a
  \<open>sublocale\<close>.
\<close>

locale chain =
  fixes e :: env
  assumes callees: "callees_tracked e"
begin

lemmas invoke_tracked = cpi_common_tracked [OF callees]

lemma keeps_invoke: "keeps v (cpi_common e pid caller ix infos seeds v)"
  by (auto simp: keeps_def dest: invoke_tracked)

end

text \<open>A chain with the system program only. Derived addresses come from a given function of the seeds.\<close>

definition sample_loaders :: loaders where
  "sample_loaders =
     \<lparr>native_loader_id = 1000001, bpf_loader_id = 1000002, bpf_loader_deprecated_id = 1000003,
      bpf_loader_upgradeable_id = 1000004, is_upgrade_instruction = (\<lambda>_. False),
      is_set_authority_instruction = (\<lambda>_. False), is_set_authority_checked_instruction = (\<lambda>_. False),
      is_extend_program_checked_instruction = (\<lambda>_. False), is_close_instruction = (\<lambda>_. False),
      enable_bpf_loader_set_authority_checked_ix = False, enable_extend_program_checked = False,
      is_precompile = (\<lambda>_. False)\<rparr>"

definition native_env ::
  "(bytes list \<Rightarrow> pubkey \<Rightarrow> pubkey \<times> u8) \<Rightarrow> (nat \<Rightarrow> u64) \<Rightarrow> clock \<Rightarrow> (bytes \<Rightarrow> bytes) \<Rightarrow> env" where
  "native_env derive rent clk h =
     \<lparr>create_program_address = (\<lambda>seeds p. if seeds = [] then None else Some (fst (derive (butlast seeds) p))),
      find_program_address = derive, create_with_seed = (\<lambda>_ _ _. Inl InvalidSeeds),
      rent_get = Inr rent, clock_get = Inr clk, clock_from_account_info = (\<lambda>_ _. Inr clk), sha256 = h,
      other_program = (\<lambda>_ _ _ _. Inl UnsupportedProgramId), loaders_of = sample_loaders, allow_prefund = False, overflow_checks = False\<rparr>"

lemma native_env_ok: "callees_tracked (native_env derive rent clk h)" "derivation_ok (native_env derive rent clk h)"
  by (simp_all add: native_env_def callees_tracked_def derivation_ok_def tracked_Inl)

interpretation native: chain "native_env derive rent clk h" for derive rent clk h
  by unfold_locales (rule native_env_ok(1))

lemmas cpi_eval = native_env_def cpi_common_def translate_signers_def translate_signer_def MAX_SIGNERS_def
  MAX_SEEDS_def check_authorized_def check_authorized_program_def sample_loaders_def prepare_next_cpi_instruction_def
  merge_meta_def check_privileges_def translate_account_def update_callee_account_def
  update_caller_account_def callee_def system_create_account_def system_transfer_def
  load_account_def store_account_def lamports_assign_def lamports_sub_assign_def lamports_add_assign_def
  debit_def credit_def pay_def

section \<open>Properties\<close>

text \<open>
  C3. No privilege escalation. The accounts a callee receives are those named by the instruction, in
  its order; each of them is an account of the caller, writable only if the caller held it writable,
  and signed only if it was signed in the caller or is one of the addresses the caller's seeds derive.
  The called program is itself among the caller's accounts.
\<close>

theorem cpi_no_privilege_escalation:
  assumes "prepare_next_cpi_instruction keys caller ix signers = Inr ias"
  shows "map key ias = map meta_key (cpi_accounts ix) \<and>
    cpi_program_id ix \<in> key ` set caller \<and>
    (\<forall>ia \<in> set ias. \<exists>c \<in> set caller. key c = key ia \<and> (is_writable ia \<longrightarrow> is_writable c) \<and>
       (is_signer ia \<longrightarrow> is_signer c \<or> key ia \<in> set signers))"
proof -
  have "find_account (cpi_program_id ix) caller \<noteq> None"
    using assms by (auto simp: prepare_next_cpi_instruction_def rust_simps)
  then have "cpi_program_id ix \<in> key ` set caller" by (simp add: find_account_None)
  moreover have "\<exists>c \<in> set caller. key c = key ia \<and> (is_writable ia \<longrightarrow> is_writable c) \<and>
       (is_signer ia \<longrightarrow> is_signer c \<or> key ia \<in> set signers)" if "ia \<in> set ias" for ia
    using prepare_privileged [OF assms that] by (auto simp: privileged_def dest!: find_account_Some)
  ultimately show ?thesis using prepare_keys [OF assms] by blast
qed

theorem cpi_no_privilege_escalation_witness:
  "let caller = [account_ref 1 True True, account_ref 2 False True, account_ref 0 False False];
       ix = system_create_account 1 2 50 0 9
   in (\<exists>ias. prepare_next_cpi_instruction [1, 2, 0] caller ix [2] = Inr ias \<and> map key ias = [1, 2]) \<and>
      prepare_next_cpi_instruction [1, 2, 0] caller ix [] = Inl PrivilegeEscalation"
proof -
  let ?caller = "[account_ref 1 True True, account_ref 2 False True, account_ref 0 False False]"
  let ?ix = "system_create_account 1 2 50 0 9"
  obtain ias where run: "prepare_next_cpi_instruction [1, 2, 0] ?caller ?ix [2] = Inr ias"
    by (simp add: cpi_eval ok_or_def system_program_id_def)
  have bad: "prepare_next_cpi_instruction [1, 2, 0] ?caller ?ix [] = Inl PrivilegeEscalation"
    by (simp add: cpi_eval ok_or_def)
  show ?thesis
    using run bad cpi_no_privilege_escalation [OF run] by (simp add: system_create_account_def)
qed

end
