(* ===== verification/FeeBurn.thy ===== *)
theory FeeBurn
  imports Cpi
begin

text \<open>
  The fee distribution program (\<open>programs/fee-burn/src/lib.rs\<close>): a global state account holds four
  shares in basis points; \<open>DistributeFee\<close> splits a fee between burning, the validator, the treasury
  and the staker pool.

  The lemmas show that the split is exact, that the shares always sum to 10000 basis points, and,
  together with the runtime's balance check, that an instruction that really burns is always
  rejected. Log output is not modelled.
\<close>

section \<open>Definitions\<close>

definition FEE_STATE_SEED :: bytes where
  "FEE_STATE_SEED = ascii ''prism_fee_state''"

definition BPS_DENOMINATOR :: u64 where "BPS_DENOMINATOR = 10000"
definition BURN_RATE_BPS :: u64 where "BURN_RATE_BPS = 5000"
definition VALIDATOR_SHARE_BPS :: u64 where "VALIDATOR_SHARE_BPS = 3000"
definition TREASURY_SHARE_BPS :: u64 where "TREASURY_SHARE_BPS = 1000"
definition STAKER_SHARE_BPS :: u64 where "STAKER_SHARE_BPS = 1000"

record fee_state =
  is_initialized :: bool
  authority :: pubkey
  treasury :: pubkey
  staker_pool :: pubkey
  total_burned :: u64
  total_validator_rewards :: u64
  total_treasury_deposits :: u64
  total_staker_rewards :: u64
  total_events :: u64
  burn_rate_bps :: u64
  validator_share_bps :: u64
  treasury_share_bps :: u64
  staker_share_bps :: u64
  last_event_slot :: u64
  bump :: u8

definition FeeState_LEN :: nat where
  "FeeState_LEN = 1 + 32 + 32 + 32 + 8 + 8 + 8 + 8 + 8 + 8 + 8 + 8 + 8 + 8 + 1"

datatype fee_burn_instruction =
    Initialize
  | DistributeFee u64
  | UpdateParams u64 u64 u64 u64
  | QueryStats

datatype fee_burn_error =
    AlreadyInitialized | NotInitialized | Unauthorized | Overflow | InvalidFeeShares | ZeroFeeAmount

text \<open>\<open>ProgramError::Custom(e as u32)\<close>.\<close>

fun fee_burn_err :: "fee_burn_error \<Rightarrow> instruction_error" where
  "fee_burn_err AlreadyInitialized = Custom 0"
| "fee_burn_err NotInitialized = Custom 1"
| "fee_burn_err Unauthorized = Custom 2"
| "fee_burn_err Overflow = Custom 3"
| "fee_burn_err InvalidFeeShares = Custom 4"
| "fee_burn_err ZeroFeeAmount = Custom 5"

record fee_burn_codecs =
  fee_state_codec :: "fee_state borsh"
  fee_burn_instruction_codec :: "fee_burn_instruction borsh"

definition initial_fee_state :: "pubkey \<Rightarrow> pubkey \<Rightarrow> pubkey \<Rightarrow> u8 \<Rightarrow> fee_state" where
  "initial_fee_state auth treas pool b =
     \<lparr>is_initialized = True, authority = auth, treasury = treas, staker_pool = pool,
      total_burned = 0, total_validator_rewards = 0, total_treasury_deposits = 0,
      total_staker_rewards = 0, total_events = 0,
      burn_rate_bps = BURN_RATE_BPS, validator_share_bps = VALIDATOR_SHARE_BPS,
      treasury_share_bps = TREASURY_SHARE_BPS, staker_share_bps = STAKER_SHARE_BPS,
      last_event_slot = 0, bump = b\<rparr>"

definition fee_burn_process_initialize ::
  "env \<Rightarrow> fee_burn_codecs \<Rightarrow> pubkey \<Rightarrow> instruction_account list \<Rightarrow> vm \<Rightarrow> vm res" where
  "fee_burn_process_initialize e c program_id ias v =
     rbind (next_account_info ias) (\<lambda>(auth, it).
     rbind (next_account_info it) (\<lambda>(fee_state_account, it).
     rbind (next_account_info it) (\<lambda>(treas, it).
     rbind (next_account_info it) (\<lambda>(pool, it).
     rbind (next_account_info it) (\<lambda>(system_program, it).
     if \<not> is_signer auth then Inl MissingRequiredSignature
     else
     let (fee_state_pda, b) = find_program_address e [FEE_STATE_SEED] program_id
     in
     if fee_state_pda \<noteq> key fee_state_account then Inl InvalidSeeds
     else
     rbind (rent_get e) (\<lambda>minimum_balance.
     rbind (invoke_signed e program_id ias
              (system_create_account (key auth) (key fee_state_account)
                 (minimum_balance FeeState_LEN) (word_of_nat FeeState_LEN) program_id)
              [auth, fee_state_account, system_program] [[FEE_STATE_SEED, [b]]] v) (\<lambda>v.
     store_account (fee_state_codec c) (initial_fee_state (key auth) (key treas) (key pool) b)
       (key fee_state_account) v)))))))"

text \<open>The four parts of a fee: the staker part takes what rounding leaves.\<close>

definition fee_shares :: "fee_state \<Rightarrow> u64 \<Rightarrow> (u64 \<times> u64 \<times> u64 \<times> u64) res" where
  "fee_shares state fee_amount =
     rbind (ok_or (checked_mul fee_amount (burn_rate_bps state)) (fee_burn_err Overflow)) (\<lambda>x.
     let burn_amount = x div BPS_DENOMINATOR in
     rbind (ok_or (checked_mul fee_amount (validator_share_bps state)) (fee_burn_err Overflow)) (\<lambda>x.
     let validator_amount = x div BPS_DENOMINATOR in
     rbind (ok_or (checked_mul fee_amount (treasury_share_bps state)) (fee_burn_err Overflow)) (\<lambda>x.
     let treasury_amount = x div BPS_DENOMINATOR in
     rbind (ok_or (checked_sub fee_amount burn_amount) (fee_burn_err Overflow)) (\<lambda>x.
     rbind (ok_or (checked_sub x validator_amount) (fee_burn_err Overflow)) (\<lambda>x.
     rbind (ok_or (checked_sub x treasury_amount) (fee_burn_err Overflow)) (\<lambda>staker_amount.
     Inr (burn_amount, validator_amount, treasury_amount, staker_amount)))))))"

definition move_fee ::
  "env \<Rightarrow> pubkey \<Rightarrow> pubkey \<Rightarrow> pubkey \<Rightarrow> pubkey \<Rightarrow> u64 \<times> u64 \<times> u64 \<times> u64 \<Rightarrow> vm \<Rightarrow> vm res" where
  "move_fee e payer validator treas pool = (\<lambda>(burn_amount, validator_amount, treasury_amount, staker_amount) v.
     rbind (lamports_sub_assign e payer burn_amount v) (\<lambda>v.
     rbind (lamports_sub_assign e payer validator_amount v) (\<lambda>v.
     rbind (lamports_add_assign e validator validator_amount v) (\<lambda>v.
     rbind (lamports_sub_assign e payer treasury_amount v) (\<lambda>v.
     rbind (lamports_add_assign e treas treasury_amount v) (\<lambda>v.
     rbind (lamports_sub_assign e payer staker_amount v) (\<lambda>v.
     lamports_add_assign e pool staker_amount v)))))))"

definition record_fee :: "clock \<Rightarrow> u64 \<times> u64 \<times> u64 \<times> u64 \<Rightarrow> fee_state \<Rightarrow> fee_state res" where
  "record_fee clk = (\<lambda>(burn_amount, validator_amount, treasury_amount, staker_amount) state.
     rbind (ok_or (checked_add (total_burned state) burn_amount) (fee_burn_err Overflow)) (\<lambda>burned.
     rbind (ok_or (checked_add (total_validator_rewards state) validator_amount) (fee_burn_err Overflow)) (\<lambda>val.
     rbind (ok_or (checked_add (total_treasury_deposits state) treasury_amount) (fee_burn_err Overflow)) (\<lambda>treas.
     rbind (ok_or (checked_add (total_staker_rewards state) staker_amount) (fee_burn_err Overflow)) (\<lambda>pool.
     rbind (ok_or (checked_add (total_events state) 1) (fee_burn_err Overflow)) (\<lambda>events.
     Inr (state\<lparr>total_burned := burned, total_validator_rewards := val, total_treasury_deposits := treas,
                total_staker_rewards := pool, total_events := events, last_event_slot := slot clk\<rparr>)))))))"

definition fee_burn_process_distribute_fee ::
  "env \<Rightarrow> fee_burn_codecs \<Rightarrow> u64 \<Rightarrow> instruction_account list \<Rightarrow> vm \<Rightarrow> vm res" where
  "fee_burn_process_distribute_fee e c fee_amount ias v =
     rbind (next_account_info ias) (\<lambda>(fee_payer, it).
     rbind (next_account_info it) (\<lambda>(fee_state_account, it).
     rbind (next_account_info it) (\<lambda>(validator_account, it).
     rbind (next_account_info it) (\<lambda>(treasury_account, it).
     rbind (next_account_info it) (\<lambda>(staker_pool_account, it).
     rbind (next_account_info it) (\<lambda>(clock_sysvar, it).
     rbind (next_account_info it) (\<lambda>(system_program, it).
     if \<not> is_signer fee_payer then Inl MissingRequiredSignature
     else if fee_amount = 0 then Inl (fee_burn_err ZeroFeeAmount)
     else
     rbind (load_account (fee_state_codec c) (key fee_state_account) v) (\<lambda>state.
     if \<not> is_initialized state then Inl (fee_burn_err NotInitialized)
     else
     rbind (clock_from_account_info e (key clock_sysvar) (mem v (key clock_sysvar))) (\<lambda>clk.
     rbind (fee_shares state fee_amount) (\<lambda>shares.
     rbind (move_fee e (key fee_payer) (key validator_account) (key treasury_account)
              (key staker_pool_account) shares v) (\<lambda>v.
     rbind (record_fee clk shares state) (\<lambda>state.
     store_account (fee_state_codec c) state (key fee_state_account) v))))))))))))"

definition fee_burn_process_update_params ::
  "fee_burn_codecs \<Rightarrow> u64 \<Rightarrow> u64 \<Rightarrow> u64 \<Rightarrow> u64 \<Rightarrow> instruction_account list \<Rightarrow> vm \<Rightarrow> vm res" where
  "fee_burn_process_update_params c burn_rate validator_share treasury_share staker_share ias v =
     rbind (next_account_info ias) (\<lambda>(auth, it).
     rbind (next_account_info it) (\<lambda>(fee_state_account, it).
     if \<not> is_signer auth then Inl MissingRequiredSignature
     else
     rbind (load_account (fee_state_codec c) (key fee_state_account) v) (\<lambda>state.
     if \<not> is_initialized state then Inl (fee_burn_err NotInitialized)
     else if authority state \<noteq> key auth then Inl (fee_burn_err Unauthorized)
     else
     rbind (ok_or (checked_add burn_rate validator_share) (fee_burn_err Overflow)) (\<lambda>x.
     rbind (ok_or (checked_add x treasury_share) (fee_burn_err Overflow)) (\<lambda>x.
     rbind (ok_or (checked_add x staker_share) (fee_burn_err Overflow)) (\<lambda>total.
     if total \<noteq> BPS_DENOMINATOR then Inl (fee_burn_err InvalidFeeShares)
     else
     store_account (fee_state_codec c)
       (state\<lparr>burn_rate_bps := burn_rate, validator_share_bps := validator_share,
              treasury_share_bps := treasury_share, staker_share_bps := staker_share\<rparr>)
       (key fee_state_account) v))))))"

definition fee_burn_process_query_stats :: "fee_burn_codecs \<Rightarrow> instruction_account list \<Rightarrow> vm \<Rightarrow> vm res" where
  "fee_burn_process_query_stats c ias v =
     rbind (next_account_info ias) (\<lambda>(fee_state_account, it).
     rbind (load_account (fee_state_codec c) (key fee_state_account) v) (\<lambda>state.
     if \<not> is_initialized state then Inl (fee_burn_err NotInitialized)
     else Inr v))"

definition fee_burn_process_instruction ::
  "env \<Rightarrow> fee_burn_codecs \<Rightarrow> pubkey \<Rightarrow> bytes \<Rightarrow> program" where
  "fee_burn_process_instruction e c program_id instruction_data ias v =
     rbind (ok_or (try_from_slice (fee_burn_instruction_codec c) instruction_data) InvalidInstructionData) (\<lambda>ix.
     case ix of
       Initialize \<Rightarrow> fee_burn_process_initialize e c program_id ias v
     | DistributeFee fee_amount \<Rightarrow> fee_burn_process_distribute_fee e c fee_amount ias v
     | UpdateParams a b x y \<Rightarrow> fee_burn_process_update_params c a b x y ias v
     | QueryStats \<Rightarrow> fee_burn_process_query_stats c ias v)"

text \<open>The byte layout of the state account, field by field.\<close>

definition fee_state_layout :: "fee_state layout" where
  "fee_state_layout =
     iso_layout
       (\<lambda>(i, a, t, s, tb, tv, tt, ts, te, br, vs, trs, ss, sl, b).
          \<lparr>is_initialized = i, authority = a, treasury = t, staker_pool = s, total_burned = tb,
           total_validator_rewards = tv, total_treasury_deposits = tt, total_staker_rewards = ts,
           total_events = te, burn_rate_bps = br, validator_share_bps = vs, treasury_share_bps = trs,
           staker_share_bps = ss, last_event_slot = sl, bump = b\<rparr>)
       (\<lambda>s. (is_initialized s, authority s, treasury s, staker_pool s, total_burned s,
             total_validator_rewards s, total_treasury_deposits s, total_staker_rewards s,
             total_events s, burn_rate_bps s, validator_share_bps s, treasury_share_bps s,
             staker_share_bps s, last_event_slot s, bump s))
       (pair_layout bool_layout (pair_layout word_layout (pair_layout word_layout (pair_layout word_layout
       (pair_layout word_layout (pair_layout word_layout (pair_layout word_layout (pair_layout word_layout
       (pair_layout word_layout (pair_layout word_layout (pair_layout word_layout (pair_layout word_layout
       (pair_layout word_layout (pair_layout word_layout word_layout))))))))))))))"

lemma wf_fee_state_layout: "wf_layout FeeState_LEN fee_state_layout"
  unfolding fee_state_layout_def
  by (rule wf_layout_eq, (rule wf_layouts)+) (simp_all add: FeeState_LEN_def)

interpretation fee_state_borsh: borsh_struct "of_layout fee_state_layout" FeeState_LEN
  by (rule borsh_struct_of_layout [OF wf_fee_state_layout])

lemmas fee_state_io [simp] = of_layout_io [OF wf_fee_state_layout]

section \<open>The split\<close>

definition shares_sum :: "fee_state \<Rightarrow> nat" where
  "shares_sum s = unat (burn_rate_bps s) + unat (validator_share_bps s) + unat (treasury_share_bps s)
     + unat (staker_share_bps s)"

lemma fee_shares_sound:
  assumes "fee_shares s fee = Inr (b, w, t, k)"
  shows "unat b = unat fee * unat (burn_rate_bps s) div 10000"
    and "unat w = unat fee * unat (validator_share_bps s) div 10000"
    and "unat t = unat fee * unat (treasury_share_bps s) div 10000"
    and "unat b + unat w + unat t + unat k = unat fee"
proof -
  from assms obtain x y where vals: "checked_mul fee (burn_rate_bps s) = Some x \<and> b = x div BPS_DENOMINATOR"
      "\<exists>x. checked_mul fee (validator_share_bps s) = Some x \<and> w = x div BPS_DENOMINATOR"
      "\<exists>x. checked_mul fee (treasury_share_bps s) = Some x \<and> t = x div BPS_DENOMINATOR"
    and subs: "\<exists>x y. checked_sub fee b = Some x \<and> checked_sub x w = Some y \<and> checked_sub y t = Some k"
    by (auto simp: fee_shares_def rbind_eq_Inr ok_or_eq_Inr Let_def)
  show "unat b = unat fee * unat (burn_rate_bps s) div 10000"
    "unat w = unat fee * unat (validator_share_bps s) div 10000"
    "unat t = unat fee * unat (treasury_share_bps s) div 10000"
    using vals by (auto simp: checked_mul_eq_Some unat_u64_div BPS_DENOMINATOR_def)
  show "unat b + unat w + unat t + unat k = unat fee"
    using subs by (auto simp: checked_sub_eq_Some)
qed

lemma div_sum_le: "a div n + b div n + c div n \<le> (a + b + c) div n" for a b c n :: nat
proof (cases "n = 0")
  case False
  have "n * (a div n + b div n + c div n) \<le> a + b + c"
    by (simp add: distrib_left add_mono)
  then show ?thesis using False by (simp add: less_eq_div_iff_mult_less_eq mult.commute)
qed simp

lemma fee_shares_total:
  assumes "shares_sum s = 10000" and "unat fee * 10000 < 2 ^ 64"
  obtains b w t k where "fee_shares s fee = Inr (b, w, t, k)"
proof -
  define f x y z where "f = unat fee" and "x = unat (burn_rate_bps s)"
    and "y = unat (validator_share_bps s)" and "z = unat (treasury_share_bps s)"
  note fs = f_def x_def y_def z_def
  have mul: "f * n < 2 ^ 64" if "n \<le> 10000" for n
    by (rule le_less_trans [OF mult_le_mono2 [OF that]]) (use assms(2) in \<open>simp add: f_def\<close>)
  have le: "x \<le> 10000" "y \<le> 10000" "z \<le> 10000" "x + y + z \<le> 10000"
    using assms(1) by (auto simp: shares_sum_def fs)
  have "f * x div 10000 + f * y div 10000 + f * z div 10000 \<le> f * (x + y + z) div 10000"
    using div_sum_le [of "f * x" 10000 "f * y" "f * z"] by (simp add: distrib_left)
  also have "\<dots> \<le> f * 10000 div 10000"
    by (intro div_le_mono mult_le_mono2 le)
  finally have sum: "f * x div 10000 + f * y div 10000 + f * z div 10000 \<le> f" by simp
  let ?b = "fee * burn_rate_bps s div BPS_DENOMINATOR"
    and ?w = "fee * validator_share_bps s div BPS_DENOMINATOR"
    and ?t = "fee * treasury_share_bps s div BPS_DENOMINATOR"
  have prods: "unat (fee * burn_rate_bps s) = f * x" "unat (fee * validator_share_bps s) = f * y"
    "unat (fee * treasury_share_bps s) = f * z"
    using mul le by (auto simp: fs unat_mult_lem [THEN iffD1])
  then have vals: "unat ?b = f * x div 10000" "unat ?w = f * y div 10000" "unat ?t = f * z div 10000"
    by (simp_all add: unat_u64_div BPS_DENOMINATOR_def)
  have "checked_mul fee (burn_rate_bps s) = Some (fee * burn_rate_bps s)"
    "checked_mul fee (validator_share_bps s) = Some (fee * validator_share_bps s)"
    "checked_mul fee (treasury_share_bps s) = Some (fee * treasury_share_bps s)"
    by (simp_all add: checked_mul_eq_Some prods fs)
  moreover have "unat ?b + unat ?w + unat ?t \<le> unat fee"
    using sum unfolding vals f_def .
  note checked_sub_chain [OF this]
  ultimately have "fee_shares s fee = Inr (?b, ?w, ?t, fee - ?b - ?w - ?t)"
    by (simp add: fee_shares_def ok_or_def Let_def)
  then show thesis by (rule that)
qed

lemma remainder_share:
  fixes f x y z r k :: nat
  assumes "x + y + z + r = n" and "0 < n" and "f * x div n + f * y div n + f * z div n + k = f"
  shows "f * r div n \<le> k" and "k \<le> f * r div n + 3"
proof -
  have m: "f * n = f * x + f * y + f * z + f * r" using assms(1) by (metis distrib_left)
  have nk: "n * k + n * (f * x div n) + n * (f * y div n) + n * (f * z div n) = f * n"
    using arg_cong [OF assms(3), of "\<lambda>i. n * i"] by (simp add: distrib_left mult.commute)
  have r: "n * (a div n) + a mod n = a" "a mod n < n" for a using assms(2) by simp_all
  have eq: "n * k = f * r + f * x mod n + f * y mod n + f * z mod n"
    using m nk r(1) [of "f * x"] r(1) [of "f * y"] r(1) [of "f * z"] by linarith
  then have "f * r \<le> k * n" by (simp add: mult.commute)
  then show "f * r div n \<le> k" using assms(2) div_le_mono [of "f * r" "k * n" n] by simp
  have "n * k < n * (f * r div n + 4)"
    unfolding distrib_left eq
    using r [of "f * r"] r(2) [of "f * x"] r(2) [of "f * y"] r(2) [of "f * z"] by linarith
  then show "k \<le> f * r div n + 3" by simp
qed

section \<open>The handlers\<close>

lemma move_fee_effect:
  assumes "move_fee e p w t k (b, x, y, z) v = Inr v'"
  shows "tx v' = tx v" and "data (mem v' j) = data (mem v j)" and "owner (mem v' j) = owner (mem v j)"
    and "j \<notin> {p, w, t, k} \<Longrightarrow> mem v' j = mem v j"
    and "{p, w, t, k} \<subseteq> set ks \<Longrightarrow> word_total ks (mem v') = word_total ks (mem v) - b"
  using assms
  by (auto simp: move_fee_def rust_simps dest!: lamports_sub_assign_effect lamports_add_assign_effect)

lemma distribute_fee_effect:
  assumes "fee_burn_process_distribute_fee e c fee ias v = Inr v'"
  obtains state state' b x y z fs clk where "fs \<in> key ` set ias" "fs = key (ias ! 1)"
    "load (fee_state_codec c) (data (mem v fs)) = Inr state" "is_initialized state" "fee \<noteq> 0"
    "fee_shares state fee = Inr (b, x, y, z)" "record_fee clk (b, x, y, z) state = Inr state'"
    "store (fee_state_codec c) state' (data (mem v fs)) = Inr (data (mem v' fs))"
    "tx v' = tx v" "\<And>j. j \<notin> key ` set ias \<Longrightarrow> mem v' j = mem v j"
    "\<And>j. j \<noteq> fs \<Longrightarrow> data (mem v' j) = data (mem v j)"
    "\<And>ks. key ` set ias \<subseteq> set ks \<Longrightarrow> word_total ks (mem v') = word_total ks (mem v) - b"
proof -
  from assms obtain payer fsa va ta pa ca sa rest state clk b x y z u state' d where
    ias: "ias = payer # fsa # va # ta # pa # ca # sa # rest"
    and load: "load_account (fee_state_codec c) (key fsa) v = Inr state" "is_initialized state" "fee \<noteq> 0"
    and shares: "fee_shares state fee = Inr (b, x, y, z)"
    and move: "move_fee e (key payer) (key va) (key ta) (key pa) (b, x, y, z) v = Inr u"
    and rec: "record_fee clk (b, x, y, z) state = Inr state'"
    and st: "store (fee_state_codec c) state' (data (mem u (key fsa))) = Inr d"
    and v': "v' = set_mem_data (key fsa) d u"
    by (auto simp: fee_burn_process_distribute_fee_def rust_simps)
  note eff = move_fee_effect [OF move]
  show thesis
  proof (rule that [of "key fsa" state b x y z clk state'])
    show "word_total ks (mem v') = word_total ks (mem v) - b" if "key ` set ias \<subseteq> set ks" for ks
      using that eff(5) [of ks] by (simp add: v' ias)
    show "store (fee_state_codec c) state' (data (mem v (key fsa))) = Inr (data (mem v' (key fsa)))"
      using st eff(2) by (simp add: v')
    show "mem v' j = mem v j" if "j \<notin> key ` set ias" for j
      using that eff(4) [of j] by (auto simp: v' ias)
  qed (use load shares rec eff in \<open>auto simp: load_account_def v' ias\<close>)
qed

lemma record_fee_rates:
  "record_fee clk sh s = Inr s' \<Longrightarrow> shares_sum s' = shares_sum s \<and> is_initialized s' = is_initialized s"
  by (cases sh) (auto simp: record_fee_def rust_simps shares_sum_def)

lemma update_params_effect:
  assumes "fee_burn_process_update_params c x y z w ias v = Inr v'"
  obtains state auth fs where "auth \<in> set ias" "is_signer auth" "authority state = key auth"
    "load (fee_state_codec c) (data (mem v fs)) = Inr state" "fs \<in> key ` set ias"
    "unat x + unat y + unat z + unat w = 10000" "tx v' = tx v"
    "store (fee_state_codec c) (state\<lparr>burn_rate_bps := x, validator_share_bps := y,
       treasury_share_bps := z, staker_share_bps := w\<rparr>) (data (mem v fs)) = Inr (data (mem v' fs))"
    "\<And>j. j \<noteq> fs \<Longrightarrow> mem v' j = mem v j"
proof -
  from assms obtain auth fsa rest state d where "ias = auth # fsa # rest" "is_signer auth"
    "load (fee_state_codec c) (data (mem v (key fsa))) = Inr state" "authority state = key auth"
    "unat x + unat y + unat z + unat w = 10000" "v' = set_mem_data (key fsa) d v"
    "store (fee_state_codec c) (state\<lparr>burn_rate_bps := x, validator_share_bps := y,
       treasury_share_bps := z, staker_share_bps := w\<rparr>) (data (mem v (key fsa))) = Inr d"
    by (auto simp: fee_burn_process_update_params_def load_account_def rust_simps BPS_DENOMINATOR_def)
  then show thesis by (intro that [of auth state "key fsa"]) auto
qed

lemma initialize_effect:
  assumes "fee_burn_process_initialize e c pid ias v = Inr v'"
  obtains auth treas pool b fs u n infos where "auth \<in> key ` set ias" "fs \<in> key ` set ias"
    "cpi_common e pid ias (system_create_account auth fs n (word_of_nat FeeState_LEN) pid)
       infos [[FEE_STATE_SEED, [b]]] v = Inr u"
    "find_program_address e [FEE_STATE_SEED] pid = (fs, b)"
    "store (fee_state_codec c) (initial_fee_state auth treas pool b) (data (mem u fs)) = Inr (data (mem v' fs))"
    "tx v' = tx u" "\<And>j. j \<noteq> fs \<Longrightarrow> mem v' j = mem u j"
proof -
  obtain fs b where pda: "find_program_address e [FEE_STATE_SEED] pid = (fs, b)" by fastforce
  with assms obtain auth fsa treas pool sa rest n u d where
    "ias = auth # fsa # treas # pool # sa # rest" "key fsa = fs" "is_signer auth"
    "cpi_common e pid ias (system_create_account (key auth) fs n (word_of_nat FeeState_LEN) pid)
       [key auth, fs, key sa] [[FEE_STATE_SEED, [b]]] v = Inr u"
    "store (fee_state_codec c) (initial_fee_state (key auth) (key treas) (key pool) b) (data (mem u fs)) = Inr d"
    "v' = set_mem_data fs d u"
    by (auto simp: fee_burn_process_initialize_def rust_simps)
  with pda show thesis
    by (intro that [where auth = "key auth" and treas = "key treas" and pool = "key pool" and u = u and b = b]) auto
qed

lemma fee_burn_cases [consumes 1, case_names Initialize DistributeFee UpdateParams QueryStats]:
  assumes "fee_burn_process_instruction e c pid d ias v = Inr v'"
  obtains
    "fee_burn_process_initialize e c pid ias v = Inr v'"
  | fee where "try_from_slice (fee_burn_instruction_codec c) d = Some (DistributeFee fee)"
      "fee_burn_process_distribute_fee e c fee ias v = Inr v'"
  | x y z w where "fee_burn_process_update_params c x y z w ias v = Inr v'"
  | "v' = v"
proof -
  from assms obtain ix where ix: "try_from_slice (fee_burn_instruction_codec c) d = Some ix"
    by (auto simp: fee_burn_process_instruction_def rust_simps)
  with assms show thesis
    by (cases ix) (auto simp: fee_burn_process_instruction_def fee_burn_process_query_stats_def rust_simps
        intro: that)
qed

sublocale chain \<subseteq> fee_burn: onchain_program "fee_burn_process_instruction e c pid d" for c pid d
proof
  fix ias v v'
  assume "fee_burn_process_instruction e c pid d ias v = Inr v'"
  then show "account_keys (tx v') = account_keys (tx v) \<and> balance_potential (tx v') = balance_potential (tx v)"
    by (cases rule: fee_burn_cases)
      (auto elim!: distribute_fee_effect update_params_effect initialize_effect dest!: invoke_tracked)
qed

section \<open>The shares always sum to the whole\<close>

definition fee_account_ok :: "fee_burn_codecs \<Rightarrow> account \<Rightarrow> bool" where
  "fee_account_ok c a \<longleftrightarrow>
     (case try_from_slice (fee_state_codec c) (data a) of
        Some s \<Rightarrow> is_initialized s \<longrightarrow> shares_sum s = 10000 | None \<Rightarrow> True)"

lemma fee_account_ok_stored:
  assumes "borsh_struct (fee_state_codec c) FeeState_LEN"
    and "store (fee_state_codec c) s d = Inr (data a)" and "length d = FeeState_LEN" and "shares_sum s = 10000"
  shows "fee_account_ok c a"
  using borsh_struct.load_store [OF assms(1,3,2)] assms(4) by (simp add: fee_account_ok_def load_eq_Inr)

lemma initialize_keeps_shares:
  assumes "borsh_struct (fee_state_codec c) FeeState_LEN"
    and "fee_burn_process_initialize e c pid ias v = Inr v'" and "fee_account_ok c (mem v k)"
  shows "fee_account_ok c (mem v' k)"
  using assms(2)
proof (rule initialize_effect)
  fix auth fs n b infos u treas pool
  assume cpi: "cpi_common e pid ias (system_create_account auth fs n (word_of_nat FeeState_LEN) pid)
      infos [[FEE_STATE_SEED, [b]]] v = Inr u"
    and st: "store (fee_state_codec c) (initial_fee_state auth treas pool b) (data (mem u fs)) = Inr (data (mem v' fs))"
    and other: "\<And>j. j \<noteq> fs \<Longrightarrow> mem v' j = mem u j"
  note eff = invoke_create_account_effect [OF cpi]
  show ?thesis
  proof (cases "k = fs")
    case True
    have "length (data (mem u fs)) = FeeState_LEN"
      by (simp add: eff(1) fresh_account_def FeeState_LEN_def)
    moreover have "shares_sum (initial_fee_state auth treas pool b) = 10000"
      by (simp add: shares_sum_def initial_fee_state_def BURN_RATE_BPS_def VALIDATOR_SHARE_BPS_def
          TREASURY_SHARE_BPS_def STAKER_SHARE_BPS_def)
    ultimately show ?thesis using fee_account_ok_stored [OF assms(1) st] True by simp
  next
    case False
    then show ?thesis using assms(3) other [OF False] by (simp add: eff(1) fee_account_ok_def)
  qed
qed

lemma distribute_fee_keeps_shares:
  assumes "borsh_struct (fee_state_codec c) FeeState_LEN"
    and "fee_burn_process_distribute_fee e c fee ias v = Inr v'" and "\<And>k. fee_account_ok c (mem v k)"
  shows "fee_account_ok c (mem v' k)"
  using assms(2)
proof (rule distribute_fee_effect)
  fix fs state b x y z clk state'
  assume load: "load (fee_state_codec c) (data (mem v fs)) = Inr state" "is_initialized state"
    and rec: "record_fee clk (b, x, y, z) state = Inr state'"
    and st: "store (fee_state_codec c) state' (data (mem v fs)) = Inr (data (mem v' fs))"
    and other: "\<And>j. j \<noteq> fs \<Longrightarrow> data (mem v' j) = data (mem v j)"
  have "shares_sum state' = 10000"
    using assms(3) [of fs] load record_fee_rates [OF rec] by (simp add: fee_account_ok_def load_eq_Inr)
  then show ?thesis
    using fee_account_ok_stored [OF assms(1) st borsh_struct.load_length [OF assms(1) load(1)]]
      assms(3) [of k] other [of k] by (cases "k = fs") (auto simp: fee_account_ok_def)
qed

lemma update_params_keeps_shares:
  assumes "borsh_struct (fee_state_codec c) FeeState_LEN"
    and "fee_burn_process_update_params c x y z w ias v = Inr v'" and "fee_account_ok c (mem v k)"
  shows "fee_account_ok c (mem v' k)"
  using assms(2)
proof (rule update_params_effect)
  fix auth :: instruction_account and state fs
  assume load: "load (fee_state_codec c) (data (mem v fs)) = Inr state"
    and sum: "unat x + unat y + unat z + unat w = 10000"
    and st: "store (fee_state_codec c) (state\<lparr>burn_rate_bps := x, validator_share_bps := y,
      treasury_share_bps := z, staker_share_bps := w\<rparr>) (data (mem v fs)) = Inr (data (mem v' fs))"
    and other: "\<And>j. j \<noteq> fs \<Longrightarrow> mem v' j = mem v j"
  from sum show ?thesis
    using fee_account_ok_stored [OF assms(1) st borsh_struct.load_length [OF assms(1) load]]
      assms(3) other [of k] by (cases "k = fs") (auto simp: fee_account_ok_def shares_sum_def)
qed

lemma fee_burn_keeps_shares:
  assumes "borsh_struct (fee_state_codec c) FeeState_LEN"
    and "fee_burn_process_instruction e c pid d ias v = Inr v'" and "\<And>k. fee_account_ok c (mem v k)"
  shows "fee_account_ok c (mem v' k)"
  using assms(2)
  by (cases rule: fee_burn_cases)
    (use assms(1,3) in \<open>auto intro: initialize_keeps_shares distribute_fee_keeps_shares update_params_keeps_shares\<close>)

section \<open>Burning is never accepted\<close>

context chain
begin

lemma distribute_burns_nothing:
  assumes "process_instruction pid (fee_burn_process_instruction e c p d) ias t = Inr t'"
    and "lamports_delta t = 0" and "key ` set ias \<subseteq> set (account_keys t)"
    and "try_from_slice (fee_burn_instruction_codec c) d = Some (DistributeFee fee)"
  shows "\<exists>state. load (fee_state_codec c) (data (accounts t (key (ias ! 1)))) = Inr state \<and>
    unat fee * unat (burn_rate_bps state) < 10000"
proof -
  let ?prog = "fee_burn_process_instruction e c p d"
  have total: "total_lamports t' = total_lamports t" "account_keys t' = account_keys t"
    using fee_burn.conserves_lamports [OF assms(1,2)] by blast+
  have run: "fee_burn_process_distribute_fee e c fee ias (enter_vm t) = Inr v"
    if "?prog ias (enter_vm t) = Inr v" for v
    using that assms(4) by (auto simp: fee_burn_process_instruction_def ok_or_def)
  from assms(1) have "execute pid ?prog ias t = Inr t'"
    by (auto simp: process_instruction_def pop_def rust_simps)
  then have "\<exists>v. ?prog ias (enter_vm t) = Inr v \<and> accounts t' = mem v"
    by (rule execute_no_cpi) (auto dest!: run elim!: distribute_fee_effect)
  then obtain v where v: "fee_burn_process_distribute_fee e c fee ias (enter_vm t) = Inr v"
    and t': "accounts t' = mem v" using run by blast
  from v show ?thesis
  proof (rule distribute_fee_effect)
    fix fs state b x y z
    assume fs: "fs = key (ias ! 1)" "load (fee_state_codec c) (data (mem (enter_vm t) fs)) = Inr state"
      "fee_shares state fee = Inr (b, x, y, z)"
      and "\<And>ks. key ` set ias \<subseteq> set ks \<Longrightarrow> word_total ks (mem v) = word_total ks (mem (enter_vm t)) - b"
    then have "word_total (account_keys t) (accounts t') = word_total (account_keys t) (accounts t) - b"
      using assms(3) t' by simp
    then have "b = 0"
      using total word_total_accounts [of t] word_total_accounts [of t'] by simp
    with fs fee_shares_sound(1) [OF fs(3)] show ?thesis by (auto simp: div_eq_0_iff)
  qed
qed

end

section \<open>Properties\<close>

text \<open>Concrete codecs and a chain, for evaluation.\<close>

definition fee_burn_layouts :: "fee_burn_instruction \<Rightarrow> fee_burn_codecs" where
  "fee_burn_layouts ix =
     \<lparr>fee_state_codec = of_layout fee_state_layout,
      fee_burn_instruction_codec = \<lparr>try_from_slice = (\<lambda>_. Some ix), to_vec = (\<lambda>_. [])\<rparr>\<rparr>"

definition fee_burn_chain :: env where
  "fee_burn_chain = native_env (\<lambda>_ _. (2, 255)) (\<lambda>_. 1000) \<lparr>slot = 7, epoch = 1, unix_timestamp = 5000\<rparr> (\<lambda>b. b)"

lemmas fee_burn_eval = fee_burn_layouts_def fee_burn_chain_def FeeState_LEN_def fee_burn_process_instruction_def
  fee_burn_process_initialize_def fee_burn_process_update_params_def fee_burn_process_distribute_fee_def
  initial_fee_state_def fee_shares_def move_fee_def record_fee_def BPS_DENOMINATOR_def BURN_RATE_BPS_def
  VALIDATOR_SHARE_BPS_def TREASURY_SHARE_BPS_def STAKER_SHARE_BPS_def

text \<open>
  C6. The fee split is total and exact. For shares that sum to 10000 basis points and a fee whose
  product with 10000 fits 64 bits, the split succeeds; burn, validator and treasury parts are the
  rounded-down shares, the four parts sum to the fee, and the staker part exceeds its rounded-down
  share by at most 3 lamports of rounding dust.
\<close>

theorem fee_split_exact:
  assumes "shares_sum s = 10000" and "unat fee * 10000 < 2 ^ 64"
  shows "\<exists>b w t k. fee_shares s fee = Inr (b, w, t, k) \<and>
    unat b = unat fee * unat (burn_rate_bps s) div 10000 \<and>
    unat w = unat fee * unat (validator_share_bps s) div 10000 \<and>
    unat t = unat fee * unat (treasury_share_bps s) div 10000 \<and>
    unat b + unat w + unat t + unat k = unat fee \<and>
    unat fee * unat (staker_share_bps s) div 10000 \<le> unat k \<and>
    unat k \<le> unat fee * unat (staker_share_bps s) div 10000 + 3"
proof -
  obtain b w t k where sh: "fee_shares s fee = Inr (b, w, t, k)"
    by (rule fee_shares_total [OF assms])
  note sound = fee_shares_sound [OF sh]
  have "unat fee * unat (staker_share_bps s) div 10000 \<le> unat k \<and>
      unat k \<le> unat fee * unat (staker_share_bps s) div 10000 + 3"
    using remainder_share [OF assms(1) [unfolded shares_sum_def], of "unat fee" "unat k"] sound by simp
  with sh sound show ?thesis by blast
qed

theorem fee_split_exact_witness:
  "\<exists>b w t k. fee_shares (initial_fee_state 1 3 4 255) 12345 = Inr (b, w, t, k) \<and>
     unat b + unat w + unat t + unat k = 12345 \<and> 1234 \<le> unat k \<and> unat k \<le> 1237"
  using fee_split_exact [of "initial_fee_state 1 3 4 255" 12345]
  by (auto simp: shares_sum_def initial_fee_state_def BURN_RATE_BPS_def VALIDATOR_SHARE_BPS_def
      TREASURY_SHARE_BPS_def STAKER_SHARE_BPS_def)

text \<open>
  C7. No instruction of the program breaks the fee schedule: if every readable, initialized fee state
  among the accounts has shares summing to 10000 basis points before an instruction, then so it does
  after it, for every account of the instruction.
\<close>

theorem fee_shares_invariant:
  assumes "borsh_struct (fee_state_codec c) FeeState_LEN"
    and "process_instruction pid (fee_burn_process_instruction e c pid d) ias t = Inr t'"
    and "\<And>k. fee_account_ok c (accounts t k)"
    and "k \<in> key ` set ias"
  shows "fee_account_ok c (accounts t' k)"
proof -
  from assms(2) obtain v where v: "fee_burn_process_instruction e c pid d ias (enter_vm t) = Inr v"
    and t': "deserialize_parameters pid (original_data_len v) (mem v) ias (tx v) = Inr t'"
    by (auto simp: process_instruction_def execute_def pop_def rust_simps)
  have "accounts t' k = mem v k"
    using deserialize_parameters_effect(1) [OF t'] assms(4) by simp
  then show ?thesis using fee_burn_keeps_shares [OF assms(1) v] assms(3) by simp
qed

theorem fee_shares_invariant_witness:
  "let c = fee_burn_layouts Initialize in
   \<exists>t'. process_instruction 9 (fee_burn_process_instruction fee_burn_chain c 9 [])
      [account_ref 1 True True, account_ref 2 False True, account_ref 3 False False,
       account_ref 4 False False, account_ref 0 False False]
      (tx_of [1, 2, 3, 4, 0] (\<lambda>k. if k = 1 then wallet 100000 else wallet 0)) = Inr t' \<and>
    fee_account_ok c (accounts t' 2)"
proof -
  define c where "c = fee_burn_layouts Initialize"
  define t where "t = tx_of [1, 2, 3, 4, 0] (\<lambda>k. if k = 1 then wallet 100000 else wallet 0)"
  have borsh: "borsh_struct (fee_state_codec c) FeeState_LEN"
    by (simp add: c_def fee_burn_layouts_def fee_state_borsh.borsh_struct_axioms)
  have len: "load (fee_state_codec c) [] = Inl BorshIoError"
    by (rule borsh_struct.load_wrong_length [OF borsh]) (simp add: FeeState_LEN_def)
  have ok: "fee_account_ok c (accounts t k)" for k
    using len by (simp add: t_def tx_of_def fee_account_ok_def load_def ok_or_def split: option.splits)
  obtain t' where run: "process_instruction 9 (fee_burn_process_instruction fee_burn_chain c 9 [])
      [account_ref 1 True True, account_ref 2 False True, account_ref 3 False False,
       account_ref 4 False False, account_ref 0 False False] t = Inr t'"
    by (simp add: c_def t_def runtime_eval system_eval cpi_eval fee_burn_eval)
  show ?thesis
    using run fee_shares_invariant [OF borsh run ok, of 2] unfolding c_def t_def by auto
qed

text \<open>
  C8. The program never burns. On a chain that checks balances, a \<open>DistributeFee\<close> instruction is
  accepted only if the burn part of the fee rounds to zero: decrementing the payer without crediting
  anyone leaves the instruction unbalanced, whatever the accounts are.
\<close>

theorem distribute_fee_never_burns:
  assumes "callees_tracked e"
    and "process_instruction pid (fee_burn_process_instruction e c p d) ias t = Inr t'"
    and "lamports_delta t = 0" and "key ` set ias \<subseteq> set (account_keys t)"
    and "try_from_slice (fee_burn_instruction_codec c) d = Some (DistributeFee fee)"
  shows "\<exists>state. load (fee_state_codec c) (data (accounts t (key (ias ! 1)))) = Inr state \<and>
    unat fee * unat (burn_rate_bps state) < 10000"
  by (rule chain.distribute_burns_nothing [OF chain.intro [OF assms(1)] assms(2-5)])

theorem distribute_fee_never_burns_witness:
  "let c = fee_burn_layouts (DistributeFee 1); s = initial_fee_state 1 3 4 255;
       ias = [account_ref 1 True True, account_ref 2 False True, account_ref 5 False True,
              account_ref 3 False True, account_ref 4 False True, account_ref 6 False False, account_ref 0 False False];
       t = tx_of [1, 2, 3, 4, 5, 6, 0] (\<lambda>k. if k = 1 then \<lparr>lamports = 100, data = [], owner = 9\<rparr>
             else if k = 2 then \<lparr>lamports = 1000, data = put fee_state_layout s, owner = 9\<rparr> else wallet 0)
   in \<exists>t' state. process_instruction 9 (fee_burn_process_instruction fee_burn_chain c 9 []) ias t = Inr t' \<and>
        load (fee_state_codec c) (data (accounts t 2)) = Inr state \<and> unat (1 :: u64) * unat (burn_rate_bps state) < 10000"
proof -
  define c where "c = fee_burn_layouts (DistributeFee 1)"
  define ias where "ias = [account_ref 1 True True, account_ref 2 False True, account_ref 5 False True,
    account_ref 3 False True, account_ref 4 False True, account_ref 6 False False, account_ref 0 False False]"
  define t where "t = tx_of [1, 2, 3, 4, 5, 6, 0] (\<lambda>k. if k = 1 then \<lparr>lamports = 100, data = [], owner = 9\<rparr>
    else if k = 2 then \<lparr>lamports = 1000, data = put fee_state_layout (initial_fee_state 1 3 4 255), owner = 9\<rparr> else wallet 0)"
  have tracked: "callees_tracked fee_burn_chain"
    by (simp add: fee_burn_chain_def native_env_ok)
  have dec: "try_from_slice (fee_burn_instruction_codec c) [] = Some (DistributeFee 1)"
    by (simp add: c_def fee_burn_layouts_def)
  have sub: "lamports_delta t = 0" "key ` set ias \<subseteq> set (account_keys t)"
    by (simp_all add: t_def ias_def tx_of_def)
  obtain t' where run: "process_instruction 9 (fee_burn_process_instruction fee_burn_chain c 9 []) ias t = Inr t'"
    by (simp add: c_def t_def ias_def runtime_eval system_eval cpi_eval fee_burn_eval)
  show ?thesis
    using run distribute_fee_never_burns [OF tracked run sub dec]
    unfolding c_def t_def ias_def Let_def by auto
qed

end
