(* ===== verification/Vesting.thy ===== *)
theory Vesting
  imports Cpi
begin

text \<open>
  The vesting program (\<open>programs/vesting/src/lib.rs\<close>): a registry and one schedule account per
  beneficiary. Tokens of a schedule vest linearly or per quarter between the end of the cliff and the
  end of the duration; the beneficiary claims what has vested, the authority may revoke the rest.

  \<open>vested_spec\<close> is the contract of \<open>calculate_vested_amount\<close> on the integers; the function refines it.
  The other lemmas give the effect of each handler on the two accounts. The token transfer of a claim
  is a call of the token program, which is a parameter.
\<close>

section \<open>Data\<close>

definition REGISTRY_SEED :: bytes where "REGISTRY_SEED = ascii ''prism_vesting_registry''"
definition SCHEDULE_SEED :: bytes where "SCHEDULE_SEED = ascii ''prism_vesting_schedule''"
definition VAULT_SEED :: bytes where "VAULT_SEED = ascii ''prism_vesting_vault''"
definition MAX_BENEFICIARIES :: nat where "MAX_BENEFICIARIES = 256"
definition SECONDS_PER_MONTH :: i64 where "SECONDS_PER_MONTH = 2592000"
definition SECONDS_PER_QUARTER :: i64 where "SECONDS_PER_QUARTER = 7776000"

datatype release_schedule = Linear | Quarterly

datatype vesting_status = Active | Completed | Revoked

record vesting_registry =
  reg_is_initialized :: bool
  reg_authority :: pubkey
  vault :: pubkey
  token_mint :: pubkey
  total_deposited :: u64
  total_claimed :: u64
  total_revoked :: u64
  active_schedules :: u32
  schedule_counter :: u64
  reg_bump :: u8

definition VestingRegistry_LEN :: nat where
  "VestingRegistry_LEN = 1 + 32 + 32 + 32 + 8 + 8 + 8 + 4 + 8 + 1"

record vesting_schedule =
  sch_is_initialized :: bool
  registry :: pubkey
  beneficiary :: pubkey
  total_amount :: u64
  claimed_amount :: u64
  start_timestamp :: i64
  cliff_seconds :: i64
  duration_seconds :: i64
  schedule :: release_schedule
  status :: vesting_status
  revocable :: bool
  sch_index :: u64
  sch_bump :: u8

definition VestingSchedule_LEN :: nat where
  "VestingSchedule_LEN = 1 + 32 + 32 + 8 + 8 + 8 + 8 + 8 + 1 + 1 + 1 + 8 + 1"

datatype vesting_instruction =
    InitializeRegistry
  | CreateSchedule pubkey u64 u32 u32 release_schedule bool
  | Claim
  | Revoke
  | QuerySchedule
  | TransferAuthority pubkey

datatype vesting_error =
    AlreadyInitialized | NotInitialized | ScheduleAlreadyInitialized | ScheduleNotInitialized
  | Unauthorized | Overflow | NothingToClaim | NotRevocable | AlreadyRevoked | AlreadyCompleted
  | CliffNotReached | InvalidDuration | ZeroAmount | MaxBeneficiaries

fun vesting_err :: "vesting_error \<Rightarrow> instruction_error" where
  "vesting_err AlreadyInitialized = Custom 0"
| "vesting_err NotInitialized = Custom 1"
| "vesting_err ScheduleAlreadyInitialized = Custom 2"
| "vesting_err ScheduleNotInitialized = Custom 3"
| "vesting_err Unauthorized = Custom 4"
| "vesting_err Overflow = Custom 5"
| "vesting_err NothingToClaim = Custom 6"
| "vesting_err NotRevocable = Custom 7"
| "vesting_err AlreadyRevoked = Custom 8"
| "vesting_err AlreadyCompleted = Custom 9"
| "vesting_err CliffNotReached = Custom 10"
| "vesting_err InvalidDuration = Custom 11"
| "vesting_err ZeroAmount = Custom 12"
| "vesting_err MaxBeneficiaries = Custom 13"

record vesting_codecs =
  registry_codec :: "vesting_registry borsh"
  schedule_codec :: "vesting_schedule borsh"
  vesting_instruction_codec :: "vesting_instruction borsh"

section \<open>Operations\<close>

text \<open>The \<open>match\<close> on the release schedule: what is released inside the vesting window.\<close>

definition released_amount :: "vesting_schedule \<Rightarrow> i64 \<Rightarrow> i64 \<Rightarrow> u64 res" where
  "released_amount s elapsed_after_cliff vesting_window =
     (case schedule s of
        Linear \<Rightarrow>
          rbind (ok_or (checked_mul (u64_as_u128 (total_amount s)) (i64_as_u128 elapsed_after_cliff))
                   (vesting_err Overflow)) (\<lambda>x.
          Inr (u128_as_u64 (x div i64_as_u128 vesting_window)))
      | Quarterly \<Rightarrow>
          let total_quarters = i64_div vesting_window SECONDS_PER_QUARTER
          in if sint total_quarters \<le> 0 then Inr (total_amount s)
             else
             let elapsed_quarters = i64_div elapsed_after_cliff SECONDS_PER_QUARTER;
                 quarters_completed = (if sint elapsed_quarters \<le> sint total_quarters
                                       then elapsed_quarters else total_quarters)
             in rbind (ok_or (checked_mul (u64_as_u128 (total_amount s)) (i64_as_u128 quarters_completed))
                         (vesting_err Overflow)) (\<lambda>x.
                Inr (u128_as_u64 (x div i64_as_u128 total_quarters))))"

definition calculate_vested_amount :: "vesting_schedule \<Rightarrow> i64 \<Rightarrow> u64 res" where
  "calculate_vested_amount s now =
     (if status s = Revoked then Inr (total_amount s)
      else
      rbind (ok_or (i64_checked_add (start_timestamp s) (cliff_seconds s)) (vesting_err Overflow)) (\<lambda>cliff_end.
      if sint now < sint cliff_end then Inr 0
      else
      rbind (ok_or (i64_checked_add (start_timestamp s) (duration_seconds s)) (vesting_err Overflow)) (\<lambda>vesting_end.
      if sint vesting_end \<le> sint now then Inr (total_amount s)
      else
      rbind (ok_or (i64_checked_sub (duration_seconds s) (cliff_seconds s)) (vesting_err Overflow)) (\<lambda>vesting_window.
      if sint vesting_window \<le> 0 then Inr (total_amount s)
      else
      rbind (ok_or (i64_checked_sub now cliff_end) (vesting_err Overflow)) (\<lambda>elapsed_after_cliff.
      released_amount s elapsed_after_cliff vesting_window)))))"

definition spl_token_transfer :: "pubkey \<Rightarrow> pubkey \<Rightarrow> pubkey \<Rightarrow> pubkey \<Rightarrow> u64 \<Rightarrow> cpi_instruction" where
  "spl_token_transfer token_program_id source destination auth amount =
     \<lparr>cpi_program_id = token_program_id,
      cpi_accounts = [\<lparr>meta_key = source, meta_signer = False, meta_writable = True\<rparr>,
                      \<lparr>meta_key = destination, meta_signer = False, meta_writable = True\<rparr>,
                      \<lparr>meta_key = auth, meta_signer = True, meta_writable = False\<rparr>],
      cpi_data_of = RawData (3 # to_le_bytes amount)\<rparr>"

definition initial_registry :: "pubkey \<Rightarrow> pubkey \<Rightarrow> pubkey \<Rightarrow> u8 \<Rightarrow> vesting_registry" where
  "initial_registry auth vlt mint b =
     \<lparr>reg_is_initialized = True, reg_authority = auth, vault = vlt, token_mint = mint,
      total_deposited = 0, total_claimed = 0, total_revoked = 0, active_schedules = 0,
      schedule_counter = 0, reg_bump = b\<rparr>"

definition vesting_process_initialize_registry ::
  "env \<Rightarrow> vesting_codecs \<Rightarrow> pubkey \<Rightarrow> instruction_account list \<Rightarrow> vm \<Rightarrow> vm res" where
  "vesting_process_initialize_registry e c program_id ias v =
     rbind (next_account_info ias) (\<lambda>(auth, it).
     rbind (next_account_info it) (\<lambda>(registry_account, it).
     rbind (next_account_info it) (\<lambda>(vlt, it).
     rbind (next_account_info it) (\<lambda>(mint, it).
     rbind (next_account_info it) (\<lambda>(system_program, it).
     if \<not> is_signer auth then Inl MissingRequiredSignature
     else
     let (registry_pda, b) = find_program_address e [REGISTRY_SEED] program_id
     in
     if registry_pda \<noteq> key registry_account then Inl InvalidSeeds
     else
     rbind (rent_get e) (\<lambda>minimum_balance.
     rbind (invoke_signed e program_id ias
              (system_create_account (key auth) (key registry_account)
                 (minimum_balance VestingRegistry_LEN) (word_of_nat VestingRegistry_LEN) program_id)
              [auth, registry_account, system_program] [[REGISTRY_SEED, [b]]] v) (\<lambda>v.
     store_account (registry_codec c) (initial_registry (key auth) (key vlt) (key mint) b)
       (key registry_account) v)))))))"

definition new_schedule ::
  "pubkey \<Rightarrow> pubkey \<Rightarrow> u64 \<Rightarrow> clock \<Rightarrow> i64 \<Rightarrow> i64 \<Rightarrow> release_schedule \<Rightarrow> bool \<Rightarrow> u64 \<Rightarrow> u8 \<Rightarrow> vesting_schedule" where
  "new_schedule reg_key ben amount clk cliff duration sched revoc index b =
     \<lparr>sch_is_initialized = True, registry = reg_key, beneficiary = ben, total_amount = amount,
      claimed_amount = 0, start_timestamp = unix_timestamp clk, cliff_seconds = cliff,
      duration_seconds = duration, schedule = sched, status = Active, revocable = revoc,
      sch_index = index, sch_bump = b\<rparr>"

definition vesting_process_create_schedule ::
  "env \<Rightarrow> vesting_codecs \<Rightarrow> pubkey \<Rightarrow> pubkey \<Rightarrow> u64 \<Rightarrow> u32 \<Rightarrow> u32 \<Rightarrow> release_schedule \<Rightarrow> bool
     \<Rightarrow> instruction_account list \<Rightarrow> vm \<Rightarrow> vm res" where
  "vesting_process_create_schedule e c program_id ben amount cliff_months duration_months sched revoc ias v =
     rbind (next_account_info ias) (\<lambda>(auth, it).
     rbind (next_account_info it) (\<lambda>(registry_account, it).
     rbind (next_account_info it) (\<lambda>(schedule_account, it).
     rbind (next_account_info it) (\<lambda>(beneficiary_account, it).
     rbind (next_account_info it) (\<lambda>(system_program, it).
     if \<not> is_signer auth then Inl MissingRequiredSignature
     else
     rbind (load_account (registry_codec c) (key registry_account) v) (\<lambda>reg.
     if \<not> reg_is_initialized reg then Inl (vesting_err NotInitialized)
     else if reg_authority reg \<noteq> key auth then Inl (vesting_err Unauthorized)
     else if amount = 0 then Inl (vesting_err ZeroAmount)
     else if MAX_BENEFICIARIES \<le> unat (active_schedules reg) then Inl (vesting_err MaxBeneficiaries)
     else
     rbind (ok_or (i64_checked_mul (u32_as_i64 cliff_months) SECONDS_PER_MONTH) (vesting_err Overflow)) (\<lambda>cliff.
     rbind (ok_or (i64_checked_mul (u32_as_i64 duration_months) SECONDS_PER_MONTH) (vesting_err Overflow)) (\<lambda>duration.
     if sint duration \<le> sint cliff \<and> 0 < duration_months \<and> 0 < cliff_months
     then Inl (vesting_err InvalidDuration)
     else
     let index = schedule_counter reg;
         index_bytes = to_le_bytes index;
         (schedule_pda, b) =
           find_program_address e [SCHEDULE_SEED, to_le_bytes (key registry_account), index_bytes] program_id
     in
     if schedule_pda \<noteq> key schedule_account then Inl InvalidSeeds
     else
     rbind (rent_get e) (\<lambda>minimum_balance.
     rbind (invoke_signed e program_id ias
              (system_create_account (key auth) (key schedule_account)
                 (minimum_balance VestingSchedule_LEN) (word_of_nat VestingSchedule_LEN) program_id)
              [auth, schedule_account, system_program]
              [[SCHEDULE_SEED, to_le_bytes (key registry_account), index_bytes, [b]]] v) (\<lambda>v.
     rbind (clock_get e) (\<lambda>clk.
     rbind (store_account (schedule_codec c)
              (new_schedule (key registry_account) ben amount clk cliff duration sched revoc index b)
              (key schedule_account) v) (\<lambda>v.
     rbind (ok_or (checked_add (total_deposited reg) amount) (vesting_err Overflow)) (\<lambda>deposited.
     rbind (ok_or (checked_add (active_schedules reg) 1) (vesting_err Overflow)) (\<lambda>active.
     rbind (ok_or (checked_add (schedule_counter reg) 1) (vesting_err Overflow)) (\<lambda>counter.
     store_account (registry_codec c)
       (reg\<lparr>total_deposited := deposited, active_schedules := active, schedule_counter := counter\<rparr>)
       (key registry_account) v)))))))))))))))"

text \<open>The updates of the two accounts by a claim.\<close>

definition record_claim :: "vesting_schedule \<Rightarrow> u64 \<Rightarrow> vesting_schedule" where
  "record_claim s claimed =
     (let s = s\<lparr>claimed_amount := claimed\<rparr>
      in if total_amount s \<le> claimed_amount s then s\<lparr>status := Completed\<rparr> else s)"

definition register_claim :: "vesting_schedule \<Rightarrow> u64 \<Rightarrow> vesting_registry \<Rightarrow> vesting_registry" where
  "register_claim s tc reg =
     (let reg = reg\<lparr>total_claimed := tc\<rparr>
      in if status s = Completed
         then reg\<lparr>active_schedules := saturating_sub (active_schedules reg) 1\<rparr> else reg)"

definition vesting_process_claim ::
  "env \<Rightarrow> vesting_codecs \<Rightarrow> pubkey \<Rightarrow> instruction_account list \<Rightarrow> vm \<Rightarrow> vm res" where
  "vesting_process_claim e c program_id ias v =
     rbind (next_account_info ias) (\<lambda>(ben, it).
     rbind (next_account_info it) (\<lambda>(schedule_account, it).
     rbind (next_account_info it) (\<lambda>(registry_account, it).
     rbind (next_account_info it) (\<lambda>(vault_token_account, it).
     rbind (next_account_info it) (\<lambda>(beneficiary_token_account, it).
     rbind (next_account_info it) (\<lambda>(vault_authority, it).
     rbind (next_account_info it) (\<lambda>(token_program, it).
     rbind (next_account_info it) (\<lambda>(clock_sysvar, it).
     if \<not> is_signer ben then Inl MissingRequiredSignature
     else
     rbind (load_account (schedule_codec c) (key schedule_account) v) (\<lambda>s.
     if \<not> sch_is_initialized s then Inl (vesting_err ScheduleNotInitialized)
     else if beneficiary s \<noteq> key ben then Inl (vesting_err Unauthorized)
     else if status s = Completed then Inl (vesting_err AlreadyCompleted)
     else
     rbind (clock_from_account_info e (key clock_sysvar) (mem v (key clock_sysvar))) (\<lambda>clk.
     rbind (calculate_vested_amount s (unix_timestamp clk)) (\<lambda>vested.
     rbind (ok_or (checked_sub vested (claimed_amount s)) (vesting_err Overflow)) (\<lambda>claimable.
     if claimable = 0 then Inl (vesting_err NothingToClaim)
     else
     let (vault_auth_pda, b) =
       find_program_address e [VAULT_SEED, to_le_bytes (key registry_account)] program_id
     in
     if vault_auth_pda \<noteq> key vault_authority then Inl InvalidSeeds
     else
     rbind (invoke_signed e program_id ias
              (spl_token_transfer (key token_program) (key vault_token_account)
                 (key beneficiary_token_account) vault_auth_pda claimable)
              [vault_token_account, beneficiary_token_account, vault_authority, token_program]
              [[VAULT_SEED, to_le_bytes (key registry_account), [b]]] v) (\<lambda>v.
     rbind (ok_or (checked_add (claimed_amount s) claimable) (vesting_err Overflow)) (\<lambda>claimed.
     let s = record_claim s claimed in
     rbind (store_account (schedule_codec c) s (key schedule_account) v) (\<lambda>v.
     rbind (load_account (registry_codec c) (key registry_account) v) (\<lambda>reg.
     rbind (ok_or (checked_add (total_claimed reg) claimable) (vesting_err Overflow)) (\<lambda>tc.
     store_account (registry_codec c) (register_claim s tc reg) (key registry_account) v)))))))))))))))))"

definition vesting_process_revoke ::
  "env \<Rightarrow> vesting_codecs \<Rightarrow> instruction_account list \<Rightarrow> vm \<Rightarrow> vm res" where
  "vesting_process_revoke e c ias v =
     rbind (next_account_info ias) (\<lambda>(auth, it).
     rbind (next_account_info it) (\<lambda>(schedule_account, it).
     rbind (next_account_info it) (\<lambda>(registry_account, it).
     rbind (next_account_info it) (\<lambda>(clock_sysvar, it).
     if \<not> is_signer auth then Inl MissingRequiredSignature
     else
     rbind (load_account (registry_codec c) (key registry_account) v) (\<lambda>reg.
     if \<not> reg_is_initialized reg then Inl (vesting_err NotInitialized)
     else if reg_authority reg \<noteq> key auth then Inl (vesting_err Unauthorized)
     else
     rbind (load_account (schedule_codec c) (key schedule_account) v) (\<lambda>s.
     if \<not> sch_is_initialized s then Inl (vesting_err ScheduleNotInitialized)
     else if \<not> revocable s then Inl (vesting_err NotRevocable)
     else if status s = Revoked then Inl (vesting_err AlreadyRevoked)
     else if status s = Completed then Inl (vesting_err AlreadyCompleted)
     else
     rbind (clock_from_account_info e (key clock_sysvar) (mem v (key clock_sysvar))) (\<lambda>clk.
     rbind (calculate_vested_amount s (unix_timestamp clk)) (\<lambda>vested.
     rbind (ok_or (checked_sub (total_amount s) vested) (vesting_err Overflow)) (\<lambda>unvested.
     rbind (store_account (schedule_codec c) (s\<lparr>total_amount := vested, status := Revoked\<rparr>)
              (key schedule_account) v) (\<lambda>v.
     rbind (load_account (registry_codec c) (key registry_account) v) (\<lambda>reg.
     rbind (ok_or (checked_add (total_revoked reg) unvested) (vesting_err Overflow)) (\<lambda>tr.
     store_account (registry_codec c)
       (reg\<lparr>total_revoked := tr, active_schedules := saturating_sub (active_schedules reg) 1\<rparr>)
       (key registry_account) v))))))))))))"

text \<open>The query only logs; its one remaining effect is a possible overflow panic.\<close>

definition vesting_process_query_schedule ::
  "env \<Rightarrow> vesting_codecs \<Rightarrow> instruction_account list \<Rightarrow> vm \<Rightarrow> vm res" where
  "vesting_process_query_schedule e c ias v =
     rbind (next_account_info ias) (\<lambda>(schedule_account, it).
     rbind (next_account_info it) (\<lambda>(clock_sysvar, it).
     rbind (load_account (schedule_codec c) (key schedule_account) v) (\<lambda>s.
     if \<not> sch_is_initialized s then Inl (vesting_err ScheduleNotInitialized)
     else
     rbind (clock_from_account_info e (key clock_sysvar) (mem v (key clock_sysvar))) (\<lambda>clk.
     rbind (calculate_vested_amount s (unix_timestamp clk)) (\<lambda>vested.
     let cliff_end = (case i64_checked_add (start_timestamp s) (cliff_seconds s) of
                        Some x \<Rightarrow> sint x | None \<Rightarrow> 2 ^ 63 - 1);
         now = sint (unix_timestamp clk)
     in
     if overflow_checks e \<and> now < cliff_end \<and> \<not> i64_fits (cliff_end - now)
     then Inl ProgramFailedToComplete
     else Inr v)))))"

definition vesting_process_transfer_authority ::
  "vesting_codecs \<Rightarrow> pubkey \<Rightarrow> instruction_account list \<Rightarrow> vm \<Rightarrow> vm res" where
  "vesting_process_transfer_authority c new_authority ias v =
     rbind (next_account_info ias) (\<lambda>(current_authority, it).
     rbind (next_account_info it) (\<lambda>(registry_account, it).
     if \<not> is_signer current_authority then Inl MissingRequiredSignature
     else
     rbind (load_account (registry_codec c) (key registry_account) v) (\<lambda>reg.
     if \<not> reg_is_initialized reg then Inl (vesting_err NotInitialized)
     else if reg_authority reg \<noteq> key current_authority then Inl (vesting_err Unauthorized)
     else
     store_account (registry_codec c) (reg\<lparr>reg_authority := new_authority\<rparr>) (key registry_account) v)))"

definition vesting_process_instruction :: "env \<Rightarrow> vesting_codecs \<Rightarrow> pubkey \<Rightarrow> bytes \<Rightarrow> program" where
  "vesting_process_instruction e c program_id instruction_data ias v =
     rbind (ok_or (try_from_slice (vesting_instruction_codec c) instruction_data) InvalidInstructionData) (\<lambda>ix.
     case ix of
       InitializeRegistry \<Rightarrow> vesting_process_initialize_registry e c program_id ias v
     | CreateSchedule ben amount cliff_months duration_months sched revoc \<Rightarrow>
         vesting_process_create_schedule e c program_id ben amount cliff_months duration_months sched revoc ias v
     | Claim \<Rightarrow> vesting_process_claim e c program_id ias v
     | Revoke \<Rightarrow> vesting_process_revoke e c ias v
     | QuerySchedule \<Rightarrow> vesting_process_query_schedule e c ias v
     | TransferAuthority new_authority \<Rightarrow> vesting_process_transfer_authority c new_authority ias v)"

section \<open>Layouts\<close>

fun release_schedule_tag :: "release_schedule \<Rightarrow> u8" where
  "release_schedule_tag Linear = 0"
| "release_schedule_tag Quarterly = 1"

definition release_schedule_of :: "u8 \<Rightarrow> release_schedule option" where
  "release_schedule_of b = (if b = 0 then Some Linear else if b = 1 then Some Quarterly else None)"

fun vesting_status_tag :: "vesting_status \<Rightarrow> u8" where
  "vesting_status_tag Active = 0"
| "vesting_status_tag Completed = 1"
| "vesting_status_tag Revoked = 2"

definition vesting_status_of :: "u8 \<Rightarrow> vesting_status option" where
  "vesting_status_of b =
     (if b = 0 then Some Active else if b = 1 then Some Completed else if b = 2 then Some Revoked else None)"

definition registry_layout :: "vesting_registry layout" where
  "registry_layout =
     iso_layout
       (\<lambda>(i, a, vlt, m, d, cl, r, ac, n, b).
          \<lparr>reg_is_initialized = i, reg_authority = a, vault = vlt, token_mint = m, total_deposited = d,
           total_claimed = cl, total_revoked = r, active_schedules = ac, schedule_counter = n, reg_bump = b\<rparr>)
       (\<lambda>r. (reg_is_initialized r, reg_authority r, vault r, token_mint r, total_deposited r,
             total_claimed r, total_revoked r, active_schedules r, schedule_counter r, reg_bump r))
       (pair_layout bool_layout (pair_layout word_layout (pair_layout word_layout (pair_layout word_layout
       (pair_layout word_layout (pair_layout word_layout (pair_layout word_layout (pair_layout word_layout
       (pair_layout word_layout word_layout)))))))))"

definition schedule_layout :: "vesting_schedule layout" where
  "schedule_layout =
     iso_layout
       (\<lambda>(i, r, be, t, cl, st, cs, ds, sc, sta, revoc, n, b).
          \<lparr>sch_is_initialized = i, registry = r, beneficiary = be, total_amount = t, claimed_amount = cl,
           start_timestamp = st, cliff_seconds = cs, duration_seconds = ds, schedule = sc, status = sta,
           revocable = revoc, sch_index = n, sch_bump = b\<rparr>)
       (\<lambda>s. (sch_is_initialized s, registry s, beneficiary s, total_amount s, claimed_amount s,
             start_timestamp s, cliff_seconds s, duration_seconds s, schedule s, status s,
             revocable s, sch_index s, sch_bump s))
       (pair_layout bool_layout (pair_layout word_layout (pair_layout word_layout (pair_layout word_layout
       (pair_layout word_layout (pair_layout word_layout (pair_layout word_layout (pair_layout word_layout
       (pair_layout (enum_layout release_schedule_tag release_schedule_of)
       (pair_layout (enum_layout vesting_status_tag vesting_status_of)
       (pair_layout bool_layout (pair_layout word_layout word_layout))))))))))))"

lemma release_schedule_of_tag: "release_schedule_of (release_schedule_tag x) = Some x"
  by (cases x) (simp_all add: release_schedule_of_def)

lemma vesting_status_of_tag: "vesting_status_of (vesting_status_tag x) = Some x"
  by (cases x) (simp_all add: vesting_status_of_def)

lemma wf_registry_layout: "wf_layout VestingRegistry_LEN registry_layout"
  unfolding registry_layout_def
  by (rule wf_layout_eq, (rule wf_layouts)+) (simp_all add: VestingRegistry_LEN_def)

lemma wf_schedule_layout: "wf_layout VestingSchedule_LEN schedule_layout"
  unfolding schedule_layout_def
  by (rule wf_layout_eq, (rule wf_layouts wf_enum_layout [OF release_schedule_of_tag]
        wf_enum_layout [OF vesting_status_of_tag])+)
    (simp_all add: VestingSchedule_LEN_def)

interpretation registry_borsh: borsh_struct "of_layout registry_layout" VestingRegistry_LEN
  by (rule borsh_struct_of_layout [OF wf_registry_layout])

interpretation schedule_borsh: borsh_struct "of_layout schedule_layout" VestingSchedule_LEN
  by (rule borsh_struct_of_layout [OF wf_schedule_layout])

lemmas vesting_io [simp] = of_layout_io [OF wf_registry_layout] of_layout_io [OF wf_schedule_layout]

section \<open>The vesting curve\<close>

definition released_spec :: "release_schedule \<Rightarrow> nat \<Rightarrow> int \<Rightarrow> int \<Rightarrow> nat" where
  "released_spec sched amount elapsed window =
     (case sched of
        Linear \<Rightarrow> amount * nat elapsed div nat window
      | Quarterly \<Rightarrow>
          let q = window div 7776000
          in if q \<le> 0 then amount else amount * nat (min (elapsed div 7776000) q) div nat q)"

definition vested_spec :: "vesting_schedule \<Rightarrow> int \<Rightarrow> nat" where
  "vested_spec s now =
     (let amount = unat (total_amount s); cliff_end = sint (start_timestamp s) + sint (cliff_seconds s);
          window = sint (duration_seconds s) - sint (cliff_seconds s)
      in if status s = Revoked then amount
         else if now < cliff_end then 0
         else if sint (start_timestamp s) + sint (duration_seconds s) \<le> now \<or> window \<le> 0 then amount
         else released_spec (schedule s) amount (now - cliff_end) window)"

text \<open>The end of the cliff and of the duration are representable, and neither is negative.\<close>

definition schedule_wf :: "vesting_schedule \<Rightarrow> bool" where
  "schedule_wf s \<longleftrightarrow>
     i64_fits (sint (start_timestamp s) + sint (cliff_seconds s)) \<and>
     i64_fits (sint (start_timestamp s) + sint (duration_seconds s)) \<and>
     0 \<le> sint (cliff_seconds s) \<and> 0 \<le> sint (duration_seconds s)"

lemma revoked_vested: "status s = Revoked \<Longrightarrow> calculate_vested_amount s now = Inr (total_amount s)"
  by (simp add: calculate_vested_amount_def)

lemma i64_checked_total: "i64_fits x \<Longrightarrow> \<exists>c. i64_checked x = Some c \<and> sint c = x"
  by (simp add: i64_checked_def sint_word_of_int_fits)

lemma sint_seconds_per_quarter [simp]: "sint SECONDS_PER_QUARTER = 7776000"
  by (simp add: SECONDS_PER_QUARTER_def)

lemma sint_seconds_per_month [simp]: "sint SECONDS_PER_MONTH = 2592000"
  by (simp add: SECONDS_PER_MONTH_def)

lemma released_amount_refines:
  assumes "0 \<le> sint elapsed" and "sint elapsed \<le> sint window" and "0 < sint window"
  shows "\<exists>w. released_amount s elapsed window = Inr w \<and>
    unat w = released_spec (schedule s) (unat (total_amount s)) (sint elapsed) (sint window)"
proof (cases "schedule s")
  case Linear
  then show ?thesis
    using u128_scale [OF assms, of "total_amount s"] by (simp add: released_amount_def released_spec_def)
next
  case Quarterly
  let ?tq = "i64_div window SECONDS_PER_QUARTER" and ?eq = "i64_div elapsed SECONDS_PER_QUARTER"
  have tq: "sint ?tq = sint window div 7776000" and eq: "sint ?eq = sint elapsed div 7776000"
    using assms by (simp_all add: sint_i64_div)
  define qc where "qc = (if sint ?eq \<le> sint ?tq then ?eq else ?tq)"
  have qc: "sint qc = min (sint ?eq) (sint ?tq)" by (simp add: qc_def)
  have "0 \<le> sint ?eq" using eq assms by (simp add: pos_imp_zdiv_nonneg_iff)
  show ?thesis
  proof (cases "sint ?tq \<le> 0")
    case True
    then show ?thesis using Quarterly tq by (simp add: released_amount_def released_spec_def)
  next
    case False
    with qc \<open>0 \<le> sint ?eq\<close> have "0 \<le> sint qc" "sint qc \<le> sint ?tq" "0 < sint ?tq" by auto
    note scale = u128_scale [OF this, of "total_amount s"]
    have "released_amount s elapsed window
        = Inr (u128_as_u64 (u64_as_u128 (total_amount s) * i64_as_u128 qc div i64_as_u128 ?tq))"
      using Quarterly False scale(1) by (simp add: released_amount_def Let_def qc_def)
    moreover have "released_spec (schedule s) (unat (total_amount s)) (sint elapsed) (sint window)
        = unat (total_amount s) * nat (sint qc) div nat (sint ?tq)"
      using Quarterly False qc unfolding tq eq by (simp add: released_spec_def Let_def)
    ultimately show ?thesis using scale(2) by simp
  qed
qed

lemma calculate_vested_amount_refines:
  assumes "schedule_wf s"
  shows "\<exists>w. calculate_vested_amount s now = Inr w \<and> unat w = vested_spec s (sint now)"
proof -
  define a c d where "a = sint (start_timestamp s)" and "c = sint (cliff_seconds s)" and "d = sint (duration_seconds s)"
  note acd = a_def c_def d_def
  from assms have fits: "i64_fits (a + c)" "i64_fits (a + d)" "0 \<le> c" "0 \<le> d"
    by (auto simp: schedule_wf_def acd)
  have fits_window: "i64_fits (d - c)"
    using fits(3,4) sint_i64_bounds [of "duration_seconds s"] sint_i64_bounds [of "cliff_seconds s"]
    by (simp add: i64_fits_def acd)
  obtain cliff_end vesting_end window where
    ce: "i64_checked_add (start_timestamp s) (cliff_seconds s) = Some cliff_end" "sint cliff_end = a + c" and
    ve: "i64_checked_add (start_timestamp s) (duration_seconds s) = Some vesting_end" "sint vesting_end = a + d" and
    win: "i64_checked_sub (duration_seconds s) (cliff_seconds s) = Some window" "sint window = d - c"
    using fits(1,2) fits_window [THEN i64_checked_total] i64_checked_total
    unfolding i64_checked_add_def i64_checked_sub_def acd by metis
  show ?thesis
  proof (cases "status s = Revoked \<or> sint now < a + c \<or> a + d \<le> sint now \<or> d - c \<le> 0")
    case True
    then show ?thesis
      by (auto simp: calculate_vested_amount_def vested_spec_def ce ve win Let_def acd [symmetric])
  next
    case False
    then have range: "0 \<le> sint now - (a + c)" "sint now - (a + c) \<le> d - c" "0 < d - c" by auto
    then have "i64_fits (sint now - (a + c))"
      using fits_window by (simp add: i64_fits_def)
    then obtain elapsed where el: "i64_checked_sub now cliff_end = Some elapsed" "sint elapsed = sint now - (a + c)"
      using i64_checked_total unfolding i64_checked_sub_def ce(2) by blast
    show ?thesis
      using released_amount_refines [of elapsed window s] False range
      by (simp add: calculate_vested_amount_def vested_spec_def ce ve win el Let_def acd [symmetric])
  qed
qed

lemma scale_le: "t * nat x div nat y \<le> t" if "x \<le> y" for t :: nat and x y :: int
  using that div_le_mono [of "t * nat x" "t * nat y" "nat y"]
  by (cases "nat y = 0") (simp_all add: nat_mono mult_le_mono2)

lemma released_spec_le: "elapsed \<le> window \<Longrightarrow> released_spec sched amount elapsed window \<le> amount"
  by (cases sched) (simp_all add: released_spec_def Let_def scale_le)

lemma released_spec_mono:
  "elapsed \<le> elapsed' \<Longrightarrow> released_spec sched amount elapsed window \<le> released_spec sched amount elapsed' window"
  by (cases sched)
    (auto simp: released_spec_def Let_def intro!: div_le_mono mult_le_mono2 nat_mono min.mono zdiv_mono1)

lemma vested_spec_le: "vested_spec s now \<le> unat (total_amount s)"
  by (simp add: vested_spec_def Let_def released_spec_le)

lemma vested_spec_mono:
  assumes "now \<le> now'"
  shows "vested_spec s now \<le> vested_spec s now'"
proof (cases "vested_spec s now' = unat (total_amount s)")
  case True
  then show ?thesis using vested_spec_le [of s now] by simp
next
  case False
  then show ?thesis
    using assms by (simp add: vested_spec_def Let_def released_spec_mono split: if_splits)
qed

section \<open>The handlers\<close>

lemma claim_effect:
  assumes "vesting_process_claim e c pid ias v = Inr v'"
  obtains ben sa ra va ba au tp cs rest s clk vested claimable u d reg tc b where
    "ias = ben # sa # ra # va # ba # au # tp # cs # rest" "is_signer ben"
    "load (schedule_codec c) (data (mem v (key sa))) = Inr s" "sch_is_initialized s"
    "beneficiary s = key ben" "status s \<noteq> Completed"
    "clock_from_account_info e (key cs) (mem v (key cs)) = Inr clk"
    "calculate_vested_amount s (unix_timestamp clk) = Inr vested"
    "unat vested = unat (claimed_amount s) + unat claimable" "claimable \<noteq> 0"
    "find_program_address e [VAULT_SEED, to_le_bytes (key ra)] pid = (key au, b)"
    "cpi_common e pid ias (spl_token_transfer (key tp) (key va) (key ba) (key au) claimable)
       [key va, key ba, key au, key tp] [[VAULT_SEED, to_le_bytes (key ra), [b]]] v = Inr u"
    "store (schedule_codec c) (record_claim s vested) (data (mem u (key sa))) = Inr d"
    "load (registry_codec c) (data (mem (set_mem_data (key sa) d u) (key ra))) = Inr reg"
    "unat tc = unat (total_claimed reg) + unat claimable"
    "store_account (registry_codec c) (register_claim (record_claim s vested) tc reg) (key ra) (set_mem_data (key sa) d u) = Inr v'"
proof -
  from assms obtain ben sa ra va ba au tp cs rest where
    ias: "ias = ben # sa # ra # va # ba # au # tp # cs # rest"
    by (auto simp: vesting_process_claim_def rust_simps)
  obtain pda b where pda: "find_program_address e [VAULT_SEED, to_le_bytes (key ra)] pid = (pda, b)" by fastforce
  from assms [unfolded vesting_process_claim_def ias] pda obtain s clk vested claimable u cl d reg tc where
    sig: "is_signer ben" and load: "load (schedule_codec c) (data (mem v (key sa))) = Inr s"
    and g: "sch_is_initialized s" "beneficiary s = key ben" "status s \<noteq> Completed"
    and clk: "clock_from_account_info e (key cs) (mem v (key cs)) = Inr clk"
    and vest: "calculate_vested_amount s (unix_timestamp clk) = Inr vested"
    and sub: "checked_sub vested (claimed_amount s) = Some claimable" "claimable \<noteq> 0" and au: "pda = key au"
    and cpi: "cpi_common e pid ias (spl_token_transfer (key tp) (key va) (key ba) (key au) claimable)
       [key va, key ba, key au, key tp] [[VAULT_SEED, to_le_bytes (key ra), [b]]] v = Inr u"
    and add: "checked_add (claimed_amount s) claimable = Some cl"
    and st: "store (schedule_codec c) (record_claim s cl) (data (mem u (key sa))) = Inr d"
    and reg: "load (registry_codec c) (data (mem (set_mem_data (key sa) d u) (key ra))) = Inr reg"
    and tc: "checked_add (total_claimed reg) claimable = Some tc"
    and st2: "store_account (registry_codec c) (register_claim (record_claim s cl) tc reg) (key ra) (set_mem_data (key sa) d u) = Inr v'"
    by (auto simp: ias rbind_eq_Inr ok_or_eq_Inr if_Inl_eq_Inr Let_def load_account_def store_account_def)
  have "cl = vested"
    using sub add by (simp add: checked_sub_eq_Some checked_add_eq_Some word_unat_eq_iff)
  then show thesis
    using that [OF ias sig load g clk vest _ sub(2) pda [unfolded au] cpi st [unfolded \<open>cl = vested\<close>] reg _ st2 [unfolded \<open>cl = vested\<close>]]
      sub(1) tc by (simp add: checked_sub_eq_Some checked_add_eq_Some)
qed

lemma revoke_effect:
  assumes "vesting_process_revoke e c ias v = Inr v'"
  obtains auth sa ra cs rest r s clk vested unvested d reg tr where
    "ias = auth # sa # ra # cs # rest" "is_signer auth"
    "load (registry_codec c) (data (mem v (key ra))) = Inr r" "reg_is_initialized r" "reg_authority r = key auth"
    "load (schedule_codec c) (data (mem v (key sa))) = Inr s" "sch_is_initialized s" "revocable s" "status s = Active"
    "clock_from_account_info e (key cs) (mem v (key cs)) = Inr clk"
    "calculate_vested_amount s (unix_timestamp clk) = Inr vested"
    "unat (total_amount s) = unat vested + unat (unvested :: u64)"
    "store (schedule_codec c) (s\<lparr>total_amount := vested, status := Revoked\<rparr>) (data (mem v (key sa))) = Inr d"
    "load (registry_codec c) (data (mem (set_mem_data (key sa) d v) (key ra))) = Inr reg"
    "unat tr = unat (total_revoked reg) + unat unvested"
    "store_account (registry_codec c)
       (reg\<lparr>total_revoked := tr, active_schedules := saturating_sub (active_schedules reg) 1\<rparr>)
       (key ra) (set_mem_data (key sa) d v) = Inr v'"
proof -
  from assms obtain auth sa ra cs rest where ias: "ias = auth # sa # ra # cs # rest"
    by (auto simp: vesting_process_revoke_def rust_simps)
  from assms [unfolded vesting_process_revoke_def ias] obtain r s clk vested unvested d reg tr where
    sig: "is_signer auth"
    and r: "load (registry_codec c) (data (mem v (key ra))) = Inr r" "reg_is_initialized r" "reg_authority r = key auth"
    and s: "load (schedule_codec c) (data (mem v (key sa))) = Inr s" "sch_is_initialized s" "revocable s"
      "status s \<noteq> Revoked" "status s \<noteq> Completed"
    and clk: "clock_from_account_info e (key cs) (mem v (key cs)) = Inr clk"
    and vest: "calculate_vested_amount s (unix_timestamp clk) = Inr vested"
    and sub: "checked_sub (total_amount s) vested = Some unvested"
    and st: "store (schedule_codec c) (s\<lparr>total_amount := vested, status := Revoked\<rparr>) (data (mem v (key sa))) = Inr d"
    and reg: "load (registry_codec c) (data (mem (set_mem_data (key sa) d v) (key ra))) = Inr reg"
    and tr: "checked_add (total_revoked reg) unvested = Some tr"
    and st2: "store_account (registry_codec c)
       (reg\<lparr>total_revoked := tr, active_schedules := saturating_sub (active_schedules reg) 1\<rparr>)
       (key ra) (set_mem_data (key sa) d v) = Inr v'"
    by (auto simp: rbind_eq_Inr ok_or_eq_Inr if_Inl_eq_Inr load_account_def store_account_def)
  have "status s = Active" using s(4,5) by (cases "status s") auto
  then show thesis
    using that [where unvested = unvested, OF ias sig r s(1-3) _ clk vest _ st reg _ st2] sub tr
    by (simp add: checked_sub_eq_Some checked_add_eq_Some)
qed

lemma create_schedule_effect:
  assumes "vesting_process_create_schedule e c pid ben amount cm dm sched revoc ias v = Inr v'"
  obtains auth ra sa rest reg cliff duration b n infos u clk d td ac sc where
    "ias = auth # ra # sa # rest" "is_signer auth"
    "load (registry_codec c) (data (mem v (key ra))) = Inr reg" "reg_authority reg = key auth"
    "amount \<noteq> 0" "unat (active_schedules reg) < MAX_BENEFICIARIES"
    "sint cliff = int (unat cm) * 2592000" "sint duration = int (unat dm) * 2592000"
    "cpi_common e pid ias (system_create_account (key auth) (key sa) n (word_of_nat VestingSchedule_LEN) pid)
       infos [[SCHEDULE_SEED, to_le_bytes (key ra), to_le_bytes (schedule_counter reg), [b]]] v = Inr u"
    "clock_get e = Inr clk"
    "store (schedule_codec c) (new_schedule (key ra) ben amount clk cliff duration sched revoc (schedule_counter reg) b)
       (data (mem u (key sa))) = Inr d"
    "unat td = unat (total_deposited reg) + unat amount" "unat ac = unat (active_schedules reg) + 1"
    "unat sc = unat (schedule_counter reg) + 1"
    "store_account (registry_codec c) (reg\<lparr>total_deposited := td, active_schedules := ac, schedule_counter := sc\<rparr>)
       (key ra) (set_mem_data (key sa) d u) = Inr v'"
proof -
  from assms obtain auth ra sa ba sys rest where ias: "ias = auth # ra # sa # ba # sys # rest"
    by (auto simp: vesting_process_create_schedule_def rust_simps)
  from assms [unfolded vesting_process_create_schedule_def ias] obtain reg cliff duration where
    sig: "is_signer auth"
    and reg: "load (registry_codec c) (data (mem v (key ra))) = Inr reg" "reg_authority reg = key auth"
    and g: "amount \<noteq> 0" "unat (active_schedules reg) < MAX_BENEFICIARIES"
    and secs: "i64_checked_mul (u32_as_i64 cm) SECONDS_PER_MONTH = Some cliff"
      "i64_checked_mul (u32_as_i64 dm) SECONDS_PER_MONTH = Some duration"
    by (auto simp: rbind_eq_Inr ok_or_eq_Inr if_Inl_eq_Inr load_account_def)
  obtain pda b where pda: "find_program_address e
      [SCHEDULE_SEED, to_le_bytes (key ra), to_le_bytes (schedule_counter reg)] pid = (pda, b)" by fastforce
  from assms [unfolded vesting_process_create_schedule_def ias] sig reg g secs pda obtain n u clk d td ac sc where
    cpi: "cpi_common e pid ias (system_create_account (key auth) (key sa) n (word_of_nat VestingSchedule_LEN) pid)
       [key auth, key sa, key sys] [[SCHEDULE_SEED, to_le_bytes (key ra), to_le_bytes (schedule_counter reg), [b]]] v = Inr u"
    and clk: "clock_get e = Inr clk"
    and st: "store (schedule_codec c) (new_schedule (key ra) ben amount clk cliff duration sched revoc (schedule_counter reg) b)
       (data (mem u (key sa))) = Inr d"
    and adds: "checked_add (total_deposited reg) amount = Some td" "checked_add (active_schedules reg) 1 = Some ac"
      "checked_add (schedule_counter reg) 1 = Some sc"
    and st2: "store_account (registry_codec c) (reg\<lparr>total_deposited := td, active_schedules := ac, schedule_counter := sc\<rparr>)
       (key ra) (set_mem_data (key sa) d u) = Inr v'"
    by (auto simp: ias rbind_eq_Inr ok_or_eq_Inr if_Inl_eq_Inr Let_def load_account_def store_account_def)
  show thesis
    using that [OF ias sig reg g _ _ cpi clk st _ _ _ st2] secs adds
    by (simp add: i64_checked_mul_eq_Some checked_add_eq_Some)
qed

lemma initialize_registry_effect:
  assumes "vesting_process_initialize_registry e c pid ias v = Inr v'"
  obtains auth vlt mint b ra n infos u d where
    "cpi_common e pid ias (system_create_account auth ra n (word_of_nat VestingRegistry_LEN) pid)
       infos [[REGISTRY_SEED, [b]]] v = Inr u"
    "find_program_address e [REGISTRY_SEED] pid = (ra, b)"
    "store (registry_codec c) (initial_registry auth vlt mint b) (data (mem u ra)) = Inr d"
    "v' = set_mem_data ra d u"
proof -
  obtain ra b where pda: "find_program_address e [REGISTRY_SEED] pid = (ra, b)" by fastforce
  with assms obtain auth vlt mint sys n u d where
    "cpi_common e pid ias (system_create_account auth ra n (word_of_nat VestingRegistry_LEN) pid)
       [auth, ra, sys] [[REGISTRY_SEED, [b]]] v = Inr u"
    "store (registry_codec c) (initial_registry auth vlt mint b) (data (mem u ra)) = Inr d" "v' = set_mem_data ra d u"
    by (auto simp: vesting_process_initialize_registry_def rust_simps)
  with pda show thesis by (intro that)
qed

lemma vesting_cases [consumes 1, case_names InitializeRegistry CreateSchedule Claim Revoke QuerySchedule TransferAuthority]:
  assumes "vesting_process_instruction e c pid d ias v = Inr v'"
  obtains
    "vesting_process_initialize_registry e c pid ias v = Inr v'"
  | ben amount cm dm sched revoc where "vesting_process_create_schedule e c pid ben amount cm dm sched revoc ias v = Inr v'"
  | "vesting_process_claim e c pid ias v = Inr v'"
  | "vesting_process_revoke e c ias v = Inr v'"
  | "v' = v"
  | new where "vesting_process_transfer_authority c new ias v = Inr v'"
proof -
  from assms obtain ix where "try_from_slice (vesting_instruction_codec c) d = Some ix"
    by (auto simp: vesting_process_instruction_def rust_simps)
  with assms show thesis
    by (cases ix) (auto simp: vesting_process_instruction_def vesting_process_query_schedule_def rust_simps
        intro: that split: if_splits)
qed

sublocale chain \<subseteq> vesting: onchain_program "vesting_process_instruction e c pid d" for c pid d
proof
  fix ias v v'
  assume "vesting_process_instruction e c pid d ias v = Inr v'"
  then show "account_keys (tx v') = account_keys (tx v) \<and> balance_potential (tx v') = balance_potential (tx v)"
  proof (cases rule: vesting_cases)
    case Claim
    then show ?thesis
      by (rule claim_effect) (auto simp: store_account_eq_Inr dest!: invoke_tracked)
  next
    case Revoke
    then show ?thesis by (rule revoke_effect) (auto simp: store_account_eq_Inr)
  next
    case CreateSchedule
    then show ?thesis by (rule create_schedule_effect) (auto simp: store_account_eq_Inr dest!: invoke_tracked)
  next
    case InitializeRegistry
    then show ?thesis by (rule initialize_registry_effect) (auto dest!: invoke_tracked)
  qed (auto simp: vesting_process_transfer_authority_def rust_simps)
qed

section \<open>Results of a claim and of a revocation\<close>

text \<open>The accounts of the codecs, at their declared lengths.\<close>

definition vesting_codecs_ok :: "vesting_codecs \<Rightarrow> bool" where
  "vesting_codecs_ok c \<longleftrightarrow>
     borsh_struct (registry_codec c) VestingRegistry_LEN \<and> borsh_struct (schedule_codec c) VestingSchedule_LEN"

lemma vesting_codecs_okD:
  assumes "vesting_codecs_ok c"
  shows "load (registry_codec c) d = Inr r \<Longrightarrow> store (registry_codec c) r' d = Inr d' \<Longrightarrow> load (registry_codec c) d' = Inr r'"
    and "load (schedule_codec c) d = Inr s \<Longrightarrow> store (schedule_codec c) s' d = Inr d' \<Longrightarrow> load (schedule_codec c) d' = Inr s'"
  using assms by (auto simp: vesting_codecs_ok_def intro: borsh_struct.load_after_store)

text \<open>
  The token program is a program outside the repository. What its \<open>Transfer\<close> (instruction 3) promises, for
  the amount \<open>tok\<close> a token account holds: it needs both token accounts writable, and moves the amount.
\<close>

definition spl_token_contract :: "env \<Rightarrow> pubkey \<Rightarrow> (account \<Rightarrow> nat) \<Rightarrow> bool" where
  "spl_token_contract e tp tok \<longleftrightarrow>
     (\<forall>n ias t t'. other_program e tp (3 # to_le_bytes (n :: u64)) ias t = Inr t' \<and> key (ias ! 0) \<noteq> key (ias ! 1) \<longrightarrow>
        is_writable (ias ! 0) \<and> is_writable (ias ! 1) \<and>
        tok (accounts t' (key (ias ! 0))) + unat n = tok (accounts t (key (ias ! 0))) \<and>
        tok (accounts t' (key (ias ! 1))) = tok (accounts t (key (ias ! 1))) + unat n)"

lemma token_transfer_effect:
  assumes "spl_token_contract e tp tok" and "src \<noteq> dst"
    and "cpi_common e pid caller (spl_token_transfer tp src dst auth n) infos seeds v = Inr u"
  shows "tok (mem u src) + unat n = tok (mem v src)" and "tok (mem u dst) = tok (mem v dst) + unat n"
proof -
  let ?ix = "spl_token_transfer tp src dst auth n"
  obtain signers ias t where
    ias: "prepare_next_cpi_instruction (account_keys (tx v)) caller ?ix signers = Inr ias"
    and t: "accounts t = (\<lambda>k. if k \<in> key ` set ias then mem v k else accounts (tx v) k)"
    and c: "callee e ?ix ias t = Inr (tx u)"
    and m: "mem u = (\<lambda>k. if k \<in> key ` {ia \<in> set (dedup ias). is_writable ia} then accounts (tx u) k else mem v k)"
    by (rule cpi_common_effect [OF assms(3)])
  obtain a b z where abz: "ias = [a, b, z]" "key a = src" "key b = dst"
    using prepare_keys [OF ias] by (auto simp: spl_token_transfer_def map_eq_Cons_conv)
  have "other_program e tp (3 # to_le_bytes n) ias t = Inr (tx u)" "key (ias ! 0) \<noteq> key (ias ! 1)"
    using c assms(2) abz by (simp_all add: callee_def spl_token_transfer_def)
  then have w: "is_writable a" "is_writable b" "tok (accounts (tx u) src) + unat n = tok (accounts t src)"
    "tok (accounts (tx u) dst) = tok (accounts t dst) + unat n"
    using assms(1) abz unfolding spl_token_contract_def by fastforce+
  have "src \<in> key ` {ia \<in> set (dedup ias). is_writable ia}" "dst \<in> key ` {ia \<in> set (dedup ias). is_writable ia}"
    using w(1,2) assms(2) abz by auto
  then show "tok (mem u src) + unat n = tok (mem v src)" "tok (mem u dst) = tok (mem v dst) + unat n"
    using w(3,4) t m abz by auto
qed

lemma claim_result:
  assumes "vesting_codecs_ok c" and "vesting_process_claim e c pid ias v = Inr v'"
    and "sa = key (ias ! 1)" and "ra = key (ias ! 2)" and "sa \<noteq> ra"
    and "{sa, ra} \<inter> {key (ias ! 3), key (ias ! 4), key (ias ! 5)} = {}"
    and "load (schedule_codec c) (data (mem v sa)) = Inr s" and "load (registry_codec c) (data (mem v ra)) = Inr r"
  obtains clk vested claimable tc b u d d2 where
    "is_signer (ias ! 0)" "beneficiary s = key (ias ! 0)" "status s \<noteq> Completed"
    "clock_from_account_info e (key (ias ! 7)) (mem v (key (ias ! 7))) = Inr clk"
    "calculate_vested_amount s (unix_timestamp clk) = Inr vested"
    "unat vested = unat (claimed_amount s) + unat claimable" "claimable \<noteq> 0"
    "find_program_address e [VAULT_SEED, to_le_bytes ra] pid = (key (ias ! 5), b)"
    "cpi_common e pid ias (spl_token_transfer (key (ias ! 6)) (key (ias ! 3)) (key (ias ! 4)) (key (ias ! 5)) claimable)
       [key (ias ! 3), key (ias ! 4), key (ias ! 5), key (ias ! 6)] [[VAULT_SEED, to_le_bytes ra, [b]]] v = Inr u"
    "v' = set_mem_data ra d2 (set_mem_data sa d u)"
    "load (schedule_codec c) (data (mem v' sa)) = Inr (record_claim s vested)"
    "unat tc = unat (total_claimed r) + unat claimable"
    "load (registry_codec c) (data (mem v' ra)) = Inr (register_claim (record_claim s vested) tc r)"
  using assms(2)
proof (rule claim_effect)
  fix ben sa' ra' va ba au tp cs :: instruction_account and rest s' clk vested claimable u d reg tc b
  assume ias: "ias = ben # sa' # ra' # va # ba # au # tp # cs # rest" and sig: "is_signer ben"
    and s': "load (schedule_codec c) (data (mem v (key sa'))) = Inr s'"
    and g: "beneficiary s' = key ben" "status s' \<noteq> Completed"
    and clk: "clock_from_account_info e (key cs) (mem v (key cs)) = Inr clk"
    and vest: "calculate_vested_amount s' (unix_timestamp clk) = Inr vested"
    and cl: "unat vested = unat (claimed_amount s') + unat claimable" "claimable \<noteq> 0"
    and pda: "find_program_address e [VAULT_SEED, to_le_bytes (key ra')] pid = (key au, b)"
    and cpi: "cpi_common e pid ias (spl_token_transfer (key tp) (key va) (key ba) (key au) claimable)
       [key va, key ba, key au, key tp] [[VAULT_SEED, to_le_bytes (key ra'), [b]]] v = Inr u"
    and st: "store (schedule_codec c) (record_claim s' vested) (data (mem u (key sa'))) = Inr d"
    and reg: "load (registry_codec c) (data (mem (set_mem_data (key sa') d u) (key ra'))) = Inr reg"
    and tc: "unat tc = unat (total_claimed reg) + unat claimable"
    and st2: "store_account (registry_codec c) (register_claim (record_claim s' vested) tc reg) (key ra')
       (set_mem_data (key sa') d u) = Inr v'"
  have keys: "key sa' = sa" "key ra' = ra" and s: "s' = s" using assms(3,4,7) s' ias by auto
  have frame: "mem u sa = mem v sa" "mem u ra = mem v ra"
    by (rule cpi_common_frame [OF cpi]; use assms(6) in \<open>auto simp: spl_token_transfer_def ias\<close>)+
  have r: "reg = r" using reg frame assms(5,8) keys by simp
  obtain d2 where d2: "store (registry_codec c) (register_claim (record_claim s vested) tc r) (data (mem v ra)) = Inr d2"
    and v': "v' = set_mem_data ra d2 (set_mem_data sa d u)"
    using st2 assms(5) frame unfolding keys s r by (auto simp: store_account_eq_Inr)
  have "load (registry_codec c) d2 = Inr (register_claim (record_claim s vested) tc r)"
    by (rule vesting_codecs_okD(1) [OF assms(1,8) d2])
  moreover have "load (schedule_codec c) d = Inr (record_claim s vested)"
    using vesting_codecs_okD(2) [OF assms(1,7)] st frame unfolding keys s by simp
  ultimately show thesis
    using that [of clk vested claimable b u d2 d tc] sig g clk vest cl pda cpi tc assms(5) unfolding s r keys
    by (simp add: ias v')
qed

lemma revoke_result:
  assumes "vesting_codecs_ok c" and "vesting_process_revoke e c ias v = Inr v'"
    and "sa = key (ias ! 1)" and "ra = key (ias ! 2)" and "sa \<noteq> ra"
    and "load (schedule_codec c) (data (mem v sa)) = Inr s" and "load (registry_codec c) (data (mem v ra)) = Inr r"
  obtains clk vested unvested tr where
    "is_signer (ias ! 0)" "reg_authority r = key (ias ! 0)" "revocable s" "status s = Active"
    "clock_from_account_info e (key (ias ! 3)) (mem v (key (ias ! 3))) = Inr clk"
    "calculate_vested_amount s (unix_timestamp clk) = Inr vested"
    "unat (total_amount s) = unat vested + unat (unvested :: u64)"
    "load (schedule_codec c) (data (mem v' sa)) = Inr (s\<lparr>total_amount := vested, status := Revoked\<rparr>)"
    "unat tr = unat (total_revoked r) + unat unvested"
    "load (registry_codec c) (data (mem v' ra)) =
       Inr (r\<lparr>total_revoked := tr, active_schedules := saturating_sub (active_schedules r) 1\<rparr>)"
  using assms(2)
proof (rule revoke_effect)
  fix auth sa' ra' cs :: instruction_account and rest r' s' clk vested and unvested :: u64 and d reg tr
  assume ias: "ias = auth # sa' # ra' # cs # rest" and sig: "is_signer auth"
    and r': "load (registry_codec c) (data (mem v (key ra'))) = Inr r'" "reg_authority r' = key auth"
    and s': "load (schedule_codec c) (data (mem v (key sa'))) = Inr s'" "revocable s'" "status s' = Active"
    and clk: "clock_from_account_info e (key cs) (mem v (key cs)) = Inr clk"
    and vest: "calculate_vested_amount s' (unix_timestamp clk) = Inr vested"
    and sum: "unat (total_amount s') = unat vested + unat unvested"
    and st: "store (schedule_codec c) (s'\<lparr>total_amount := vested, status := Revoked\<rparr>) (data (mem v (key sa'))) = Inr d"
    and reg: "load (registry_codec c) (data (mem (set_mem_data (key sa') d v) (key ra'))) = Inr reg"
    and tr: "unat tr = unat (total_revoked reg) + unat unvested"
    and st2: "store_account (registry_codec c)
       (reg\<lparr>total_revoked := tr, active_schedules := saturating_sub (active_schedules reg) 1\<rparr>)
       (key ra') (set_mem_data (key sa') d v) = Inr v'"
  have keys: "key sa' = sa" "key ra' = ra" and s: "s' = s" "r' = r" using assms(3,4,6,7) s'(1) r'(1) ias by auto
  have r: "reg = r" using reg assms(5,7) keys by simp
  obtain d2 where d2: "store (registry_codec c)
      (r\<lparr>total_revoked := tr, active_schedules := saturating_sub (active_schedules r) 1\<rparr>) (data (mem v ra)) = Inr d2"
    and v': "v' = set_mem_data ra d2 (set_mem_data sa d v)"
    using st2 assms(5) unfolding keys r by (auto simp: store_account_eq_Inr)
  note loads = vesting_codecs_okD(1) [OF assms(1,7) d2] vesting_codecs_okD(2) [OF assms(1,6) st [unfolded keys s]]
  then show thesis
    using that [of clk vested unvested tr] sig r' s' clk vest sum tr assms(5) unfolding s r
    by (auto simp: ias v')
qed

lemma month_seconds_range:
  fixes m :: u32 and w :: i64
  assumes "sint w = int (unat m) * 2592000"
  shows "0 \<le> sint w" and "sint w < 2 ^ 62"
proof -
  have "unat m < 2 ^ 32" using unsigned_less [of m, where ?'a = nat] by simp
  then have "int (unat m) * 2592000 < 2 ^ 32 * 2592000" by (metis mult_strict_right_mono of_nat_less_iff of_nat_numeral of_nat_power zero_less_numeral)
  then show "sint w < 2 ^ 62" unfolding assms by (rule less_trans) simp
  show "0 \<le> sint w" unfolding assms by simp
qed

lemma new_schedule_wf:
  assumes "\<bar>sint (unix_timestamp clk)\<bar> < 2 ^ 62"
    and "sint cliff = int (unat (cm :: u32)) * 2592000" and "sint duration = int (unat (dm :: u32)) * 2592000"
  shows "schedule_wf (new_schedule k ben amount clk cliff duration sched revoc i b)"
  using assms(1) month_seconds_range [OF assms(2)] month_seconds_range [OF assms(3)]
  by (simp add: schedule_wf_def new_schedule_def i64_fits_def abs_less_iff)

section \<open>Properties\<close>

text \<open>Concrete codecs, and a chain whose token program accepts every call, for evaluation.\<close>

definition vesting_layouts :: vesting_codecs where
  "vesting_layouts =
     \<lparr>registry_codec = of_layout registry_layout, schedule_codec = of_layout schedule_layout,
      vesting_instruction_codec = \<lparr>try_from_slice = (\<lambda>_. Some Claim), to_vec = (\<lambda>_. [])\<rparr>\<rparr>"

definition vesting_chain :: "pubkey \<Rightarrow> i64 \<Rightarrow> env" where
  "vesting_chain pda now =
     (native_env (\<lambda>_ _. (pda, 255)) (\<lambda>_. 1000) \<lparr>slot = 7, epoch = 1, unix_timestamp = now\<rparr> (\<lambda>b. b))
       \<lparr>other_program := (\<lambda>_ _ _. Inr)\<rparr>"

definition sample_schedule :: vesting_schedule where
  "sample_schedule = new_schedule 3 1 1000 \<lparr>slot = 0, epoch = 0, unix_timestamp = 0\<rparr> 2592000 10368000 Linear True 0 255"

definition sample_registry :: vesting_registry where
  "sample_registry = (initial_registry 9 4 8 255)\<lparr>active_schedules := 5, total_deposited := 1000\<rparr>"

definition sample_vm :: "vesting_schedule \<Rightarrow> vesting_registry \<Rightarrow> vm" where
  "sample_vm s r =
     enter_vm (tx_of [1, 2, 3, 4, 5, 6, 7, 8, 9]
       (\<lambda>k. if k = 2 then \<lparr>lamports = 1, data = put schedule_layout s, owner = 99\<rparr>
            else if k = 3 then \<lparr>lamports = 1, data = put registry_layout r, owner = 99\<rparr>
            else wallet 10))"

definition claim_accounts :: "instruction_account list" where
  "claim_accounts =
     [account_ref 1 True True, account_ref 2 False True, account_ref 3 False True, account_ref 4 False True,
      account_ref 5 False True, account_ref 6 False False, account_ref 7 False False, account_ref 8 False False]"

definition revoke_accounts :: "instruction_account list" where
  "revoke_accounts =
     [account_ref 9 True True, account_ref 2 False True, account_ref 3 False True, account_ref 8 False False]"

lemma vesting_layouts_ok: "vesting_codecs_ok vesting_layouts"
  by (simp add: vesting_codecs_ok_def vesting_layouts_def registry_borsh.borsh_struct_axioms
      schedule_borsh.borsh_struct_axioms)

lemma sample_vm_loads [simp]:
  "load (schedule_codec vesting_layouts) (data (mem (sample_vm s r) 2)) = Inr s"
  "load (registry_codec vesting_layouts) (data (mem (sample_vm s r) 3)) = Inr r"
  by (simp_all add: sample_vm_def vesting_layouts_def tx_of_def)

lemma sample_schedule_fields [simp]:
  "sch_is_initialized sample_schedule" "beneficiary sample_schedule = 1" "total_amount sample_schedule = 1000"
  "claimed_amount sample_schedule = 0" "status sample_schedule = Active" "revocable sample_schedule"
  by (simp_all add: sample_schedule_def new_schedule_def)

lemma sample_schedule_vested [simp]: "calculate_vested_amount sample_schedule 5184000 = Inr 333"
  by (simp add: sample_schedule_def new_schedule_def calculate_vested_amount_def released_amount_def ok_or_def
      i64_checked_add_def i64_checked_sub_def i64_checked_def i64_fits_def checked_mul_def
      u64_as_u128_def i64_as_u128_def u128_as_u64_def)

text \<open>
  A token program and a chain that runs it. A token account holds its amount in little-endian bytes.
\<close>

definition token_amount :: "account \<Rightarrow> nat" where
  "token_amount a = nat_of_le (data a)"

definition token_program :: "pubkey \<Rightarrow> bytes \<Rightarrow> instruction_account list \<Rightarrow> tx_accounts \<Rightarrow> tx_accounts res" where
  "token_program p d ias t =
     (let f = key (ias ! 0); g = key (ias ! 1); n = nat_of_le (tl d); x = token_amount (accounts t f);
          y = token_amount (accounts t g)
      in if d = [] \<or> hd d \<noteq> 3 \<or> f = g \<or> \<not> is_writable (ias ! 0) \<or> \<not> is_writable (ias ! 1) \<or> x < n \<or> 2 ^ 64 \<le> x \<or> 2 ^ 64 \<le> y + n
         then Inl InvalidArgument
         else Inr (t\<lparr>accounts := (accounts t)(f := (accounts t f)\<lparr>data := nat_le 8 (x - n)\<rparr>,
                                             g := (accounts t g)\<lparr>data := nat_le 8 (y + n)\<rparr>)\<rparr>))"

definition token_chain :: env where
  "token_chain = (vesting_chain 6 5184000)\<lparr>other_program := token_program\<rparr>"

definition token_vm :: vm where
  "token_vm =
     enter_vm (tx_of [1, 2, 3, 4, 5, 6, 7, 8, 9]
       (\<lambda>k. if k = 2 then \<lparr>lamports = 1, data = put schedule_layout sample_schedule, owner = 99\<rparr>
            else if k = 3 then \<lparr>lamports = 1, data = put registry_layout sample_registry, owner = 99\<rparr>
            else if k = 4 then \<lparr>lamports = 1, data = nat_le 8 1000, owner = 7\<rparr>
            else if k = 5 then \<lparr>lamports = 1, data = nat_le 8 20, owner = 7\<rparr>
            else wallet 10))"

lemma token_vm_loads [simp]:
  "load (schedule_codec vesting_layouts) (data (mem token_vm 2)) = Inr sample_schedule"
  "load (registry_codec vesting_layouts) (data (mem token_vm 3)) = Inr sample_registry"
  by (simp_all add: token_vm_def vesting_layouts_def tx_of_def)

lemma token_amount_of_bytes:
  "x < 2 ^ 64 \<Longrightarrow> nat_of_le (nat_le 8 x) = x" "nat_of_le (to_le_bytes (n :: u64)) = unat n"
  using unsigned_less [of n, where ?'a = nat] by (simp_all add: to_le_bytes_def nat_of_le_nat_le)

lemma token_chain_contract: "spl_token_contract token_chain 7 token_amount"
  unfolding spl_token_contract_def
proof (intro allI impI, elim conjE)
  fix n :: u64 and ias :: "instruction_account list" and t t' :: tx_accounts
  let ?f = "key (ias ! 0)" and ?g = "key (ias ! 1)"
  let ?x = "token_amount (accounts t ?f)" and ?y = "token_amount (accounts t ?g)"
  assume run: "other_program token_chain 7 (3 # to_le_bytes n) ias t = Inr t'" and ne: "?f \<noteq> ?g"
  then have g: "is_writable (ias ! 0)" "is_writable (ias ! 1)" "unat n \<le> ?x" "?x < 2 ^ 64" "?y + unat n < 2 ^ 64"
    and t': "accounts t' = (accounts t)(?f := (accounts t ?f)\<lparr>data := nat_le 8 (?x - unat n)\<rparr>,
                                        ?g := (accounts t ?g)\<lparr>data := nat_le 8 (?y + unat n)\<rparr>)"
    by (auto simp: token_chain_def token_program_def token_amount_of_bytes(2) Let_def split: if_splits)
  have "token_amount (accounts t' ?g) = ?y + unat n"
    using g(5) by (simp add: t' token_amount_def token_amount_of_bytes(1))
  moreover have "token_amount (accounts t' ?f) + unat n = ?x"
    using g(3,4) ne by (simp add: t' token_amount_def token_amount_of_bytes(1))
  ultimately show "is_writable (ias ! 0) \<and> is_writable (ias ! 1) \<and>
      token_amount (accounts t' ?f) + unat n = ?x \<and> token_amount (accounts t' ?g) = ?y + unat n"
    using g by blast
qed

lemmas token_eval = token_chain_def token_vm_def token_program_def token_amount_def token_amount_of_bytes

lemmas vesting_eval = vesting_layouts_def vesting_chain_def sample_vm_def sample_registry_def
  claim_accounts_def revoke_accounts_def vesting_process_claim_def vesting_process_revoke_def
  spl_token_transfer_def new_schedule_def initial_registry_def
  record_claim_def register_claim_def VestingSchedule_LEN_def VestingRegistry_LEN_def
  i64_checked_def i64_fits_def saturating_sub_def

text \<open>
  C9. The vesting curve. On a well-formed schedule \<open>calculate_vested_amount\<close> always returns, and what it
  computes with 64-bit and 128-bit arithmetic is the value of the curve \<open>vested_spec\<close> on the integers:
  no overflow and no truncation on the way.
\<close>

theorem vested_amount_refines_curve:
  assumes "schedule_wf s"
  shows "\<exists>w. calculate_vested_amount s now = Inr w \<and> unat w = vested_spec s (sint now)"
  by (rule calculate_vested_amount_refines [OF assms])

theorem vested_amount_refines_curve_witness:
  "\<exists>w. calculate_vested_amount sample_schedule 5184000 = Inr w \<and> unat w = 333"
proof -
  have "schedule_wf sample_schedule"
    by (simp add: schedule_wf_def sample_schedule_def new_schedule_def i64_fits_def)
  from vested_amount_refines_curve [OF this, of 5184000] show ?thesis
    by (simp add: vested_spec_def released_spec_def sample_schedule_def new_schedule_def)
qed

text \<open>
  C10. Shape of the curve: the vested amount never decreases with time and never exceeds the
  allocation; it is zero before the end of the cliff and the whole allocation from the end of the
  duration on, provided the duration reaches beyond the cliff.
\<close>

theorem vested_amount_shape:
  assumes "schedule_wf s" and "sint now \<le> sint now'"
  shows "\<exists>w w'. calculate_vested_amount s now = Inr w \<and> calculate_vested_amount s now' = Inr w' \<and>
    unat w \<le> unat w' \<and> unat w' \<le> unat (total_amount s) \<and>
    (status s \<noteq> Revoked \<and> sint now < sint (start_timestamp s) + sint (cliff_seconds s) \<longrightarrow> w = 0) \<and>
    (sint (cliff_seconds s) \<le> sint (duration_seconds s) \<and>
     sint (start_timestamp s) + sint (duration_seconds s) \<le> sint now \<longrightarrow> w = total_amount s)"
proof -
  obtain w w' where w: "calculate_vested_amount s now = Inr w" "unat w = vested_spec s (sint now)"
    and w': "calculate_vested_amount s now' = Inr w'" "unat w' = vested_spec s (sint now')"
    using calculate_vested_amount_refines [OF assms(1)] by blast
  have "status s \<noteq> Revoked \<and> sint now < sint (start_timestamp s) + sint (cliff_seconds s) \<longrightarrow> w = 0"
    by (simp add: w vested_spec_def Let_def unat_eq_zero [symmetric])
  moreover have "sint (cliff_seconds s) \<le> sint (duration_seconds s) \<and>
      sint (start_timestamp s) + sint (duration_seconds s) \<le> sint now \<longrightarrow> w = total_amount s"
    by (simp add: w vested_spec_def Let_def word_unat_eq_iff)
  moreover have "unat w \<le> unat w'" "unat w' \<le> unat (total_amount s)"
    using vested_spec_mono [OF assms(2), of s] vested_spec_le [of s] by (simp_all add: w w')
  ultimately show ?thesis using w(1) w'(1) by blast
qed

theorem vested_amount_shape_witness:
  "\<exists>w w'. calculate_vested_amount sample_schedule 100 = Inr w \<and> calculate_vested_amount sample_schedule 10368000 = Inr w' \<and>
    w = 0 \<and> unat w' \<le> 1000"
proof -
  have "schedule_wf sample_schedule" "sint (100 :: i64) \<le> sint (10368000 :: i64)"
    by (simp_all add: schedule_wf_def sample_schedule_def new_schedule_def i64_fits_def)
  from vested_amount_shape [OF this] show ?thesis
    by (auto simp: sample_schedule_def new_schedule_def)
qed

text \<open>
  C11. A schedule comes into being well formed: when \<open>CreateSchedule\<close> succeeds and the clock is within
  half of the range of 64-bit time stamps, the stored schedule is active, unclaimed, has the requested
  amount and beneficiary and is well formed, and the registry counts it.
\<close>

theorem create_schedule_well_formed:
  assumes "vesting_codecs_ok c"
    and "vesting_process_create_schedule e c pid ben amount cm dm sched revoc ias v = Inr v'"
    and "clock_get e = Inr clk" and "\<bar>sint (unix_timestamp clk)\<bar> < 2 ^ 62"
    and "key (ias ! 1) \<noteq> key (ias ! 2)"
    and "load (registry_codec c) (data (mem v (key (ias ! 1)))) = Inr r"
  shows "is_signer (ias ! 0) \<and> reg_authority r = key (ias ! 0) \<and>
    (\<exists>s r'. load (schedule_codec c) (data (mem v' (key (ias ! 2)))) = Inr s \<and> schedule_wf s \<and>
       status s = Active \<and> claimed_amount s = 0 \<and> total_amount s = amount \<and> beneficiary s = ben \<and>
       load (registry_codec c) (data (mem v' (key (ias ! 1)))) = Inr r' \<and>
       unat (active_schedules r') = unat (active_schedules r) + 1 \<and>
       unat (total_deposited r') = unat (total_deposited r) + unat amount)"
  using assms(2)
proof (rule create_schedule_effect)
  fix auth ra sa :: instruction_account and rest reg cliff duration b n infos u clk' d td ac sc
  assume ias: "ias = auth # ra # sa # rest" and sig: "is_signer auth"
    and reg: "load (registry_codec c) (data (mem v (key ra))) = Inr reg" "reg_authority reg = key auth"
    and secs: "sint cliff = int (unat cm) * 2592000" "sint duration = int (unat dm) * 2592000"
    and cpi: "cpi_common e pid ias (system_create_account (key auth) (key sa) n (word_of_nat VestingSchedule_LEN) pid)
       infos [[SCHEDULE_SEED, to_le_bytes (key ra), to_le_bytes (schedule_counter reg), [b]]] v = Inr u"
    and clk': "clock_get e = Inr clk'"
    and st: "store (schedule_codec c) (new_schedule (key ra) ben amount clk' cliff duration sched revoc (schedule_counter reg) b)
       (data (mem u (key sa))) = Inr d"
    and sums: "unat td = unat (total_deposited reg) + unat amount" "unat ac = unat (active_schedules reg) + 1"
    and st2: "store_account (registry_codec c) (reg\<lparr>total_deposited := td, active_schedules := ac, schedule_counter := sc\<rparr>)
       (key ra) (set_mem_data (key sa) d u) = Inr v'"
  let ?s = "new_schedule (key ra) ben amount clk cliff duration sched revoc (schedule_counter reg) b"
  note eff = invoke_create_account_effect [OF cpi]
  have same: "reg = r" "clk' = clk" "key ra \<noteq> key sa" using reg(1) clk' assms(3,5,6) ias by auto
  have dra: "data (mem u (key ra)) = data (mem v (key ra))" using same(3) by (simp add: eff(1))
  have len: "length (data (mem u (key sa))) = VestingSchedule_LEN"
    by (simp add: eff(1) fresh_account_def VestingSchedule_LEN_def)
  have "load (schedule_codec c) d = Inr ?s"
    using borsh_struct.load_store [OF _ len st] assms(1) same(2) by (simp add: vesting_codecs_ok_def)
  moreover obtain d2 where "store (registry_codec c) (r\<lparr>total_deposited := td, active_schedules := ac, schedule_counter := sc\<rparr>)
      (data (mem v (key ra))) = Inr d2" and v': "v' = set_mem_data (key ra) d2 (set_mem_data (key sa) d u)"
    using st2 same dra by (auto simp: store_account_eq_Inr)
  moreover from this(1) have "load (registry_codec c) d2 = Inr (r\<lparr>total_deposited := td, active_schedules := ac, schedule_counter := sc\<rparr>)"
    using vesting_codecs_okD(1) [OF assms(1)] reg(1) same(1) by blast
  moreover have "schedule_wf ?s" by (rule new_schedule_wf [OF assms(4) secs])
  ultimately show ?thesis
    using sig reg sums same(3) unfolding same(1,2) by (simp add: ias v' new_schedule_def)
qed

theorem create_schedule_well_formed_witness:
  "let v = enter_vm (tx_of [9, 3, 2, 1, 0]
         (\<lambda>k. if k = 3 then \<lparr>lamports = 1, data = put registry_layout sample_registry, owner = 99\<rparr>
              else if k = 9 then wallet 5000 else wallet 0));
       ias = [account_ref 9 True True, account_ref 3 False True, account_ref 2 False True,
              account_ref 1 False False, account_ref 0 False False]
   in \<exists>v' s. vesting_process_create_schedule (vesting_chain 2 100) vesting_layouts 99 1 700 3 12 Quarterly True ias v = Inr v' \<and>
        load (schedule_codec vesting_layouts) (data (mem v' 2)) = Inr s \<and> schedule_wf s \<and> total_amount s = 700"
proof -
  define v where "v = enter_vm (tx_of [9, 3, 2, 1, 0]
    (\<lambda>k. if k = 3 then \<lparr>lamports = 1, data = put registry_layout sample_registry, owner = 99\<rparr>
         else if k = 9 then wallet 5000 else wallet 0))"
  define ias where "ias = [account_ref 9 True True, account_ref 3 False True, account_ref 2 False True,
    account_ref 1 False False, account_ref 0 False False]"
  obtain v' where run: "vesting_process_create_schedule (vesting_chain 2 100) vesting_layouts 99 1 700 3 12 Quarterly True ias v = Inr v'"
    by (simp add: v_def ias_def vesting_process_create_schedule_def vesting_eval runtime_eval system_eval cpi_eval
        MAX_BENEFICIARIES_def i64_checked_mul_def)
  have clk: "clock_get (vesting_chain 2 100) = Inr \<lparr>slot = 7, epoch = 1, unix_timestamp = 100\<rparr>"
    by (simp add: vesting_chain_def native_env_def)
  have load: "load (registry_codec vesting_layouts) (data (mem v (key (ias ! 1)))) = Inr sample_registry"
    by (simp add: v_def ias_def tx_of_def vesting_layouts_def)
  have "\<bar>sint (unix_timestamp \<lparr>slot = 7, epoch = 1, unix_timestamp = 100\<rparr>)\<bar> < 2 ^ 62" "key (ias ! 1) \<noteq> key (ias ! 2)"
    by (simp_all add: ias_def)
  from create_schedule_well_formed [OF vesting_layouts_ok run clk this load] run show ?thesis
    unfolding v_def ias_def Let_def by auto
qed

text \<open>
  C12. A claim moves exactly what has vested and was not yet claimed. If it succeeds, it was signed by
  the beneficiary; one token transfer of the positive difference between the vested and the claimed
  amount was made, signed by the vault authority derived from the registry, and the final state is the
  state after that call but for the data of schedule and registry. The schedule now records the vested amount as
  claimed and the registry's total of claims went up by the same difference. Where the program given
  as token program keeps the promise of a token transfer, the first token account lost the difference
  and the second gained it. The code checks none of the three: the caller chooses the token program,
  the account that pays and the account that is paid.
\<close>

theorem claim_pays_vested:
  assumes "vesting_codecs_ok c" and "vesting_process_claim e c pid ias v = Inr v'"
    and "sa = key (ias ! 1)" and "ra = key (ias ! 2)" and "sa \<noteq> ra"
    and "{sa, ra} \<inter> {key (ias ! 3), key (ias ! 4), key (ias ! 5)} = {}"
    and "load (schedule_codec c) (data (mem v sa)) = Inr s" and "load (registry_codec c) (data (mem v ra)) = Inr r"
  shows "\<exists>clk vested claimable b u d d2 s' r'.
    is_signer (ias ! 0) \<and> beneficiary s = key (ias ! 0) \<and> status s \<noteq> Completed \<and>
    clock_from_account_info e (key (ias ! 7)) (mem v (key (ias ! 7))) = Inr clk \<and>
    calculate_vested_amount s (unix_timestamp clk) = Inr vested \<and>
    0 < unat claimable \<and> unat vested = unat (claimed_amount s) + unat claimable \<and>
    find_program_address e [VAULT_SEED, to_le_bytes ra] pid = (key (ias ! 5), b) \<and>
    cpi_common e pid ias (spl_token_transfer (key (ias ! 6)) (key (ias ! 3)) (key (ias ! 4)) (key (ias ! 5)) claimable)
      [key (ias ! 3), key (ias ! 4), key (ias ! 5), key (ias ! 6)] [[VAULT_SEED, to_le_bytes ra, [b]]] v = Inr u \<and>
    v' = set_mem_data ra d2 (set_mem_data sa d u) \<and>
    load (schedule_codec c) (data (mem v' sa)) = Inr s' \<and> claimed_amount s' = vested \<and>
    total_amount s' = total_amount s \<and> (status s' = Completed \<longleftrightarrow> unat (total_amount s) \<le> unat vested) \<and>
    load (registry_codec c) (data (mem v' ra)) = Inr r' \<and>
    unat (total_claimed r') = unat (total_claimed r) + unat claimable \<and>
    (\<forall>tok. spl_token_contract e (key (ias ! 6)) tok \<and> key (ias ! 3) \<noteq> key (ias ! 4) \<longrightarrow>
       tok (mem v' (key (ias ! 3))) + unat claimable = tok (mem v (key (ias ! 3))) \<and>
       tok (mem v' (key (ias ! 4))) = tok (mem v (key (ias ! 4))) + unat claimable)"
proof (rule claim_result [OF assms])
  fix clk vested claimable tc b u d d2
  assume *: "is_signer (ias ! 0)" "beneficiary s = key (ias ! 0)" "status s \<noteq> Completed"
    "clock_from_account_info e (key (ias ! 7)) (mem v (key (ias ! 7))) = Inr clk"
    "calculate_vested_amount s (unix_timestamp clk) = Inr vested"
    "unat vested = unat (claimed_amount s) + unat claimable" "claimable \<noteq> 0"
    "find_program_address e [VAULT_SEED, to_le_bytes ra] pid = (key (ias ! 5), b)"
    "cpi_common e pid ias (spl_token_transfer (key (ias ! 6)) (key (ias ! 3)) (key (ias ! 4)) (key (ias ! 5)) claimable)
       [key (ias ! 3), key (ias ! 4), key (ias ! 5), key (ias ! 6)] [[VAULT_SEED, to_le_bytes ra, [b]]] v = Inr u"
    "v' = set_mem_data ra d2 (set_mem_data sa d u)"
    "load (schedule_codec c) (data (mem v' sa)) = Inr (record_claim s vested)"
    "unat tc = unat (total_claimed r) + unat claimable"
    "load (registry_codec c) (data (mem v' ra)) = Inr (register_claim (record_claim s vested) tc r)"
  have "0 < unat claimable" using *(7) by (simp add: unat_gt_0)
  moreover have "claimed_amount (record_claim s vested) = vested" "total_amount (record_claim s vested) = total_amount s"
    "status (record_claim s vested) = Completed \<longleftrightarrow> unat (total_amount s) \<le> unat vested"
    using *(3) by (auto simp: record_claim_def Let_def word_le_nat_alt)
  moreover have "total_claimed (register_claim (record_claim s vested) tc r) = tc"
    by (simp add: register_claim_def Let_def)
  moreover have "mem v' (key (ias ! 3)) = mem u (key (ias ! 3))" "mem v' (key (ias ! 4)) = mem u (key (ias ! 4))"
    using assms(6) by (auto simp: *(10))
  moreover note token_transfer_effect [OF _ _ *(9)]
  ultimately show ?thesis
    by (intro exI [of _ clk] exI [of _ vested] exI [of _ claimable] exI [of _ b] exI [of _ u] exI [of _ d] exI [of _ d2]
        exI [of _ "record_claim s vested"] exI [of _ "register_claim (record_claim s vested) tc r"] conjI *)
      (simp_all add: *(12))
qed

theorem claim_pays_vested_witness:
  "spl_token_contract token_chain 7 token_amount \<and>
   (\<exists>v' s'. vesting_process_claim token_chain vesting_layouts 99 claim_accounts token_vm = Inr v' \<and>
      load (schedule_codec vesting_layouts) (data (mem v' 2)) = Inr s' \<and> unat (claimed_amount s') = 333 \<and>
      token_amount (mem token_vm 4) = 1000 \<and> token_amount (mem v' 4) = 667 \<and>
      token_amount (mem token_vm 5) = 20 \<and> token_amount (mem v' 5) = 353)"
proof -
  obtain v' where run: "vesting_process_claim token_chain vesting_layouts 99 claim_accounts token_vm = Inr v'"
    by (simp add: token_eval vesting_eval runtime_eval system_eval cpi_eval)
  have keys: "2 = key (claim_accounts ! 1)" "3 = key (claim_accounts ! 2)" "(2 :: pubkey) \<noteq> 3"
    "{2 :: pubkey, 3} \<inter> {key (claim_accounts ! 3), key (claim_accounts ! 4), key (claim_accounts ! 5)} = {}"
    by (simp_all add: claim_accounts_def)
  have held: "token_amount (mem token_vm 4) = 1000" "token_amount (mem token_vm 5) = 20"
    by (simp_all add: token_eval runtime_eval)
  from claim_pays_vested [OF vesting_layouts_ok run keys token_vm_loads] obtain clk vested and claimable :: u64 and s' where
    clk: "clock_from_account_info token_chain (key (claim_accounts ! 7)) (mem token_vm (key (claim_accounts ! 7))) = Inr clk"
    and calc: "calculate_vested_amount sample_schedule (unix_timestamp clk) = Inr vested"
    and sum: "unat vested = unat (claimed_amount sample_schedule) + unat claimable"
    and s': "load (schedule_codec vesting_layouts) (data (mem v' 2)) = Inr s'" "claimed_amount s' = vested"
    and tok: "\<forall>tok. spl_token_contract token_chain (key (claim_accounts ! 6)) tok \<and> key (claim_accounts ! 3) \<noteq> key (claim_accounts ! 4) \<longrightarrow>
       tok (mem v' (key (claim_accounts ! 3))) + unat claimable = tok (mem token_vm (key (claim_accounts ! 3))) \<and>
       tok (mem v' (key (claim_accounts ! 4))) = tok (mem token_vm (key (claim_accounts ! 4))) + unat claimable"
    by (elim exE conjE)
  from clk have "unix_timestamp clk = 5184000" by (auto simp: token_chain_def vesting_chain_def native_env_def)
  with calc have vested: "vested = 333" by simp
  with sum have "unat claimable = 333" by simp
  then have "token_amount (mem v' 4) = 667" "token_amount (mem v' 5) = 353"
    using tok [rule_format, of token_amount] token_chain_contract held by (simp_all add: claim_accounts_def)
  then show ?thesis using run s' vested held token_chain_contract by auto
qed

text \<open>
  C13. A revocation leaves the vested part to the beneficiary. If it succeeds, it was signed by the
  registry's authority on an active, revocable schedule; the allocation shrinks to what has vested and
  that amount counts as vested at any later or earlier time; the registry's total of revoked tokens
  goes up by exactly the rest.
\<close>

theorem revoke_keeps_vested:
  assumes "vesting_codecs_ok c" and "vesting_process_revoke e c ias v = Inr v'"
    and "sa = key (ias ! 1)" and "ra = key (ias ! 2)" and "sa \<noteq> ra"
    and "load (schedule_codec c) (data (mem v sa)) = Inr s" and "load (registry_codec c) (data (mem v ra)) = Inr r"
  shows "\<exists>clk vested s' r'.
    is_signer (ias ! 0) \<and> reg_authority r = key (ias ! 0) \<and> revocable s \<and> status s = Active \<and>
    clock_from_account_info e (key (ias ! 3)) (mem v (key (ias ! 3))) = Inr clk \<and>
    calculate_vested_amount s (unix_timestamp clk) = Inr vested \<and> unat vested \<le> unat (total_amount s) \<and>
    load (schedule_codec c) (data (mem v' sa)) = Inr s' \<and> claimed_amount s' = claimed_amount s \<and>
    (\<forall>now. calculate_vested_amount s' now = Inr vested) \<and>
    load (registry_codec c) (data (mem v' ra)) = Inr r' \<and>
    unat (total_revoked r') + unat vested = unat (total_revoked r) + unat (total_amount s)"
proof (rule revoke_result [OF assms])
  fix clk vested and unvested :: u64 and tr
  assume *: "is_signer (ias ! 0)" "reg_authority r = key (ias ! 0)" "revocable s" "status s = Active"
    "clock_from_account_info e (key (ias ! 3)) (mem v (key (ias ! 3))) = Inr clk"
    "calculate_vested_amount s (unix_timestamp clk) = Inr vested"
    and sum: "unat (total_amount s) = unat vested + unat unvested"
    and s': "load (schedule_codec c) (data (mem v' sa)) = Inr (s\<lparr>total_amount := vested, status := Revoked\<rparr>)"
    and tr: "unat tr = unat (total_revoked r) + unat unvested"
    and r': "load (registry_codec c) (data (mem v' ra)) =
       Inr (r\<lparr>total_revoked := tr, active_schedules := saturating_sub (active_schedules r) 1\<rparr>)"
  show ?thesis
    by (intro exI [of _ clk] exI [of _ vested] exI [of _ "s\<lparr>total_amount := vested, status := Revoked\<rparr>"]
        exI [of _ "r\<lparr>total_revoked := tr, active_schedules := saturating_sub (active_schedules r) 1\<rparr>"] conjI * s' r')
      (simp_all add: sum tr calculate_vested_amount_def)
qed

theorem revoke_keeps_vested_witness:
  "\<exists>v' s'. vesting_process_revoke (vesting_chain 6 5184000) vesting_layouts revoke_accounts
      (sample_vm sample_schedule sample_registry) = Inr v' \<and>
    load (schedule_codec vesting_layouts) (data (mem v' 2)) = Inr s' \<and>
    (\<forall>now. calculate_vested_amount s' now = Inr 333)"
proof -
  obtain v' where run: "vesting_process_revoke (vesting_chain 6 5184000) vesting_layouts revoke_accounts
      (sample_vm sample_schedule sample_registry) = Inr v'"
    by (simp add: vesting_eval runtime_eval cpi_eval)
  have keys: "2 = key (revoke_accounts ! 1)" "3 = key (revoke_accounts ! 2)" "(2 :: pubkey) \<noteq> 3"
    by (simp_all add: revoke_accounts_def)
  from revoke_keeps_vested [OF vesting_layouts_ok run keys sample_vm_loads] obtain clk vested s' where
    clk: "clock_from_account_info (vesting_chain 6 5184000) (key (revoke_accounts ! 3))
        (mem (sample_vm sample_schedule sample_registry) (key (revoke_accounts ! 3))) = Inr clk"
    and calc: "calculate_vested_amount sample_schedule (unix_timestamp clk) = Inr vested"
    and s': "load (schedule_codec vesting_layouts) (data (mem v' 2)) = Inr s'"
      "\<forall>now. calculate_vested_amount s' now = Inr vested"
    by (elim exE conjE)
  from clk have "unix_timestamp clk = 5184000" by (auto simp: vesting_chain_def native_env_def)
  with calc have "vested = 333" by simp
  with run s' show ?thesis by blast
qed

text \<open>
  C14. The count of active schedules is decremented twice for one schedule: a revocation decrements it,
  and so does the claim with which the beneficiary later collects the vested rest. After both, the
  registry counts two active schedules fewer (or none), although only one has ended.
\<close>

theorem revoke_then_claim_double_decrement:
  assumes "vesting_codecs_ok c"
    and "vesting_process_revoke e c ias v = Inr v1" and "sa = key (ias ! 1)" and "ra = key (ias ! 2)" and "sa \<noteq> ra"
    and "load (schedule_codec c) (data (mem v sa)) = Inr s" and "load (registry_codec c) (data (mem v ra)) = Inr r"
    and "mem v2 sa = mem v1 sa" and "mem v2 ra = mem v1 ra"
    and "vesting_process_claim e' c pid ias' v2 = Inr v3" and "sa = key (ias' ! 1)" and "ra = key (ias' ! 2)"
    and "{sa, ra} \<inter> {key (ias' ! 3), key (ias' ! 4), key (ias' ! 5)} = {}"
  shows "\<exists>r3. load (registry_codec c) (data (mem v3 ra)) = Inr r3 \<and>
    unat (active_schedules r3) = unat (active_schedules r) - 2"
proof (rule revoke_result [OF assms(1-7)])
  fix vested :: u64 and tr
  let ?s = "s\<lparr>total_amount := vested, status := Revoked\<rparr>"
    and ?r = "r\<lparr>total_revoked := tr, active_schedules := saturating_sub (active_schedules r) 1\<rparr>"
  assume s: "load (schedule_codec c) (data (mem v1 sa)) = Inr ?s" and r: "load (registry_codec c) (data (mem v1 ra)) = Inr ?r"
  from s r have s2: "load (schedule_codec c) (data (mem v2 sa)) = Inr ?s" "load (registry_codec c) (data (mem v2 ra)) = Inr ?r"
    using assms(8,9) by simp_all
  show ?thesis
  proof (rule claim_result [OF assms(1,10-12,5,13) s2])
    fix clk now_vested tc
    assume "calculate_vested_amount ?s (unix_timestamp clk) = Inr now_vested"
      and r3: "load (registry_codec c) (data (mem v3 ra)) = Inr (register_claim (record_claim ?s now_vested) tc ?r)"
    then have "status (record_claim ?s now_vested) = Completed"
      by (simp add: calculate_vested_amount_def record_claim_def)
    then show ?thesis using r3 by (simp add: register_claim_def)
  qed
qed

theorem revoke_then_claim_double_decrement_witness:
  "\<exists>v1 v3 r3. vesting_process_revoke (vesting_chain 6 5184000) vesting_layouts revoke_accounts
      (sample_vm sample_schedule sample_registry) = Inr v1 \<and>
    vesting_process_claim (vesting_chain 6 5184000) vesting_layouts 99 claim_accounts v1 = Inr v3 \<and>
    unat (active_schedules sample_registry) = 5 \<and>
    load (registry_codec vesting_layouts) (data (mem v3 3)) = Inr r3 \<and> unat (active_schedules r3) = 3"
proof -
  obtain v1 where run: "vesting_process_revoke (vesting_chain 6 5184000) vesting_layouts revoke_accounts
      (sample_vm sample_schedule sample_registry) = Inr v1" and
    claim: "\<exists>v3. vesting_process_claim (vesting_chain 6 5184000) vesting_layouts 99 claim_accounts v1 = Inr v3"
    by (simp add: vesting_eval runtime_eval system_eval cpi_eval revoked_vested)
  then obtain v3 where run3: "vesting_process_claim (vesting_chain 6 5184000) vesting_layouts 99 claim_accounts v1 = Inr v3"
    by blast
  have keys: "2 = key (revoke_accounts ! 1)" "3 = key (revoke_accounts ! 2)" "(2 :: pubkey) \<noteq> 3"
    "2 = key (claim_accounts ! 1)" "3 = key (claim_accounts ! 2)"
    "{2 :: pubkey, 3} \<inter> {key (claim_accounts ! 3), key (claim_accounts ! 4), key (claim_accounts ! 5)} = {}"
    by (simp_all add: revoke_accounts_def claim_accounts_def)
  have five: "unat (active_schedules sample_registry) = 5" by (simp add: sample_registry_def)
  from revoke_then_claim_double_decrement [OF vesting_layouts_ok run keys(1-3) sample_vm_loads refl refl run3 keys(4-6)]
  show ?thesis using run run3 five by auto
qed

end
