(* ===== verification/Staking.thy ===== *)
theory Staking
  imports Cpi
begin

text \<open>
  The staking program (\<open>programs/staking/src/lib.rs\<close>): one pool account, one stake account per staker.
  Rewards accrue through an accumulator per staked token, scaled by \<open>10 ^ 12\<close>; a position remembers the
  part it has been credited (\<open>reward_debt\<close>). Positions may be locked, slashed, and represented by minted
  stPRISM tokens. The token program is a parameter.

  The main lemmas give the effect of every handler on the two accounts, and that the pool's total
  moves with the positions.
\<close>

section \<open>Data\<close>

definition POOL_SEED :: bytes where "POOL_SEED = ascii ''prism_staking_pool''"
definition STAKE_SEED :: bytes where "STAKE_SEED = ascii ''prism_stake''"
definition ST_PRISM_AUTHORITY_SEED :: bytes where "ST_PRISM_AUTHORITY_SEED = ascii ''st_prism_authority''"
definition BPS_DENOMINATOR :: u64 where "BPS_DENOMINATOR = 10000"
definition INSURANCE_BPS :: u64 where "INSURANCE_BPS = 200"
definition SECONDS_PER_DAY :: i64 where "SECONDS_PER_DAY = 86400"

datatype lock_tier = Flexible | Locked30 | Locked90 | Locked180 | Locked365

fun reward_multiplier_bps :: "lock_tier \<Rightarrow> u64" where
  "reward_multiplier_bps Flexible = 10000"
| "reward_multiplier_bps Locked30 = 15000"
| "reward_multiplier_bps Locked90 = 20000"
| "reward_multiplier_bps Locked180 = 30000"
| "reward_multiplier_bps Locked365 = 50000"

fun lock_duration_seconds :: "lock_tier \<Rightarrow> i64" where
  "lock_duration_seconds Flexible = 0"
| "lock_duration_seconds Locked30 = 30 * SECONDS_PER_DAY"
| "lock_duration_seconds Locked90 = 90 * SECONDS_PER_DAY"
| "lock_duration_seconds Locked180 = 180 * SECONDS_PER_DAY"
| "lock_duration_seconds Locked365 = 365 * SECONDS_PER_DAY"

record staking_pool =
  pool_is_initialized :: bool
  pool_authority :: pubkey
  st_prism_mint :: pubkey
  total_staked :: u64
  accumulated_reward_per_token :: u128
  total_slashed :: u64
  insurance_balance :: u64
  base_reward_rate_bps :: u64
  last_update_slot :: u64
  pool_bump :: u8

definition StakingPool_LEN :: nat where
  "StakingPool_LEN = 1 + 32 + 32 + 8 + 16 + 8 + 8 + 8 + 8 + 1"

record stake_account =
  stake_is_initialized :: bool
  stake_owner :: pubkey
  delegated_validator :: pubkey
  staked_amount :: u64
  reward_debt :: u128
  pending_rewards :: u64
  stake_lock_tier :: lock_tier
  stake_timestamp :: i64
  unlock_timestamp :: i64
  auto_compound :: bool
  liquid_staking :: bool
  st_prism_minted :: u64
  validator_commission_bps :: u64
  stake_bump :: u8

definition StakeAccount_LEN :: nat where
  "StakeAccount_LEN = 1 + 32 + 32 + 8 + 16 + 8 + 1 + 8 + 8 + 1 + 1 + 8 + 8 + 1"

datatype staking_instruction =
    InitializePool u64
  | Stake u64 lock_tier bool bool
  | Unstake u64
  | ClaimRewards
  | Delegate pubkey u64
  | ToggleAutoCompound
  | MintStPrism
  | BurnStPrism u64
  | Slash u64
  | UpdateRewards

datatype staking_error =
    AlreadyInitialized | NotInitialized | StakeAlreadyInitialized | StakeNotInitialized | LockNotExpired
  | InsufficientStake | Unauthorized | Overflow | InvalidLockTier | LiquidStakingNotEnabled | NoRewards
  | InvalidAccountOwner | InsufficientStPrism

fun staking_err :: "staking_error \<Rightarrow> instruction_error" where
  "staking_err AlreadyInitialized = Custom 0"
| "staking_err NotInitialized = Custom 1"
| "staking_err StakeAlreadyInitialized = Custom 2"
| "staking_err StakeNotInitialized = Custom 3"
| "staking_err LockNotExpired = Custom 4"
| "staking_err InsufficientStake = Custom 5"
| "staking_err Unauthorized = Custom 6"
| "staking_err Overflow = Custom 7"
| "staking_err InvalidLockTier = Custom 8"
| "staking_err LiquidStakingNotEnabled = Custom 9"
| "staking_err NoRewards = Custom 10"
| "staking_err InvalidAccountOwner = Custom 11"
| "staking_err InsufficientStPrism = Custom 12"

record staking_codecs =
  pool_codec :: "staking_pool borsh"
  stake_codec :: "stake_account borsh"
  staking_instruction_codec :: "staking_instruction borsh"

abbreviation ovf :: "'a option \<Rightarrow> 'a res" where
  "ovf m \<equiv> ok_or m (staking_err Overflow)"

section \<open>Helpers\<close>

definition calculate_pending_rewards :: "stake_account \<Rightarrow> staking_pool \<Rightarrow> u64 res" where
  "calculate_pending_rewards s p =
     (if staked_amount s = 0 then Inr 0
      else
      rbind (ovf (checked_mul (u64_as_u128 (staked_amount s)) (accumulated_reward_per_token p))) (\<lambda>accumulated.
      rbind (ovf (checked_sub accumulated (reward_debt s))) (\<lambda>x.
      let raw_pending = x div 1000000000000 in
      rbind (ovf (checked_mul raw_pending (u64_as_u128 (reward_multiplier_bps (stake_lock_tier s))))) (\<lambda>x.
      let multiplied = x div u64_as_u128 BPS_DENOMINATOR in
      rbind (if delegated_validator s \<noteq> 0 \<and> 0 < validator_commission_bps s
             then
               rbind (ovf (checked_mul multiplied (u64_as_u128 (validator_commission_bps s)))) (\<lambda>x.
               let commission = x div u64_as_u128 BPS_DENOMINATOR in
               ovf (checked_sub multiplied commission))
             else Inr multiplied) (\<lambda>after_commission.
      Inr (u128_as_u64 after_commission))))))"

definition spl_token_mint_to :: "pubkey \<Rightarrow> pubkey \<Rightarrow> pubkey \<Rightarrow> pubkey \<Rightarrow> u64 \<Rightarrow> cpi_instruction" where
  "spl_token_mint_to token_program_id mint destination auth amount =
     \<lparr>cpi_program_id = token_program_id,
      cpi_accounts = [\<lparr>meta_key = mint, meta_signer = False, meta_writable = True\<rparr>,
                      \<lparr>meta_key = destination, meta_signer = False, meta_writable = True\<rparr>,
                      \<lparr>meta_key = auth, meta_signer = True, meta_writable = False\<rparr>],
      cpi_data_of = RawData (7 # to_le_bytes amount)\<rparr>"

definition spl_token_burn :: "pubkey \<Rightarrow> pubkey \<Rightarrow> pubkey \<Rightarrow> pubkey \<Rightarrow> u64 \<Rightarrow> cpi_instruction" where
  "spl_token_burn token_program_id acc mint auth amount =
     \<lparr>cpi_program_id = token_program_id,
      cpi_accounts = [\<lparr>meta_key = acc, meta_signer = False, meta_writable = True\<rparr>,
                      \<lparr>meta_key = mint, meta_signer = False, meta_writable = True\<rparr>,
                      \<lparr>meta_key = auth, meta_signer = True, meta_writable = False\<rparr>],
      cpi_data_of = RawData (8 # to_le_bytes amount)\<rparr>"

text \<open>
  Blocks that several handlers share: settling rewards while the staked amount changes by \<open>op\<close>
  (\<open>checked_add\<close> in a stake, \<open>checked_sub\<close> in an unstake), and the guards on a loaded position.
\<close>

definition settle_stake ::
  "(u64 \<Rightarrow> u64 \<Rightarrow> u64 option) \<Rightarrow> stake_account \<Rightarrow> staking_pool \<Rightarrow> u64 \<Rightarrow> stake_account res" where
  "settle_stake op s p amount =
     rbind (calculate_pending_rewards s p) (\<lambda>pending.
     rbind (ovf (checked_add (pending_rewards s) pending)) (\<lambda>pr.
     rbind (ovf (op (staked_amount s) amount)) (\<lambda>st.
     rbind (ovf (checked_mul (u64_as_u128 st) (accumulated_reward_per_token p))) (\<lambda>debt.
     Inr (s\<lparr>pending_rewards := pr, staked_amount := st, reward_debt := debt\<rparr>)))))"

definition load_position ::
  "staking_codecs \<Rightarrow> instruction_account \<Rightarrow> instruction_account \<Rightarrow> vm \<Rightarrow> stake_account res" where
  "load_position c staker stake_acc v =
     rbind (load_account (stake_codec c) (key stake_acc) v) (\<lambda>s.
     if \<not> stake_is_initialized s then Inl (staking_err StakeNotInitialized)
     else if stake_owner s \<noteq> key staker then Inl (staking_err Unauthorized)
     else Inr s)"

section \<open>Handlers\<close>

definition initial_pool :: "pubkey \<Rightarrow> pubkey \<Rightarrow> u64 \<Rightarrow> u8 \<Rightarrow> staking_pool" where
  "initial_pool auth mint rate b =
     \<lparr>pool_is_initialized = True, pool_authority = auth, st_prism_mint = mint, total_staked = 0,
      accumulated_reward_per_token = 0, total_slashed = 0, insurance_balance = 0,
      base_reward_rate_bps = rate, last_update_slot = 0, pool_bump = b\<rparr>"

definition staking_process_initialize_pool ::
  "env \<Rightarrow> staking_codecs \<Rightarrow> pubkey \<Rightarrow> u64 \<Rightarrow> instruction_account list \<Rightarrow> vm \<Rightarrow> vm res" where
  "staking_process_initialize_pool e c program_id rate ias v =
     rbind (next_account_info ias) (\<lambda>(auth, it).
     rbind (next_account_info it) (\<lambda>(pool_account, it).
     rbind (next_account_info it) (\<lambda>(mint, it).
     rbind (next_account_info it) (\<lambda>(system_program, it).
     if \<not> is_signer auth then Inl MissingRequiredSignature
     else
     let (pool_pda, b) = find_program_address e [POOL_SEED] program_id
     in
     if pool_pda \<noteq> key pool_account then Inl InvalidSeeds
     else
     rbind (rent_get e) (\<lambda>minimum_balance.
     rbind (invoke_signed e program_id ias
              (system_create_account (key auth) (key pool_account)
                 (minimum_balance StakingPool_LEN) (word_of_nat StakingPool_LEN) program_id)
              [auth, pool_account, system_program] [[POOL_SEED, [b]]] v) (\<lambda>v.
     store_account (pool_codec c) (initial_pool (key auth) (key mint) rate b) (key pool_account) v))))))"

definition new_stake ::
  "pubkey \<Rightarrow> u64 \<Rightarrow> lock_tier \<Rightarrow> bool \<Rightarrow> bool \<Rightarrow> i64 \<Rightarrow> i64 \<Rightarrow> u8 \<Rightarrow> stake_account" where
  "new_stake staker amount tier auto liquid now unlock_ts b =
     \<lparr>stake_is_initialized = True, stake_owner = staker, delegated_validator = 0, staked_amount = amount,
      reward_debt = 0, pending_rewards = 0, stake_lock_tier = tier, stake_timestamp = now,
      unlock_timestamp = unlock_ts, auto_compound = auto, liquid_staking = liquid, st_prism_minted = 0,
      validator_commission_bps = 0, stake_bump = b\<rparr>"

text \<open>The first branch of a stake: the account does not exist yet.\<close>

definition create_stake ::
  "env \<Rightarrow> staking_codecs \<Rightarrow> pubkey \<Rightarrow> instruction_account list \<Rightarrow> instruction_account \<Rightarrow> instruction_account
     \<Rightarrow> instruction_account \<Rightarrow> u64 \<Rightarrow> lock_tier \<Rightarrow> bool \<Rightarrow> bool \<Rightarrow> i64 \<Rightarrow> u8 \<Rightarrow> vm \<Rightarrow> vm res" where
  "create_stake e c program_id ias staker stake_acc system_program amount tier auto liquid now b v =
     rbind (rent_get e) (\<lambda>minimum_balance.
     rbind (invoke_signed e program_id ias
              (system_create_account (key staker) (key stake_acc)
                 (minimum_balance StakeAccount_LEN) (word_of_nat StakeAccount_LEN) program_id)
              [staker, stake_acc, system_program] [[STAKE_SEED, to_le_bytes (key staker), [b]]] v) (\<lambda>v.
     rbind (if 0 < sint (lock_duration_seconds tier)
            then ovf (i64_checked_add now (lock_duration_seconds tier)) else Inr 0) (\<lambda>unlock_ts.
     store_account (stake_codec c) (new_stake (key staker) amount tier auto liquid now unlock_ts b)
       (key stake_acc) v)))"

definition top_up_stake ::
  "staking_codecs \<Rightarrow> instruction_account \<Rightarrow> instruction_account \<Rightarrow> staking_pool \<Rightarrow> u64 \<Rightarrow> vm \<Rightarrow> vm res" where
  "top_up_stake c staker stake_acc p amount v =
     rbind (load_position c staker stake_acc v) (\<lambda>s.
     rbind (settle_stake checked_add s p amount) (\<lambda>s.
     store_account (stake_codec c) s (key stake_acc) v))"

definition staking_process_stake ::
  "env \<Rightarrow> staking_codecs \<Rightarrow> pubkey \<Rightarrow> u64 \<Rightarrow> lock_tier \<Rightarrow> bool \<Rightarrow> bool
     \<Rightarrow> instruction_account list \<Rightarrow> vm \<Rightarrow> vm res" where
  "staking_process_stake e c program_id amount tier auto liquid ias v =
     rbind (next_account_info ias) (\<lambda>(staker, it).
     rbind (next_account_info it) (\<lambda>(stake_acc, it).
     rbind (next_account_info it) (\<lambda>(pool_account, it).
     rbind (next_account_info it) (\<lambda>(clock_sysvar, it).
     rbind (next_account_info it) (\<lambda>(system_program, it).
     if \<not> is_signer staker then Inl MissingRequiredSignature
     else
     rbind (clock_from_account_info e (key clock_sysvar) (mem v (key clock_sysvar))) (\<lambda>clk.
     let (stake_pda, b) = find_program_address e [STAKE_SEED, to_le_bytes (key staker)] program_id
     in
     if stake_pda \<noteq> key stake_acc then Inl InvalidSeeds
     else
     rbind (load_account (pool_codec c) (key pool_account) v) (\<lambda>p.
     if \<not> pool_is_initialized p then Inl (staking_err NotInitialized)
     else
     rbind (if data (mem v (key stake_acc)) = []
            then create_stake e c program_id ias staker stake_acc system_program amount tier auto liquid
                   (unix_timestamp clk) b v
            else top_up_stake c staker stake_acc p amount v) (\<lambda>v.
     rbind (invoke e program_id ias (system_transfer (key staker) (key pool_account) amount)
              [staker, pool_account, system_program] v) (\<lambda>v.
     rbind (ovf (checked_add (total_staked p) amount)) (\<lambda>ts.
     store_account (pool_codec c) (p\<lparr>total_staked := ts\<rparr>) (key pool_account) v))))))))))"

definition staking_process_unstake ::
  "env \<Rightarrow> staking_codecs \<Rightarrow> u64 \<Rightarrow> instruction_account list \<Rightarrow> vm \<Rightarrow> vm res" where
  "staking_process_unstake e c amount ias v =
     rbind (next_account_info ias) (\<lambda>(staker, it).
     rbind (next_account_info it) (\<lambda>(stake_acc, it).
     rbind (next_account_info it) (\<lambda>(pool_account, it).
     rbind (next_account_info it) (\<lambda>(clock_sysvar, it).
     rbind (next_account_info it) (\<lambda>(system_program, it).
     if \<not> is_signer staker then Inl MissingRequiredSignature
     else
     rbind (clock_from_account_info e (key clock_sysvar) (mem v (key clock_sysvar))) (\<lambda>clk.
     rbind (load_position c staker stake_acc v) (\<lambda>s.
     if 0 < sint (unlock_timestamp s) \<and> sint (unix_timestamp clk) < sint (unlock_timestamp s)
     then Inl (staking_err LockNotExpired)
     else if staked_amount s < amount then Inl (staking_err InsufficientStake)
     else
     rbind (load_account (pool_codec c) (key pool_account) v) (\<lambda>p.
     rbind (settle_stake checked_sub s p amount) (\<lambda>s.
     rbind (store_account (stake_codec c) s (key stake_acc) v) (\<lambda>v.
     rbind (lamports_sub_assign e (key pool_account) amount v) (\<lambda>v.
     rbind (lamports_add_assign e (key staker) amount v) (\<lambda>v.
     rbind (ovf (checked_sub (total_staked p) amount)) (\<lambda>ts.
     store_account (pool_codec c) (p\<lparr>total_staked := ts\<rparr>) (key pool_account) v)))))))))))))"

text \<open>The insurance cut of a claim and what is left for the staker.\<close>

definition split_reward :: "u64 \<Rightarrow> (u64 \<times> u64) res" where
  "split_reward total_claimable =
     rbind (ovf (checked_mul total_claimable INSURANCE_BPS)) (\<lambda>x.
     let insurance_cut = x div BPS_DENOMINATOR in
     rbind (ovf (checked_sub total_claimable insurance_cut)) (\<lambda>net_reward.
     Inr (insurance_cut, net_reward)))"

definition pay_reward ::
  "env \<Rightarrow> pubkey \<Rightarrow> pubkey \<Rightarrow> u64 \<Rightarrow> stake_account \<Rightarrow> staking_pool \<Rightarrow> vm
     \<Rightarrow> (stake_account \<times> staking_pool \<times> vm) res" where
  "pay_reward e pool_key staker_key net_reward s p v =
     (if auto_compound s
      then
        rbind (ovf (checked_add (staked_amount s) net_reward)) (\<lambda>st.
        rbind (ovf (checked_add (total_staked p) net_reward)) (\<lambda>ts.
        Inr (s\<lparr>staked_amount := st\<rparr>, p\<lparr>total_staked := ts\<rparr>, v)))
      else
        rbind (lamports_sub_assign e pool_key net_reward v) (\<lambda>v.
        rbind (lamports_add_assign e staker_key net_reward v) (\<lambda>v.
        Inr (s, p, v))))"

definition staking_process_claim_rewards ::
  "env \<Rightarrow> staking_codecs \<Rightarrow> instruction_account list \<Rightarrow> vm \<Rightarrow> vm res" where
  "staking_process_claim_rewards e c ias v =
     rbind (next_account_info ias) (\<lambda>(staker, it).
     rbind (next_account_info it) (\<lambda>(stake_acc, it).
     rbind (next_account_info it) (\<lambda>(pool_account, it).
     rbind (next_account_info it) (\<lambda>(clock_sysvar, it).
     rbind (next_account_info it) (\<lambda>(system_program, it).
     if \<not> is_signer staker then Inl MissingRequiredSignature
     else
     rbind (load_position c staker stake_acc v) (\<lambda>s.
     rbind (load_account (pool_codec c) (key pool_account) v) (\<lambda>p.
     rbind (calculate_pending_rewards s p) (\<lambda>pending.
     rbind (ovf (checked_add (pending_rewards s) pending)) (\<lambda>total_claimable.
     if total_claimable = 0 then Inl (staking_err NoRewards)
     else
     rbind (split_reward total_claimable) (\<lambda>(insurance_cut, net_reward).
     rbind (ovf (checked_add (insurance_balance p) insurance_cut)) (\<lambda>ins.
     rbind (pay_reward e (key pool_account) (key staker) net_reward s (p\<lparr>insurance_balance := ins\<rparr>) v) (\<lambda>(s, p, v).
     rbind (ovf (checked_mul (u64_as_u128 (staked_amount s)) (accumulated_reward_per_token p))) (\<lambda>debt.
     rbind (store_account (stake_codec c) (s\<lparr>pending_rewards := 0, reward_debt := debt\<rparr>) (key stake_acc) v) (\<lambda>v.
     store_account (pool_codec c) p (key pool_account) v))))))))))))))"

definition staking_process_delegate ::
  "staking_codecs \<Rightarrow> pubkey \<Rightarrow> u64 \<Rightarrow> instruction_account list \<Rightarrow> vm \<Rightarrow> vm res" where
  "staking_process_delegate c validator commission_bps ias v =
     rbind (next_account_info ias) (\<lambda>(staker, it).
     rbind (next_account_info it) (\<lambda>(stake_acc, it).
     rbind (next_account_info it) (\<lambda>(validator_account, it).
     if \<not> is_signer staker then Inl MissingRequiredSignature
     else
     rbind (load_position c staker stake_acc v) (\<lambda>s.
     store_account (stake_codec c)
       (s\<lparr>delegated_validator := validator, validator_commission_bps := commission_bps\<rparr>) (key stake_acc) v))))"

definition staking_process_toggle_auto_compound ::
  "staking_codecs \<Rightarrow> instruction_account list \<Rightarrow> vm \<Rightarrow> vm res" where
  "staking_process_toggle_auto_compound c ias v =
     rbind (next_account_info ias) (\<lambda>(staker, it).
     rbind (next_account_info it) (\<lambda>(stake_acc, it).
     if \<not> is_signer staker then Inl MissingRequiredSignature
     else
     rbind (load_position c staker stake_acc v) (\<lambda>s.
     store_account (stake_codec c) (s\<lparr>auto_compound := \<not> auto_compound s\<rparr>) (key stake_acc) v)))"

definition staking_process_mint_st_prism ::
  "env \<Rightarrow> staking_codecs \<Rightarrow> pubkey \<Rightarrow> instruction_account list \<Rightarrow> vm \<Rightarrow> vm res" where
  "staking_process_mint_st_prism e c program_id ias v =
     rbind (next_account_info ias) (\<lambda>(staker, it).
     rbind (next_account_info it) (\<lambda>(stake_acc, it).
     rbind (next_account_info it) (\<lambda>(mint, it).
     rbind (next_account_info it) (\<lambda>(staker_token_account, it).
     rbind (next_account_info it) (\<lambda>(mint_authority, it).
     rbind (next_account_info it) (\<lambda>(token_program, it).
     if \<not> is_signer staker then Inl MissingRequiredSignature
     else
     rbind (load_position c staker stake_acc v) (\<lambda>s.
     if \<not> liquid_staking s then Inl (staking_err LiquidStakingNotEnabled)
     else
     rbind (ovf (checked_sub (staked_amount s) (st_prism_minted s))) (\<lambda>mintable.
     if mintable = 0 then Inr v
     else
     let (authority_pda, b) = find_program_address e [ST_PRISM_AUTHORITY_SEED] program_id
     in
     if authority_pda \<noteq> key mint_authority then Inl InvalidSeeds
     else
     rbind (invoke_signed e program_id ias
              (spl_token_mint_to (key token_program) (key mint) (key staker_token_account) authority_pda mintable)
              [mint, staker_token_account, mint_authority, token_program] [[ST_PRISM_AUTHORITY_SEED, [b]]] v) (\<lambda>v.
     rbind (ovf (checked_add (st_prism_minted s) mintable)) (\<lambda>minted.
     store_account (stake_codec c) (s\<lparr>st_prism_minted := minted\<rparr>) (key stake_acc) v))))))))))"

definition staking_process_burn_st_prism ::
  "env \<Rightarrow> staking_codecs \<Rightarrow> pubkey \<Rightarrow> u64 \<Rightarrow> instruction_account list \<Rightarrow> vm \<Rightarrow> vm res" where
  "staking_process_burn_st_prism e c program_id amount ias v =
     rbind (next_account_info ias) (\<lambda>(staker, it).
     rbind (next_account_info it) (\<lambda>(stake_acc, it).
     rbind (next_account_info it) (\<lambda>(mint, it).
     rbind (next_account_info it) (\<lambda>(staker_token_account, it).
     rbind (next_account_info it) (\<lambda>(token_program, it).
     if \<not> is_signer staker then Inl MissingRequiredSignature
     else
     rbind (load_position c staker stake_acc v) (\<lambda>s.
     if st_prism_minted s < amount then Inl (staking_err InsufficientStPrism)
     else
     rbind (invoke e program_id ias
              (spl_token_burn (key token_program) (key staker_token_account) (key mint) (key staker) amount)
              [staker_token_account, mint, staker, token_program] v) (\<lambda>v.
     rbind (ovf (checked_sub (st_prism_minted s) amount)) (\<lambda>minted.
     store_account (stake_codec c) (s\<lparr>st_prism_minted := minted\<rparr>) (key stake_acc) v))))))))"

text \<open>The arithmetic of a slash: insurance pays first.\<close>

definition slash_position :: "u64 \<Rightarrow> stake_account \<Rightarrow> staking_pool \<Rightarrow> (stake_account \<times> staking_pool) res" where
  "slash_position amount s p =
     (let slash_amount = min amount (staked_amount s);
          insurance_cover = min slash_amount (insurance_balance p)
      in
      rbind (ovf (checked_sub slash_amount insurance_cover)) (\<lambda>actual_slash.
      rbind (ovf (checked_sub (insurance_balance p) insurance_cover)) (\<lambda>ins.
      rbind (ovf (checked_sub (staked_amount s) actual_slash)) (\<lambda>st.
      rbind (ovf (checked_sub (total_staked p) actual_slash)) (\<lambda>ts.
      rbind (ovf (checked_add (total_slashed p) slash_amount)) (\<lambda>sl.
      Inr (s\<lparr>staked_amount := st\<rparr>,
           p\<lparr>insurance_balance := ins, total_staked := ts, total_slashed := sl\<rparr>)))))))"

definition staking_process_slash ::
  "staking_codecs \<Rightarrow> u64 \<Rightarrow> instruction_account list \<Rightarrow> vm \<Rightarrow> vm res" where
  "staking_process_slash c amount ias v =
     rbind (next_account_info ias) (\<lambda>(auth, it).
     rbind (next_account_info it) (\<lambda>(stake_acc, it).
     rbind (next_account_info it) (\<lambda>(pool_account, it).
     if \<not> is_signer auth then Inl MissingRequiredSignature
     else
     rbind (load_account (pool_codec c) (key pool_account) v) (\<lambda>p.
     if pool_authority p \<noteq> key auth then Inl (staking_err Unauthorized)
     else
     rbind (load_account (stake_codec c) (key stake_acc) v) (\<lambda>s.
     if \<not> stake_is_initialized s then Inl (staking_err StakeNotInitialized)
     else
     rbind (slash_position amount s p) (\<lambda>(s, p).
     rbind (store_account (stake_codec c) s (key stake_acc) v) (\<lambda>v.
     store_account (pool_codec c) p (key pool_account) v)))))))"

definition SLOTS_PER_YEAR :: u128 where "SLOTS_PER_YEAR = 63072000"

text \<open>The accumulator after \<open>slots_elapsed\<close> slots.\<close>

definition accrue_rewards :: "staking_pool \<Rightarrow> u64 \<Rightarrow> staking_pool res" where
  "accrue_rewards p slots_elapsed =
     rbind (ovf (checked_mul (u64_as_u128 (total_staked p)) (u64_as_u128 (base_reward_rate_bps p)))) (\<lambda>x.
     rbind (ovf (checked_mul x (u64_as_u128 slots_elapsed))) (\<lambda>x.
     let total_reward = x div u64_as_u128 BPS_DENOMINATOR div SLOTS_PER_YEAR in
     if 0 < total_reward
     then
       rbind (ovf (checked_mul total_reward 1000000000000)) (\<lambda>x.
       let reward_per_token = x div u64_as_u128 (total_staked p) in
       rbind (ovf (checked_add (accumulated_reward_per_token p) reward_per_token)) (\<lambda>acc.
       Inr (p\<lparr>accumulated_reward_per_token := acc\<rparr>)))
     else Inr p))"

definition staking_process_update_rewards ::
  "env \<Rightarrow> staking_codecs \<Rightarrow> instruction_account list \<Rightarrow> vm \<Rightarrow> vm res" where
  "staking_process_update_rewards e c ias v =
     rbind (next_account_info ias) (\<lambda>(pool_account, it).
     rbind (next_account_info it) (\<lambda>(clock_sysvar, it).
     rbind (clock_from_account_info e (key clock_sysvar) (mem v (key clock_sysvar))) (\<lambda>clk.
     rbind (load_account (pool_codec c) (key pool_account) v) (\<lambda>p.
     if \<not> pool_is_initialized p then Inl (staking_err NotInitialized)
     else if total_staked p = 0
     then store_account (pool_codec c) (p\<lparr>last_update_slot := slot clk\<rparr>) (key pool_account) v
     else
     let slots_elapsed = saturating_sub (slot clk) (last_update_slot p) in
     if slots_elapsed = 0 then Inr v
     else
     rbind (accrue_rewards p slots_elapsed) (\<lambda>p.
     store_account (pool_codec c) (p\<lparr>last_update_slot := slot clk\<rparr>) (key pool_account) v)))))"

definition staking_process_instruction :: "env \<Rightarrow> staking_codecs \<Rightarrow> pubkey \<Rightarrow> bytes \<Rightarrow> program" where
  "staking_process_instruction e c program_id instruction_data ias v =
     rbind (ok_or (try_from_slice (staking_instruction_codec c) instruction_data) InvalidInstructionData) (\<lambda>ix.
     case ix of
       InitializePool rate \<Rightarrow> staking_process_initialize_pool e c program_id rate ias v
     | Stake amount tier auto liquid \<Rightarrow> staking_process_stake e c program_id amount tier auto liquid ias v
     | Unstake amount \<Rightarrow> staking_process_unstake e c amount ias v
     | ClaimRewards \<Rightarrow> staking_process_claim_rewards e c ias v
     | Delegate validator commission_bps \<Rightarrow> staking_process_delegate c validator commission_bps ias v
     | ToggleAutoCompound \<Rightarrow> staking_process_toggle_auto_compound c ias v
     | MintStPrism \<Rightarrow> staking_process_mint_st_prism e c program_id ias v
     | BurnStPrism amount \<Rightarrow> staking_process_burn_st_prism e c program_id amount ias v
     | Slash amount \<Rightarrow> staking_process_slash c amount ias v
     | UpdateRewards \<Rightarrow> staking_process_update_rewards e c ias v)"

section \<open>Layouts\<close>

fun lock_tier_tag :: "lock_tier \<Rightarrow> u8" where
  "lock_tier_tag Flexible = 0"
| "lock_tier_tag Locked30 = 1"
| "lock_tier_tag Locked90 = 2"
| "lock_tier_tag Locked180 = 3"
| "lock_tier_tag Locked365 = 4"

definition lock_tier_of :: "u8 \<Rightarrow> lock_tier option" where
  "lock_tier_of b =
     (if b = 0 then Some Flexible else if b = 1 then Some Locked30 else if b = 2 then Some Locked90
      else if b = 3 then Some Locked180 else if b = 4 then Some Locked365 else None)"

definition pool_layout :: "staking_pool layout" where
  "pool_layout =
     iso_layout
       (\<lambda>(i, a, m, t, acc, sl, ins, r, ls, b).
          \<lparr>pool_is_initialized = i, pool_authority = a, st_prism_mint = m, total_staked = t,
           accumulated_reward_per_token = acc, total_slashed = sl, insurance_balance = ins,
           base_reward_rate_bps = r, last_update_slot = ls, pool_bump = b\<rparr>)
       (\<lambda>p. (pool_is_initialized p, pool_authority p, st_prism_mint p, total_staked p,
             accumulated_reward_per_token p, total_slashed p, insurance_balance p,
             base_reward_rate_bps p, last_update_slot p, pool_bump p))
       (pair_layout bool_layout (pair_layout word_layout (pair_layout word_layout (pair_layout word_layout
       (pair_layout word_layout (pair_layout word_layout (pair_layout word_layout (pair_layout word_layout
       (pair_layout word_layout word_layout)))))))))"

definition stake_layout :: "stake_account layout" where
  "stake_layout =
     iso_layout
       (\<lambda>(i, ow, dv, st, rd, pr, tier, ts, ut, auto, liq, minted, com, b).
          \<lparr>stake_is_initialized = i, stake_owner = ow, delegated_validator = dv, staked_amount = st,
           reward_debt = rd, pending_rewards = pr, stake_lock_tier = tier, stake_timestamp = ts,
           unlock_timestamp = ut, auto_compound = auto, liquid_staking = liq, st_prism_minted = minted,
           validator_commission_bps = com, stake_bump = b\<rparr>)
       (\<lambda>s. (stake_is_initialized s, stake_owner s, delegated_validator s, staked_amount s,
             reward_debt s, pending_rewards s, stake_lock_tier s, stake_timestamp s,
             unlock_timestamp s, auto_compound s, liquid_staking s, st_prism_minted s,
             validator_commission_bps s, stake_bump s))
       (pair_layout bool_layout (pair_layout word_layout (pair_layout word_layout (pair_layout word_layout
       (pair_layout word_layout (pair_layout word_layout (pair_layout (enum_layout lock_tier_tag lock_tier_of)
       (pair_layout word_layout (pair_layout word_layout (pair_layout bool_layout (pair_layout bool_layout
       (pair_layout word_layout (pair_layout word_layout word_layout)))))))))))))"

lemma lock_tier_of_tag: "lock_tier_of (lock_tier_tag x) = Some x"
  by (cases x) (simp_all add: lock_tier_of_def)

lemma wf_pool_layout: "wf_layout StakingPool_LEN pool_layout"
  unfolding pool_layout_def
  by (rule wf_layout_eq, (rule wf_layouts)+) (simp_all add: StakingPool_LEN_def)

lemma wf_stake_layout: "wf_layout StakeAccount_LEN stake_layout"
  unfolding stake_layout_def
  by (rule wf_layout_eq, (rule wf_layouts wf_enum_layout [OF lock_tier_of_tag])+)
    (simp_all add: StakeAccount_LEN_def)

interpretation pool_borsh: borsh_struct "of_layout pool_layout" StakingPool_LEN
  by (rule borsh_struct_of_layout [OF wf_pool_layout])

interpretation stake_borsh: borsh_struct "of_layout stake_layout" StakeAccount_LEN
  by (rule borsh_struct_of_layout [OF wf_stake_layout])

lemmas staking_io [simp] = of_layout_io [OF wf_pool_layout] of_layout_io [OF wf_stake_layout]

section \<open>Effects\<close>

text \<open>The accounts of the codecs, at their declared lengths.\<close>

definition staking_codecs_ok :: "staking_codecs \<Rightarrow> bool" where
  "staking_codecs_ok c \<longleftrightarrow>
     borsh_struct (pool_codec c) StakingPool_LEN \<and> borsh_struct (stake_codec c) StakeAccount_LEN"

lemma staking_codecs_okD:
  assumes "staking_codecs_ok c"
  shows "load (pool_codec c) d = Inr p \<Longrightarrow> store (pool_codec c) p' d = Inr d' \<Longrightarrow> load (pool_codec c) d' = Inr p'"
    and "load (stake_codec c) d = Inr s \<Longrightarrow> store (stake_codec c) s' d = Inr d' \<Longrightarrow> load (stake_codec c) d' = Inr s'"
    and "length d = StakeAccount_LEN \<Longrightarrow> store (stake_codec c) s' d = Inr d' \<Longrightarrow> load (stake_codec c) d' = Inr s'"
    and "load (pool_codec c) d = Inr p \<Longrightarrow> length d = StakingPool_LEN"
    and "load (stake_codec c) d = Inr s \<Longrightarrow> length d = StakeAccount_LEN"
  using assms by (auto simp: staking_codecs_ok_def
      intro: borsh_struct.load_after_store borsh_struct.load_store borsh_struct.load_length)

text \<open>No account can be read both as the pool and as a position.\<close>

lemma pool_not_stake:
  assumes "staking_codecs_ok c" and "load (pool_codec c) (data (m pa)) = Inr p" and "load (stake_codec c) (data (m sa)) = Inr s"
  shows "sa \<noteq> pa"
  using staking_codecs_okD(4) [OF assms(1,2)] staking_codecs_okD(5) [OF assms(1,3)]
  by (auto simp: StakingPool_LEN_def StakeAccount_LEN_def)

lemma load_position_eq_Inr [rust_simps]:
  "load_position c staker sa v = Inr s \<longleftrightarrow>
     load (stake_codec c) (data (mem v (key sa))) = Inr s \<and> stake_is_initialized s \<and> stake_owner s = key staker"
  by (auto simp: load_position_def load_account_def rust_simps)

lemma settle_stake_effect:
  assumes "settle_stake op s p amount = Inr s'"
  obtains pending pr st debt where "calculate_pending_rewards s p = Inr pending"
    "unat pr = unat (pending_rewards s) + unat pending" "op (staked_amount s) amount = Some st"
    "unat debt = unat st * unat (accumulated_reward_per_token p)"
    "s' = s\<lparr>pending_rewards := pr, staked_amount := st, reward_debt := debt\<rparr>"
  using assms unfolding settle_stake_def rbind_eq_Inr ok_or_eq_Inr checked_add_eq_Some checked_mul_eq_Some
  by auto

lemma pay_reward_tx: "pay_reward e k j n s p v = Inr (s', p', v') \<Longrightarrow> tx v' = tx v"
  by (auto simp: pay_reward_def rbind_eq_Inr dest!: lamports_assign_tx split: if_splits)

lemma keeps_bind_pay_reward:
  assumes "\<And>s p u. keeps u (f s p u)"
  shows "keeps v (rbind (pay_reward e k j n s p v) (\<lambda>(s, p, u). f s p u))"
proof (cases "pay_reward e k j n s p v")
  case (Inr r)
  obtain s' p' u where r: "r = (s', p', u)" by (rule prod_cases3)
  have "tx u = tx v" using pay_reward_tx Inr r by simp
  then have "keeps v (f s' p' u)" using assms keeps_tx by blast
  then show ?thesis by (simp only: Inr r rbind_Inr prod.case)
qed (simp add: keeps_Inl)

lemmas staking_handler_defs = staking_process_initialize_pool_def staking_process_stake_def
  create_stake_def top_up_stake_def staking_process_unstake_def staking_process_claim_rewards_def
  staking_process_delegate_def staking_process_toggle_auto_compound_def staking_process_mint_st_prism_def
  staking_process_burn_st_prism_def staking_process_slash_def staking_process_update_rewards_def

context chain
begin

lemma staking_keeps: "keeps v (staking_process_instruction e c pid d ias v)"
  unfolding staking_process_instruction_def
proof (rule keeps_bind)
  fix ix
  show "keeps v (case ix of
       InitializePool rate \<Rightarrow> staking_process_initialize_pool e c pid rate ias v
     | Stake amount tier auto liquid \<Rightarrow> staking_process_stake e c pid amount tier auto liquid ias v
     | Unstake amount \<Rightarrow> staking_process_unstake e c amount ias v
     | ClaimRewards \<Rightarrow> staking_process_claim_rewards e c ias v
     | Delegate validator commission_bps \<Rightarrow> staking_process_delegate c validator commission_bps ias v
     | ToggleAutoCompound \<Rightarrow> staking_process_toggle_auto_compound c ias v
     | MintStPrism \<Rightarrow> staking_process_mint_st_prism e c pid ias v
     | BurnStPrism amount \<Rightarrow> staking_process_burn_st_prism e c pid amount ias v
     | Slash amount \<Rightarrow> staking_process_slash c amount ias v
     | UpdateRewards \<Rightarrow> staking_process_update_rewards e c ias v)"
    by (cases ix; simp only: staking_instruction.case staking_handler_defs;
        intro keeps_bind_pay_reward keeps_intros keeps_invoke)
qed

end

sublocale chain \<subseteq> staking: onchain_program "staking_process_instruction e c pid d" for c pid d
  by unfold_locales (metis keepsD staking_keeps)

lemma unstake_effect:
  assumes "staking_process_unstake e c amount ias v = Inr v'"
  obtains staker sa pa cs rest clk s p s' ts d where
    "ias = staker # sa # pa # cs # rest" "is_signer staker"
    "clock_from_account_info e (key cs) (mem v (key cs)) = Inr clk"
    "load (stake_codec c) (data (mem v (key sa))) = Inr s" "stake_is_initialized s" "stake_owner s = key staker"
    "sint (unlock_timestamp s) \<le> 0 \<or> sint (unlock_timestamp s) \<le> sint (unix_timestamp clk)"
    "load (pool_codec c) (data (mem v (key pa))) = Inr p"
    "settle_stake checked_sub s p amount = Inr s'"
    "unat (total_staked p) = unat amount + unat ts"
    "store (stake_codec c) s' (data (mem v (key sa))) = Inr d"
    "store_account (pool_codec c) (p\<lparr>total_staked := ts\<rparr>) (key pa)
       ((set_mem_data (key sa) d v)\<lparr>mem := credit (key staker) amount
         (debit (key pa) amount (mem (set_mem_data (key sa) d v)))\<rparr>) = Inr v'"
proof -
  from assms obtain staker sa pa cs sys rest where ias: "ias = staker # sa # pa # cs # sys # rest"
    by (auto simp: staking_process_unstake_def rust_simps)
  from assms [unfolded staking_process_unstake_def ias] obtain clk s p s' ts v1 v2 v3 where *:
    "is_signer staker" "clock_from_account_info e (key cs) (mem v (key cs)) = Inr clk"
    "load (stake_codec c) (data (mem v (key sa))) = Inr s" "stake_is_initialized s" "stake_owner s = key staker"
    "sint (unlock_timestamp s) \<le> 0 \<or> sint (unlock_timestamp s) \<le> sint (unix_timestamp clk)"
    "load (pool_codec c) (data (mem v (key pa))) = Inr p" "settle_stake checked_sub s p amount = Inr s'"
    and ts: "checked_sub (total_staked p) amount = Some ts"
    and st: "store_account (stake_codec c) s' (key sa) v = Inr v1"
    and lam: "lamports_sub_assign e (key pa) amount v1 = Inr v2" "lamports_add_assign e (key staker) amount v2 = Inr v3"
    and fin: "store_account (pool_codec c) (p\<lparr>total_staked := ts\<rparr>) (key pa) v3 = Inr v'"
    by (auto simp: rbind_eq_Inr ok_or_eq_Inr if_Inl_eq_Inr load_account_def load_position_eq_Inr not_less)
  from st obtain d where d: "store (stake_codec c) s' (data (mem v (key sa))) = Inr d" "v1 = set_mem_data (key sa) d v"
    by (auto simp: store_account_eq_Inr)
  show thesis
    using that [where ts = ts, OF ias * _ d(1)] ts fin lamports_sub_assign_effect [OF lam(1)] lamports_add_assign_effect [OF lam(2)]
    by (simp add: d(2) checked_sub_eq_Some)
qed

lemma slash_effect:
  assumes "staking_process_slash c amount ias v = Inr v'"
  obtains auth sa pa rest s p s' p' d where
    "ias = auth # sa # pa # rest" "is_signer auth"
    "load (pool_codec c) (data (mem v (key pa))) = Inr p" "pool_authority p = key auth"
    "load (stake_codec c) (data (mem v (key sa))) = Inr s" "stake_is_initialized s"
    "slash_position amount s p = Inr (s', p')"
    "store (stake_codec c) s' (data (mem v (key sa))) = Inr d"
    "store_account (pool_codec c) p' (key pa) (set_mem_data (key sa) d v) = Inr v'"
proof -
  from assms obtain auth sa pa rest where ias: "ias = auth # sa # pa # rest"
    by (auto simp: staking_process_slash_def rust_simps)
  from assms [unfolded staking_process_slash_def ias] show thesis
    by (auto simp: ias rbind_eq_Inr if_Inl_eq_Inr load_account_def store_account_def intro!: that)
qed



lemma stake_effect:
  assumes "staking_process_stake e c pid amount tier auto liquid ias v = Inr v'"
  obtains staker sa pa cs sys rest clk b p u w ts where
    "ias = staker # sa # pa # cs # sys # rest" "is_signer staker"
    "clock_from_account_info e (key cs) (mem v (key cs)) = Inr clk"
    "find_program_address e [STAKE_SEED, to_le_bytes (key staker)] pid = (key sa, b)"
    "load (pool_codec c) (data (mem v (key pa))) = Inr p" "pool_is_initialized p"
    "if data (mem v (key sa)) = []
     then create_stake e c pid ias staker sa sys amount tier auto liquid (unix_timestamp clk) b v = Inr u
     else top_up_stake c staker sa p amount v = Inr u"
    "mem w = pay (key staker) (key pa) amount (mem u)" "payable (key staker) (key pa) amount (mem u)"
    "unat ts = unat (total_staked p) + unat amount"
    "store_account (pool_codec c) (p\<lparr>total_staked := ts\<rparr>) (key pa) w = Inr v'"
proof -
  from assms obtain staker sa pa cs sys rest where ias: "ias = staker # sa # pa # cs # sys # rest"
    by (auto simp: staking_process_stake_def rust_simps)
  obtain pda b where pda: "find_program_address e [STAKE_SEED, to_le_bytes (key staker)] pid = (pda, b)" by fastforce
  from assms [unfolded staking_process_stake_def ias] pda obtain clk p u w ts where
    *: "is_signer staker" "clock_from_account_info e (key cs) (mem v (key cs)) = Inr clk"
    and k: "pda = key sa"
    and p: "load (pool_codec c) (data (mem v (key pa))) = Inr p" "pool_is_initialized p"
    and br: "(if data (mem v (key sa)) = []
       then create_stake e c pid (staker # sa # pa # cs # sys # rest) staker sa sys amount tier auto liquid (unix_timestamp clk) b v
       else top_up_stake c staker sa p amount v) = Inr u"
    and cpi: "cpi_common e pid ias (system_transfer (key staker) (key pa) amount) [key staker, key pa, key sys] [] u = Inr w"
    and ts: "checked_add (total_staked p) amount = Some ts"
      "store_account (pool_codec c) (p\<lparr>total_staked := ts\<rparr>) (key pa) w = Inr v'"
    by (auto simp: ias rbind_eq_Inr ok_or_eq_Inr if_Inl_eq_Inr load_account_def Let_def)
  have br': "if data (mem v (key sa)) = []
     then create_stake e c pid ias staker sa sys amount tier auto liquid (unix_timestamp clk) b v = Inr u
     else top_up_stake c staker sa p amount v = Inr u"
    using br by (simp add: ias split: if_splits)
  show thesis
    by (rule that [OF ias * pda [unfolded k] p br' invoke_transfer_effect(1,2) [OF cpi]
          ts(1) [unfolded checked_add_eq_Some] ts(2)])
qed

lemma create_stake_effect:
  assumes "create_stake e c pid ias staker sa sys amount tier auto liquid now b v = Inr u"
  obtains n unlock_ts d where
    "mem v (key sa) = \<lparr>lamports = 0, data = [], owner = system_program_id\<rparr>"
    "sint unlock_ts = (if tier = Flexible then 0 else sint now + sint (lock_duration_seconds tier))"
    "store (stake_codec c) (new_stake (key staker) amount tier auto liquid now unlock_ts b)
       (replicate StakeAccount_LEN 0) = Inr d"
    "mem u = (pay (key staker) (key sa) n ((mem v)(key sa := fresh_account (word_of_nat StakeAccount_LEN) pid)))
       (key sa := (pay (key staker) (key sa) n ((mem v)(key sa := fresh_account (word_of_nat StakeAccount_LEN) pid)) (key sa))
         \<lparr>data := d\<rparr>)"
proof -
  from assms [unfolded create_stake_def] obtain n w unlock_ts d where
    cpi: "cpi_common e pid ias (system_create_account (key staker) (key sa) n (word_of_nat StakeAccount_LEN) pid)
        [key staker, key sa, key sys] [[STAKE_SEED, to_le_bytes (key staker), [b]]] v = Inr w"
    and ul: "(if 0 < sint (lock_duration_seconds tier)
            then ovf (i64_checked_add now (lock_duration_seconds tier)) else Inr 0) = Inr unlock_ts"
    and st: "store (stake_codec c) (new_stake (key staker) amount tier auto liquid now unlock_ts b)
       (data (mem w (key sa))) = Inr d" and u: "u = set_mem_data (key sa) d w"
    by (auto simp: rbind_eq_Inr store_account_def)
  have "sint unlock_ts = (if tier = Flexible then 0 else sint now + sint (lock_duration_seconds tier))"
    using ul by (cases tier) (auto simp: SECONDS_PER_DAY_def ok_or_eq_Inr i64_checked_add_eq_Some)
  moreover note eff = invoke_create_account_effect [OF cpi]
  moreover have "data (mem w (key sa)) = replicate StakeAccount_LEN 0"
    by (simp add: eff(1) fresh_account_def StakeAccount_LEN_def)
  ultimately show thesis using that [OF eff(3) _ _ ] st u by (simp add: eff(1))
qed

section \<open>The pool's total\<close>

text \<open>What an account counts for in the pool: the stake of an initialised position, else nothing.\<close>

definition position :: "staking_codecs \<Rightarrow> bytes \<Rightarrow> nat" where
  "position c d =
     (case try_from_slice (stake_codec c) d of
        Some s \<Rightarrow> if stake_is_initialized s then unat (staked_amount s) else 0
      | None \<Rightarrow> 0)"


text \<open>A step that changes the data of the pool and of one account only, and moves both by the same amount.\<close>

definition balanced_step :: "staking_codecs \<Rightarrow> pubkey \<Rightarrow> pubkey \<Rightarrow> (pubkey \<Rightarrow> account) \<Rightarrow> (pubkey \<Rightarrow> account) \<Rightarrow> bool" where
  "balanced_step c pa sa m m' \<longleftrightarrow>
     (\<forall>k. k \<noteq> pa \<longrightarrow> k \<noteq> sa \<longrightarrow> data (m' k) = data (m k)) \<and>
     (\<forall>p. load (pool_codec c) (data (m pa)) = Inr p \<longrightarrow>
        (\<exists>p'. load (pool_codec c) (data (m' pa)) = Inr p' \<and>
           position c (data (m' sa)) + unat (total_staked p) = position c (data (m sa)) + unat (total_staked p')))"

lemma position_load: "load (stake_codec c) d = Inr s \<Longrightarrow> stake_is_initialized s \<Longrightarrow> position c d = unat (staked_amount s)"
  by (simp add: position_def load_eq_Inr)




text \<open>The two shapes of a step: a position and the pool are stored, or a position alone.\<close>

lemma balanced_two_stores:
  assumes ok: "staking_codecs_ok c"
    and s: "load (stake_codec c) (data (m sa)) = Inr s" "stake_is_initialized s"
    and p: "load (pool_codec c) (data (m pa)) = Inr p"
    and u: "\<And>k. data (mem u k) = data (m k)"
    and st: "store (stake_codec c) s' (data (mem u sa)) = Inr d" "stake_is_initialized s'"
    and w: "\<And>k. data (mem w k) = data (mem (set_mem_data sa d u) k)"
    and v': "store_account (pool_codec c) p' pa w = Inr v'"
    and eq: "unat (staked_amount s') + unat (total_staked p) = unat (staked_amount s) + unat (total_staked p')"
  shows "balanced_step c pa sa m (mem v')" and "load (stake_codec c) (data (mem v' sa)) = Inr s'"
    and "load (pool_codec c) (data (mem v' pa)) = Inr p'"
proof -
  have ne: "sa \<noteq> pa" by (rule pool_not_stake [where m = m, OF ok p s(1)])
  from v' obtain d2 where d2: "store (pool_codec c) p' (data (mem w pa)) = Inr d2" and v'_def: "v' = set_mem_data pa d2 w"
    by (auto simp: store_account_eq_Inr)
  have "data (mem w pa) = data (m pa)" using w u ne by simp
  with d2 have "load (pool_codec c) d2 = Inr p'" using staking_codecs_okD(1) [OF ok p] by simp
  then show 1: "load (pool_codec c) (data (mem v' pa)) = Inr p'" by (simp add: v'_def)
  show 2: "load (stake_codec c) (data (mem v' sa)) = Inr s'"
    using staking_codecs_okD(2) [OF ok s(1)] st(1) u w ne by (simp add: v'_def)
  have "data (mem v' k) = data (m k)" if "k \<noteq> pa" "k \<noteq> sa" for k using that w u by (simp add: v'_def)
  then show "balanced_step c pa sa m (mem v')"
    using p 1 eq position_load [OF s] position_load [OF 2 st(2)] by (auto simp: balanced_step_def)
qed





lemma slash_position_effect:
  assumes "slash_position amount s p = Inr (s', p')"
  defines "n \<equiv> min (unat amount) (unat (staked_amount s))"
  defines "covered \<equiv> min n (unat (insurance_balance p))"
  shows "unat (insurance_balance p) = unat (insurance_balance p') + covered"
    and "unat (staked_amount s) = unat (staked_amount s') + (n - covered)"
    and "unat (total_staked p) = unat (total_staked p') + (n - covered)"
    and "unat (total_slashed p') = unat (total_slashed p) + n"
    and "s' = s\<lparr>staked_amount := staked_amount s'\<rparr>"
    and "p' = p\<lparr>insurance_balance := insurance_balance p', total_staked := total_staked p',
      total_slashed := total_slashed p'\<rparr>"
proof -
  let ?n = "min amount (staked_amount s)"
  from assms(1) obtain a ins st ts sl where
    c: "checked_sub ?n (min ?n (insurance_balance p)) = Some a"
      "checked_sub (insurance_balance p) (min ?n (insurance_balance p)) = Some ins"
      "checked_sub (staked_amount s) a = Some st" "checked_sub (total_staked p) a = Some ts"
      "checked_add (total_slashed p) ?n = Some sl"
    and r: "s' = s\<lparr>staked_amount := st\<rparr>" "p' = p\<lparr>insurance_balance := ins, total_staked := ts, total_slashed := sl\<rparr>"
    by (auto simp: slash_position_def Let_def rbind_eq_Inr ok_or_eq_Inr)
  have u: "unat ?n = n" "unat (min ?n (insurance_balance p)) = covered" by (simp_all add: n_def covered_def)
  note eqs = c [unfolded checked_sub_eq_Some checked_add_eq_Some u]
  show "unat (insurance_balance p) = unat (insurance_balance p') + covered"
    "unat (staked_amount s) = unat (staked_amount s') + (n - covered)"
    "unat (total_staked p) = unat (total_staked p') + (n - covered)"
    "unat (total_slashed p') = unat (total_slashed p) + n"
    using eqs by (simp_all add: r)
  show "s' = s\<lparr>staked_amount := staked_amount s'\<rparr>"
    "p' = p\<lparr>insurance_balance := insurance_balance p', total_staked := total_staked p', total_slashed := total_slashed p'\<rparr>"
    by (simp_all add: r)
qed

lemma slash_result:
  assumes ok: "staking_codecs_ok c" and run: "staking_process_slash c amount ias v = Inr v'"
  obtains s p s' p' where "is_signer (ias ! 0)" "pool_authority p = key (ias ! 0)"
    "load (stake_codec c) (data (mem v (key (ias ! 1)))) = Inr s" "stake_is_initialized s"
    "load (pool_codec c) (data (mem v (key (ias ! 2)))) = Inr p"
    "slash_position amount s p = Inr (s', p')"
    "load (stake_codec c) (data (mem v' (key (ias ! 1)))) = Inr s'"
    "load (pool_codec c) (data (mem v' (key (ias ! 2)))) = Inr p'"
    "balanced_step c (key (ias ! 2)) (key (ias ! 1)) (mem v) (mem v')"
  using run
proof (rule slash_effect)
  fix auth sa pa :: instruction_account and rest s p s' p' d
  assume ias: "ias = auth # sa # pa # rest" and sig: "is_signer auth"
    and p: "load (pool_codec c) (data (mem v (key pa))) = Inr p" and auth: "pool_authority p = key auth"
    and s: "load (stake_codec c) (data (mem v (key sa))) = Inr s" "stake_is_initialized s"
    and slash: "slash_position amount s p = Inr (s', p')"
    and d: "store (stake_codec c) s' (data (mem v (key sa))) = Inr d"
    and fin: "store_account (pool_codec c) p' (key pa) (set_mem_data (key sa) d v) = Inr v'"
  note eff = slash_position_effect [OF slash]
  have "stake_is_initialized s'" using s(2) by (subst eff(5)) simp
  note two = balanced_two_stores [where m = "mem v" and u = v, OF ok s p refl d this refl fin]
  have "unat (staked_amount s') + unat (total_staked p) = unat (staked_amount s) + unat (total_staked p')"
    using eff(2,3) by linarith
  from two [OF this] show thesis using that sig auth s p slash by (simp add: ias)
qed









section \<open>Rewards\<close>

lemma calculate_pending_rewards_fresh:
  assumes "reward_debt s = 0" and "delegated_validator s = 0"
    and fits: "unat (staked_amount s) * unat (accumulated_reward_per_token p) < 2 ^ 128"
  shows "\<exists>r. calculate_pending_rewards s p = Inr r \<and>
    unat r = (unat (staked_amount s) * unat (accumulated_reward_per_token p) div 10 ^ 12
      * unat (reward_multiplier_bps (stake_lock_tier s)) div 10000) mod 2 ^ 64"
proof (cases "staked_amount s = 0")
  case True
  then show ?thesis by (simp add: calculate_pending_rewards_def)
next
  case False
  let ?a = "u64_as_u128 (staked_amount s)" and ?acc = "accumulated_reward_per_token p"
    and ?m = "u64_as_u128 (reward_multiplier_bps (stake_lock_tier s))"
  let ?raw = "?a * ?acc div 1000000000000"
  have prod: "unat (?a * ?acc) = unat (staked_amount s) * unat ?acc"
    using fits by (subst unat_mult_lem [THEN iffD1]) simp_all
  have raw: "unat ?raw = unat (staked_amount s) * unat ?acc div 10 ^ 12"
    by (simp add: unat_div_distrib prod)
  have m: "unat ?m \<le> 50000" by (cases "stake_lock_tier s") simp_all
  have "unat ?raw * unat ?m \<le> unat ?raw * 10 ^ 12" using m by (intro mult_le_mono2) simp
  also have "\<dots> \<le> unat (staked_amount s) * unat ?acc" unfolding raw by (simp add: div_times_less_eq_dividend)
  finally have lt: "unat ?raw * unat ?m < 2 ^ 128" using fits by linarith
  have "calculate_pending_rewards s p = Inr (u128_as_u64 (?raw * ?m div u64_as_u128 BPS_DENOMINATOR))"
    using False assms fits lt
    by (simp add: calculate_pending_rewards_def checked_mul_def checked_sub_def Let_def)
  moreover have "unat (?raw * ?m) = unat ?raw * unat ?m"
    using lt by (subst unat_mult_lem [THEN iffD1]) simp_all
  ultimately show ?thesis
    by (simp add: unat_u128_as_u64 unat_div_distrib prod BPS_DENOMINATOR_def)
qed

lemma calculate_pending_rewards_underflow:
  assumes "staked_amount s \<noteq> 0"
    and "unat (staked_amount s) * unat (accumulated_reward_per_token p) < unat (reward_debt s)"
  shows "calculate_pending_rewards s p = Inl (staking_err Overflow)"
proof -
  have lt: "unat (staked_amount s) * unat (accumulated_reward_per_token p) < 2 ^ 128"
    using assms(2) unsigned_less [of "reward_debt s", where ?'a = nat] by simp
  then have "unat (u64_as_u128 (staked_amount s) * accumulated_reward_per_token p)
      = unat (staked_amount s) * unat (accumulated_reward_per_token p)"
    by (subst unat_mult_lem [THEN iffD1]) simp_all
  then show ?thesis
    using assms lt by (simp add: calculate_pending_rewards_def checked_mul_def checked_sub_def word_le_nat_alt not_le)
qed

section \<open>Properties\<close>

text \<open>Concrete codecs, accounts and a chain, for evaluation.\<close>

definition staking_layouts :: "staking_instruction \<Rightarrow> staking_codecs" where
  "staking_layouts ix =
     \<lparr>pool_codec = of_layout pool_layout, stake_codec = of_layout stake_layout,
      staking_instruction_codec = \<lparr>try_from_slice = (\<lambda>_. Some ix), to_vec = (\<lambda>_. [])\<rparr>\<rparr>"

definition staking_chain :: "pubkey \<Rightarrow> i64 \<Rightarrow> env" where
  "staking_chain pda now =
     native_env (\<lambda>_ _. (pda, 255)) (\<lambda>_. 10) \<lparr>slot = 7, epoch = 1, unix_timestamp = now\<rparr> (\<lambda>b. b)"

definition sample_pool :: staking_pool where
  "sample_pool = (initial_pool 9 8 800 255)
     \<lparr>total_staked := 500, accumulated_reward_per_token := 3000000000000, insurance_balance := 100\<rparr>"

definition sample_stake :: stake_account where
  "sample_stake = (new_stake 1 500 Locked30 False True 0 2592000 255)
     \<lparr>reward_debt := 1500000000000000, st_prism_minted := 500\<rparr>"

definition staking_vm :: vm where
  "staking_vm =
     enter_vm (tx_of [1, 2, 3, 4, 0, 9]
       (\<lambda>k. if k = 2 then \<lparr>lamports = 10, data = put stake_layout sample_stake, owner = 99\<rparr>
            else if k = 3 then \<lparr>lamports = 700, data = put pool_layout sample_pool, owner = 99\<rparr>
            else wallet 5000))"

definition staking_refs :: "pubkey \<Rightarrow> instruction_account list" where
  "staking_refs k =
     [account_ref k True True, account_ref 2 False True, account_ref 3 False True, account_ref 4 False False,
      account_ref 0 False False]"

lemma staking_layouts_ok: "staking_codecs_ok (staking_layouts ix)"
  by (simp add: staking_codecs_ok_def staking_layouts_def pool_borsh.borsh_struct_axioms
      stake_borsh.borsh_struct_axioms)

lemma staking_vm_loads [simp]:
  "load (stake_codec (staking_layouts ix)) (data (mem staking_vm 2)) = Inr sample_stake"
  "load (pool_codec (staking_layouts ix)) (data (mem staking_vm 3)) = Inr sample_pool"
  by (simp_all add: staking_vm_def staking_layouts_def tx_of_def)

lemma sample_fields [simp]:
  "stake_is_initialized sample_stake" "stake_owner sample_stake = 1" "staked_amount sample_stake = 500"
  "unlock_timestamp sample_stake = 2592000" "st_prism_minted sample_stake = 500"
  "reward_debt sample_stake = 1500000000000000" "total_staked sample_pool = 500"
  "accumulated_reward_per_token sample_pool = 3000000000000" "insurance_balance sample_pool = 100"
  "pool_authority sample_pool = 9" "pool_is_initialized sample_pool" "total_slashed sample_pool = 0"
  "delegated_validator sample_stake = 0" "stake_lock_tier sample_stake = Locked30" "pending_rewards sample_stake = 0"
  by (simp_all add: sample_stake_def sample_pool_def new_stake_def initial_pool_def)

lemmas staking_eval = staking_layouts_def staking_chain_def staking_vm_def staking_refs_def
  load_position_def settle_stake_def calculate_pending_rewards_def BPS_DENOMINATOR_def
  StakingPool_LEN_def StakeAccount_LEN_def checked_mul_def checked_sub_def checked_add_def
  u64_as_u128_def u128_as_u64_def

text \<open>
  C15. Unstaking respects the lock and pays the staker exactly. If it succeeds, it was signed by the
  owner of the position, the lock (if any) had expired by the clock, and the position, the pool's total
  and the pool's balance each went down by the amount, which the staker received. The lock and the
  number of minted stPRISM stay as they were, so a position whose stake was fully represented by
  stPRISM has more stPRISM than stake afterwards. Two promises of the feature list (features 9 and 10) are
  not kept: before the lock expires no amount can be withdrawn, not even for the loss of the bonus, and
  a stake without a lock is paid by the instruction itself, with no cooldown of two epochs.
\<close>

theorem unstake_respects_lock:
  assumes "staking_codecs_ok c" and "staking_process_unstake e c amount ias v = Inr v'"
    and "staker = key (ias ! 0)" and "sa = key (ias ! 1)" and "pa = key (ias ! 2)" and "staker \<noteq> pa"
    and "load (stake_codec c) (data (mem v sa)) = Inr s" and "load (pool_codec c) (data (mem v pa)) = Inr p"
  shows "\<exists>clk s' p'. is_signer (ias ! 0) \<and> stake_owner s = staker \<and>
    clock_from_account_info e (key (ias ! 3)) (mem v (key (ias ! 3))) = Inr clk \<and>
    (sint (unlock_timestamp s) \<le> 0 \<or> sint (unlock_timestamp s) \<le> sint (unix_timestamp clk)) \<and>
    load (stake_codec c) (data (mem v' sa)) = Inr s' \<and> load (pool_codec c) (data (mem v' pa)) = Inr p' \<and>
    unat (staked_amount s) = unat (staked_amount s') + unat amount \<and>
    unat (total_staked p) = unat (total_staked p') + unat amount \<and>
    lamports (mem v' pa) = lamports (mem v pa) - amount \<and>
    lamports (mem v' staker) = lamports (mem v staker) + amount \<and>
    unlock_timestamp s' = unlock_timestamp s \<and> st_prism_minted s' = st_prism_minted s"
  using assms(2)
proof (rule unstake_effect)
  fix staker' sa' pa' cs :: instruction_account and rest clk s0 p0 s' ts d
  let ?u = "set_mem_data (key sa') d v"
  assume ias: "ias = staker' # sa' # pa' # cs # rest" and sig: "is_signer staker'"
    and clk: "clock_from_account_info e (key cs) (mem v (key cs)) = Inr clk"
    and s0: "load (stake_codec c) (data (mem v (key sa'))) = Inr s0" "stake_is_initialized s0" "stake_owner s0 = key staker'"
    and lock: "sint (unlock_timestamp s0) \<le> 0 \<or> sint (unlock_timestamp s0) \<le> sint (unix_timestamp clk)"
    and p0: "load (pool_codec c) (data (mem v (key pa'))) = Inr p0"
    and settle: "settle_stake checked_sub s0 p0 amount = Inr s'"
    and ts: "unat (total_staked p0) = unat amount + unat ts"
    and d: "store (stake_codec c) s' (data (mem v (key sa'))) = Inr d"
    and fin: "store_account (pool_codec c) (p0\<lparr>total_staked := ts\<rparr>) (key pa')
       (?u\<lparr>mem := credit (key staker') amount (debit (key pa') amount (mem ?u))\<rparr>) = Inr v'"
  have keys: "key staker' = staker" "key sa' = sa" "key pa' = pa" and same: "s0 = s" "p0 = p"
    using assms(3-5,7,8) s0 p0 ias by auto
  from settle have s': "unat (staked_amount s) = unat amount + unat (staked_amount s')" "stake_is_initialized s'"
    "unlock_timestamp s' = unlock_timestamp s" "st_prism_minted s' = st_prism_minted s"
    by (auto elim!: settle_stake_effect simp: checked_sub_eq_Some s0 simp flip: same)
  note two = balanced_two_stores(2,3) [where m = "mem v" and u = v, OF assms(1) s0(1,2) p0 refl d s'(2) _ fin]
  have loads: "load (stake_codec c) (data (mem v' sa)) = Inr s'" "load (pool_codec c) (data (mem v' pa)) = Inr (p\<lparr>total_staked := ts\<rparr>)"
    using two s'(1) ts keys same by simp_all
  have lam: "lamports (mem v' pa) = lamports (mem v pa) - amount" "lamports (mem v' staker) = lamports (mem v staker) + amount"
    using fin assms(6) by (auto simp: store_account_eq_Inr keys credit_def debit_def)
  show ?thesis
    by (intro exI [of _ clk] exI [of _ s'] exI [of _ "p\<lparr>total_staked := ts\<rparr>"] conjI loads lam s'(3,4))
      (use sig s0 clk lock s' ts keys same in \<open>simp_all add: ias\<close>)
qed

theorem unstake_respects_lock_witness:
  "\<exists>v' s'. staking_process_unstake (staking_chain 2 2592000) (staking_layouts UpdateRewards) 200 (staking_refs 1) staking_vm = Inr v' \<and>
    load (stake_codec (staking_layouts UpdateRewards)) (data (mem v' 2)) = Inr s' \<and>
    unat (staked_amount s') = 300 \<and> st_prism_minted s' = 500 \<and> lamports (mem v' 1) = 5200 \<and>
    staking_process_unstake (staking_chain 2 2591999) (staking_layouts UpdateRewards) 200 (staking_refs 1) staking_vm
      = Inl (staking_err LockNotExpired)"
proof -
  let ?c = "staking_layouts UpdateRewards"
  obtain v' where run: "staking_process_unstake (staking_chain 2 2592000) ?c 200 (staking_refs 1) staking_vm = Inr v'"
    by (simp add: staking_process_unstake_def staking_eval runtime_eval cpi_eval)
  have early: "staking_process_unstake (staking_chain 2 2591999) ?c 200 (staking_refs 1) staking_vm = Inl (staking_err LockNotExpired)"
    by (simp add: staking_process_unstake_def staking_eval runtime_eval cpi_eval)
  have keys: "1 = key (staking_refs 1 ! 0)" "2 = key (staking_refs 1 ! 1)" "3 = key (staking_refs 1 ! 2)" "(1 :: pubkey) \<noteq> 3"
    by (simp_all add: staking_refs_def)
  from unstake_respects_lock [OF staking_layouts_ok run keys staking_vm_loads] obtain s' where
    s': "load (stake_codec ?c) (data (mem v' 2)) = Inr s'" "unat (staked_amount sample_stake) = unat (staked_amount s') + unat (200 :: u64)"
      "st_prism_minted s' = st_prism_minted sample_stake" "lamports (mem v' 1) = lamports (mem staking_vm 1) + 200"
    by (elim exE conjE)
  have "lamports (mem staking_vm 1) = 5000" by (simp add: staking_vm_def tx_of_def)
  with s' run early show ?thesis by simp
qed



text \<open>
  C17. Slashing takes from the insurance first. A successful slash is signed by the pool's authority and
  takes the smaller of the amount and the stake: the insurance pays as much of it as it holds, the
  position loses the rest, the pool's total loses what the position loses, and \<open>total_slashed\<close> goes up by
  the whole. The loss of the position has no other bound: the feature list (feature 14) promises that it
  is at most 5% of the stake, and the witness has a slash that takes 10%.
\<close>

theorem slash_insurance_first:
  assumes "staking_codecs_ok c" and "staking_process_slash c amount ias v = Inr v'"
    and "load (stake_codec c) (data (mem v (key (ias ! 1)))) = Inr s"
    and "load (pool_codec c) (data (mem v (key (ias ! 2)))) = Inr p"
    and "n = min (unat amount) (unat (staked_amount s))" and "covered = min n (unat (insurance_balance p))"
  shows "is_signer (ias ! 0) \<and> pool_authority p = key (ias ! 0) \<and>
    (\<exists>s' p'. load (stake_codec c) (data (mem v' (key (ias ! 1)))) = Inr s' \<and>
      load (pool_codec c) (data (mem v' (key (ias ! 2)))) = Inr p' \<and>
      unat (insurance_balance p) = unat (insurance_balance p') + covered \<and>
      unat (staked_amount s) = unat (staked_amount s') + (n - covered) \<and>
      unat (total_staked p) = unat (total_staked p') + (n - covered) \<and>
      unat (total_slashed p') = unat (total_slashed p) + n)"
proof (rule slash_result [OF assms(1,2)])
  fix s0 p0 s' p'
  assume *: "is_signer (ias ! 0)" "pool_authority p0 = key (ias ! 0)"
    and s0: "load (stake_codec c) (data (mem v (key (ias ! 1)))) = Inr s0" "load (pool_codec c) (data (mem v (key (ias ! 2)))) = Inr p0"
    and slash: "slash_position amount s0 p0 = Inr (s', p')"
    and loads: "load (stake_codec c) (data (mem v' (key (ias ! 1)))) = Inr s'" "load (pool_codec c) (data (mem v' (key (ias ! 2)))) = Inr p'"
  have same: "s0 = s" "p0 = p" using s0 assms(3,4) by auto
  show ?thesis
    using * loads slash_position_effect(1-4) [OF slash] unfolding same assms(5,6) by blast
qed

theorem slash_insurance_first_witness:
  "\<exists>v' s' p'. staking_process_slash (staking_layouts UpdateRewards) 150 (staking_refs 9) staking_vm = Inr v' \<and>
    load (stake_codec (staking_layouts UpdateRewards)) (data (mem v' 2)) = Inr s' \<and>
    load (pool_codec (staking_layouts UpdateRewards)) (data (mem v' 3)) = Inr p' \<and>
    unat (insurance_balance p') = 0 \<and> unat (staked_amount sample_stake) = 500 \<and> unat (staked_amount s') = 450"
proof -
  let ?c = "staking_layouts UpdateRewards"
  obtain v' where run: "staking_process_slash ?c 150 (staking_refs 9) staking_vm = Inr v'"
    by (simp add: staking_process_slash_def slash_position_def Let_def min_def staking_eval runtime_eval cpi_eval)
  have loads: "load (stake_codec ?c) (data (mem staking_vm (key (staking_refs 9 ! 1)))) = Inr sample_stake"
    "load (pool_codec ?c) (data (mem staking_vm (key (staking_refs 9 ! 2)))) = Inr sample_pool"
    by (simp_all add: staking_refs_def)
  from slash_insurance_first [OF staking_layouts_ok run loads refl refl] obtain s' p' where
    "load (stake_codec ?c) (data (mem v' (key (staking_refs 9 ! 1)))) = Inr s'"
    "load (pool_codec ?c) (data (mem v' (key (staking_refs 9 ! 2)))) = Inr p'"
    "unat (insurance_balance sample_pool) = unat (insurance_balance p') + 100"
    "unat (staked_amount sample_stake) = unat (staked_amount s') + 50"
    by auto
  with run show ?thesis by (intro exI [of _ v'] exI [of _ s'] exI [of _ p']) (simp add: staking_refs_def)
qed

text \<open>
  C18. A new position earns the rewards of the past. The first stake of an account records a reward debt
  of zero instead of its stake times the accumulator, so right after it, with no time gone by, the whole
  accumulator is pending for it: the stake times every reward per token since the pool began, times the
  multiplier of the lock tier.
\<close>

theorem new_stake_earns_past_rewards:
  assumes "staking_codecs_ok c" and "staking_process_stake e c pid amount tier auto liquid ias v = Inr v'"
    and "data (mem v (key (ias ! 1))) = []" and "load (pool_codec c) (data (mem v (key (ias ! 2)))) = Inr p"
    and "unat amount * unat (accumulated_reward_per_token p) < 2 ^ 128"
  shows "\<exists>s' p' r. load (stake_codec c) (data (mem v' (key (ias ! 1)))) = Inr s' \<and>
    load (pool_codec c) (data (mem v' (key (ias ! 2)))) = Inr p' \<and>
    calculate_pending_rewards s' p' = Inr r \<and>
    unat r = (unat amount * unat (accumulated_reward_per_token p) div 10 ^ 12
      * unat (reward_multiplier_bps tier) div 10000) mod 2 ^ 64"
  using assms(2)
proof (rule stake_effect)
  fix staker sa pa cs sys :: instruction_account and rest clk b p0 u w ts
  assume ias: "ias = staker # sa # pa # cs # sys # rest"
    and p0: "load (pool_codec c) (data (mem v (key pa))) = Inr p0"
    and br: "if data (mem v (key sa)) = []
     then create_stake e c pid ias staker sa sys amount tier auto liquid (unix_timestamp clk) b v = Inr u
     else top_up_stake c staker sa p0 amount v = Inr u"
    and w: "mem w = pay (key staker) (key pa) amount (mem u)"
    and fin: "store_account (pool_codec c) (p0\<lparr>total_staked := ts\<rparr>) (key pa) w = Inr v'"
  have p: "p0 = p" and empty: "data (mem v (key sa)) = []" using p0 assms(3,4) by (simp_all add: ias)
  from br empty have "create_stake e c pid ias staker sa sys amount tier auto liquid (unix_timestamp clk) b v = Inr u" by simp
  then show ?thesis
  proof (rule create_stake_effect)
    fix n unlock_ts d
    let ?s = "new_stake (key staker) amount tier auto liquid (unix_timestamp clk) unlock_ts b" and ?p = "p\<lparr>total_staked := ts\<rparr>"
    let ?m = "(mem v)(key sa := fresh_account (word_of_nat StakeAccount_LEN) pid)"
    assume d: "store (stake_codec c) ?s (replicate StakeAccount_LEN 0) = Inr d"
      and u: "mem u = (pay (key staker) (key sa) n ?m)(key sa := (pay (key staker) (key sa) n ?m (key sa))\<lparr>data := d\<rparr>)"
    have ne: "key sa \<noteq> key pa" using empty staking_codecs_okD(4) [OF assms(1) p0] by (auto simp: StakingPool_LEN_def)
    have load_s: "load (stake_codec c) d = Inr ?s" using staking_codecs_okD(3) [OF assms(1) _ d] by simp
    obtain d2 where d2: "store (pool_codec c) ?p (data (mem w (key pa))) = Inr d2" and v': "v' = set_mem_data (key pa) d2 w"
      using fin by (auto simp: store_account_eq_Inr p)
    have "load (pool_codec c) d2 = Inr ?p"
      using staking_codecs_okD(1) [OF assms(1) p0] d2 ne by (simp add: w u)
    with load_s have loads: "load (stake_codec c) (data (mem v' (key (ias ! 1)))) = Inr ?s"
      "load (pool_codec c) (data (mem v' (key (ias ! 2)))) = Inr ?p"
      using ne by (simp_all add: ias v' w u)
    have "\<exists>r. calculate_pending_rewards ?s ?p = Inr r \<and>
        unat r = (unat amount * unat (accumulated_reward_per_token p) div 10 ^ 12
          * unat (reward_multiplier_bps tier) div 10000) mod 2 ^ 64"
      using calculate_pending_rewards_fresh [of ?s ?p] assms(5) by (simp add: new_stake_def)
    with loads show ?thesis by blast
  qed
qed

theorem new_stake_earns_past_rewards_witness:
  "\<exists>v' s' p'. staking_process_stake (staking_chain 1001 0) (staking_layouts UpdateRewards) 99 1000 Flexible False False
      [account_ref 1 True True, account_ref 1001 False True, account_ref 3 False True, account_ref 4 False False, account_ref 0 False False]
      (enter_vm (tx_of [1, 1001, 3, 4, 0] (\<lambda>k. if k = 1001 then wallet 0 else accounts (tx staking_vm) k))) = Inr v' \<and>
    load (stake_codec (staking_layouts UpdateRewards)) (data (mem v' 1001)) = Inr s' \<and>
    load (pool_codec (staking_layouts UpdateRewards)) (data (mem v' 3)) = Inr p' \<and>
    calculate_pending_rewards s' p' = Inr 3000"
proof -
  let ?c = "staking_layouts UpdateRewards"
  define ias where "ias = [account_ref 1 True True, account_ref 1001 False True, account_ref 3 False True,
    account_ref 4 False False, account_ref 0 False False]"
  define v where "v = enter_vm (tx_of [1, 1001, 3, 4, 0] (\<lambda>k. if k = 1001 then wallet 0 else accounts (tx staking_vm) k))"
  obtain v' where run: "staking_process_stake (staking_chain 1001 0) ?c 99 1000 Flexible False False ias v = Inr v'"
    by (simp add: v_def ias_def staking_process_stake_def create_stake_def staking_eval runtime_eval system_eval cpi_eval)
  have load: "data (mem v (key (ias ! 1))) = []" "load (pool_codec ?c) (data (mem v (key (ias ! 2)))) = Inr sample_pool"
    by (simp_all add: v_def ias_def tx_of_def staking_vm_def staking_layouts_def)
  have "unat (1000 :: u64) * unat (accumulated_reward_per_token sample_pool) < 2 ^ 128" by simp
  from new_stake_earns_past_rewards [OF staking_layouts_ok run load this] obtain s' p' r where
    *: "load (stake_codec ?c) (data (mem v' (key (ias ! 1)))) = Inr s'"
    "load (pool_codec ?c) (data (mem v' (key (ias ! 2)))) = Inr p'" "calculate_pending_rewards s' p' = Inr r" "unat r = 3000"
    by auto
  then have "r = 3000" by (simp add: word_unat_eq_iff)
  with * run show ?thesis unfolding v_def ias_def by (intro exI [of _ v'] exI [of _ s'] exI [of _ p']) simp
qed

text \<open>
  C19. A slash freezes what it leaves. It lowers the stake but not the reward debt, so a settled
  position that loses a part of its stake has a debt above its stake times the accumulator: computing
  its pending rewards is an overflow error, and no later instruction can unstake anything until the
  accumulator has grown enough.
\<close>

theorem slash_freezes_position:
  assumes "staking_codecs_ok c" and "staking_process_slash c amount ias v = Inr v'"
    and "load (stake_codec c) (data (mem v (key (ias ! 1)))) = Inr s"
    and "load (pool_codec c) (data (mem v (key (ias ! 2)))) = Inr p"
    and "unat (reward_debt s) = unat (staked_amount s) * unat (accumulated_reward_per_token p)"
    and "0 < unat (accumulated_reward_per_token p)"
    and "unat (insurance_balance p) < unat amount" and "unat amount < unat (staked_amount s)"
  shows "\<exists>s' p'. load (stake_codec c) (data (mem v' (key (ias ! 1)))) = Inr s' \<and>
      load (pool_codec c) (data (mem v' (key (ias ! 2)))) = Inr p' \<and>
      calculate_pending_rewards s' p' = Inl (staking_err Overflow) \<and>
      (\<forall>e n ias' w w'. key (ias' ! 1) = key (ias ! 1) \<longrightarrow> key (ias' ! 2) = key (ias ! 2) \<longrightarrow>
         data (mem w (key (ias ! 1))) = data (mem v' (key (ias ! 1))) \<longrightarrow>
         data (mem w (key (ias ! 2))) = data (mem v' (key (ias ! 2))) \<longrightarrow>
         staking_process_unstake e c n ias' w \<noteq> Inr w')"
proof (rule slash_result [OF assms(1,2)])
  fix s0 p0 s' p'
  assume s0: "load (stake_codec c) (data (mem v (key (ias ! 1)))) = Inr s0" "load (pool_codec c) (data (mem v (key (ias ! 2)))) = Inr p0"
    and slash: "slash_position amount s0 p0 = Inr (s', p')"
    and loads: "load (stake_codec c) (data (mem v' (key (ias ! 1)))) = Inr s'" "load (pool_codec c) (data (mem v' (key (ias ! 2)))) = Inr p'"
  have same: "s0 = s" "p0 = p" using s0 assms(3,4) by auto
  note eff = slash_position_effect [OF slash, unfolded same]
  have st: "unat (staked_amount s) = unat (staked_amount s') + (unat amount - unat (insurance_balance p))"
    using eff(2) assms(7,8) by simp
  have debt: "reward_debt s' = reward_debt s" by (subst eff(5)) simp
  have acc: "accumulated_reward_per_token p' = accumulated_reward_per_token p" by (subst eff(6)) simp
  have "staked_amount s' \<noteq> 0" using st assms(7,8) by auto
  moreover have "unat (staked_amount s') * unat (accumulated_reward_per_token p) < unat (reward_debt s)"
    unfolding assms(5) using st assms(6,7) by simp
  ultimately have over: "calculate_pending_rewards s' p' = Inl (staking_err Overflow)"
    by (intro calculate_pending_rewards_underflow) (simp_all only: debt acc not_False_eq_True)
  have "staking_process_unstake e c n ias' w \<noteq> Inr w'"
    if "key (ias' ! 1) = key (ias ! 1)" "key (ias' ! 2) = key (ias ! 2)"
      "data (mem w (key (ias ! 1))) = data (mem v' (key (ias ! 1)))"
      "data (mem w (key (ias ! 2))) = data (mem v' (key (ias ! 2)))" for e n ias' w w'
  proof
    assume "staking_process_unstake e c n ias' w = Inr w'"
    then show False
      by (rule unstake_effect) (use that loads over in \<open>auto elim!: settle_stake_effect\<close>)
  qed
  with over loads show ?thesis by blast
qed

theorem slash_freezes_position_witness:
  "\<exists>v' s' p'. staking_process_slash (staking_layouts UpdateRewards) 150 (staking_refs 9) staking_vm = Inr v' \<and>
    load (stake_codec (staking_layouts UpdateRewards)) (data (mem v' 2)) = Inr s' \<and>
    load (pool_codec (staking_layouts UpdateRewards)) (data (mem v' 3)) = Inr p' \<and>
    calculate_pending_rewards s' p' = Inl (staking_err Overflow)"
proof -
  let ?c = "staking_layouts UpdateRewards"
  obtain v' where run: "staking_process_slash ?c 150 (staking_refs 9) staking_vm = Inr v'"
    by (simp add: staking_process_slash_def slash_position_def Let_def min_def staking_eval runtime_eval cpi_eval)
  have loads: "load (stake_codec ?c) (data (mem staking_vm (key (staking_refs 9 ! 1)))) = Inr sample_stake"
    "load (pool_codec ?c) (data (mem staking_vm (key (staking_refs 9 ! 2)))) = Inr sample_pool"
    by (simp_all add: staking_refs_def)
  have "unat (reward_debt sample_stake) = unat (staked_amount sample_stake) * unat (accumulated_reward_per_token sample_pool)"
    "0 < unat (accumulated_reward_per_token sample_pool)" "unat (insurance_balance sample_pool) < unat (150 :: u64)"
    "unat (150 :: u64) < unat (staked_amount sample_stake)"
    by simp_all
  from slash_freezes_position [OF staking_layouts_ok run loads this] obtain s' p' where
    "load (stake_codec ?c) (data (mem v' (key (staking_refs 9 ! 1)))) = Inr s'"
    "load (pool_codec ?c) (data (mem v' (key (staking_refs 9 ! 2)))) = Inr p'"
    "calculate_pending_rewards s' p' = Inl (staking_err Overflow)" by (elim exE conjE)
  with run show ?thesis by (intro exI [of _ v'] exI [of _ s'] exI [of _ p']) (simp add: staking_refs_def)
qed

end
