(* ===== verification/AtomicSwap.thy ===== *)
theory AtomicSwap
  imports Cpi
begin

text \<open>
  The atomic swap program (\<open>programs/atomic-swap/src/lib.rs\<close>): a hash and time locked contract. An
  initiator locks lamports in a vault under the SHA-256 hash of a secret; the counterparty takes them
  by revealing the secret before the lock expires, the initiator takes them back afterwards.

  An account of 32 bytes (\<open>[u8; 32]\<close>: the hash lock and the secret) is a 256-bit word, as public keys
  are. SHA-256 is a parameter of the environment.
\<close>

section \<open>Data\<close>

type_synonym byte32 = "256 word"

definition MAX_LOCK_DURATION :: i64 where "MAX_LOCK_DURATION = 7 * 24 * 60 * 60"
definition MIN_LOCK_DURATION :: i64 where "MIN_LOCK_DURATION = 10 * 60"
definition SWAP_SEED :: bytes where "SWAP_SEED = ascii ''atomic_swap''"
definition SWAP_VAULT_SEED :: bytes where "SWAP_VAULT_SEED = ascii ''swap_vault''"

datatype swap_error =
    AlreadyInitialized | InvalidState | InvalidLockDuration | InvalidSecret | NotYetExpired | AlreadyExpired
  | InsufficientFunds | Unauthorized | InvalidAmount | Overflow | InvalidPDA

fun swap_err :: "swap_error \<Rightarrow> instruction_error" where
  "swap_err AlreadyInitialized = Custom 0"
| "swap_err InvalidState = Custom 1"
| "swap_err InvalidLockDuration = Custom 2"
| "swap_err InvalidSecret = Custom 3"
| "swap_err NotYetExpired = Custom 4"
| "swap_err AlreadyExpired = Custom 5"
| "swap_err InsufficientFunds = Custom 6"
| "swap_err Unauthorized = Custom 7"
| "swap_err InvalidAmount = Custom 8"
| "swap_err Overflow = Custom 9"
| "swap_err InvalidPDA = Custom 10"

datatype swap_state = Open | Claimed | Refunded

datatype asset_type = NativePrism | SplToken

record swap_account =
  swap_is_initialized :: bool
  state :: swap_state
  swap_asset_type :: asset_type
  initiator :: pubkey
  counterparty :: pubkey
  swap_amount :: u64
  hash_lock :: byte32
  revealed_secret :: byte32
  lock_duration :: i64
  created_at :: i64
  swap_token_mint :: pubkey
  swap_bump :: u8

definition SwapAccount_SIZE :: nat where
  "SwapAccount_SIZE = 188"

definition is_expired :: "swap_account \<Rightarrow> i64 \<Rightarrow> bool" where
  "is_expired s current_time \<longleftrightarrow> sint (i64_saturating_add (created_at s) (lock_duration s)) \<le> sint current_time"

definition verify_secret :: "env \<Rightarrow> swap_account \<Rightarrow> byte32 \<Rightarrow> bool" where
  "verify_secret e s secret \<longleftrightarrow> sha256 e (to_le_bytes secret) = to_le_bytes (hash_lock s)"

datatype swap_instruction =
    CreateSwap byte32 u64 pubkey i64 asset_type pubkey
  | ClaimSwap byte32
  | RefundSwap

record swap_codecs =
  swap_codec :: "swap_account borsh"
  swap_instruction_codec :: "swap_instruction borsh"

lemma byte32_bytes_inject [simp]: "to_le_bytes (x :: byte32) = to_le_bytes y \<longleftrightarrow> x = y"
  using to_le_bytes_inject [of 32 x y] by auto

section \<open>Handlers\<close>

definition new_swap ::
  "pubkey \<Rightarrow> byte32 \<Rightarrow> u64 \<Rightarrow> pubkey \<Rightarrow> i64 \<Rightarrow> asset_type \<Rightarrow> pubkey \<Rightarrow> clock \<Rightarrow> u8 \<Rightarrow> swap_account" where
  "new_swap ini hl amount cp ld asset mint clk b =
     \<lparr>swap_is_initialized = True, state = Open, swap_asset_type = asset, initiator = ini,
      counterparty = cp, swap_amount = amount, hash_lock = hl, revealed_secret = 0, lock_duration = ld,
      created_at = unix_timestamp clk, swap_token_mint = mint, swap_bump = b\<rparr>"

definition process_create_swap ::
  "env \<Rightarrow> swap_codecs \<Rightarrow> pubkey \<Rightarrow> byte32 \<Rightarrow> u64 \<Rightarrow> pubkey \<Rightarrow> i64 \<Rightarrow> asset_type \<Rightarrow> pubkey
     \<Rightarrow> instruction_account list \<Rightarrow> vm \<Rightarrow> vm res" where
  "process_create_swap e c program_id hl amount cp ld asset mint ias v =
     rbind (next_account_info ias) (\<lambda>(ini, it).
     rbind (next_account_info it) (\<lambda>(swap_acc, it).
     rbind (next_account_info it) (\<lambda>(vault_account, it).
     rbind (next_account_info it) (\<lambda>(system_program, it).
     if \<not> is_signer ini then Inl MissingRequiredSignature
     else if amount = 0 then Inl (swap_err InvalidAmount)
     else if sint ld < sint MIN_LOCK_DURATION \<or> sint MAX_LOCK_DURATION < sint ld
     then Inl (swap_err InvalidLockDuration)
     else
     let (swap_pda, b) = find_program_address e [SWAP_SEED, to_le_bytes hl, to_le_bytes (key ini)] program_id
     in
     if swap_pda \<noteq> key swap_acc then Inl (swap_err InvalidPDA)
     else
     let (vault_pda, vault_bump) = find_program_address e [SWAP_VAULT_SEED, to_le_bytes (key swap_acc)] program_id
     in
     if vault_pda \<noteq> key vault_account then Inl (swap_err InvalidPDA)
     else
     rbind (rent_get e) (\<lambda>minimum_balance.
     rbind (invoke_signed e program_id ias
              (system_create_account (key ini) (key swap_acc)
                 (minimum_balance SwapAccount_SIZE) (word_of_nat SwapAccount_SIZE) program_id)
              [ini, swap_acc, system_program]
              [[SWAP_SEED, to_le_bytes hl, to_le_bytes (key ini), [b]]] v) (\<lambda>v.
     rbind (clock_get e) (\<lambda>clk.
     rbind (if asset = NativePrism
            then invoke_signed e program_id ias
                   (system_create_account (key ini) (key vault_account) amount 0 program_id)
                   [ini, vault_account, system_program]
                   [[SWAP_VAULT_SEED, to_le_bytes (key swap_acc), [vault_bump]]] v
            else Inr v) (\<lambda>v.
     store_account (swap_codec c) (new_swap (key ini) hl amount cp ld asset mint clk b) (key swap_acc) v))))))))"

text \<open>The guards a claim and a refund share.\<close>

definition load_open_swap :: "swap_codecs \<Rightarrow> pubkey \<Rightarrow> pubkey \<Rightarrow> vm \<Rightarrow> swap_account res" where
  "load_open_swap c program_id k v =
     (if owner (mem v k) \<noteq> program_id then Inl IncorrectProgramId
      else
      rbind (load_account (swap_codec c) k v) (\<lambda>s.
      if \<not> swap_is_initialized s then Inl (swap_err InvalidState)
      else if state s \<noteq> Open then Inl (swap_err InvalidState)
      else Inr s))"

text \<open>The whole balance of the vault moves to the receiving account.\<close>

definition drain_vault :: "pubkey \<Rightarrow> pubkey \<Rightarrow> vm \<Rightarrow> vm res" where
  "drain_vault vault_key receive_key v =
     (let vault_lamports = lamports (mem v vault_key) in
      rbind (lamports_assign vault_key 0 v) (\<lambda>v.
      rbind (ok_or (checked_add (lamports (mem v receive_key)) vault_lamports) (swap_err Overflow)) (\<lambda>n.
      lamports_assign receive_key n v)))"

definition process_claim_swap ::
  "env \<Rightarrow> swap_codecs \<Rightarrow> pubkey \<Rightarrow> byte32 \<Rightarrow> instruction_account list \<Rightarrow> vm \<Rightarrow> vm res" where
  "process_claim_swap e c program_id secret ias v =
     rbind (next_account_info ias) (\<lambda>(claimer, it).
     rbind (next_account_info it) (\<lambda>(swap_acc, it).
     rbind (next_account_info it) (\<lambda>(vault_account, it).
     rbind (next_account_info it) (\<lambda>(claimer_receive, it).
     rbind (next_account_info it) (\<lambda>(system_program, it).
     if \<not> is_signer claimer then Inl MissingRequiredSignature
     else
     rbind (load_open_swap c program_id (key swap_acc) v) (\<lambda>s.
     if key claimer \<noteq> counterparty s then Inl (swap_err Unauthorized)
     else
     rbind (clock_get e) (\<lambda>clk.
     if is_expired s (unix_timestamp clk) then Inl (swap_err AlreadyExpired)
     else if \<not> verify_secret e s secret then Inl (swap_err InvalidSecret)
     else
     rbind (if swap_asset_type s = NativePrism then drain_vault (key vault_account) (key claimer_receive) v
            else Inr v) (\<lambda>v.
     store_account (swap_codec c) (s\<lparr>state := Claimed, revealed_secret := secret\<rparr>) (key swap_acc) v))))))))"

definition process_refund_swap ::
  "env \<Rightarrow> swap_codecs \<Rightarrow> pubkey \<Rightarrow> instruction_account list \<Rightarrow> vm \<Rightarrow> vm res" where
  "process_refund_swap e c program_id ias v =
     rbind (next_account_info ias) (\<lambda>(ini, it).
     rbind (next_account_info it) (\<lambda>(swap_acc, it).
     rbind (next_account_info it) (\<lambda>(vault_account, it).
     rbind (next_account_info it) (\<lambda>(initiator_receive, it).
     rbind (next_account_info it) (\<lambda>(system_program, it).
     if \<not> is_signer ini then Inl MissingRequiredSignature
     else
     rbind (load_open_swap c program_id (key swap_acc) v) (\<lambda>s.
     if key ini \<noteq> initiator s then Inl (swap_err Unauthorized)
     else
     rbind (clock_get e) (\<lambda>clk.
     if \<not> is_expired s (unix_timestamp clk) then Inl (swap_err NotYetExpired)
     else
     rbind (if swap_asset_type s = NativePrism then drain_vault (key vault_account) (key initiator_receive) v
            else Inr v) (\<lambda>v.
     store_account (swap_codec c) (s\<lparr>state := Refunded\<rparr>) (key swap_acc) v))))))))"

definition swap_process_instruction :: "env \<Rightarrow> swap_codecs \<Rightarrow> pubkey \<Rightarrow> bytes \<Rightarrow> program" where
  "swap_process_instruction e c program_id instruction_data ias v =
     rbind (ok_or (try_from_slice (swap_instruction_codec c) instruction_data) InvalidInstructionData) (\<lambda>ix.
     case ix of
       CreateSwap hl amount cp ld asset mint \<Rightarrow> process_create_swap e c program_id hl amount cp ld asset mint ias v
     | ClaimSwap secret \<Rightarrow> process_claim_swap e c program_id secret ias v
     | RefundSwap \<Rightarrow> process_refund_swap e c program_id ias v)"

section \<open>Layout\<close>

fun swap_state_tag :: "swap_state \<Rightarrow> u8" where
  "swap_state_tag Open = 0" | "swap_state_tag Claimed = 1" | "swap_state_tag Refunded = 2"

definition swap_state_of :: "u8 \<Rightarrow> swap_state option" where
  "swap_state_of b = (if b = 0 then Some Open else if b = 1 then Some Claimed else if b = 2 then Some Refunded else None)"

fun asset_type_tag :: "asset_type \<Rightarrow> u8" where
  "asset_type_tag NativePrism = 0" | "asset_type_tag SplToken = 1"

definition asset_type_of :: "u8 \<Rightarrow> asset_type option" where
  "asset_type_of b = (if b = 0 then Some NativePrism else if b = 1 then Some SplToken else None)"

lemma swap_tags: "swap_state_of (swap_state_tag x) = Some x" "asset_type_of (asset_type_tag y) = Some y"
  by (cases x; cases y; simp add: swap_state_of_def asset_type_of_def)+

definition swap_layout :: "swap_account layout" where
  "swap_layout =
     iso_layout
       (\<lambda>(i, st, a, ini, cp, n, hl, sec, ld, ca, mint, b).
          \<lparr>swap_is_initialized = i, state = st, swap_asset_type = a, initiator = ini, counterparty = cp,
           swap_amount = n, hash_lock = hl, revealed_secret = sec, lock_duration = ld, created_at = ca,
           swap_token_mint = mint, swap_bump = b\<rparr>)
       (\<lambda>s. (swap_is_initialized s, state s, swap_asset_type s, initiator s, counterparty s,
             swap_amount s, hash_lock s, revealed_secret s, lock_duration s, created_at s,
             swap_token_mint s, swap_bump s))
       (pair_layout bool_layout (pair_layout (enum_layout swap_state_tag swap_state_of)
       (pair_layout (enum_layout asset_type_tag asset_type_of) (pair_layout word_layout (pair_layout word_layout
       (pair_layout word_layout (pair_layout word_layout (pair_layout word_layout (pair_layout word_layout
       (pair_layout word_layout (pair_layout word_layout word_layout)))))))))))"

lemma wf_swap_layout: "wf_layout SwapAccount_SIZE swap_layout"
  unfolding swap_layout_def
  by (rule wf_layout_eq, (rule wf_layouts wf_enum_layout [OF swap_tags(1)] wf_enum_layout [OF swap_tags(2)])+)
    (simp_all add: SwapAccount_SIZE_def)

interpretation swap_borsh: borsh_struct "of_layout swap_layout" SwapAccount_SIZE
  by (rule borsh_struct_of_layout [OF wf_swap_layout])

lemmas swap_io [simp] = of_layout_io [OF wf_swap_layout]

section \<open>Effects\<close>

lemma keeps_drain_vault: "keeps v (drain_vault k j v)"
  unfolding drain_vault_def by (intro keeps_intros)

context chain
begin

lemma swap_keeps: "keeps v (swap_process_instruction e c pid d ias v)"
  unfolding swap_process_instruction_def
proof (rule keeps_bind)
  fix ix
  show "keeps v (case ix of
       CreateSwap hl amount cp ld asset mint \<Rightarrow> process_create_swap e c pid hl amount cp ld asset mint ias v
     | ClaimSwap secret \<Rightarrow> process_claim_swap e c pid secret ias v
     | RefundSwap \<Rightarrow> process_refund_swap e c pid ias v)"
    by (cases ix; simp only: swap_instruction.case process_create_swap_def process_claim_swap_def process_refund_swap_def;
        intro keeps_intros keeps_invoke keeps_drain_vault)
qed

end

sublocale chain \<subseteq> swap: onchain_program "swap_process_instruction e c pid d" for c pid d
  by unfold_locales (metis keepsD swap_keeps)

lemma load_open_swap_eq_Inr [rust_simps]:
  "load_open_swap c pid k v = Inr s \<longleftrightarrow>
     owner (mem v k) = pid \<and> load (swap_codec c) (data (mem v k)) = Inr s \<and> swap_is_initialized s \<and> state s = Open"
  by (auto simp: load_open_swap_def load_account_def rust_simps)

text \<open>Draining moves the vault's balance and leaves every account's data alone.\<close>

definition drained :: "pubkey \<Rightarrow> pubkey \<Rightarrow> (pubkey \<Rightarrow> account) \<Rightarrow> pubkey \<Rightarrow> account" where
  "drained k j m = pay k j (lamports (m k)) m"

lemma drain_vault_eq_Inr [rust_simps]:
  "drain_vault k j v = Inr v' \<longleftrightarrow>
     unat (lamports (debit k (lamports (mem v k)) (mem v) j)) + unat (lamports (mem v k)) < 2 ^ 64 \<and>
     v' = v\<lparr>mem := drained k j (mem v)\<rparr>"
  by (auto simp: drain_vault_def Let_def rbind_eq_Inr ok_or_eq_Inr lamports_assign_eq_Inr checked_add_def drained_def
      pay_def credit_def debit_def split: if_splits)

lemma data_drained [simp]: "data (drained k j m l) = data (m l)"
  by (simp add: drained_def)

lemma claim_swap_effect:
  assumes "borsh_struct (swap_codec c) SwapAccount_SIZE" and "process_claim_swap e c pid secret ias v = Inr v'"
  obtains clm sa va rc rest s clk u d where "ias = clm # sa # va # rc # rest" "is_signer clm"
    "owner (mem v (key sa)) = pid" "load (swap_codec c) (data (mem v (key sa))) = Inr s"
    "swap_is_initialized s" "state s = Open" "counterparty s = key clm" "clock_get e = Inr clk"
    "\<not> is_expired s (unix_timestamp clk)" "verify_secret e s secret"
    "mem u = (if swap_asset_type s = NativePrism then drained (key va) (key rc) (mem v) else mem v)"
    "v' = set_mem_data (key sa) d u"
    "load (swap_codec c) d = Inr (s\<lparr>state := Claimed, revealed_secret := secret\<rparr>)"
proof -
  from assms(2) obtain clm sa va rc sys rest where ias: "ias = clm # sa # va # rc # sys # rest"
    by (auto simp: process_claim_swap_def rust_simps)
  from assms(2) [unfolded process_claim_swap_def ias] obtain s clk u d where *: "is_signer clm"
    "owner (mem v (key sa)) = pid" "load (swap_codec c) (data (mem v (key sa))) = Inr s"
    "swap_is_initialized s" "state s = Open" "counterparty s = key clm" "clock_get e = Inr clk"
    "\<not> is_expired s (unix_timestamp clk)" "verify_secret e s secret"
    and pay: "(if swap_asset_type s = NativePrism then drain_vault (key va) (key rc) v else Inr v) = Inr u"
    and d: "store (swap_codec c) (s\<lparr>state := Claimed, revealed_secret := secret\<rparr>) (data (mem u (key sa))) = Inr d"
    and v': "v' = set_mem_data (key sa) d u"
    by (auto simp: rbind_eq_Inr if_Inl_eq_Inr load_open_swap_eq_Inr store_account_def)
  have u: "mem u = (if swap_asset_type s = NativePrism then drained (key va) (key rc) (mem v) else mem v)"
    using pay by (auto simp: drain_vault_eq_Inr split: if_splits)
  have "data (mem u (key sa)) = data (mem v (key sa))" by (simp add: u)
  with d have "load (swap_codec c) d = Inr (s\<lparr>state := Claimed, revealed_secret := secret\<rparr>)"
    using borsh_struct.load_after_store [OF assms(1) *(3)] by simp
  then show thesis by (rule that [OF ias * u v'])
qed

lemma refund_swap_effect:
  assumes "borsh_struct (swap_codec c) SwapAccount_SIZE" and "process_refund_swap e c pid ias v = Inr v'"
  obtains ini sa va rc rest s clk u d where "ias = ini # sa # va # rc # rest" "is_signer ini"
    "owner (mem v (key sa)) = pid" "load (swap_codec c) (data (mem v (key sa))) = Inr s"
    "swap_is_initialized s" "state s = Open" "initiator s = key ini" "clock_get e = Inr clk"
    "is_expired s (unix_timestamp clk)"
    "mem u = (if swap_asset_type s = NativePrism then drained (key va) (key rc) (mem v) else mem v)"
    "v' = set_mem_data (key sa) d u" "load (swap_codec c) d = Inr (s\<lparr>state := Refunded\<rparr>)"
proof -
  from assms(2) obtain ini sa va rc sys rest where ias: "ias = ini # sa # va # rc # sys # rest"
    by (auto simp: process_refund_swap_def rust_simps)
  from assms(2) [unfolded process_refund_swap_def ias] obtain s clk u d where *: "is_signer ini"
    "owner (mem v (key sa)) = pid" "load (swap_codec c) (data (mem v (key sa))) = Inr s"
    "swap_is_initialized s" "state s = Open" "initiator s = key ini" "clock_get e = Inr clk"
    "is_expired s (unix_timestamp clk)"
    and pay: "(if swap_asset_type s = NativePrism then drain_vault (key va) (key rc) v else Inr v) = Inr u"
    and d: "store (swap_codec c) (s\<lparr>state := Refunded\<rparr>) (data (mem u (key sa))) = Inr d"
    and v': "v' = set_mem_data (key sa) d u"
    by (auto simp: rbind_eq_Inr if_Inl_eq_Inr load_open_swap_eq_Inr store_account_def)
  have u: "mem u = (if swap_asset_type s = NativePrism then drained (key va) (key rc) (mem v) else mem v)"
    using pay by (auto simp: drain_vault_eq_Inr split: if_splits)
  have "data (mem u (key sa)) = data (mem v (key sa))" by (simp add: u)
  with d have "load (swap_codec c) d = Inr (s\<lparr>state := Refunded\<rparr>)"
    using borsh_struct.load_after_store [OF assms(1) *(3)] by simp
  then show thesis by (rule that [OF ias * u v'])
qed

text \<open>
  When the guards hold, nothing else can fail: the settlement goes through unless the receiving
  account would overflow.
\<close>

definition settlement_fits :: "swap_account \<Rightarrow> pubkey \<Rightarrow> pubkey \<Rightarrow> vm \<Rightarrow> bool" where
  "settlement_fits s va rc v \<longleftrightarrow>
     swap_asset_type s = NativePrism \<longrightarrow>
     unat (lamports (debit va (lamports (mem v va)) (mem v) rc)) + unat (lamports (mem v va)) < 2 ^ 64"

lemma settle_swap_total:
  assumes "borsh_struct (swap_codec c) SwapAccount_SIZE"
    and "load (swap_codec c) (data (mem v sa)) = Inr s" and "settlement_fits s va rc v"
  shows "\<exists>u v'. (if swap_asset_type s = NativePrism then drain_vault va rc v else Inr v) = Inr u \<and>
    store_account (swap_codec c) s' sa u = Inr v'"
proof -
  obtain u where u: "(if swap_asset_type s = NativePrism then drain_vault va rc v else Inr v) = Inr u"
    and m: "data (mem u sa) = data (mem v sa)"
    using assms(3) by (cases "swap_asset_type s") (auto simp: settlement_fits_def drain_vault_eq_Inr)
  have "store (swap_codec c) s' (data (mem v sa)) = Inr (to_vec (swap_codec c) s')"
    by (rule borsh_struct.store_after_load [OF assms(1,2)])
  with u m show ?thesis by (simp add: store_account_def)
qed

section \<open>Properties\<close>

definition swap_layouts :: "swap_instruction \<Rightarrow> swap_codecs" where
  "swap_layouts ix =
     \<lparr>swap_codec = of_layout swap_layout,
      swap_instruction_codec = \<lparr>try_from_slice = (\<lambda>_. Some ix), to_vec = (\<lambda>_. [])\<rparr>\<rparr>"

definition swap_chain :: "i64 \<Rightarrow> env" where
  "swap_chain now =
     native_env (\<lambda>_ _. (2, 255)) (\<lambda>_. 10) \<lparr>slot = 7, epoch = 1, unix_timestamp = now\<rparr> (\<lambda>b. b)"

definition sample_swap :: swap_account where
  "sample_swap = new_swap 1 77 400 5 3600 NativePrism 0 \<lparr>slot = 0, epoch = 0, unix_timestamp = 1000\<rparr> 255"

definition swap_vm :: vm where
  "swap_vm =
     enter_vm (tx_of [1, 5, 2, 3, 4, 0]
       (\<lambda>k. if k = 2 then \<lparr>lamports = 10, data = put swap_layout sample_swap, owner = 99\<rparr>
            else if k \<in> {3, 4} then \<lparr>lamports = 400, data = [], owner = 99\<rparr>
            else wallet 50))"

definition spl_swap_vm :: vm where
  "spl_swap_vm =
     enter_vm (tx_of [1, 5, 2, 3, 4, 0]
       (\<lambda>k. if k = 2 then \<lparr>lamports = 10, data = put swap_layout (sample_swap\<lparr>swap_asset_type := SplToken\<rparr>), owner = 99\<rparr>
            else if k \<in> {3, 4} then \<lparr>lamports = 400, data = [], owner = 99\<rparr>
            else wallet 50))"

definition swap_refs :: "pubkey \<Rightarrow> pubkey \<Rightarrow> instruction_account list" where
  "swap_refs k va =
     [account_ref k True True, account_ref 2 False True, account_ref va False True, account_ref k True True,
      account_ref 0 False False]"

lemma swap_layouts_ok: "borsh_struct (swap_codec (swap_layouts ix)) SwapAccount_SIZE"
  by (simp add: swap_layouts_def swap_borsh.borsh_struct_axioms)

lemma swap_vm_load [simp]: "load (swap_codec (swap_layouts ix)) (data (mem swap_vm 2)) = Inr sample_swap"
  by (simp add: swap_vm_def swap_layouts_def tx_of_def)

lemma spl_swap_vm_load [simp]:
  "load (swap_codec (swap_layouts ix)) (data (mem spl_swap_vm 2)) = Inr (sample_swap\<lparr>swap_asset_type := SplToken\<rparr>)"
  by (simp add: spl_swap_vm_def swap_layouts_def tx_of_def)

lemma swap_vm_mem [simp]:
  "lamports (mem swap_vm 1) = 50" "lamports (mem swap_vm 5) = 50" "lamports (mem swap_vm 3) = 400"
  "lamports (mem swap_vm 4) = 400" "owner (mem swap_vm 2) = 99"
  by (simp_all add: swap_vm_def tx_of_def)

lemma sample_swap_fields [simp]:
  "swap_is_initialized sample_swap" "state sample_swap = Open" "swap_asset_type sample_swap = NativePrism"
  "initiator sample_swap = 1" "counterparty sample_swap = 5" "hash_lock sample_swap = 77"
  by (simp_all add: sample_swap_def new_swap_def)

lemma sample_swap_expired [simp]:
  "is_expired sample_swap 4600" "\<not> is_expired sample_swap 4599"
  "is_expired (sample_swap\<lparr>swap_asset_type := a\<rparr>) now \<longleftrightarrow> is_expired sample_swap now"
  by (simp_all add: is_expired_def sample_swap_def new_swap_def i64_saturating_add_def)

lemmas swap_eval = swap_layouts_def swap_chain_def swap_vm_def swap_refs_def verify_secret_def
  load_open_swap_def drain_vault_def SwapAccount_SIZE_def checked_add_def

text \<open>
  C20. A claim needs the secret, in time. If it succeeds, it was signed by the counterparty of an open
  swap of this program, the lock had not expired, and the revealed secret hashes to the hash lock; the
  swap is then claimed and shows the secret. What moves depends on the swap. For native PRISM the account
  given as vault is emptied into the receiving account when the two differ, and nothing moves when they
  are the same. For an SPL token no account but the swap account changes at all: the claim settles the
  swap and moves no tokens. In every case only the swap account, the vault and the receiver can change.
\<close>

theorem claim_requires_secret:
  assumes "borsh_struct (swap_codec c) SwapAccount_SIZE" and "process_claim_swap e c pid secret ias v = Inr v'"
    and "sa = key (ias ! 1)" and "va = key (ias ! 2)" and "rc = key (ias ! 3)"
  shows "\<exists>s clk. owner (mem v sa) = pid \<and> load (swap_codec c) (data (mem v sa)) = Inr s \<and> state s = Open \<and>
    is_signer (ias ! 0) \<and> counterparty s = key (ias ! 0) \<and>
    clock_get e = Inr clk \<and> sint (unix_timestamp clk) < sint (i64_saturating_add (created_at s) (lock_duration s)) \<and>
    sha256 e (to_le_bytes secret) = to_le_bytes (hash_lock s) \<and>
    load (swap_codec c) (data (mem v' sa)) = Inr (s\<lparr>state := Claimed, revealed_secret := secret\<rparr>) \<and>
    (swap_asset_type s = NativePrism \<and> va \<noteq> rc \<longrightarrow> lamports (mem v' va) = 0 \<and>
       lamports (mem v' rc) = lamports (mem v rc) + lamports (mem v va)) \<and>
    (swap_asset_type s = NativePrism \<and> va = rc \<longrightarrow> (\<forall>k. lamports (mem v' k) = lamports (mem v k))) \<and>
    (swap_asset_type s \<noteq> NativePrism \<longrightarrow>
       (\<forall>k. lamports (mem v' k) = lamports (mem v k)) \<and> (\<forall>k. k \<noteq> sa \<longrightarrow> mem v' k = mem v k)) \<and>
    (\<forall>k. k \<notin> {sa, va, rc} \<longrightarrow> mem v' k = mem v k)"
  using assms(1,2)
proof (rule claim_swap_effect)
  fix clm sa' va' rc' :: instruction_account and rest s clk u d
  assume ias: "ias = clm # sa' # va' # rc' # rest" "is_signer clm"
    and s: "owner (mem v (key sa')) = pid" "load (swap_codec c) (data (mem v (key sa'))) = Inr s"
      "state s = Open" "counterparty s = key clm" "clock_get e = Inr clk"
      "\<not> is_expired s (unix_timestamp clk)" "verify_secret e s secret"
    and u: "mem u = (if swap_asset_type s = NativePrism then drained (key va') (key rc') (mem v) else mem v)"
    and v': "v' = set_mem_data (key sa') d u" "load (swap_codec c) d = Inr (s\<lparr>state := Claimed, revealed_secret := secret\<rparr>)"
  show ?thesis
    by (intro exI [of _ s] exI [of _ clk])
      (use ias s v' in \<open>auto simp: assms(3-5) is_expired_def verify_secret_def u drained_def pay_def credit_def debit_def\<close>)
qed

theorem claim_requires_secret_witness:
  "\<exists>v' u'. process_claim_swap (swap_chain 4599) (swap_layouts RefundSwap) 99 77 (swap_refs 5 3) swap_vm = Inr v' \<and>
     lamports (mem v' 3) = 0 \<and> lamports (mem v' 5) = 450 \<and>
     process_claim_swap (swap_chain 4599) (swap_layouts RefundSwap) 99 78 (swap_refs 5 3) swap_vm = Inl (swap_err InvalidSecret) \<and>
     process_claim_swap (swap_chain 4599) (swap_layouts RefundSwap) 99 77 (swap_refs 5 3) spl_swap_vm = Inr u' \<and>
     mem u' 3 = mem spl_swap_vm 3 \<and> mem u' 5 = mem spl_swap_vm 5"
proof -
  obtain v' where run: "process_claim_swap (swap_chain 4599) (swap_layouts RefundSwap) 99 77 (swap_refs 5 3) swap_vm = Inr v'"
    by (simp add: process_claim_swap_def swap_eval runtime_eval cpi_eval)
  obtain u' where spl: "process_claim_swap (swap_chain 4599) (swap_layouts RefundSwap) 99 77 (swap_refs 5 3) spl_swap_vm = Inr u'"
    by (simp add: process_claim_swap_def spl_swap_vm_def swap_eval runtime_eval cpi_eval)
  have wrong: "process_claim_swap (swap_chain 4599) (swap_layouts RefundSwap) 99 78 (swap_refs 5 3) swap_vm = Inl (swap_err InvalidSecret)"
    by (simp add: process_claim_swap_def swap_eval runtime_eval cpi_eval)
  have keys: "2 = key (swap_refs 5 3 ! 1)" "3 = key (swap_refs 5 3 ! 2)" "5 = key (swap_refs 5 3 ! 3)"
    by (simp_all add: swap_refs_def)
  have "lamports (mem v' 3) = 0" "lamports (mem v' 5) = 450"
    using claim_requires_secret [OF swap_layouts_ok run keys] by auto
  moreover have "mem u' 3 = mem spl_swap_vm 3" "mem u' 5 = mem spl_swap_vm 5"
    using claim_requires_secret [OF swap_layouts_ok spl keys] by auto
  ultimately show ?thesis using run spl wrong by blast
qed

text \<open>
  C21. A swap settles once. After a successful claim or refund the swap account is in a final state, and
  whatever happens later to other accounts, neither a claim nor a refund of it succeeds again, with any
  secret, signer or clock.
\<close>

theorem swap_settles_once:
  assumes "borsh_struct (swap_codec c) SwapAccount_SIZE"
    and "process_claim_swap e c pid secret ias v = Inr v' \<or> process_refund_swap e c pid ias v = Inr v'"
    and "sa = key (ias ! 1)" and "key (ias' ! 1) = sa" and "data (mem w sa) = data (mem v' sa)"
  shows "process_claim_swap e' c pid' secret' ias' w \<noteq> Inr w' \<and> process_refund_swap e' c pid' ias' w \<noteq> Inr w'"
proof -
  obtain s' where s': "load (swap_codec c) (data (mem v' sa)) = Inr s'" "state s' \<noteq> Open"
    using assms(2,3) by (elim disjE claim_swap_effect [OF assms(1)] refund_swap_effect [OF assms(1)]) auto
  with assms(4,5) show ?thesis
    by (auto elim!: claim_swap_effect [OF assms(1)] refund_swap_effect [OF assms(1)])
qed

theorem swap_settles_once_witness:
  "\<exists>v'. process_claim_swap (swap_chain 4599) (swap_layouts RefundSwap) 99 77 (swap_refs 5 3) swap_vm = Inr v' \<and>
     (\<forall>w'. process_refund_swap (swap_chain 5000) (swap_layouts RefundSwap) 99 (swap_refs 1 3) v' \<noteq> Inr w')"
proof -
  obtain v' where run: "process_claim_swap (swap_chain 4599) (swap_layouts RefundSwap) 99 77 (swap_refs 5 3) swap_vm = Inr v'"
    by (simp add: process_claim_swap_def swap_eval runtime_eval cpi_eval)
  have keys: "2 = key (swap_refs 5 3 ! 1)" "key (swap_refs 1 3 ! 1) = 2" by (simp_all add: swap_refs_def)
  show ?thesis
    using swap_settles_once [OF swap_layouts_ok disjI1 [OF run] keys refl] run by blast
qed

text \<open>
  C22. A swap never gets stuck. At any time one of the parties can settle an open swap: before the
  expiry the counterparty with the secret, from the expiry on the initiator, and only the other way
  round for each; the sole obstacle is a receiving account whose balance would overflow.
\<close>

theorem swap_never_stuck:
  assumes "borsh_struct (swap_codec c) SwapAccount_SIZE"
    and "ias = party # sa # va # rc # sys # rest" and "is_signer party" and "owner (mem v (key sa)) = pid"
    and "load (swap_codec c) (data (mem v (key sa))) = Inr s" and "swap_is_initialized s" and "state s = Open"
    and "clock_get e = Inr clk" and "settlement_fits s (key va) (key rc) v"
  shows "((\<exists>v'. process_claim_swap e c pid secret ias v = Inr v') \<longleftrightarrow>
       key party = counterparty s \<and> \<not> is_expired s (unix_timestamp clk) \<and> verify_secret e s secret) \<and>
     ((\<exists>v'. process_refund_swap e c pid ias v = Inr v') \<longleftrightarrow>
       key party = initiator s \<and> is_expired s (unix_timestamp clk))"
proof -
  have open_swap: "load_open_swap c pid (key sa) v = Inr s" using assms(4-7) by (simp add: load_open_swap_eq_Inr)
  have "\<exists>v'. process_claim_swap e c pid secret ias v = Inr v'"
    if "key party = counterparty s" "\<not> is_expired s (unix_timestamp clk)" "verify_secret e s secret"
    using settle_swap_total [OF assms(1,5,9), of "s\<lparr>state := Claimed, revealed_secret := secret\<rparr>"] that assms(3,8)
    by (auto simp: process_claim_swap_def assms(2) open_swap)
  moreover have "\<exists>v'. process_refund_swap e c pid ias v = Inr v'"
    if "key party = initiator s" "is_expired s (unix_timestamp clk)"
    using settle_swap_total [OF assms(1,5,9), of "s\<lparr>state := Refunded\<rparr>"] that assms(3,8)
    by (auto simp: process_refund_swap_def assms(2) open_swap)
  moreover have "key party = counterparty s \<and> \<not> is_expired s (unix_timestamp clk) \<and> verify_secret e s secret"
    if "process_claim_swap e c pid secret ias v = Inr v'" for v'
    using that assms(2,5,8) by (auto elim!: claim_swap_effect [OF assms(1)])
  moreover have "key party = initiator s \<and> is_expired s (unix_timestamp clk)"
    if "process_refund_swap e c pid ias v = Inr v'" for v'
    using that assms(2,5,8) by (auto elim!: refund_swap_effect [OF assms(1)])
  ultimately show ?thesis by blast
qed

theorem swap_never_stuck_witness:
  "(\<exists>v'. process_refund_swap (swap_chain 4600) (swap_layouts RefundSwap) 99 (swap_refs 1 3) swap_vm = Inr v') \<and>
   \<not> (\<exists>v'. process_claim_swap (swap_chain 4600) (swap_layouts RefundSwap) 99 77 (swap_refs 1 3) swap_vm = Inr v')"
proof -
  have clk: "clock_get (swap_chain 4600) = Inr \<lparr>slot = 7, epoch = 1, unix_timestamp = 4600\<rparr>"
    by (simp add: swap_chain_def native_env_def)
  have "settlement_fits sample_swap (key (account_ref 3 False True)) (key (account_ref 1 True True)) swap_vm"
    by (simp add: settlement_fits_def)
  from swap_never_stuck [OF swap_layouts_ok [of RefundSwap] swap_refs_def _ _ _ _ _ clk this, of 99 77] show ?thesis
    by simp
qed

text \<open>
  C23. The vault of a claim is not tied to the swap. If a claim of a native swap succeeds with one vault
  account, it succeeds with any other account in its place (balance permitting), and empties that
  account into the claimer's: neither a claim nor a refund compares the vault with the address derived
  from the swap.
\<close>

theorem claim_accepts_any_vault:
  assumes "borsh_struct (swap_codec c) SwapAccount_SIZE"
    and "process_claim_swap e c pid secret (clm # sa # va # rc # rest) v = Inr v'"
    and "load (swap_codec c) (data (mem v (key sa))) = Inr s" and "swap_asset_type s = NativePrism"
    and "key x \<noteq> key rc" and "unat (lamports (mem v (key rc))) + unat (lamports (mem v (key x))) < 2 ^ 64"
  shows "\<exists>w. process_claim_swap e c pid secret (clm # sa # x # rc # rest) v = Inr w \<and>
    lamports (mem w (key x)) = 0 \<and> lamports (mem w (key rc)) = lamports (mem v (key rc)) + lamports (mem v (key x))"
proof -
  from assms(2) obtain sys rest' where rest: "rest = sys # rest'"
    by (auto simp: process_claim_swap_def rust_simps)
  have fits: "settlement_fits s (key x) (key rc) v" using assms(5,6) by (auto simp: settlement_fits_def)
  from assms(1,2) obtain w where w: "process_claim_swap e c pid secret (clm # sa # x # rc # rest) v = Inr w"
  proof (rule claim_swap_effect)
    fix clm' sa' va' rc' :: instruction_account and rest' s' clk u d
    assume g: "clm # sa # va # rc # rest = clm' # sa' # va' # rc' # rest'" "is_signer clm'"
      "owner (mem v (key sa')) = pid" "load (swap_codec c) (data (mem v (key sa'))) = Inr s'"
      "swap_is_initialized s'" "state s' = Open" "counterparty s' = key clm'" "clock_get e = Inr clk"
      "\<not> is_expired s' (unix_timestamp clk)" "verify_secret e s' secret"
    then have "load_open_swap c pid (key sa) v = Inr s" "s' = s" using assms(3) by (auto simp: load_open_swap_eq_Inr)
    then show thesis
      using settle_swap_total [OF assms(1,3) fits, of "s\<lparr>state := Claimed, revealed_secret := secret\<rparr>"] g that
      by (auto simp: process_claim_swap_def rest)
  qed
  from assms(1) w show ?thesis
  proof (rule claim_swap_effect)
    fix clm' sa' va' rc' :: instruction_account and rest' s' u d
    assume "clm # sa # x # rc # rest = clm' # sa' # va' # rc' # rest'"
      and "load (swap_codec c) (data (mem v (key sa'))) = Inr s'" and v: "w = set_mem_data (key sa') d u"
      and "mem u = (if swap_asset_type s' = NativePrism then drained (key va') (key rc') (mem v) else mem v)"
    with assms(3-5) have "mem u = drained (key x) (key rc) (mem v)" by auto
    then show ?thesis using w v assms(5) by (auto simp: drained_def pay_def credit_def debit_def)
  qed
qed

theorem claim_accepts_any_vault_witness:
  "\<exists>v' w. process_claim_swap (swap_chain 4599) (swap_layouts RefundSwap) 99 77 (swap_refs 5 3) swap_vm = Inr v' \<and>
     process_claim_swap (swap_chain 4599) (swap_layouts RefundSwap) 99 77 (swap_refs 5 4) swap_vm = Inr w \<and>
     lamports (mem w 4) = 0 \<and> lamports (mem w 5) = 450 \<and>
     (\<exists>t. process_instruction 99 (swap_process_instruction (swap_chain 4599) (swap_layouts (ClaimSwap 77)) 99 [])
        (swap_refs 5 4) (tx swap_vm) = Inr t)"
proof -
  let ?c = "swap_layouts RefundSwap"
  obtain v' where run: "process_claim_swap (swap_chain 4599) ?c 99 77 (swap_refs 5 3) swap_vm = Inr v'"
    by (simp add: process_claim_swap_def swap_eval runtime_eval cpi_eval)
  have accepted: "\<exists>t. process_instruction 99 (swap_process_instruction (swap_chain 4599) (swap_layouts (ClaimSwap 77)) 99 [])
      (swap_refs 5 4) (tx swap_vm) = Inr t"
    by (simp add: swap_process_instruction_def process_claim_swap_def swap_eval runtime_eval cpi_eval)
  have load: "load (swap_codec ?c) (data (mem swap_vm (key (account_ref 2 False True)))) = Inr sample_swap" by simp
  from claim_accepts_any_vault [OF swap_layouts_ok run [unfolded swap_refs_def] load, of "account_ref 4 False True"] run accepted
  show ?thesis by (simp add: swap_refs_def)
qed

end
