(* ===== verification/FlashLoan.thy ===== *)
theory FlashLoan
  imports Cpi
begin

text \<open>
  The flash loan program (\<open>programs/flash-loan/src/lib.rs\<close>): liquidity providers deposit lamports into a
  vault, a borrower takes a loan against a receipt account and repays it with a fee of 9 basis points,
  which is credited to the providers in proportion to their deposits.

  The pool account holds a \<open>Vec\<close> of providers, so its encoding has variable length.
\<close>

section \<open>Data\<close>

definition FLASH_LOAN_FEE_BPS :: u64 where "FLASH_LOAN_FEE_BPS = 9"
definition FEE_DENOMINATOR :: u64 where "FEE_DENOMINATOR = 10000"
definition MAX_PROVIDERS :: nat where "MAX_PROVIDERS = 256"
definition POOL_SEED :: bytes where "POOL_SEED = ascii ''flash_pool''"
definition VAULT_SEED :: bytes where "VAULT_SEED = ascii ''flash_vault''"
definition RECEIPT_SEED :: bytes where "RECEIPT_SEED = ascii ''flash_receipt''"

datatype flash_loan_error =
    AlreadyInitialized | NotInitialized | InsufficientLiquidity | LoanNotRepaid | InvalidAmount | Unauthorized
  | Overflow | InvalidPDA | ReentrancyDetected | NoActiveLoan | MaxProvidersReached | ProviderNotFound
  | InsufficientProviderBalance

fun flash_err :: "flash_loan_error \<Rightarrow> instruction_error" where
  "flash_err AlreadyInitialized = Custom 0"
| "flash_err NotInitialized = Custom 1"
| "flash_err InsufficientLiquidity = Custom 2"
| "flash_err LoanNotRepaid = Custom 3"
| "flash_err InvalidAmount = Custom 4"
| "flash_err Unauthorized = Custom 5"
| "flash_err Overflow = Custom 6"
| "flash_err InvalidPDA = Custom 7"
| "flash_err ReentrancyDetected = Custom 8"
| "flash_err NoActiveLoan = Custom 9"
| "flash_err MaxProvidersReached = Custom 10"
| "flash_err ProviderNotFound = Custom 11"
| "flash_err InsufficientProviderBalance = Custom 12"

record provider_share =
  provider_owner :: pubkey
  deposited :: u64
  fees_earned :: u64
  last_updated :: i64

record flash_loan_pool =
  pool_is_initialized :: bool
  admin :: pubkey
  pool_token_mint :: pubkey
  total_liquidity :: u64
  total_fees_collected :: u64
  total_loans_executed :: u64
  is_paused :: bool
  pool_bump :: u8
  provider_count :: u32
  providers :: "provider_share list"

record flash_loan_receipt =
  is_active :: bool
  receipt_pool :: pubkey
  receipt_borrower :: pubkey
  receipt_amount :: u64
  receipt_fee :: u64
  vault_balance_before :: u64
  receipt_bump :: u8

datatype flash_loan_instruction =
    InitializePool pubkey
  | Deposit u64
  | Withdraw u64
  | Borrow u64
  | Repay

record flash_codecs =
  flash_pool_codec :: "flash_loan_pool borsh"
  receipt_codec :: "flash_loan_receipt borsh"
  flash_instruction_codec :: "flash_loan_instruction borsh"

abbreviation ovf :: "'a option \<Rightarrow> 'a res" where
  "ovf m \<equiv> ok_or m (flash_err Overflow)"

section \<open>Pool arithmetic\<close>

definition calculate_fee :: "u64 \<Rightarrow> u64 res" where
  "calculate_fee amount =
     rbind (ovf (checked_mul amount FLASH_LOAN_FEE_BPS)) (\<lambda>x.
     rbind (ovf (checked_add x (FEE_DENOMINATOR - 1))) (\<lambda>x.
     ovf (checked_div x FEE_DENOMINATOR)))"

text \<open>The loops over the providers: a deposit, and a withdrawal, of the first share with the given owner.\<close>

fun deposit_share :: "pubkey \<Rightarrow> u64 \<Rightarrow> i64 \<Rightarrow> provider_share list \<Rightarrow> (provider_share list \<times> bool) res" where
  "deposit_share k amount now [] = Inr ([], False)"
| "deposit_share k amount now (ps # rest) =
     (if provider_owner ps = k
      then rbind (ovf (checked_add (deposited ps) amount)) (\<lambda>d.
           Inr (ps\<lparr>deposited := d, last_updated := now\<rparr> # rest, True))
      else rbind (deposit_share k amount now rest) (\<lambda>(rest', found). Inr (ps # rest', found)))"

definition deposit_pool :: "pubkey \<Rightarrow> u64 \<Rightarrow> i64 \<Rightarrow> flash_loan_pool \<Rightarrow> flash_loan_pool res" where
  "deposit_pool k amount now p =
     rbind (deposit_share k amount now (providers p)) (\<lambda>(shares, found).
     rbind (if found then Inr (p\<lparr>providers := shares\<rparr>)
            else if MAX_PROVIDERS \<le> length (providers p) then Inl (flash_err MaxProvidersReached)
            else rbind (ovf (checked_add (provider_count p) 1)) (\<lambda>n.
                 Inr (p\<lparr>providers := providers p @ [\<lparr>provider_owner = k, deposited = amount, fees_earned = 0, last_updated = now\<rparr>],
                        provider_count := n\<rparr>))) (\<lambda>p.
     rbind (ovf (checked_add (total_liquidity p) amount)) (\<lambda>tl.
     Inr (p\<lparr>total_liquidity := tl\<rparr>))))"

definition withdraw_from_share :: "u64 \<Rightarrow> i64 \<Rightarrow> provider_share \<Rightarrow> provider_share res" where
  "withdraw_from_share amount now ps =
     rbind (ovf (checked_add (deposited ps) (fees_earned ps))) (\<lambda>total_available.
     if total_available < amount then Inl (flash_err InsufficientProviderBalance)
     else
     rbind (if amount \<le> fees_earned ps
            then rbind (ok_or (checked_sub (fees_earned ps) amount) ProgramFailedToComplete) (\<lambda>f.
                 Inr (ps\<lparr>fees_earned := f\<rparr>))
            else rbind (ok_or (checked_sub amount (fees_earned ps)) ProgramFailedToComplete) (\<lambda>remaining.
                 rbind (ok_or (checked_sub (deposited ps) remaining) ProgramFailedToComplete) (\<lambda>d.
                 Inr (ps\<lparr>fees_earned := 0, deposited := d\<rparr>)))) (\<lambda>ps.
     Inr (ps\<lparr>last_updated := now\<rparr>)))"

fun withdraw_share :: "pubkey \<Rightarrow> u64 \<Rightarrow> i64 \<Rightarrow> provider_share list \<Rightarrow> provider_share list res" where
  "withdraw_share k amount now [] = Inl (flash_err ProviderNotFound)"
| "withdraw_share k amount now (ps # rest) =
     (if provider_owner ps = k
      then rbind (withdraw_from_share amount now ps) (\<lambda>ps. Inr (ps # rest))
      else rbind (withdraw_share k amount now rest) (\<lambda>rest. Inr (ps # rest)))"

definition withdraw_liquidity :: "u64 \<Rightarrow> flash_loan_pool \<Rightarrow> flash_loan_pool res" where
  "withdraw_liquidity withdraw_amount p =
     rbind (ovf (checked_sub (total_liquidity p) (min withdraw_amount (total_liquidity p)))) (\<lambda>tl.
     Inr (p\<lparr>total_liquidity := tl\<rparr>))"

definition fee_share :: "u64 \<Rightarrow> u64 \<Rightarrow> provider_share \<Rightarrow> u64" where
  "fee_share fee liquidity ps =
     u128_as_u64 (unwrap_or (checked_div
       (unwrap_or (checked_mul (u64_as_u128 fee) (u64_as_u128 (deposited ps))) 0) (u64_as_u128 liquidity)) 0)"

definition repay_pool :: "u64 \<Rightarrow> flash_loan_pool \<Rightarrow> flash_loan_pool res" where
  "repay_pool fee p =
     (let p = (if 0 < total_liquidity p
               then p\<lparr>providers := map (\<lambda>ps. ps\<lparr>fees_earned :=
                      saturating_add (fees_earned ps) (fee_share fee (total_liquidity p) ps)\<rparr>) (providers p)\<rparr>
               else p)
      in
      rbind (ovf (checked_add (total_fees_collected p) fee)) (\<lambda>tf.
      rbind (ovf (checked_add (total_liquidity p) fee)) (\<lambda>tl.
      Inr (p\<lparr>total_fees_collected := tf, total_liquidity := tl\<rparr>))))"

section \<open>Handlers\<close>

definition FlashLoanPool_SPACE :: nat where
  "FlashLoanPool_SPACE = 1 + 32 + 32 + 8 + 8 + 8 + 1 + 1 + 4 + MAX_PROVIDERS * (32 + 8 + 8 + 8)"

definition initial_flash_pool :: "pubkey \<Rightarrow> pubkey \<Rightarrow> u8 \<Rightarrow> flash_loan_pool" where
  "initial_flash_pool adm mint b =
     \<lparr>pool_is_initialized = True, admin = adm, pool_token_mint = mint, total_liquidity = 0,
      total_fees_collected = 0, total_loans_executed = 0, is_paused = False, pool_bump = b,
      provider_count = 0, providers = []\<rparr>"

definition flash_process_initialize_pool ::
  "env \<Rightarrow> flash_codecs \<Rightarrow> pubkey \<Rightarrow> pubkey \<Rightarrow> instruction_account list \<Rightarrow> vm \<Rightarrow> vm res" where
  "flash_process_initialize_pool e c program_id mint ias v =
     rbind (next_account_info ias) (\<lambda>(adm, it).
     rbind (next_account_info it) (\<lambda>(pool_account, it).
     rbind (next_account_info it) (\<lambda>(vault_account, it).
     rbind (next_account_info it) (\<lambda>(mint_account, it).
     rbind (next_account_info it) (\<lambda>(system_program, it).
     if \<not> is_signer adm then Inl MissingRequiredSignature
     else
     let (pool_pda, b) = find_program_address e [POOL_SEED, to_le_bytes mint] program_id
     in
     if pool_pda \<noteq> key pool_account then Inl (flash_err InvalidPDA)
     else
     let (vault_pda, vault_bump) = find_program_address e [VAULT_SEED, to_le_bytes (key pool_account)] program_id
     in
     if vault_pda \<noteq> key vault_account then Inl (flash_err InvalidPDA)
     else
     rbind (rent_get e) (\<lambda>minimum_balance.
     rbind (invoke_signed e program_id ias
              (system_create_account (key adm) (key pool_account)
                 (minimum_balance FlashLoanPool_SPACE) (word_of_nat FlashLoanPool_SPACE) program_id)
              [adm, pool_account, system_program] [[POOL_SEED, to_le_bytes mint, [b]]] v) (\<lambda>v.
     rbind (invoke_signed e program_id ias
              (system_create_account (key adm) (key vault_account) (minimum_balance 0) 0 program_id)
              [adm, vault_account, system_program]
              [[VAULT_SEED, to_le_bytes (key pool_account), [vault_bump]]] v) (\<lambda>v.
     store_account (flash_pool_codec c) (initial_flash_pool (key adm) mint b) (key pool_account) v))))))))"

text \<open>The guards of the instructions on an existing pool.\<close>

definition load_flash_pool :: "flash_codecs \<Rightarrow> pubkey \<Rightarrow> pubkey \<Rightarrow> vm \<Rightarrow> flash_loan_pool res" where
  "load_flash_pool c program_id k v =
     (if owner (mem v k) \<noteq> program_id then Inl IncorrectProgramId
      else
      rbind (load_account (flash_pool_codec c) k v) (\<lambda>p.
      if \<not> pool_is_initialized p then Inl (flash_err NotInitialized) else Inr p))"

definition flash_process_deposit ::
  "env \<Rightarrow> flash_codecs \<Rightarrow> pubkey \<Rightarrow> u64 \<Rightarrow> instruction_account list \<Rightarrow> vm \<Rightarrow> vm res" where
  "flash_process_deposit e c program_id amount ias v =
     rbind (next_account_info ias) (\<lambda>(depositor, it).
     rbind (next_account_info it) (\<lambda>(pool_account, it).
     rbind (next_account_info it) (\<lambda>(vault_account, it).
     rbind (next_account_info it) (\<lambda>(system_program, it).
     if \<not> is_signer depositor then Inl MissingRequiredSignature
     else if amount = 0 then Inl (flash_err InvalidAmount)
     else
     rbind (load_flash_pool c program_id (key pool_account) v) (\<lambda>p.
     rbind (invoke_signed e program_id ias (system_transfer (key depositor) (key vault_account) amount)
              [depositor, vault_account, system_program] [] v) (\<lambda>v.
     rbind (clock_get e) (\<lambda>clk.
     rbind (deposit_pool (key depositor) amount (unix_timestamp clk) p) (\<lambda>p.
     store_account (flash_pool_codec c) p (key pool_account) v))))))))"

definition flash_process_withdraw ::
  "env \<Rightarrow> flash_codecs \<Rightarrow> pubkey \<Rightarrow> u64 \<Rightarrow> instruction_account list \<Rightarrow> vm \<Rightarrow> vm res" where
  "flash_process_withdraw e c program_id amount ias v =
     rbind (next_account_info ias) (\<lambda>(provider, it).
     rbind (next_account_info it) (\<lambda>(pool_account, it).
     rbind (next_account_info it) (\<lambda>(vault_account, it).
     rbind (next_account_info it) (\<lambda>(provider_receive, it).
     rbind (next_account_info it) (\<lambda>(system_program, it).
     if \<not> is_signer provider then Inl MissingRequiredSignature
     else if amount = 0 then Inl (flash_err InvalidAmount)
     else
     rbind (load_flash_pool c program_id (key pool_account) v) (\<lambda>p.
     rbind (clock_get e) (\<lambda>clk.
     rbind (withdraw_share (key provider) amount (unix_timestamp clk) (providers p)) (\<lambda>shares.
     let vault_lamports = lamports (mem v (key vault_account)) in
     if vault_lamports < amount then Inl (flash_err InsufficientLiquidity)
     else
     rbind (move_lamports (flash_err Overflow) (key vault_account) vault_lamports (key provider_receive) amount v) (\<lambda>v.
     rbind (withdraw_liquidity amount (p\<lparr>providers := shares\<rparr>)) (\<lambda>p.
     store_account (flash_pool_codec c) p (key pool_account) v))))))))))"

definition receipt_space :: nat where
  "receipt_space = 1 + 32 + 32 + 8 + 8 + 8 + 1"

definition flash_process_borrow ::
  "env \<Rightarrow> flash_codecs \<Rightarrow> pubkey \<Rightarrow> u64 \<Rightarrow> instruction_account list \<Rightarrow> vm \<Rightarrow> vm res" where
  "flash_process_borrow e c program_id amount ias v =
     rbind (next_account_info ias) (\<lambda>(borrower, it).
     rbind (next_account_info it) (\<lambda>(pool_account, it).
     rbind (next_account_info it) (\<lambda>(vault_account, it).
     rbind (next_account_info it) (\<lambda>(receipt_account, it).
     rbind (next_account_info it) (\<lambda>(borrower_receive, it).
     rbind (next_account_info it) (\<lambda>(system_program, it).
     if \<not> is_signer borrower then Inl MissingRequiredSignature
     else if amount = 0 then Inl (flash_err InvalidAmount)
     else
     rbind (load_flash_pool c program_id (key pool_account) v) (\<lambda>p.
     if is_paused p then Inl (flash_err InsufficientLiquidity)
     else
     let vault_balance = lamports (mem v (key vault_account)) in
     if vault_balance < amount then Inl (flash_err InsufficientLiquidity)
     else
     rbind (calculate_fee amount) (\<lambda>fee.
     let (receipt_pda, b) = find_program_address e
           [RECEIPT_SEED, to_le_bytes (key pool_account), to_le_bytes (key borrower)] program_id
     in
     if receipt_pda \<noteq> key receipt_account then Inl (flash_err InvalidPDA)
     else
     rbind (rent_get e) (\<lambda>minimum_balance.
     rbind (invoke_signed e program_id ias
              (system_create_account (key borrower) (key receipt_account)
                 (minimum_balance receipt_space) (word_of_nat receipt_space) program_id)
              [borrower, receipt_account, system_program]
              [[RECEIPT_SEED, to_le_bytes (key pool_account), to_le_bytes (key borrower), [b]]] v) (\<lambda>v.
     rbind (store_account (receipt_codec c)
              \<lparr>is_active = True, receipt_pool = key pool_account, receipt_borrower = key borrower,
               receipt_amount = amount, receipt_fee = fee, vault_balance_before = vault_balance,
               receipt_bump = b\<rparr> (key receipt_account) v) (\<lambda>v.
     rbind (move_lamports (flash_err Overflow) (key vault_account) vault_balance (key borrower_receive) amount v) (\<lambda>v.
     rbind (ovf (checked_add (total_loans_executed p) 1)) (\<lambda>n.
     store_account (flash_pool_codec c) (p\<lparr>total_loans_executed := n\<rparr>) (key pool_account) v)))))))))))))"

definition flash_process_repay ::
  "flash_codecs \<Rightarrow> pubkey \<Rightarrow> instruction_account list \<Rightarrow> vm \<Rightarrow> vm res" where
  "flash_process_repay c program_id ias v =
     rbind (next_account_info ias) (\<lambda>(borrower, it).
     rbind (next_account_info it) (\<lambda>(pool_account, it).
     rbind (next_account_info it) (\<lambda>(vault_account, it).
     rbind (next_account_info it) (\<lambda>(receipt_account, it).
     rbind (next_account_info it) (\<lambda>(system_program, it).
     if \<not> is_signer borrower then Inl MissingRequiredSignature
     else if owner (mem v (key receipt_account)) \<noteq> program_id then Inl IncorrectProgramId
     else
     rbind (load_account (receipt_codec c) (key receipt_account) v) (\<lambda>r.
     if \<not> is_active r then Inl (flash_err NoActiveLoan)
     else if receipt_borrower r \<noteq> key borrower then Inl (flash_err Unauthorized)
     else if receipt_pool r \<noteq> key pool_account then Inl (flash_err InvalidPDA)
     else
     rbind (ovf (checked_add (vault_balance_before r) (receipt_fee r))) (\<lambda>required_balance.
     if lamports (mem v (key vault_account)) < required_balance then Inl (flash_err LoanNotRepaid)
     else
     rbind (load_account (flash_pool_codec c) (key pool_account) v) (\<lambda>p.
     rbind (repay_pool (receipt_fee r) p) (\<lambda>p.
     rbind (store_account (flash_pool_codec c) p (key pool_account) v) (\<lambda>v.
     let receipt_lamports = lamports (mem v (key receipt_account)) in
     rbind (lamports_assign (key receipt_account) 0 v) (\<lambda>v.
     rbind (ovf (checked_add (lamports (mem v (key borrower))) receipt_lamports)) (\<lambda>n.
     lamports_assign (key borrower) n v))))))))))))"

definition flash_process_instruction :: "env \<Rightarrow> flash_codecs \<Rightarrow> pubkey \<Rightarrow> bytes \<Rightarrow> program" where
  "flash_process_instruction e c program_id instruction_data ias v =
     rbind (ok_or (try_from_slice (flash_instruction_codec c) instruction_data) InvalidInstructionData) (\<lambda>ix.
     case ix of
       InitializePool mint \<Rightarrow> flash_process_initialize_pool e c program_id mint ias v
     | Deposit amount \<Rightarrow> flash_process_deposit e c program_id amount ias v
     | Withdraw amount \<Rightarrow> flash_process_withdraw e c program_id amount ias v
     | Borrow amount \<Rightarrow> flash_process_borrow e c program_id amount ias v
     | Repay \<Rightarrow> flash_process_repay c program_id ias v)"

section \<open>Layouts\<close>

definition share_layout :: "provider_share layout" where
  "share_layout =
     iso_layout (\<lambda>(o1, d, f, l). \<lparr>provider_owner = o1, deposited = d, fees_earned = f, last_updated = l\<rparr>)
       (\<lambda>s. (provider_owner s, deposited s, fees_earned s, last_updated s))
       (pair_layout word_layout (pair_layout word_layout (pair_layout word_layout word_layout)))"

definition flash_header_layout :: "(bool \<times> pubkey \<times> pubkey \<times> u64 \<times> u64 \<times> u64 \<times> bool \<times> u8 \<times> u32) layout" where
  "flash_header_layout =
     pair_layout bool_layout (pair_layout word_layout (pair_layout word_layout (pair_layout word_layout
     (pair_layout word_layout (pair_layout word_layout (pair_layout bool_layout (pair_layout word_layout
     word_layout)))))))"

definition flash_pool_layout :: "flash_loan_pool layout" where
  "flash_pool_layout =
     iso_layout
       (\<lambda>((i, a, m, tl, tf, n, pz, b, pc), ps).
          \<lparr>pool_is_initialized = i, admin = a, pool_token_mint = m, total_liquidity = tl, total_fees_collected = tf,
           total_loans_executed = n, is_paused = pz, pool_bump = b, provider_count = pc, providers = ps\<rparr>)
       (\<lambda>p. ((pool_is_initialized p, admin p, pool_token_mint p, total_liquidity p, total_fees_collected p,
              total_loans_executed p, is_paused p, pool_bump p, provider_count p), providers p))
       (pair_layout flash_header_layout (vec_layout share_layout))"

definition receipt_layout :: "flash_loan_receipt layout" where
  "receipt_layout =
     iso_layout
       (\<lambda>(a, p, br, n, f, vb, b).
          \<lparr>is_active = a, receipt_pool = p, receipt_borrower = br, receipt_amount = n, receipt_fee = f,
           vault_balance_before = vb, receipt_bump = b\<rparr>)
       (\<lambda>r. (is_active r, receipt_pool r, receipt_borrower r, receipt_amount r, receipt_fee r,
             vault_balance_before r, receipt_bump r))
       (pair_layout bool_layout (pair_layout word_layout (pair_layout word_layout (pair_layout word_layout
       (pair_layout word_layout (pair_layout word_layout word_layout))))))"

definition representable :: "flash_loan_pool \<Rightarrow> bool" where
  "representable p \<longleftrightarrow> length (providers p) < 2 ^ 32"

definition flash_codecs_ok :: "flash_codecs \<Rightarrow> bool" where
  "flash_codecs_ok c \<longleftrightarrow>
     borsh_type (flash_pool_codec c) representable \<and> borsh_struct (receipt_codec c) receipt_space \<and>
     (\<forall>p. length (to_vec (flash_pool_codec c) p) = 99 + 56 * length (providers p))"

lemma wf_share_layout: "wf_layout 56 share_layout"
  unfolding share_layout_def by (rule wf_layout_eq, (rule wf_layouts)+) simp_all

lemma wf_receipt_layout: "wf_layout receipt_space receipt_layout"
  unfolding receipt_layout_def by (rule wf_layout_eq, (rule wf_layouts)+) (simp_all add: receipt_space_def)

interpretation receipt_borsh: borsh_struct "of_layout receipt_layout" receipt_space
  by (rule borsh_struct_of_layout [OF wf_receipt_layout])

lemma wf_flash_header_layout: "wf_layout 95 flash_header_layout"
  unfolding flash_header_layout_def by (rule wf_layout_eq, (rule wf_layouts)+) simp_all

lemma var_flash_pool_layout: "var_layout representable flash_pool_layout"
  unfolding flash_pool_layout_def
  by (rule var_layout_mono [OF var_iso_layout [OF var_pair_layout [OF var_layout_fixed [OF wf_flash_header_layout]
        var_vec_layout [OF var_layout_fixed [OF wf_share_layout]]]]])
    (simp_all add: representable_def list_all_iff)

interpretation flash_pool_borsh: borsh_type "of_layout flash_pool_layout" representable
  by (rule borsh_type_of_layout [OF var_flash_pool_layout])

lemma length_flash_pool: "length (put flash_pool_layout p) = 99 + 56 * length (providers p)"
  using wf_flash_header_layout wf_share_layout
  by (simp add: flash_pool_layout_def iso_layout_def pair_layout_def vec_layout_def wf_layout_def
      length_concat o_def sum_list_triv)

lemmas flash_io [simp] = of_layout_io [OF wf_receipt_layout]

section \<open>Effects\<close>

lemmas flash_handler_defs = flash_process_initialize_pool_def flash_process_deposit_def
  flash_process_withdraw_def flash_process_borrow_def flash_process_repay_def

context chain
begin

lemma flash_keeps: "keeps v (flash_process_instruction e c pid d ias v)"
  unfolding flash_process_instruction_def
proof (rule keeps_bind)
  fix ix
  show "keeps v (case ix of
       InitializePool mint \<Rightarrow> flash_process_initialize_pool e c pid mint ias v
     | Deposit amount \<Rightarrow> flash_process_deposit e c pid amount ias v
     | Withdraw amount \<Rightarrow> flash_process_withdraw e c pid amount ias v
     | Borrow amount \<Rightarrow> flash_process_borrow e c pid amount ias v
     | Repay \<Rightarrow> flash_process_repay c pid ias v)"
    by (cases ix; simp only: flash_loan_instruction.case flash_handler_defs;
        intro keeps_intros keeps_invoke)
qed

end

sublocale chain \<subseteq> flash: onchain_program "flash_process_instruction e c pid d" for c pid d
  by unfold_locales (metis keepsD flash_keeps)

text \<open>
  The pool account would have to grow by more than an invocation may let an account grow.
\<close>

lemma initialize_pool_fails:
  assumes "original_data_len v = (\<lambda>k. length (data (mem v k)))"
  shows "flash_process_initialize_pool e c pid mint ias v \<noteq> Inr v'"
proof
  assume run: "flash_process_initialize_pool e c pid mint ias v = Inr v'"
  then obtain adm pa va ma sys rest where ias: "ias = adm # pa # va # ma # sys # rest"
    by (auto simp: flash_process_initialize_pool_def rust_simps)
  obtain pda b where pda: "find_program_address e [POOL_SEED, to_le_bytes mint] pid = (pda, b)" by fastforce
  obtain vpda vb where vpda: "find_program_address e [VAULT_SEED, to_le_bytes (key pa)] pid = (vpda, vb)" by fastforce
  from run [unfolded flash_process_initialize_pool_def ias] pda vpda obtain n u where
    cpi: "cpi_common e pid ias (system_create_account (key adm) (key pa) n (word_of_nat FlashLoanPool_SPACE) pid)
        [key adm, key pa, key sys] [[POOL_SEED, to_le_bytes mint, [b]]] v = Inr u"
    by (auto simp: ias rbind_eq_Inr if_Inl_eq_Inr Let_def)
  note eff = invoke_create_account_effect [OF cpi]
  have "length (data (mem u (key pa))) = FlashLoanPool_SPACE"
    by (simp add: eff(1) fresh_account_def FlashLoanPool_SPACE_def MAX_PROVIDERS_def)
  then show False
    using cpi_common_growth [OF cpi, of "key pa"] eff(3) assms
    by (simp add: FlashLoanPool_SPACE_def MAX_PROVIDERS_def MAX_ACCOUNT_DATA_GROWTH_PER_INSTRUCTION_def)
qed

lemma stored_pool_unreadable:
  assumes "flash_codecs_ok c" and "representable p" and "store (flash_pool_codec c) p d = Inr d'"
    and "length d = FlashLoanPool_SPACE"
  shows "load (flash_pool_codec c) d' = Inl BorshIoError"
proof -
  have bt: "borsh_type (flash_pool_codec c) representable" using assms(1) by (simp add: flash_codecs_ok_def)
  have len: "length (to_vec (flash_pool_codec c) p) = 99 + 56 * length (providers p)"
    using assms(1) by (simp add: flash_codecs_ok_def)
  have "length (to_vec (flash_pool_codec c) p) \<le> length d"
    using assms(3) by (auto simp: store_def Let_def split: if_splits)
  moreover have "99 + 56 * length (providers p) \<noteq> FlashLoanPool_SPACE"
    unfolding FlashLoanPool_SPACE_def MAX_PROVIDERS_def by presburger
  ultimately have "length (to_vec (flash_pool_codec c) p) < length d" using len assms(4) by simp
  then show ?thesis by (rule borsh_type.load_oversized [OF bt assms(2,3)])
qed

section \<open>Solvency of the pool's books\<close>

definition claims :: "provider_share list \<Rightarrow> nat" where
  "claims ps = (\<Sum>s\<leftarrow>ps. unat (deposited s) + unat (fees_earned s))"

definition covered :: "flash_loan_pool \<Rightarrow> bool" where
  "covered p \<longleftrightarrow> claims (providers p) \<le> unat (total_liquidity p)"

lemma deposit_share_claims:
  "deposit_share k amount now ps = Inr (ps', found) \<Longrightarrow> claims ps' = claims ps + (if found then unat amount else 0)"
  by (induction ps arbitrary: ps' found)
    (auto simp: claims_def rbind_eq_Inr ok_or_eq_Inr checked_add_eq_Some split: if_splits)

lemma deposit_pool_covered:
  assumes "deposit_pool k amount now p = Inr p'" and "covered p"
  shows "covered p'"
proof -
  from assms(1) obtain ps found q tl where ds: "deposit_share k amount now (providers p) = Inr (ps, found)"
    and q: "(if found then Inr (p\<lparr>providers := ps\<rparr>)
            else if MAX_PROVIDERS \<le> length (providers p) then Inl (flash_err MaxProvidersReached)
            else rbind (ovf (checked_add (provider_count p) 1)) (\<lambda>n.
                 Inr (p\<lparr>providers := providers p @ [\<lparr>provider_owner = k, deposited = amount, fees_earned = 0, last_updated = now\<rparr>],
                        provider_count := n\<rparr>))) = Inr q"
    and tl: "unat tl = unat (total_liquidity q) + unat amount" "p' = q\<lparr>total_liquidity := tl\<rparr>"
    by (auto simp: deposit_pool_def rbind_eq_Inr ok_or_eq_Inr checked_add_eq_Some)
  have "claims (providers q) = claims (providers p) + unat amount" "total_liquidity q = total_liquidity p"
    using q deposit_share_claims [OF ds] by (auto simp: claims_def rbind_eq_Inr split: if_splits)
  then show ?thesis using assms(2) tl by (simp add: covered_def)
qed

lemma withdraw_from_share_claims:
  assumes "withdraw_from_share amount now s = Inr s'"
  shows "unat (deposited s') + unat (fees_earned s') + unat amount = unat (deposited s) + unat (fees_earned s)"
proof -
  from assms obtain t q where t: "unat t = unat (deposited s) + unat (fees_earned s)" "\<not> t < amount"
    and q: "(if amount \<le> fees_earned s
            then rbind (ok_or (checked_sub (fees_earned s) amount) ProgramFailedToComplete) (\<lambda>f. Inr (s\<lparr>fees_earned := f\<rparr>))
            else rbind (ok_or (checked_sub amount (fees_earned s)) ProgramFailedToComplete) (\<lambda>remaining.
                 rbind (ok_or (checked_sub (deposited s) remaining) ProgramFailedToComplete) (\<lambda>d.
                 Inr (s\<lparr>fees_earned := 0, deposited := d\<rparr>)))) = Inr q"
    and s': "s' = q\<lparr>last_updated := now\<rparr>"
    by (auto simp: withdraw_from_share_def rbind_eq_Inr ok_or_eq_Inr checked_add_eq_Some if_Inl_eq_Inr)
  show ?thesis
    using q by (cases "amount \<le> fees_earned s") (auto simp: s' rbind_eq_Inr ok_or_eq_Inr checked_sub_eq_Some)
qed

lemma withdraw_share_claims:
  "withdraw_share k amount now ps = Inr ps' \<Longrightarrow> claims ps' + unat amount = claims ps"
proof (induction ps arbitrary: ps')
  case (Cons s ps)
  show ?case
  proof (cases "provider_owner s = k")
    case True
    with Cons.prems obtain s' where "withdraw_from_share amount now s = Inr s'" "ps' = s' # ps"
      by (auto simp: rbind_eq_Inr)
    then show ?thesis using withdraw_from_share_claims by (fastforce simp: claims_def)
  next
    case False
    with Cons.prems obtain qs where "withdraw_share k amount now ps = Inr qs" "ps' = s # qs"
      by (auto simp: rbind_eq_Inr)
    then show ?thesis using Cons.IH [of qs] by (simp add: claims_def)
  qed
qed simp

lemma withdraw_covered:
  assumes "withdraw_share k amount now (providers p) = Inr ps"
    and "withdraw_liquidity amount (p\<lparr>providers := ps\<rparr>) = Inr p'" and "covered p"
  shows "covered p'"
proof -
  from assms(2) obtain tl where tl: "unat (total_liquidity p) = min (unat amount) (unat (total_liquidity p)) + unat tl"
    and p': "p' = p\<lparr>providers := ps, total_liquidity := tl\<rparr>"
    by (auto simp: withdraw_liquidity_def rbind_eq_Inr ok_or_eq_Inr checked_sub_eq_Some)
  show ?thesis
    using withdraw_share_claims [OF assms(1)] assms(3) tl by (simp add: covered_def p')
qed

lemma fee_share_bound:
  assumes "liquidity \<noteq> 0"
  shows "unat (fee_share fee liquidity s) * unat liquidity \<le> unat fee * unat (deposited s)"
proof -
  have "unat fee * unat (deposited s) < 2 ^ 64 * 2 ^ 64"
    by (rule mult_strict_mono) (use unsigned_less [of fee, where ?'a = nat] unsigned_less [of "deposited s", where ?'a = nat] in simp_all)
  then have lt: "unat (u64_as_u128 fee) * unat (u64_as_u128 (deposited s)) < 2 ^ LENGTH(128)" by simp
  then have "unat (u64_as_u128 fee * u64_as_u128 (deposited s)) = unat fee * unat (deposited s)"
    by (subst unat_mult_lem [THEN iffD1]) simp_all
  moreover have "u64_as_u128 liquidity \<noteq> 0" using assms by (metis unat_0 unat_eq_zero unat_u64_as_u128)
  ultimately have "unat (fee_share fee liquidity s) \<le> unat fee * unat (deposited s) div unat liquidity"
    using lt by (simp add: fee_share_def checked_mul_def checked_div_def unat_u128_as_u64 unat_div_distrib)
  then have "unat (fee_share fee liquidity s) * unat liquidity \<le> unat fee * unat (deposited s) div unat liquidity * unat liquidity"
    by (rule mult_le_mono1)
  also have "\<dots> \<le> unat fee * unat (deposited s)" by (rule div_times_less_eq_dividend)
  finally show ?thesis .
qed

lemma fee_shares_sum:
  assumes "liquidity \<noteq> 0"
  shows "(\<Sum>s\<leftarrow>ps. unat (fee_share fee liquidity s)) * unat liquidity \<le> unat fee * (\<Sum>s\<leftarrow>ps. unat (deposited s))"
proof (induction ps)
  case (Cons s ps)
  then show ?case using fee_share_bound [OF assms, of fee s] by (simp add: algebra_simps)
qed simp

lemma repay_pool_covered:
  assumes "repay_pool fee p = Inr p'" and "covered p"
  shows "covered p'"
proof (cases "total_liquidity p = 0")
  case True
  with assms show ?thesis
    by (auto simp: repay_pool_def covered_def rbind_eq_Inr ok_or_eq_Inr checked_add_eq_Some)
next
  case False
  let ?L = "total_liquidity p" and ?ps = "providers p"
  let ?share = "\<lambda>s. fee_share fee ?L s"
  have pos: "0 < unat ?L" using False by (simp add: unat_gt_0)
  from assms(1) False obtain tl where tl: "unat tl = unat ?L + unat fee" "total_liquidity p' = tl"
    and ps: "providers p' = map (\<lambda>s. s\<lparr>fees_earned := saturating_add (fees_earned s) (?share s)\<rparr>) ?ps"
    by (auto simp: repay_pool_def Let_def rbind_eq_Inr ok_or_eq_Inr checked_add_eq_Some word_neq_0_conv)
  have "(\<Sum>s\<leftarrow>?ps. unat (deposited s)) \<le> claims ?ps"
    unfolding claims_def by (intro sum_list_mono) simp
  also have "\<dots> \<le> unat ?L" using assms(2) by (simp add: covered_def)
  finally have "unat fee * (\<Sum>s\<leftarrow>?ps. unat (deposited s)) \<le> unat fee * unat ?L" by (rule mult_le_mono2)
  with fee_shares_sum [OF False, of fee ?ps]
  have "(\<Sum>s\<leftarrow>?ps. unat (?share s)) * unat ?L \<le> unat fee * unat ?L" by linarith
  then have fees: "(\<Sum>s\<leftarrow>?ps. unat (?share s)) \<le> unat fee" using pos by simp
  have "claims (providers p') \<le> (\<Sum>s\<leftarrow>?ps. (unat (deposited s) + unat (fees_earned s)) + unat (?share s))"
    unfolding ps claims_def by (auto simp: o_def intro!: sum_list_mono unat_saturating_add_le [THEN order_trans])
  also have "\<dots> = claims ?ps + (\<Sum>s\<leftarrow>?ps. unat (?share s))" by (simp add: claims_def sum_list_addf)
  finally show ?thesis using fees assms(2) tl by (simp add: covered_def)
qed

text \<open>What the instructions do to the pool record, in any order and with any arguments.\<close>

inductive pool_step :: "flash_loan_pool \<Rightarrow> flash_loan_pool \<Rightarrow> bool" where
  deposit: "deposit_pool k amount now p = Inr p' \<Longrightarrow> pool_step p p'"
| withdraw: "withdraw_share k amount now (providers p) = Inr ps \<Longrightarrow>
    withdraw_liquidity amount (p\<lparr>providers := ps\<rparr>) = Inr p' \<Longrightarrow> pool_step p p'"
| borrow: "checked_add (total_loans_executed p) 1 = Some n \<Longrightarrow> pool_step p (p\<lparr>total_loans_executed := n\<rparr>)"
| repay: "repay_pool fee p = Inr p' \<Longrightarrow> pool_step p p'"

lemma covered_loans [simp]: "covered (p\<lparr>total_loans_executed := n\<rparr>) = covered p"
  by (simp add: covered_def)

lemma pool_step_covered: "pool_step p p' \<Longrightarrow> covered p \<Longrightarrow> covered p'"
  by (induction rule: pool_step.induct) (auto intro: deposit_pool_covered withdraw_covered repay_pool_covered)

lemma calculate_fee_total:
  assumes "unat amount * 9 + 9999 < 2 ^ 64"
  shows "\<exists>fee. calculate_fee amount = Inr fee \<and> unat fee = (unat amount * 9 + 9999) div 10000"
proof -
  have prod: "unat (amount * 9) = unat amount * 9"
    using assms by (subst unat_mult_lem [THEN iffD1]) simp_all
  have sum: "unat (amount * 9 + 9999) = unat amount * 9 + 9999"
    using assms prod by (subst unat_add_lem [THEN iffD1]) simp_all
  have "calculate_fee amount = Inr ((amount * 9 + 9999) div 10000)"
    using assms prod by (simp add: calculate_fee_def FLASH_LOAN_FEE_BPS_def FEE_DENOMINATOR_def checked_mul_def
        checked_add_def checked_div_def)
  moreover have "unat ((amount * 9 + 9999) div 10000) = (unat amount * 9 + 9999) div 10000"
    by (simp add: unat_div_distrib sum)
  ultimately show ?thesis by blast
qed

lemma calculate_fee_overflow:
  assumes "2 ^ 64 \<le> unat amount * 9 + 9999"
  shows "calculate_fee amount = Inl (flash_err Overflow)"
proof (cases "unat amount * 9 < 2 ^ 64")
  case True
  then have "unat (amount * 9) = unat amount * 9" by (subst unat_mult_lem [THEN iffD1]) simp_all
  with True assms show ?thesis
    by (simp add: calculate_fee_def FLASH_LOAN_FEE_BPS_def FEE_DENOMINATOR_def checked_mul_def checked_add_def)
next
  case False
  then show ?thesis by (simp add: calculate_fee_def FLASH_LOAN_FEE_BPS_def checked_mul_def)
qed

section \<open>Properties\<close>

definition flash_layouts :: "flash_loan_instruction \<Rightarrow> flash_codecs" where
  "flash_layouts ix =
     \<lparr>flash_pool_codec = of_layout flash_pool_layout, receipt_codec = of_layout receipt_layout,
      flash_instruction_codec = \<lparr>try_from_slice = (\<lambda>_. Some ix), to_vec = (\<lambda>_. [])\<rparr>\<rparr>"

lemma flash_layouts_ok: "flash_codecs_ok (flash_layouts ix)"
  using length_flash_pool
  by (simp add: flash_codecs_ok_def flash_layouts_def receipt_borsh.borsh_struct_axioms
      flash_pool_borsh.borsh_type_axioms)

text \<open>
  C24. A pool can never be used. \<open>InitializePool\<close> allocates the account for the largest number of
  providers, more than an account may grow in an invocation, so it fails from every state a program
  can be entered in. And a pool record written into an account of that size could not be read again:
  no number of providers fills it, and \<open>try_from_slice\<close> refuses the bytes after the record.
\<close>

theorem flash_pool_unusable:
  assumes "flash_codecs_ok c"
  shows "flash_process_initialize_pool e c pid mint ias (enter_vm t) \<noteq> Inr v' \<and>
    (representable p \<and> length d = FlashLoanPool_SPACE \<and> store (flash_pool_codec c) p d = Inr d' \<longrightarrow>
       load (flash_pool_codec c) d' = Inl BorshIoError)"
  using initialize_pool_fails [of "enter_vm t"] stored_pool_unreadable [OF assms] by (auto simp: enter_vm_def)

theorem flash_pool_unusable_witness:
  "\<exists>d'. store (flash_pool_codec (flash_layouts Repay)) (initial_flash_pool 1 0 255) (replicate FlashLoanPool_SPACE 0) = Inr d' \<and>
     load (flash_pool_codec (flash_layouts Repay)) d' = Inl BorshIoError"
proof -
  let ?c = "flash_pool_codec (flash_layouts Repay)" and ?p = "initial_flash_pool 1 0 255"
  have "length (to_vec ?c ?p) = 99"
    using length_flash_pool [of ?p] by (simp add: flash_layouts_def of_layout_def initial_flash_pool_def)
  then obtain d' where st: "store ?c ?p (replicate FlashLoanPool_SPACE 0) = Inr d'"
    by (simp add: store_def Let_def FlashLoanPool_SPACE_def MAX_PROVIDERS_def)
  have "representable ?p" by (simp add: representable_def initial_flash_pool_def)
  with flash_pool_unusable [OF flash_layouts_ok, where p = ?p and d = "replicate FlashLoanPool_SPACE 0"] st show ?thesis by auto
qed

text \<open>
  C25. The fee is 9 basis points, rounded up. \<open>calculate_fee\<close> returns the ceiling of the quotient, so it is
  at least one lamport for a positive amount and never below the exact fee; the only error is an
  overflow, for amounts beyond a ninth of the 64-bit range.
\<close>

theorem flash_fee_rounds_up:
  "(case calculate_fee amount of
      Inr fee \<Rightarrow> unat amount * 9 + 9999 < 2 ^ 64 \<and> unat amount * 9 \<le> unat fee * 10000 \<and>
        unat fee * 10000 < unat amount * 9 + 10000 \<and> (unat fee = 0 \<longleftrightarrow> unat amount = 0)
    | Inl err \<Rightarrow> 2 ^ 64 \<le> unat amount * 9 + 9999 \<and> err = flash_err Overflow)"
proof (cases "unat amount * 9 + 9999 < 2 ^ 64")
  case True
  then obtain fee where fee: "calculate_fee amount = Inr fee" "unat fee = (unat amount * 9 + 9999) div 10000"
    using calculate_fee_total by blast
  have "unat amount * 9 \<le> unat fee * 10000 \<and> unat fee * 10000 < unat amount * 9 + 10000 \<and> (unat fee = 0 \<longleftrightarrow> unat amount = 0)"
  proof -
    have "unat fee * 10000 \<le> unat amount * 9 + 9999" unfolding fee(2) by (rule div_times_less_eq_dividend)
    moreover have "unat amount * 9 + 9999 < unat fee * 10000 + 10000"
      unfolding fee(2) using mod_less_divisor [of 10000 "unat amount * 9 + 9999"]
        div_mult_mod_eq [of "unat amount * 9 + 9999" 10000] by linarith
    ultimately show ?thesis by linarith
  qed
  with True fee(1) show ?thesis by simp
next
  case False
  then show ?thesis using calculate_fee_overflow [of amount] by simp
qed

text \<open>
  C26. The pool's books are solvent. From a fresh pool on, after any sequence of deposits, withdrawals,
  loans and repayments, what the providers may claim, deposits and earned fees together, never exceeds
  the recorded liquidity: rounding favours the pool.
\<close>

theorem provider_claims_covered:
  assumes "pool_step\<^sup>*\<^sup>* (initial_flash_pool adm mint b) p"
  shows "(\<Sum>s\<leftarrow>providers p. unat (deposited s) + unat (fees_earned s)) \<le> unat (total_liquidity p)"
proof -
  have "covered p"
    using assms
  proof (induction rule: rtranclp_induct)
    case base
    then show ?case by (simp add: covered_def claims_def initial_flash_pool_def)
  next
    case (step y z)
    then show ?case by (blast intro: pool_step_covered)
  qed
  then show ?thesis by (simp add: covered_def claims_def)
qed

theorem provider_claims_covered_witness:
  "\<exists>p. pool_step\<^sup>*\<^sup>* (initial_flash_pool 1 0 255) p \<and> total_liquidity p = 1009 \<and>
     (\<Sum>s\<leftarrow>providers p. unat (deposited s) + unat (fees_earned s)) \<le> 1009"
proof -
  let ?p0 = "initial_flash_pool 1 0 255"
  obtain p1 where p1: "deposit_pool 5 1000 100 ?p0 = Inr p1" and p2: "\<exists>p2. repay_pool 9 p1 = Inr p2 \<and> total_liquidity p2 = 1009"
    by (simp add: deposit_pool_def initial_flash_pool_def MAX_PROVIDERS_def checked_add_def ok_or_def repay_pool_def Let_def)
  then obtain p2 where p2: "repay_pool 9 p1 = Inr p2" "total_liquidity p2 = 1009" by blast
  have "pool_step\<^sup>*\<^sup>* ?p0 p2"
    using pool_step.deposit [OF p1] pool_step.repay [OF p2(1)] by (meson rtranclp.rtrancl_into_rtrancl rtranclp.rtrancl_refl)
  from provider_claims_covered [OF this] this p2(2) show ?thesis by auto
qed

end
