(* ===== verification/PusdStablecoin.thy ===== *)
theory PusdStablecoin
  imports Cpi
begin

text \<open>
  The pUSD stablecoin program (\<open>programs/pusd-stablecoin/src/lib.rs\<close>): users lock lamports in a vault and
  mint pUSD against them at a minimum collateral ratio; vaults below a threshold can be liquidated, and
  pUSD can be redeemed against a vault. Minting and burning of the tokens themselves is left to a later
  version of the source ("in production"); the program keeps the books.
\<close>

section \<open>Data\<close>

definition MIN_COLLATERAL_RATIO_BPS :: u64 where "MIN_COLLATERAL_RATIO_BPS = 15000"
definition LIQUIDATION_THRESHOLD_BPS :: u64 where "LIQUIDATION_THRESHOLD_BPS = 12000"
definition LIQUIDATION_PENALTY_BPS :: u64 where "LIQUIDATION_PENALTY_BPS = 1000"
definition STABILITY_FEE_ANNUAL_BPS :: u64 where "STABILITY_FEE_ANNUAL_BPS = 200"
definition BPS_DENOMINATOR :: u64 where "BPS_DENOMINATOR = 10000"
definition SECONDS_PER_YEAR :: u64 where "SECONDS_PER_YEAR = 31557600"
definition MIN_DEBT :: u64 where "MIN_DEBT = 10000000"
definition CONFIG_SEED :: bytes where "CONFIG_SEED = ascii ''pusd_config''"
definition VAULT_SEED :: bytes where "VAULT_SEED = ascii ''pusd_vault''"
definition COLLATERAL_SEED :: bytes where "COLLATERAL_SEED = ascii ''pusd_collateral''"

datatype pusd_error =
    AlreadyInitialized | NotInitialized | BelowMinCollateralRatio | NotLiquidatable | InvalidAmount | BelowMinDebt
  | WithdrawalWouldUndercollateralize | BurnExceedsDebt | Unauthorized | Overflow | InvalidPDA | InvalidOraclePrice
  | InsufficientCollateral | RedemptionExceedsCollateral

fun pusd_err :: "pusd_error \<Rightarrow> instruction_error" where
  "pusd_err AlreadyInitialized = Custom 0"
| "pusd_err NotInitialized = Custom 1"
| "pusd_err BelowMinCollateralRatio = Custom 2"
| "pusd_err NotLiquidatable = Custom 3"
| "pusd_err InvalidAmount = Custom 4"
| "pusd_err BelowMinDebt = Custom 5"
| "pusd_err WithdrawalWouldUndercollateralize = Custom 6"
| "pusd_err BurnExceedsDebt = Custom 7"
| "pusd_err Unauthorized = Custom 8"
| "pusd_err Overflow = Custom 9"
| "pusd_err InvalidPDA = Custom 10"
| "pusd_err InvalidOraclePrice = Custom 11"
| "pusd_err InsufficientCollateral = Custom 12"
| "pusd_err RedemptionExceedsCollateral = Custom 13"

record pusd_config =
  config_is_initialized :: bool
  admin :: pubkey
  oracle_feed :: pubkey
  pusd_mint :: pubkey
  total_pusd_supply :: u64
  total_collateral_locked :: u64
  total_vaults :: u64
  total_fees_collected :: u64
  is_active :: bool
  config_bump :: u8

record vault =
  vault_is_initialized :: bool
  vault_owner :: pubkey
  collateral :: u64
  debt :: u64
  accrued_fee :: u64
  last_fee_update :: i64
  created_at :: i64
  vault_bump :: u8
  nonce :: u64

definition PusdConfig_SPACE :: nat where
  "PusdConfig_SPACE = 1 + 32 + 32 + 32 + 8 + 8 + 8 + 8 + 1 + 1"

definition Vault_SPACE :: nat where
  "Vault_SPACE = 1 + 32 + 8 + 8 + 8 + 8 + 8 + 1 + 8"

datatype pusd_instruction =
    Initialize pubkey pubkey
  | OpenVault u64 u64
  | DepositCollateral u64
  | MintPusd u64
  | BurnPusd u64
  | WithdrawCollateral u64
  | Liquidate
  | Redeem u64

record pusd_codecs =
  config_codec :: "pusd_config borsh"
  vault_codec :: "vault borsh"
  pusd_instruction_codec :: "pusd_instruction borsh"

abbreviation ovf :: "'a option \<Rightarrow> 'a res" where
  "ovf m \<equiv> ok_or m (pusd_err Overflow)"

section \<open>Vault arithmetic\<close>

definition total_debt :: "vault \<Rightarrow> u64" where
  "total_debt s = saturating_add (debt s) (accrued_fee s)"

definition collateral_ratio_bps :: "vault \<Rightarrow> u64 \<Rightarrow> u64 res" where
  "collateral_ratio_bps s prism_price =
     (if debt s = 0 then Inr (- 1)
      else
      rbind (ovf (checked_mul (u64_as_u128 (collateral s)) (u64_as_u128 prism_price))) (\<lambda>collateral_value.
      rbind (ovf (checked_mul (u64_as_u128 (total_debt s)) 1000000000)) (\<lambda>debt_value.
      rbind (ovf (checked_mul collateral_value (u64_as_u128 BPS_DENOMINATOR))) (\<lambda>x.
      rbind (ovf (checked_div x debt_value)) (\<lambda>ratio.
      Inr (u128_as_u64 ratio))))))"

text \<open>
  The subtraction of time stamps is unchecked: it panics when the program was compiled with overflow
  checks and wraps otherwise. The fee is zero where an intermediate product overflows.
\<close>

definition fee_for :: "u64 \<Rightarrow> u64 \<Rightarrow> u64" where
  "fee_for d elapsed =
     u128_as_u64 (unwrap_or
       (Option.bind (checked_mul (u64_as_u128 d) (u64_as_u128 STABILITY_FEE_ANNUAL_BPS)) (\<lambda>x.
        Option.bind (checked_mul x (u64_as_u128 elapsed)) (\<lambda>x.
        Option.bind (checked_div x (u64_as_u128 SECONDS_PER_YEAR)) (\<lambda>x.
        checked_div x (u64_as_u128 BPS_DENOMINATOR))))) 0)"

definition accrue_fee :: "env \<Rightarrow> vault \<Rightarrow> i64 \<Rightarrow> vault res" where
  "accrue_fee e s current_timestamp =
     (if debt s = 0 \<or> sint current_timestamp \<le> sint (last_fee_update s) then Inr s
      else if overflow_checks e \<and> \<not> i64_fits (sint current_timestamp - sint (last_fee_update s))
      then Inl ProgramFailedToComplete
      else
      let fee = fee_for (debt s) (current_timestamp - last_fee_update s)
      in Inr (s\<lparr>accrued_fee := saturating_add (accrued_fee s) fee, last_fee_update := current_timestamp\<rparr>))"

definition read_oracle_price :: "pubkey \<Rightarrow> vm \<Rightarrow> u64 res" where
  "read_oracle_price oracle v =
     (let d = data (mem v oracle) in
      if length d < 8 then Inl (pusd_err InvalidOraclePrice)
      else
      let price = word_of_nat (nat_of_le (take 8 d)) in
      if price = 0 then Inl (pusd_err InvalidOraclePrice) else Inr price)"

definition usd_to_prism :: "u64 \<Rightarrow> u64 \<Rightarrow> u64 res" where
  "usd_to_prism usd_amount prism_price =
     rbind (ovf (checked_mul (u64_as_u128 usd_amount) 100000000000)) (\<lambda>x.
     rbind (ovf (checked_div x (u64_as_u128 prism_price))) (\<lambda>prism.
     Inr (u128_as_u64 prism)))"

section \<open>Handlers\<close>

definition initial_config :: "pubkey \<Rightarrow> pubkey \<Rightarrow> pubkey \<Rightarrow> u8 \<Rightarrow> pusd_config" where
  "initial_config adm feed mint b =
     \<lparr>config_is_initialized = True, admin = adm, oracle_feed = feed, pusd_mint = mint, total_pusd_supply = 0,
      total_collateral_locked = 0, total_vaults = 0, total_fees_collected = 0, is_active = True, config_bump = b\<rparr>"

definition pusd_process_initialize ::
  "env \<Rightarrow> pusd_codecs \<Rightarrow> pubkey \<Rightarrow> pubkey \<Rightarrow> pubkey \<Rightarrow> instruction_account list \<Rightarrow> vm \<Rightarrow> vm res" where
  "pusd_process_initialize e c program_id feed mint ias v =
     rbind (next_account_info ias) (\<lambda>(adm, it).
     rbind (next_account_info it) (\<lambda>(config_account, it).
     rbind (next_account_info it) (\<lambda>(oracle_account, it).
     rbind (next_account_info it) (\<lambda>(mint_account, it).
     rbind (next_account_info it) (\<lambda>(system_program, it).
     if \<not> is_signer adm then Inl MissingRequiredSignature
     else
     let (config_pda, b) = find_program_address e [CONFIG_SEED] program_id
     in
     if config_pda \<noteq> key config_account then Inl (pusd_err InvalidPDA)
     else
     rbind (rent_get e) (\<lambda>minimum_balance.
     rbind (invoke_signed e program_id ias
              (system_create_account (key adm) (key config_account)
                 (minimum_balance PusdConfig_SPACE) (word_of_nat PusdConfig_SPACE) program_id)
              [adm, config_account, system_program] [[CONFIG_SEED, [b]]] v) (\<lambda>v.
     store_account (config_codec c) (initial_config (key adm) feed mint b) (key config_account) v)))))))"

definition new_vault :: "pubkey \<Rightarrow> u64 \<Rightarrow> clock \<Rightarrow> u8 \<Rightarrow> u64 \<Rightarrow> vault" where
  "new_vault own amount clk b n =
     \<lparr>vault_is_initialized = True, vault_owner = own, collateral = amount, debt = 0, accrued_fee = 0,
      last_fee_update = unix_timestamp clk, created_at = unix_timestamp clk, vault_bump = b, nonce = n\<rparr>"

definition pusd_process_open_vault ::
  "env \<Rightarrow> pusd_codecs \<Rightarrow> pubkey \<Rightarrow> u64 \<Rightarrow> u64 \<Rightarrow> instruction_account list \<Rightarrow> vm \<Rightarrow> vm res" where
  "pusd_process_open_vault e c program_id amount n ias v =
     rbind (next_account_info ias) (\<lambda>(own, it).
     rbind (next_account_info it) (\<lambda>(config_account, it).
     rbind (next_account_info it) (\<lambda>(vault_account, it).
     rbind (next_account_info it) (\<lambda>(collateral_pool, it).
     rbind (next_account_info it) (\<lambda>(system_program, it).
     if \<not> is_signer own then Inl MissingRequiredSignature
     else if amount = 0 then Inl (pusd_err InvalidAmount)
     else if owner (mem v (key config_account)) \<noteq> program_id then Inl IncorrectProgramId
     else
     rbind (load_account (config_codec c) (key config_account) v) (\<lambda>cfg.
     if \<not> config_is_initialized cfg \<or> \<not> is_active cfg then Inl (pusd_err NotInitialized)
     else
     let (vault_pda, b) = find_program_address e [VAULT_SEED, to_le_bytes (key own), to_le_bytes n] program_id
     in
     if vault_pda \<noteq> key vault_account then Inl (pusd_err InvalidPDA)
     else
     let (collateral_pda, cb) = find_program_address e [COLLATERAL_SEED, to_le_bytes (key vault_account)] program_id
     in
     if collateral_pda \<noteq> key collateral_pool then Inl (pusd_err InvalidPDA)
     else
     rbind (clock_get e) (\<lambda>clk.
     rbind (rent_get e) (\<lambda>minimum_balance.
     rbind (invoke_signed e program_id ias
              (system_create_account (key own) (key vault_account)
                 (minimum_balance Vault_SPACE) (word_of_nat Vault_SPACE) program_id)
              [own, vault_account, system_program]
              [[VAULT_SEED, to_le_bytes (key own), to_le_bytes n, [b]]] v) (\<lambda>v.
     rbind (invoke_signed e program_id ias
              (system_create_account (key own) (key collateral_pool) amount 0 program_id)
              [own, collateral_pool, system_program]
              [[COLLATERAL_SEED, to_le_bytes (key vault_account), [cb]]] v) (\<lambda>v.
     rbind (store_account (vault_codec c) (new_vault (key own) amount clk b n) (key vault_account) v) (\<lambda>v.
     rbind (ovf (checked_add (total_collateral_locked cfg) amount)) (\<lambda>tc.
     rbind (ovf (checked_add (total_vaults cfg) 1)) (\<lambda>tv.
     store_account (config_codec c) (cfg\<lparr>total_collateral_locked := tc, total_vaults := tv\<rparr>)
       (key config_account) v)))))))))))))"

text \<open>The guards on the vault account, with and without the check of its owner.\<close>

definition load_vault :: "pusd_codecs \<Rightarrow> pubkey \<Rightarrow> pubkey \<Rightarrow> vm \<Rightarrow> vault res" where
  "load_vault c program_id k v =
     (if owner (mem v k) \<noteq> program_id then Inl IncorrectProgramId
      else
      rbind (load_account (vault_codec c) k v) (\<lambda>s.
      if \<not> vault_is_initialized s then Inl (pusd_err NotInitialized) else Inr s))"

definition load_own_vault :: "pusd_codecs \<Rightarrow> pubkey \<Rightarrow> pubkey \<Rightarrow> pubkey \<Rightarrow> vm \<Rightarrow> vault res" where
  "load_own_vault c program_id own k v =
     rbind (load_vault c program_id k v) (\<lambda>s.
     if vault_owner s \<noteq> own then Inl (pusd_err Unauthorized) else Inr s)"

definition pusd_process_deposit_collateral ::
  "env \<Rightarrow> pusd_codecs \<Rightarrow> pubkey \<Rightarrow> u64 \<Rightarrow> instruction_account list \<Rightarrow> vm \<Rightarrow> vm res" where
  "pusd_process_deposit_collateral e c program_id amount ias v =
     rbind (next_account_info ias) (\<lambda>(own, it).
     rbind (next_account_info it) (\<lambda>(vault_account, it).
     rbind (next_account_info it) (\<lambda>(collateral_pool, it).
     rbind (next_account_info it) (\<lambda>(config_account, it).
     rbind (next_account_info it) (\<lambda>(system_program, it).
     if \<not> is_signer own then Inl MissingRequiredSignature
     else if amount = 0 then Inl (pusd_err InvalidAmount)
     else
     rbind (load_own_vault c program_id (key own) (key vault_account) v) (\<lambda>s.
     rbind (invoke_signed e program_id ias (system_transfer (key own) (key collateral_pool) amount)
              [own, collateral_pool, system_program] [] v) (\<lambda>v.
     rbind (ovf (checked_add (collateral s) amount)) (\<lambda>n.
     rbind (store_account (vault_codec c) (s\<lparr>collateral := n\<rparr>) (key vault_account) v) (\<lambda>v.
     rbind (load_account (config_codec c) (key config_account) v) (\<lambda>cfg.
     rbind (ovf (checked_add (total_collateral_locked cfg) amount)) (\<lambda>tc.
     store_account (config_codec c) (cfg\<lparr>total_collateral_locked := tc\<rparr>) (key config_account) v)))))))))))"

definition pusd_process_mint_pusd ::
  "env \<Rightarrow> pusd_codecs \<Rightarrow> pubkey \<Rightarrow> u64 \<Rightarrow> instruction_account list \<Rightarrow> vm \<Rightarrow> vm res" where
  "pusd_process_mint_pusd e c program_id amount ias v =
     rbind (next_account_info ias) (\<lambda>(own, it).
     rbind (next_account_info it) (\<lambda>(vault_account, it).
     rbind (next_account_info it) (\<lambda>(config_account, it).
     rbind (next_account_info it) (\<lambda>(oracle_account, it).
     rbind (next_account_info it) (\<lambda>(pusd_mint_account, it).
     rbind (next_account_info it) (\<lambda>(owner_pusd_account, it).
     rbind (next_account_info it) (\<lambda>(mint_authority, it).
     rbind (next_account_info it) (\<lambda>(token_program, it).
     if \<not> is_signer own then Inl MissingRequiredSignature
     else if amount = 0 then Inl (pusd_err InvalidAmount)
     else
     rbind (load_own_vault c program_id (key own) (key vault_account) v) (\<lambda>s.
     rbind (clock_get e) (\<lambda>clk.
     rbind (accrue_fee e s (unix_timestamp clk)) (\<lambda>s.
     rbind (ovf (checked_add (debt s) amount)) (\<lambda>new_debt.
     rbind (read_oracle_price (key oracle_account) v) (\<lambda>prism_price.
     rbind (collateral_ratio_bps (s\<lparr>debt := new_debt\<rparr>) prism_price) (\<lambda>ratio.
     if ratio < MIN_COLLATERAL_RATIO_BPS then Inl (pusd_err BelowMinCollateralRatio)
     else if new_debt < MIN_DEBT then Inl (pusd_err BelowMinDebt)
     else
     rbind (store_account (vault_codec c) (s\<lparr>debt := new_debt\<rparr>) (key vault_account) v) (\<lambda>v.
     rbind (load_account (config_codec c) (key config_account) v) (\<lambda>cfg.
     rbind (ovf (checked_add (total_pusd_supply cfg) amount)) (\<lambda>ts.
     store_account (config_codec c) (cfg\<lparr>total_pusd_supply := ts\<rparr>) (key config_account) v)))))))))))))))))"

text \<open>Paying off debt: the accrued fee first, then the principal.\<close>

definition burn_debt :: "u64 \<Rightarrow> vault \<Rightarrow> vault res" where
  "burn_debt amount s =
     (if amount \<le> accrued_fee s
      then rbind (ok_or (checked_sub (accrued_fee s) amount) ProgramFailedToComplete) (\<lambda>f.
           Inr (s\<lparr>accrued_fee := f\<rparr>))
      else rbind (ok_or (checked_sub amount (accrued_fee s)) ProgramFailedToComplete) (\<lambda>remaining.
           rbind (ok_or (checked_sub (debt s) remaining) ProgramFailedToComplete) (\<lambda>d.
           Inr (s\<lparr>accrued_fee := 0, debt := d\<rparr>))))"

definition pusd_process_burn_pusd ::
  "env \<Rightarrow> pusd_codecs \<Rightarrow> pubkey \<Rightarrow> u64 \<Rightarrow> instruction_account list \<Rightarrow> vm \<Rightarrow> vm res" where
  "pusd_process_burn_pusd e c program_id amount ias v =
     rbind (next_account_info ias) (\<lambda>(own, it).
     rbind (next_account_info it) (\<lambda>(vault_account, it).
     rbind (next_account_info it) (\<lambda>(config_account, it).
     rbind (next_account_info it) (\<lambda>(owner_pusd_account, it).
     rbind (next_account_info it) (\<lambda>(pusd_mint_account, it).
     rbind (next_account_info it) (\<lambda>(token_program, it).
     if \<not> is_signer own then Inl MissingRequiredSignature
     else if amount = 0 then Inl (pusd_err InvalidAmount)
     else
     rbind (load_own_vault c program_id (key own) (key vault_account) v) (\<lambda>s.
     rbind (clock_get e) (\<lambda>clk.
     rbind (accrue_fee e s (unix_timestamp clk)) (\<lambda>s.
     if total_debt s < amount then Inl (pusd_err BurnExceedsDebt)
     else
     rbind (burn_debt amount s) (\<lambda>s.
     if 0 < debt s \<and> debt s < MIN_DEBT then Inl (pusd_err BelowMinDebt)
     else
     rbind (store_account (vault_codec c) s (key vault_account) v) (\<lambda>v.
     rbind (load_account (config_codec c) (key config_account) v) (\<lambda>cfg.
     store_account (config_codec c)
       (cfg\<lparr>total_pusd_supply := saturating_sub (total_pusd_supply cfg) amount,
            total_fees_collected := saturating_add (total_fees_collected cfg)
              (min amount (saturating_add (accrued_fee s) amount))\<rparr>) (key config_account) v))))))))))))"

definition pusd_process_withdraw_collateral ::
  "env \<Rightarrow> pusd_codecs \<Rightarrow> pubkey \<Rightarrow> u64 \<Rightarrow> instruction_account list \<Rightarrow> vm \<Rightarrow> vm res" where
  "pusd_process_withdraw_collateral e c program_id amount ias v =
     rbind (next_account_info ias) (\<lambda>(own, it).
     rbind (next_account_info it) (\<lambda>(vault_account, it).
     rbind (next_account_info it) (\<lambda>(config_account, it).
     rbind (next_account_info it) (\<lambda>(collateral_pool, it).
     rbind (next_account_info it) (\<lambda>(oracle_account, it).
     rbind (next_account_info it) (\<lambda>(system_program, it).
     if \<not> is_signer own then Inl MissingRequiredSignature
     else if amount = 0 then Inl (pusd_err InvalidAmount)
     else
     rbind (load_own_vault c program_id (key own) (key vault_account) v) (\<lambda>s.
     if collateral s < amount then Inl (pusd_err InsufficientCollateral)
     else
     rbind (clock_get e) (\<lambda>clk.
     rbind (accrue_fee e s (unix_timestamp clk)) (\<lambda>s.
     rbind (if 0 < total_debt s
            then
              rbind (read_oracle_price (key oracle_account) v) (\<lambda>prism_price.
              rbind (ovf (checked_sub (collateral s) amount)) (\<lambda>new_collateral.
              rbind (collateral_ratio_bps (s\<lparr>collateral := new_collateral\<rparr>) prism_price) (\<lambda>ratio.
              if ratio < MIN_COLLATERAL_RATIO_BPS then Inl (pusd_err WithdrawalWouldUndercollateralize)
              else Inr ())))
            else Inr ()) (\<lambda>_.
     let pool_balance = lamports (mem v (key collateral_pool)) in
     if pool_balance < amount then Inl (pusd_err InsufficientCollateral)
     else
     rbind (move_lamports (pusd_err Overflow) (key collateral_pool) pool_balance (key own) amount v) (\<lambda>v.
     rbind (ok_or (checked_sub (collateral s) amount) ProgramFailedToComplete) (\<lambda>n.
     rbind (store_account (vault_codec c) (s\<lparr>collateral := n\<rparr>) (key vault_account) v) (\<lambda>v.
     rbind (load_account (config_codec c) (key config_account) v) (\<lambda>cfg.
     store_account (config_codec c)
       (cfg\<lparr>total_collateral_locked := saturating_sub (total_collateral_locked cfg) amount\<rparr>)
       (key config_account) v))))))))))))))"

definition pusd_process_liquidate ::
  "env \<Rightarrow> pusd_codecs \<Rightarrow> pubkey \<Rightarrow> instruction_account list \<Rightarrow> vm \<Rightarrow> vm res" where
  "pusd_process_liquidate e c program_id ias v =
     rbind (next_account_info ias) (\<lambda>(liquidator, it).
     rbind (next_account_info it) (\<lambda>(vault_account, it).
     rbind (next_account_info it) (\<lambda>(config_account, it).
     rbind (next_account_info it) (\<lambda>(collateral_pool, it).
     rbind (next_account_info it) (\<lambda>(oracle_account, it).
     rbind (next_account_info it) (\<lambda>(liquidator_pusd, it).
     rbind (next_account_info it) (\<lambda>(pusd_mint_account, it).
     rbind (next_account_info it) (\<lambda>(token_program, it).
     rbind (next_account_info it) (\<lambda>(system_program, it).
     if \<not> is_signer liquidator then Inl MissingRequiredSignature
     else
     rbind (load_vault c program_id (key vault_account) v) (\<lambda>s.
     rbind (clock_get e) (\<lambda>clk.
     rbind (accrue_fee e s (unix_timestamp clk)) (\<lambda>s.
     rbind (read_oracle_price (key oracle_account) v) (\<lambda>prism_price.
     rbind (collateral_ratio_bps s prism_price) (\<lambda>ratio.
     if LIQUIDATION_THRESHOLD_BPS \<le> ratio then Inl (pusd_err NotLiquidatable)
     else
     rbind (usd_to_prism (total_debt s) prism_price) (\<lambda>debt_in_prism.
     rbind (ovf (checked_mul (u64_as_u128 debt_in_prism) (u64_as_u128 LIQUIDATION_PENALTY_BPS))) (\<lambda>x.
     rbind (ovf (checked_div x (u64_as_u128 BPS_DENOMINATOR))) (\<lambda>x.
     let penalty = u128_as_u64 x;
         total_seize = min (saturating_add debt_in_prism penalty) (collateral s);
         pool_balance = lamports (mem v (key collateral_pool));
         seize_amount = min total_seize pool_balance
     in
     rbind (move_lamports (pusd_err Overflow) (key collateral_pool) pool_balance (key liquidator) seize_amount v) (\<lambda>v.
     let remaining_collateral = saturating_sub (collateral s) seize_amount in
     rbind (load_account (config_codec c) (key config_account) v) (\<lambda>cfg.
     rbind (store_account (config_codec c)
              (cfg\<lparr>total_pusd_supply := saturating_sub (total_pusd_supply cfg) (total_debt s),
                   total_collateral_locked := saturating_sub (total_collateral_locked cfg) seize_amount\<rparr>)
              (key config_account) v) (\<lambda>v.
     store_account (vault_codec c) (s\<lparr>debt := 0, accrued_fee := 0, collateral := remaining_collateral\<rparr>)
       (key vault_account) v))))))))))))))))))))"

text \<open>As \<open>burn_debt\<close>, but a principal below the rest is set to zero.\<close>

definition redeem_debt :: "u64 \<Rightarrow> vault \<Rightarrow> vault res" where
  "redeem_debt amount s =
     (if amount \<le> accrued_fee s
      then rbind (ok_or (checked_sub (accrued_fee s) amount) ProgramFailedToComplete) (\<lambda>f.
           Inr (s\<lparr>accrued_fee := f\<rparr>))
      else rbind (ok_or (checked_sub amount (accrued_fee s)) ProgramFailedToComplete) (\<lambda>remaining.
           Inr (s\<lparr>accrued_fee := 0, debt := saturating_sub (debt s) remaining\<rparr>)))"

definition pusd_process_redeem ::
  "env \<Rightarrow> pusd_codecs \<Rightarrow> pubkey \<Rightarrow> u64 \<Rightarrow> instruction_account list \<Rightarrow> vm \<Rightarrow> vm res" where
  "pusd_process_redeem e c program_id pusd_amount ias v =
     rbind (next_account_info ias) (\<lambda>(redeemer, it).
     rbind (next_account_info it) (\<lambda>(vault_account, it).
     rbind (next_account_info it) (\<lambda>(config_account, it).
     rbind (next_account_info it) (\<lambda>(collateral_pool, it).
     rbind (next_account_info it) (\<lambda>(oracle_account, it).
     rbind (next_account_info it) (\<lambda>(redeemer_pusd, it).
     rbind (next_account_info it) (\<lambda>(pusd_mint_account, it).
     rbind (next_account_info it) (\<lambda>(token_program, it).
     rbind (next_account_info it) (\<lambda>(system_program, it).
     if \<not> is_signer redeemer then Inl MissingRequiredSignature
     else if pusd_amount = 0 then Inl (pusd_err InvalidAmount)
     else
     rbind (load_vault c program_id (key vault_account) v) (\<lambda>s.
     rbind (clock_get e) (\<lambda>clk.
     rbind (accrue_fee e s (unix_timestamp clk)) (\<lambda>s.
     if total_debt s < pusd_amount then Inl (pusd_err BurnExceedsDebt)
     else
     rbind (read_oracle_price (key oracle_account) v) (\<lambda>prism_price.
     rbind (usd_to_prism pusd_amount prism_price) (\<lambda>prism_to_return.
     if collateral s < prism_to_return then Inl (pusd_err RedemptionExceedsCollateral)
     else
     let pool_balance = lamports (mem v (key collateral_pool)) in
     if pool_balance < prism_to_return then Inl (pusd_err RedemptionExceedsCollateral)
     else
     rbind (move_lamports (pusd_err Overflow) (key collateral_pool) pool_balance (key redeemer) prism_to_return v) (\<lambda>v.
     rbind (redeem_debt pusd_amount s) (\<lambda>s.
     rbind (store_account (vault_codec c)
              (s\<lparr>collateral := saturating_sub (collateral s) prism_to_return\<rparr>) (key vault_account) v) (\<lambda>v.
     rbind (load_account (config_codec c) (key config_account) v) (\<lambda>cfg.
     store_account (config_codec c)
       (cfg\<lparr>total_pusd_supply := saturating_sub (total_pusd_supply cfg) pusd_amount,
            total_collateral_locked := saturating_sub (total_collateral_locked cfg) prism_to_return\<rparr>)
       (key config_account) v))))))))))))))))))"

definition pusd_process_instruction :: "env \<Rightarrow> pusd_codecs \<Rightarrow> pubkey \<Rightarrow> bytes \<Rightarrow> program" where
  "pusd_process_instruction e c program_id instruction_data ias v =
     rbind (ok_or (try_from_slice (pusd_instruction_codec c) instruction_data) InvalidInstructionData) (\<lambda>ix.
     case ix of
       Initialize feed mint \<Rightarrow> pusd_process_initialize e c program_id feed mint ias v
     | OpenVault amount n \<Rightarrow> pusd_process_open_vault e c program_id amount n ias v
     | DepositCollateral amount \<Rightarrow> pusd_process_deposit_collateral e c program_id amount ias v
     | MintPusd amount \<Rightarrow> pusd_process_mint_pusd e c program_id amount ias v
     | BurnPusd amount \<Rightarrow> pusd_process_burn_pusd e c program_id amount ias v
     | WithdrawCollateral amount \<Rightarrow> pusd_process_withdraw_collateral e c program_id amount ias v
     | Liquidate \<Rightarrow> pusd_process_liquidate e c program_id ias v
     | Redeem amount \<Rightarrow> pusd_process_redeem e c program_id amount ias v)"

section \<open>Layouts\<close>

definition config_layout :: "pusd_config layout" where
  "config_layout =
     iso_layout
       (\<lambda>(i, a, f, m, ts, tc, tv, tf, ac, b).
          \<lparr>config_is_initialized = i, admin = a, oracle_feed = f, pusd_mint = m, total_pusd_supply = ts,
           total_collateral_locked = tc, total_vaults = tv, total_fees_collected = tf, is_active = ac, config_bump = b\<rparr>)
       (\<lambda>c. (config_is_initialized c, admin c, oracle_feed c, pusd_mint c, total_pusd_supply c,
             total_collateral_locked c, total_vaults c, total_fees_collected c, is_active c, config_bump c))
       (pair_layout bool_layout (pair_layout word_layout (pair_layout word_layout (pair_layout word_layout
       (pair_layout word_layout (pair_layout word_layout (pair_layout word_layout (pair_layout word_layout
       (pair_layout bool_layout word_layout)))))))))"

definition vault_layout :: "vault layout" where
  "vault_layout =
     iso_layout
       (\<lambda>(i, ow, col, d, af, lf, ca, b, n).
          \<lparr>vault_is_initialized = i, vault_owner = ow, collateral = col, debt = d, accrued_fee = af,
           last_fee_update = lf, created_at = ca, vault_bump = b, nonce = n\<rparr>)
       (\<lambda>s. (vault_is_initialized s, vault_owner s, collateral s, debt s, accrued_fee s,
             last_fee_update s, created_at s, vault_bump s, nonce s))
       (pair_layout bool_layout (pair_layout word_layout (pair_layout word_layout (pair_layout word_layout
       (pair_layout word_layout (pair_layout word_layout (pair_layout word_layout (pair_layout word_layout
       word_layout))))))))"

lemma wf_config_layout: "wf_layout PusdConfig_SPACE config_layout"
  unfolding config_layout_def by (rule wf_layout_eq, (rule wf_layouts)+) (simp_all add: PusdConfig_SPACE_def)

lemma wf_vault_layout: "wf_layout Vault_SPACE vault_layout"
  unfolding vault_layout_def by (rule wf_layout_eq, (rule wf_layouts)+) (simp_all add: Vault_SPACE_def)

interpretation config_borsh: borsh_struct "of_layout config_layout" PusdConfig_SPACE
  by (rule borsh_struct_of_layout [OF wf_config_layout])

interpretation vault_borsh: borsh_struct "of_layout vault_layout" Vault_SPACE
  by (rule borsh_struct_of_layout [OF wf_vault_layout])

lemmas pusd_io [simp] = of_layout_io [OF wf_config_layout] of_layout_io [OF wf_vault_layout]

section \<open>Effects\<close>

lemmas pusd_handler_defs = pusd_process_initialize_def pusd_process_open_vault_def
  pusd_process_deposit_collateral_def pusd_process_mint_pusd_def pusd_process_burn_pusd_def
  pusd_process_withdraw_collateral_def pusd_process_liquidate_def pusd_process_redeem_def

context chain
begin

lemma pusd_keeps: "keeps v (pusd_process_instruction e c pid d ias v)"
  unfolding pusd_process_instruction_def
proof (rule keeps_bind)
  fix ix
  show "keeps v (case ix of
       Initialize feed mint \<Rightarrow> pusd_process_initialize e c pid feed mint ias v
     | OpenVault amount n \<Rightarrow> pusd_process_open_vault e c pid amount n ias v
     | DepositCollateral amount \<Rightarrow> pusd_process_deposit_collateral e c pid amount ias v
     | MintPusd amount \<Rightarrow> pusd_process_mint_pusd e c pid amount ias v
     | BurnPusd amount \<Rightarrow> pusd_process_burn_pusd e c pid amount ias v
     | WithdrawCollateral amount \<Rightarrow> pusd_process_withdraw_collateral e c pid amount ias v
     | Liquidate \<Rightarrow> pusd_process_liquidate e c pid ias v
     | Redeem amount \<Rightarrow> pusd_process_redeem e c pid amount ias v)"
    by (cases ix; simp only: pusd_instruction.case pusd_handler_defs;
        intro keeps_intros keeps_invoke)
qed

end

sublocale chain \<subseteq> pusd: onchain_program "pusd_process_instruction e c pid d" for c pid d
  by unfold_locales (metis keepsD pusd_keeps)

section \<open>Account contents\<close>

text \<open>
  The program's two kinds of records, as the codecs store them. The rest of the theory only uses what
  the interface promises.
\<close>

locale pusd_accounts = account_pair "vault_codec c" Vault_SPACE "config_codec c" PusdConfig_SPACE
  for c :: pusd_codecs

definition pusd_layouts :: "pusd_instruction \<Rightarrow> pusd_codecs" where
  "pusd_layouts ix =
     \<lparr>config_codec = of_layout config_layout, vault_codec = of_layout vault_layout,
      pusd_instruction_codec = \<lparr>try_from_slice = (\<lambda>_. Some ix), to_vec = (\<lambda>_. [])\<rparr>\<rparr>"

interpretation pusd_layouts: pusd_accounts "pusd_layouts ix" for ix
  by (simp add: pusd_accounts_def account_pair_def account_pair_axioms_def pusd_layouts_def
      vault_borsh.borsh_struct_axioms config_borsh.borsh_struct_axioms) (simp add: Vault_SPACE_def PusdConfig_SPACE_def)

lemma load_vault_eq_Inr [rust_simps]:
  "load_vault c pid k v = Inr s \<longleftrightarrow>
     owner (mem v k) = pid \<and> load (vault_codec c) (data (mem v k)) = Inr s \<and> vault_is_initialized s"
  by (auto simp: load_vault_def load_account_def rust_simps)

lemma load_own_vault_eq_Inr [rust_simps]:
  "load_own_vault c pid own k v = Inr s \<longleftrightarrow> load_vault c pid k v = Inr s \<and> vault_owner s = own"
  by (auto simp: load_own_vault_def rust_simps)

text \<open>Accruing the fee touches nothing but the fee and its date.\<close>

lemma accrue_fee_fields:
  assumes "accrue_fee e s now = Inr s'"
  shows "collateral s' = collateral s" and "debt s' = debt s" and "vault_owner s' = vault_owner s"
    and "vault_is_initialized s' = vault_is_initialized s"
  using assms by (auto simp: accrue_fee_def Let_def split: if_splits)

lemma burn_debt_fields:
  assumes "burn_debt n s = Inr s'"
  shows "collateral s' = collateral s" and "unat (debt s') + unat (accrued_fee s') + unat n = unat (debt s) + unat (accrued_fee s)"
  using assms by (auto simp: burn_debt_def rust_simps word_le_nat_alt split: if_splits)

lemma redeem_debt_fields: "redeem_debt n s = Inr s' \<Longrightarrow> collateral s' = collateral s"
  by (auto simp: redeem_debt_def rust_simps split: if_splits)

section \<open>The collateral ratio\<close>

text \<open>
  What the documentation of \<open>collateral_ratio_bps\<close> states: both sides in the same unit, the debt scaled by
  \<open>10 ^ 11\<close> (as \<open>usd_to_prism\<close> does).
\<close>

definition true_ratio_bps :: "vault \<Rightarrow> u64 \<Rightarrow> nat" where
  "true_ratio_bps s price = unat (collateral s) * unat price * 10000 div (unat (total_debt s) * 10 ^ 11)"

lemma total_debt_pos: "debt s \<noteq> 0 \<Longrightarrow> 0 < unat (total_debt s)"
  using unat_saturating_add_ge [of "debt s" "accrued_fee s"] by (simp add: total_debt_def unat_gt_0 [symmetric] less_le_trans)

lemma collateral_ratio_eq:
  assumes "debt s \<noteq> 0" and "unat (collateral s) * unat price * 10000 < 2 ^ 128"
  shows "\<exists>r. collateral_ratio_bps s price = Inr r \<and>
    unat r = unat (collateral s) * unat price * 10000 div (unat (total_debt s) * 10 ^ 9) mod 2 ^ 64"
proof -
  let ?c = "u64_as_u128 (collateral s)" and ?p = "u64_as_u128 price" and ?d = "u64_as_u128 (total_debt s)"
  have c: "unat ?c * unat ?p < 2 ^ 128"
    using assms(2) by (rule le_less_trans [rotated]) simp
  have cb: "unat (?c * ?p) * unat (u64_as_u128 BPS_DENOMINATOR) < 2 ^ 128"
    using assms(2) by (simp add: u128_mult_fits(2) [OF c] BPS_DENOMINATOR_def)
  have d: "unat ?d * unat (1000000000 :: u128) < 2 ^ 128"
    using unat_u64_bound [of "total_debt s"] by simp
  have "unat (?d * 1000000000) \<noteq> 0" using total_debt_pos [OF assms(1)] u128_mult_fits(2) [OF d] by simp
  then have "?d * 1000000000 \<noteq> 0" by (metis unat_0)
  then show ?thesis
    using assms(1) c cb d
    by (simp add: collateral_ratio_bps_def u128_mult_fits checked_div_def unat_u128_as_u64 unat_div BPS_DENOMINATOR_def)
qed

section \<open>Backing\<close>

text \<open>The lamports of a vault's pool cover the collateral the vault records.\<close>

definition backed :: "pusd_codecs \<Rightarrow> pubkey \<Rightarrow> pubkey \<Rightarrow> (pubkey \<Rightarrow> account) \<Rightarrow> bool" where
  "backed c va pool m \<longleftrightarrow>
     (\<exists>s. load (vault_codec c) (data (m va)) = Inr s \<and> unat (collateral s) \<le> unat (lamports (m pool)))"

text \<open>The position of the vault among the accounts of an instruction.\<close>

fun vault_index :: "pusd_instruction \<Rightarrow> nat" where
  "vault_index (OpenVault _ _) = 2"
| "vault_index _ = 1"

text \<open>A payment out of the pool, or out of another account given in its place.\<close>

lemma pool_after_pay:
  assumes "payable q j n m" and "unat x \<le> unat (lamports (m k))" and "unat y + unat n = unat x"
  shows "unat y \<le> unat (lamports (pay q j n m k))"
proof (cases "q = k")
  case True
  then show ?thesis
    using assms by (cases "j = k") (auto simp: payable_def pay_def credit_def debit_def unat_sub word_le_nat_alt unat_word_ariths)
next
  case False
  then show ?thesis
    using assms by (cases "j = k") (auto simp: payable_def pay_def credit_def debit_def unat_word_ariths)
qed

context pusd_accounts
begin

lemma open_vault_backed:
  assumes run: "pusd_process_open_vault e c pid amount n ias v = Inr v'"
  shows "backed c (key (ias ! 2)) (key (ias ! 3)) (mem v')"
proof -
  from run obtain own ca va cp sys rest where ias: "ias = own # ca # va # cp # sys # rest"
    by (auto simp: pusd_process_open_vault_def rust_simps)
  obtain pda b where pda: "find_program_address e [VAULT_SEED, to_le_bytes (key own), to_le_bytes n] pid = (pda, b)"
    by fastforce
  obtain pda' b' where pda': "find_program_address e [COLLATERAL_SEED, to_le_bytes (key va)] pid = (pda', b')" by fastforce
  from run [unfolded pusd_process_open_vault_def ias] pda pda' obtain cfg and clk :: clock and mb u w x cfg' where
    amount: "amount \<noteq> 0" and cfg: "load (config_codec c) (data (mem v (key ca))) = Inr cfg"
    and u: "cpi_common e pid ias (system_create_account (key own) (key va) (mb Vault_SPACE) (word_of_nat Vault_SPACE) pid)
      (map key [own, va, sys]) [[VAULT_SEED, to_le_bytes (key own), to_le_bytes n, [b]]] v = Inr u"
    and w: "cpi_common e pid ias (system_create_account (key own) (key cp) amount 0 pid)
      (map key [own, cp, sys]) [[COLLATERAL_SEED, to_le_bytes (key va), [b']]] u = Inr w"
    and x: "store_account (vault_codec c) (new_vault (key own) amount clk b n) (key va) w = Inr x"
    and v': "store_account (config_codec c) cfg' (key ca) x = Inr v'"
    by (auto simp: rbind_eq_Inr if_Inl_eq_Inr load_account_def ias)
  note cu = invoke_create_account_effect [OF u] and cw = invoke_create_account_effect [OF w]
  have ne: "key cp \<noteq> key va"
    using arg_cong [OF cw(3), of data] by (auto simp: cu(1) fresh_account_def Vault_SPACE_def)
  have lva: "length (data (mem w (key va))) = Vault_SPACE"
    using ne by (simp add: cw(1) cu(1) fresh_account_def Vault_SPACE_def)
  have own: "key own \<noteq> key cp"
    using cw(2) amount by (auto simp: payable_def fresh_account_def unat_eq_zero)
  have "key ca \<noteq> key va" using cu(3) snd.load_length [OF cfg] by (auto simp: PusdConfig_SPACE_def)
  moreover have "load (vault_codec c) (data (mem x (key va))) = Inr (new_vault (key own) amount clk b n)"
    by (rule store_fst(1) [OF lva x])
  ultimately have "load (vault_codec c) (data (mem v' (key va))) = Inr (new_vault (key own) amount clk b n)"
    using v' by (auto simp: store_account_eq_Inr)
  moreover have "lamports (mem v' (key cp)) = lamports (mem w (key cp))"
    using x v' by (auto simp: store_account_eq_Inr)
  moreover have "lamports (mem w (key cp)) = amount"
    using own by (simp add: cw(1) pay_def credit_def debit_def fresh_account_def)
  ultimately show ?thesis by (simp add: backed_def ias new_vault_def)
qed

lemma deposit_collateral_backed:
  assumes run: "pusd_process_deposit_collateral e c pid amount ias v = Inr v'"
    and b: "backed c (key (ias ! 1)) pool (mem v)" and pool: "owner (mem v pool) \<noteq> system_program_id"
  shows "pool = key (ias ! 2) \<Longrightarrow> backed c (key (ias ! 1)) pool (mem v')"
    and "pool \<noteq> key (ias ! 2) \<Longrightarrow> amount \<noteq> 0 \<and> lamports (mem v' pool) = lamports (mem v pool) \<and>
      (\<exists>s s'. load (vault_codec c) (data (mem v (key (ias ! 1)))) = Inr s \<and>
        load (vault_codec c) (data (mem v' (key (ias ! 1)))) = Inr s' \<and>
        unat (collateral s') = unat (collateral s) + unat amount)"
proof -
  from run obtain own va cp ca sys rest where ias: "ias = own # va # cp # ca # sys # rest"
    by (auto simp: pusd_process_deposit_collateral_def rust_simps)
  from run [unfolded pusd_process_deposit_collateral_def ias] obtain s u n w cfg cfg' where
    amount: "amount \<noteq> 0" and s: "load (vault_codec c) (data (mem v (key va))) = Inr s"
    and u: "cpi_common e pid ias (system_transfer (key own) (key cp) amount) (map key [own, cp, sys]) [] v = Inr u"
    and n: "checked_add (collateral s) amount = Some n"
    and w: "store_account (vault_codec c) (s\<lparr>collateral := n\<rparr>) (key va) u = Inr w"
    and cfg: "load (config_codec c) (data (mem w (key ca))) = Inr cfg"
    and v': "store_account (config_codec c) cfg' (key ca) w = Inr v'"
    by (auto simp: rbind_eq_Inr if_Inl_eq_Inr ok_or_eq_Inr load_account_def load_own_vault_eq_Inr load_vault_eq_Inr ias)
  note t = invoke_transfer_effect [OF u]
  have ne: "key own \<noteq> pool" using t(4) amount pool by auto
  have "length (data (mem u (key va))) = Vault_SPACE" using fst.load_length [OF s] by (simp add: t(1))
  note st = store_two [OF this w snd.load_length [OF cfg] v']
  show "backed c (key (ias ! 1)) pool (mem v')" if cp: "pool = key (ias ! 2)"
  proof -
    have "unat (collateral s) \<le> unat (lamports (mem v pool))" using b s by (auto simp: backed_def ias)
    then have "unat n \<le> unat (lamports (mem u pool))"
      using t(2) n ne cp by (auto simp: ias t(1) payable_def pay_def credit_def debit_def rust_simps unat_word_ariths)
    with st(1,5) show ?thesis by (auto simp: backed_def ias)
  qed
  show "amount \<noteq> 0 \<and> lamports (mem v' pool) = lamports (mem v pool) \<and>
      (\<exists>s s'. load (vault_codec c) (data (mem v (key (ias ! 1)))) = Inr s \<and>
        load (vault_codec c) (data (mem v' (key (ias ! 1)))) = Inr s' \<and>
        unat (collateral s') = unat (collateral s) + unat amount)" if cp: "pool \<noteq> key (ias ! 2)"
    using amount s n st(1,5) ne cp by (auto simp: ias t(1) pay_def credit_def debit_def rust_simps)
qed

text \<open>The instructions that pay collateral out of the pool.\<close>

lemma paid_out_backed:
  assumes b: "backed c va pool (mem v)" and s: "load (vault_codec c) (data (mem v va)) = Inr s"
    and p: "payable q j n (mem v)" and n: "unat (collateral s') + unat n = unat (collateral s)"
    and l: "load (vault_codec c) (data (mem v' va)) = Inr s'" and m: "\<And>i. lamports (mem v' i) = lamports (pay q j n (mem v) i)"
  shows "backed c va pool (mem v')"
  using assms pool_after_pay [OF p _ n] by (auto simp: backed_def)

lemma withdraw_collateral_backed:
  assumes run: "pusd_process_withdraw_collateral e c pid amount ias v = Inr v'"
    and b: "backed c (key (ias ! 1)) pool (mem v)"
  shows "backed c (key (ias ! 1)) pool (mem v')"
proof -
  from run obtain own va ca cp oc sys rest where ias: "ias = own # va # ca # cp # oc # sys # rest"
    by (auto simp: pusd_process_withdraw_collateral_def rust_simps)
  from run [unfolded pusd_process_withdraw_collateral_def ias] obtain s and clk :: clock and s1 u n w cfg cfg' where
    s: "load (vault_codec c) (data (mem v (key va))) = Inr s" and s1: "accrue_fee e s (unix_timestamp clk) = Inr s1"
    and u: "move_lamports (pusd_err Overflow) (key cp) (lamports (mem v (key cp))) (key own) amount v = Inr u"
    and n: "checked_sub (collateral s1) amount = Some n"
    and w: "store_account (vault_codec c) (s1\<lparr>collateral := n\<rparr>) (key va) u = Inr w"
    and cfg: "load (config_codec c) (data (mem w (key ca))) = Inr cfg"
    and v': "store_account (config_codec c) cfg' (key ca) w = Inr v'"
    by (auto simp: rbind_eq_Inr if_Inl_eq_Inr ok_or_eq_Inr load_account_def load_own_vault_eq_Inr load_vault_eq_Inr Let_def)
  note t = move_lamports_effect [OF u]
  have "length (data (mem u (key va))) = Vault_SPACE" using fst.load_length [OF s] by (simp add: t(1))
  note st = store_two [OF this w snd.load_length [OF cfg] v']
  show ?thesis
    using b paid_out_backed [OF _ s t(2) _ st(1)] n st(5)
    by (auto simp: ias t(1) rust_simps accrue_fee_fields [OF s1])
qed

lemma redeem_backed:
  assumes run: "pusd_process_redeem e c pid amount ias v = Inr v'"
    and b: "backed c (key (ias ! 1)) pool (mem v)"
  shows "backed c (key (ias ! 1)) pool (mem v')"
proof -
  from run obtain red va ca cp oc rp mi tp sys rest where ias: "ias = red # va # ca # cp # oc # rp # mi # tp # sys # rest"
    by (auto simp: pusd_process_redeem_def rust_simps)
  from run [unfolded pusd_process_redeem_def ias] obtain s and clk :: clock and s1 n u s2 w cfg cfg' where
    s: "load (vault_codec c) (data (mem v (key va))) = Inr s" and s1: "accrue_fee e s (unix_timestamp clk) = Inr s1"
    and n: "\<not> collateral s1 < n" and s2: "redeem_debt amount s1 = Inr s2"
    and u: "move_lamports (pusd_err Overflow) (key cp) (lamports (mem v (key cp))) (key red) n v = Inr u"
    and w: "store_account (vault_codec c) (s2\<lparr>collateral := saturating_sub (collateral s2) n\<rparr>) (key va) u = Inr w"
    and cfg: "load (config_codec c) (data (mem w (key ca))) = Inr cfg"
    and v': "store_account (config_codec c) cfg' (key ca) w = Inr v'"
    by (auto simp: rbind_eq_Inr if_Inl_eq_Inr ok_or_eq_Inr load_account_def load_vault_eq_Inr Let_def)
  note t = move_lamports_effect [OF u]
  have "length (data (mem u (key va))) = Vault_SPACE" using fst.load_length [OF s] by (simp add: t(1))
  note st = store_two [OF this w snd.load_length [OF cfg] v']
  show ?thesis
    using b paid_out_backed [OF _ s t(2) _ st(1)] n st(5)
    by (auto simp: ias t(1) word_less_nat_alt accrue_fee_fields [OF s1] redeem_debt_fields [OF s2])
qed

lemma liquidate_backed:
  assumes run: "pusd_process_liquidate e c pid ias v = Inr v'"
    and b: "backed c (key (ias ! 1)) pool (mem v)"
  shows "backed c (key (ias ! 1)) pool (mem v')"
proof -
  from run obtain liq va ca cp oc lp mi tp sys rest where ias: "ias = liq # va # ca # cp # oc # lp # mi # tp # sys # rest"
    by (auto simp: pusd_process_liquidate_def rust_simps)
  from run [unfolded pusd_process_liquidate_def ias] obtain s and clk :: clock and s1 and a n u cfg cfg' w where
    s: "load (vault_codec c) (data (mem v (key va))) = Inr s" and s1: "accrue_fee e s (unix_timestamp clk) = Inr s1"
    and n: "n = min (min a (collateral s1)) (lamports (mem v (key cp)))"
    and u: "move_lamports (pusd_err Overflow) (key cp) (lamports (mem v (key cp))) (key liq) n v = Inr u"
    and cfg: "load (config_codec c) (data (mem u (key ca))) = Inr cfg"
    and w: "store_account (config_codec c) cfg' (key ca) u = Inr w"
    and v': "store_account (vault_codec c) (s1\<lparr>debt := 0, accrued_fee := 0, collateral := saturating_sub (collateral s1) n\<rparr>)
      (key va) w = Inr v'"
    by (auto simp: rbind_eq_Inr if_Inl_eq_Inr ok_or_eq_Inr load_account_def load_vault_eq_Inr Let_def)
  note t = move_lamports_effect [OF u]
  have s': "load (vault_codec c) (data (mem u (key va))) = Inr s" using s by (simp add: t(1))
  have "data (mem w (key va)) = data (mem u (key va))"
    using w accounts_apart [where m = "mem u", OF s' cfg] by (auto simp: store_account_eq_Inr)
  then have "length (data (mem w (key va))) = Vault_SPACE" using fst.load_length [OF s'] by simp
  note st = account_pair.store_two [OF swapped snd.load_length [OF cfg] w this v']
  show ?thesis
    using b paid_out_backed [OF _ s t(2) _ st(2)] st(5)
    by (auto simp: ias t(1) n accrue_fee_fields [OF s1])
qed

text \<open>Minting and burning leave the collateral and every balance alone.\<close>

lemma books_backed:
  assumes "backed c va pool (mem v)" and s: "load (vault_codec c) (data (mem v va)) = Inr s" and "collateral s' = collateral s"
    and w: "store_account (vault_codec c) s' va v = Inr w"
    and cfg: "load (config_codec c) (data (mem w ca)) = Inr cfg" and v': "store_account (config_codec c) cfg' ca w = Inr v'"
  shows "backed c va pool (mem v')"
  using assms(1,3) s store_two(1,5) [OF fst.load_length [OF s] w snd.load_length [OF cfg] v'] by (auto simp: backed_def)

lemma mint_burn_backed:
  assumes run: "pusd_process_mint_pusd e c pid amount ias v = Inr v' \<or> pusd_process_burn_pusd e c pid amount ias v = Inr v'"
    and b: "backed c (key (ias ! 1)) pool (mem v)"
  shows "backed c (key (ias ! 1)) pool (mem v')"
  using run
proof
  assume run: "pusd_process_mint_pusd e c pid amount ias v = Inr v'"
  then obtain own va ca rest where ias: "ias = own # va # ca # rest"
    by (auto simp: pusd_process_mint_pusd_def rust_simps)
  from run [unfolded pusd_process_mint_pusd_def ias] obtain s and clk :: clock and s1 d w cfg cfg' where
    s: "load (vault_codec c) (data (mem v (key va))) = Inr s" and s1: "accrue_fee e s (unix_timestamp clk) = Inr s1"
    and w: "store_account (vault_codec c) (s1\<lparr>debt := d\<rparr>) (key va) v = Inr w"
    and cfg: "load (config_codec c) (data (mem w (key ca))) = Inr cfg"
    and v': "store_account (config_codec c) cfg' (key ca) w = Inr v'"
    by (auto simp: rbind_eq_Inr if_Inl_eq_Inr ok_or_eq_Inr load_account_def load_own_vault_eq_Inr load_vault_eq_Inr
        next_account_info_eq_Inr)
  show ?thesis using books_backed [OF _ s _ w cfg v'] b by (simp add: ias accrue_fee_fields [OF s1])
next
  assume run: "pusd_process_burn_pusd e c pid amount ias v = Inr v'"
  then obtain own va ca rest where ias: "ias = own # va # ca # rest"
    by (auto simp: pusd_process_burn_pusd_def rust_simps)
  from run [unfolded pusd_process_burn_pusd_def ias] obtain s and clk :: clock and s1 s2 w cfg cfg' where
    s: "load (vault_codec c) (data (mem v (key va))) = Inr s" and s1: "accrue_fee e s (unix_timestamp clk) = Inr s1"
    and s2: "burn_debt amount s1 = Inr s2" and w: "store_account (vault_codec c) s2 (key va) v = Inr w"
    and cfg: "load (config_codec c) (data (mem w (key ca))) = Inr cfg"
    and v': "store_account (config_codec c) cfg' (key ca) w = Inr v'"
    by (auto simp: rbind_eq_Inr if_Inl_eq_Inr ok_or_eq_Inr load_account_def load_own_vault_eq_Inr load_vault_eq_Inr
        next_account_info_eq_Inr)
  show ?thesis
    using books_backed [OF _ s _ w cfg v'] b by (simp add: ias accrue_fee_fields [OF s1] burn_debt_fields [OF s2])
qed

end

section \<open>Properties\<close>

definition pusd_chain :: env where
  "pusd_chain = native_env (\<lambda>_ _. (2, 255)) (\<lambda>_. 10) \<lparr>slot = 7, epoch = 1, unix_timestamp = 1000\<rparr> (\<lambda>b. b)"

definition sample_vault :: vault where
  "sample_vault = new_vault 1 1000000000 \<lparr>slot = 0, epoch = 0, unix_timestamp = 1000\<rparr> 255 0"

text \<open>
  One token of collateral at a price of ten dollars: vault 2, configuration 3, pool 4, price feed 5.
\<close>

definition pusd_vm :: "vault \<Rightarrow> vm" where
  "pusd_vm s =
     enter_vm (tx_of [1, 2, 3, 4, 5, 0]
       (\<lambda>k. if k = 2 then \<lparr>lamports = 10, data = put vault_layout s, owner = 99\<rparr>
            else if k = 3 then \<lparr>lamports = 10, data = put config_layout (initial_config 1 5 6 255), owner = 99\<rparr>
            else if k = 4 then \<lparr>lamports = 1000000000, data = [], owner = 99\<rparr>
            else if k = 5 then \<lparr>lamports = 10, data = to_le_bytes (1000000000 :: u64), owner = 98\<rparr>
            else wallet 50))"

abbreviation ref :: "pubkey \<Rightarrow> instruction_account" where
  "ref k \<equiv> account_ref k False True"

lemma pusd_vm_load [simp]:
  "load (vault_codec (pusd_layouts ix)) (data (mem (pusd_vm s) 2)) = Inr s"
  "load (config_codec (pusd_layouts ix)) (data (mem (pusd_vm s) 3)) = Inr (initial_config 1 5 6 255)"
  by (simp_all add: pusd_vm_def pusd_layouts_def tx_of_def)

lemma read_sample_price [simp]: "data (mem v 5) = to_le_bytes (1000000000 :: u64) \<Longrightarrow> read_oracle_price 5 v = Inr 1000000000"
  by (simp add: read_oracle_price_def to_le_bytes_inverse)

lemmas pusd_eval = pusd_layouts_def pusd_chain_def pusd_vm_def load_own_vault_def load_vault_def accrue_fee_def
  sample_vault_def new_vault_def initial_config_def collateral_ratio_bps_def total_debt_def saturating_add_def
  checked_add_def checked_mul_def checked_div_def u64_as_u128_def u128_as_u64_def BPS_DENOMINATOR_def
  MIN_COLLATERAL_RATIO_BPS_def MIN_DEBT_def

text \<open>
  C27. The collateral ratio is overstated a hundredfold. Whenever the computation does not overflow,
  \<open>collateral_ratio_bps\<close> returns, up to rounding, one hundred times the ratio it documents: the debt is scaled
  by \<open>10 ^ 9\<close> instead of \<open>10 ^ 11\<close>. The minimum of 150 per cent that \<open>MintPusd\<close> checks is a minimum of 1.5
  per cent.
\<close>

theorem collateral_ratio_overstated:
  assumes "debt s \<noteq> 0" and "unat (collateral s) * unat price * 10000 < 2 ^ 128"
    and "unat (collateral s) * unat price * 10000 div (unat (total_debt s) * 10 ^ 9) < 2 ^ 64"
  shows "\<exists>r. collateral_ratio_bps s price = Inr r \<and> unat r div 100 = true_ratio_bps s price"
proof -
  obtain r where r: "collateral_ratio_bps s price = Inr r"
    "unat r = unat (collateral s) * unat price * 10000 div (unat (total_debt s) * 10 ^ 9)"
    using collateral_ratio_eq [OF assms(1,2)] assms(3) by auto
  have "unat r div 100 = unat (collateral s) * unat price * 10000 div (unat (total_debt s) * 10 ^ 9 * 100)"
    unfolding r(2) by (simp only: div_mult2_eq)
  then show ?thesis using r(1) by (simp add: true_ratio_bps_def mult.assoc)
qed

theorem collateral_ratio_overstated_witness:
  "\<exists>r v'. collateral_ratio_bps (sample_vault\<lparr>debt := 500000000\<rparr>) 1000000000 = Inr r \<and> unat r div 100 = 200 \<and>
     true_ratio_bps (sample_vault\<lparr>debt := 500000000\<rparr>) 1000000000 = 200 \<and>
     pusd_process_mint_pusd pusd_chain (pusd_layouts Liquidate) 99 500000000
       [account_ref 1 True True, ref 2, ref 3, ref 5, ref 6, ref 6, ref 6, ref 6] (pusd_vm sample_vault) = Inr v'"
proof -
  let ?s = "sample_vault\<lparr>debt := 500000000\<rparr>"
  have debt: "total_debt ?s = 500000000" "debt ?s \<noteq> 0" "collateral ?s = 1000000000"
    by (simp_all add: total_debt_def saturating_add_def sample_vault_def new_vault_def)
  have ratio: "true_ratio_bps ?s 1000000000 = 200" by (simp add: true_ratio_bps_def debt)
  obtain v' where "pusd_process_mint_pusd pusd_chain (pusd_layouts Liquidate) 99 500000000
       [account_ref 1 True True, ref 2, ref 3, ref 5, ref 6, ref 6, ref 6, ref 6] (pusd_vm sample_vault) = Inr v'"
    by (simp add: pusd_process_mint_pusd_def pusd_eval runtime_eval cpi_eval)
  then show ?thesis
    using collateral_ratio_overstated [OF debt(2), of 1000000000] ratio by (auto simp: debt)
qed

text \<open>
  C28. A vault is backed by its pool. Opening a vault creates a pool that holds the recorded collateral, and
  whatever instruction then succeeds on the vault, at least the recorded collateral stays in the pool:
  withdrawals, liquidations and redemptions lower the record by what they pay, out of the pool or out of
  another account given in its place, minting and burning touch neither, and a deposit into the pool raises
  both. The one exception is a deposit given another account than the pool, which the code does not
  refuse: it raises the record by the amount and leaves the pool as it was. An instruction on another
  vault can be given this pool as well; the statement is on the instructions on the vault itself.
\<close>

theorem vault_stays_backed:
  assumes "pusd_accounts c" and "try_from_slice (pusd_instruction_codec c) d = Some ix"
    and "pusd_process_instruction e c pid d ias v = Inr v'" and "\<And>feed mint. ix \<noteq> Initialize feed mint"
    and "va = key (ias ! vault_index ix)"
    and "case ix of OpenVault _ _ \<Rightarrow> pool = key (ias ! 3)
         | _ \<Rightarrow> backed c va pool (mem v) \<and> owner (mem v pool) \<noteq> system_program_id"
  shows "case ix of
      DepositCollateral amount \<Rightarrow>
        if pool = key (ias ! 2) then backed c va pool (mem v')
        else amount \<noteq> 0 \<and> lamports (mem v' pool) = lamports (mem v pool) \<and>
          (\<exists>s s'. load (vault_codec c) (data (mem v va)) = Inr s \<and> load (vault_codec c) (data (mem v' va)) = Inr s' \<and>
             unat (collateral s') = unat (collateral s) + unat amount)
    | _ \<Rightarrow> backed c va pool (mem v')"
proof (cases ix)
  case (Initialize feed mint)
  then show ?thesis using assms(4) by blast
next
  case (OpenVault amount n)
  then show ?thesis
    using pusd_accounts.open_vault_backed [OF assms(1)] assms(2,3,5,6) by (simp add: pusd_process_instruction_def)
next
  case (DepositCollateral amount)
  then have "pusd_process_deposit_collateral e c pid amount ias v = Inr v'" "backed c (key (ias ! 1)) pool (mem v)"
    "owner (mem v pool) \<noteq> system_program_id"
    using assms(2,3,5,6) by (simp_all add: pusd_process_instruction_def)
  note deposit = pusd_accounts.deposit_collateral_backed [OF assms(1) this]
  show ?thesis using deposit assms(5) DepositCollateral by (cases "pool = key (ias ! 2)") simp_all
next
  case (MintPusd amount)
  then show ?thesis
    using pusd_accounts.mint_burn_backed [OF assms(1), of e pid amount ias v v' pool] assms(2,3,5,6) by (simp add: pusd_process_instruction_def)
next
  case (BurnPusd amount)
  then show ?thesis
    using pusd_accounts.mint_burn_backed [OF assms(1), of e pid amount ias v v' pool] assms(2,3,5,6) by (simp add: pusd_process_instruction_def)
next
  case (WithdrawCollateral amount)
  then show ?thesis
    using pusd_accounts.withdraw_collateral_backed [OF assms(1)] assms(2,3,5,6) by (simp add: pusd_process_instruction_def)
next
  case Liquidate
  then show ?thesis
    using pusd_accounts.liquidate_backed [OF assms(1)] assms(2,3,5,6) by (simp add: pusd_process_instruction_def)
next
  case (Redeem amount)
  then show ?thesis
    using pusd_accounts.redeem_backed [OF assms(1)] assms(2,3,5,6) by (simp add: pusd_process_instruction_def)
qed

theorem vault_stays_backed_witness:
  "(\<exists>v'. pusd_process_instruction pusd_chain (pusd_layouts (Redeem 5000000)) 99 []
      [account_ref 1 True True, ref 2, ref 3, ref 4, ref 5, ref 6, ref 6, ref 6, ref 0]
      (pusd_vm (sample_vault\<lparr>debt := 50000000\<rparr>)) = Inr v' \<and>
     lamports (mem v' 1) = 500000050 \<and> lamports (mem v' 4) = 500000000 \<and>
     backed (pusd_layouts (Redeem 5000000)) 2 4 (mem v')) \<and>
   (\<exists>v'. pusd_process_instruction pusd_chain (pusd_layouts (DepositCollateral 20)) 99 []
      [account_ref 1 True True, ref 2, ref 5, ref 3, ref 0] (pusd_vm sample_vault) = Inr v' \<and>
     lamports (mem v' 4) = 1000000000 \<and> \<not> backed (pusd_layouts (DepositCollateral 20)) 2 4 (mem v'))"
proof -
  let ?c = "pusd_layouts (Redeem 5000000)" and ?v = "pusd_vm (sample_vault\<lparr>debt := 50000000\<rparr>)"
    and ?ias = "[account_ref 1 True True, ref 2, ref 3, ref 4, ref 5, ref 6, ref 6, ref 6, ref 0]"
    and ?c' = "pusd_layouts (DepositCollateral 20)" and ?ias' = "[account_ref 1 True True, ref 2, ref 5, ref 3, ref 0]"
  have ix: "try_from_slice (pusd_instruction_codec (pusd_layouts i)) [] = Some i" for i by (simp add: pusd_layouts_def)
  have pool: "backed (pusd_layouts i) 2 4 (mem (pusd_vm (sample_vault\<lparr>debt := n\<rparr>)))"
    "owner (mem (pusd_vm s) 4) \<noteq> system_program_id" for i n s
    by (simp_all add: backed_def pusd_vm_def tx_of_def sample_vault_def new_vault_def pusd_layouts_def system_program_id_def)
  obtain v' where run: "pusd_process_instruction pusd_chain ?c 99 [] ?ias ?v = Inr v'"
    and res: "lamports (mem v' 1) = 500000050" "lamports (mem v' 4) = 500000000"
    by (simp add: pusd_process_instruction_def pusd_process_redeem_def redeem_debt_def move_lamports_def usd_to_prism_def
        pusd_eval runtime_eval cpi_eval)
  have "backed ?c 2 4 (mem v')"
    using vault_stays_backed [OF pusd_layouts.pusd_accounts_axioms ix run, of 2 4] pool by simp
  moreover obtain w where dep: "pusd_process_instruction pusd_chain ?c' 99 [] ?ias' (pusd_vm sample_vault) = Inr w"
    by (simp add: pusd_process_instruction_def pusd_process_deposit_collateral_def pusd_eval runtime_eval system_eval cpi_eval)
  moreover have "lamports (mem w 4) = 1000000000 \<and> \<not> backed ?c' 2 4 (mem w)"
  proof -
    have start: "lamports (mem (pusd_vm sample_vault) 4) = 1000000000" "collateral sample_vault = 1000000000"
      "sample_vault\<lparr>debt := 0\<rparr> = sample_vault"
      by (simp_all add: pusd_vm_def tx_of_def sample_vault_def new_vault_def)
    have "lamports (mem w 4) = lamports (mem (pusd_vm sample_vault) 4) \<and>
        (\<exists>s'. load (vault_codec ?c') (data (mem w 2)) = Inr s' \<and> unat (collateral s') = unat (collateral sample_vault) + unat (20 :: u64))"
      using vault_stays_backed [OF pusd_layouts.pusd_accounts_axioms ix dep, of 2 4] pool(1) [of _ 0, unfolded start(3)] pool(2)
      by simp
    then show ?thesis by (auto simp: backed_def start)
  qed
  ultimately show ?thesis using run res by blast
qed

end
