(* ===== verification/SolSwap.thy ===== *)
theory SolSwap
  imports Cpi
begin

text \<open>
  The constant-product exchange (\<open>defi/solswap/program/src/lib.rs\<close>): a pool of two tokens, liquidity
  tokens for its providers, and swaps with a fee. The source keeps the books only; moving the tokens
  themselves is left to a later version. The events it logs have no effect on the state; their base-58
  encoder is modelled on its own.
\<close>

section \<open>Data\<close>

type_synonym u16 = "16 word"

datatype swap_direction = AtoB | BtoA

datatype solswap_instruction =
    InitializePool u64 u64 u64
  | AddLiquidity u64 u64 u64
  | RemoveLiquidity u64 u64 u64
  | Swap u64 u64 swap_direction

record pool_state =
  pool_is_initialized :: bool
  pool_bump :: u8
  token_a_mint :: pubkey
  token_b_mint :: pubkey
  token_a_reserve :: u64
  token_b_reserve :: u64
  lp_mint :: pubkey
  lp_supply :: u64
  fee_numerator :: u64
  fee_denominator :: u64
  protocol_fee_numerator :: u64
  pool_authority :: pubkey
  cumulative_volume_a :: u128
  cumulative_volume_b :: u128

definition PoolState_LEN :: nat where
  "PoolState_LEN = 1 + 1 + 32 + 32 + 8 + 8 + 32 + 8 + 8 + 8 + 8 + 32 + 16 + 16"

datatype solswap_error =
    AlreadyInitialized | NotInitialized | InvalidFeeConfig | ZeroDeposit | ZeroSwapInput | SlippageExceeded
  | ZeroLpBurn | InsufficientLpBalance | EmptyReserves | MathOverflow | IdenticalMints | SwapInvalidAccountOwner
  | InsufficientLpMinted

fun solswap_err :: "solswap_error \<Rightarrow> instruction_error" where
  "solswap_err AlreadyInitialized = Custom 0"
| "solswap_err NotInitialized = Custom 1"
| "solswap_err InvalidFeeConfig = Custom 2"
| "solswap_err ZeroDeposit = Custom 3"
| "solswap_err ZeroSwapInput = Custom 4"
| "solswap_err SlippageExceeded = Custom 5"
| "solswap_err ZeroLpBurn = Custom 6"
| "solswap_err InsufficientLpBalance = Custom 7"
| "solswap_err EmptyReserves = Custom 8"
| "solswap_err MathOverflow = Custom 9"
| "solswap_err IdenticalMints = Custom 10"
| "solswap_err SwapInvalidAccountOwner = Custom 11"
| "solswap_err InsufficientLpMinted = Custom 12"

record solswap_codecs =
  pool_state_codec :: "pool_state borsh"
  solswap_instruction_codec :: "solswap_instruction borsh"

abbreviation ovf :: "'a option \<Rightarrow> 'a res" where
  "ovf m \<equiv> ok_or m (solswap_err MathOverflow)"

section \<open>Base 58\<close>

text \<open>One pass of the inner loop over the digits, and the digits pushed for the remaining carry.\<close>

fun bs58_digits :: "u16 \<Rightarrow> u16 list \<Rightarrow> u16 list \<times> u16" where
  "bs58_digits carry [] = ([], carry)"
| "bs58_digits carry (d # ds) =
     (let carry = carry + push_bit 8 d; (ds', c) = bs58_digits (carry div 58) ds in ((carry mod 58) # ds', c))"

function bs58_push :: "u16 \<Rightarrow> u16 list" where
  "bs58_push carry = (if carry = 0 then [] else (carry mod 58) # bs58_push (carry div 58))"
  by pat_completeness auto
termination
  by (relation "measure unat") (auto simp: unat_div unat_gt_0 word_gt_0 intro!: div_less_dividend)

declare bs58_push.simps [simp del]

definition bs58_byte :: "u8 \<Rightarrow> u16 list \<Rightarrow> u16 list" where
  "bs58_byte b digits = (let (ds, c) = bs58_digits (ucast b) digits in ds @ bs58_push c)"

definition bs58_alphabet :: string where
  "bs58_alphabet = ''123456789ABCDEFGHJKLMNPQRSTUVWXYZabcdefghijkmnopqrstuvwxyz''"

definition bs58_encode :: "bytes \<Rightarrow> string" where
  "bs58_encode bytes =
     (if bytes = [] then []
      else replicate (length (takeWhile (\<lambda>b. b = 0) bytes)) (CHR ''1'') @
           map (\<lambda>d. bs58_alphabet ! unat d) (rev (fold bs58_byte bytes [0])))"

section \<open>Arithmetic\<close>

text \<open>
  Newton's iteration; an overflowing sum panics or wraps as \<open>op_add\<close> says, and a division by zero
  panics.
\<close>

function sqrt_loop :: "env \<Rightarrow> u128 \<Rightarrow> u128 \<Rightarrow> u128 \<Rightarrow> u128 res" where
  "sqrt_loop e value x y =
     (if y < x
      then rbind (op_div value y) (\<lambda>q. rbind (op_add e y q) (\<lambda>s. sqrt_loop e value y (s div 2)))
      else Inr x)"
  by pat_completeness auto
termination
  by (relation "measure (\<lambda>(e, value, x, y). unat x)") (auto simp: word_less_nat_alt)

declare sqrt_loop.simps [simp del]

definition sqrt :: "env \<Rightarrow> u128 \<Rightarrow> u64 res" where
  "sqrt e value =
     (if value = 0 then Inr 0
      else
      rbind (op_add e value 1) (\<lambda>s.
      rbind (sqrt_loop e value value (s div 2)) (\<lambda>x.
      Inr (u128_as_u64 x))))"

definition calculate_swap_output :: "u64 \<Rightarrow> u64 \<Rightarrow> u64 \<Rightarrow> u64 \<Rightarrow> u64 \<Rightarrow> (u64 \<times> u64) res" where
  "calculate_swap_output amount_in reserve_in reserve_out fee_num fee_den =
     (if amount_in = 0 then Inl (solswap_err ZeroSwapInput)
      else if reserve_in = 0 \<or> reserve_out = 0 then Inl (solswap_err EmptyReserves)
      else
      let amount_in = u64_as_u128 amount_in; reserve_in = u64_as_u128 reserve_in;
          reserve_out = u64_as_u128 reserve_out; fee_num = u64_as_u128 fee_num; fee_den = u64_as_u128 fee_den
      in
      rbind (ovf (checked_sub fee_den fee_num)) (\<lambda>k.
      rbind (ovf (checked_mul amount_in k)) (\<lambda>effective_in.
      rbind (ovf (checked_mul effective_in reserve_out)) (\<lambda>numerator.
      rbind (ovf (checked_mul reserve_in fee_den)) (\<lambda>x.
      rbind (ovf (checked_add x effective_in)) (\<lambda>denominator.
      rbind (ovf (checked_div numerator denominator)) (\<lambda>amount_out.
      rbind (ovf (checked_mul amount_in fee_num)) (\<lambda>x.
      rbind (ovf (checked_div x fee_den)) (\<lambda>total_fee.
      Inr (u128_as_u64 amount_out, u128_as_u64 total_fee))))))))))"

definition calculate_lp_tokens :: "env \<Rightarrow> u64 \<Rightarrow> u64 \<Rightarrow> u64 \<Rightarrow> u64 \<Rightarrow> u64 \<Rightarrow> u64 res" where
  "calculate_lp_tokens e amount_a amount_b reserve_a reserve_b supply =
     (if amount_a = 0 \<or> amount_b = 0 then Inl (solswap_err ZeroDeposit)
      else if supply = 0
      then
        rbind (ovf (checked_mul (u64_as_u128 amount_a) (u64_as_u128 amount_b))) (\<lambda>product.
        rbind (sqrt e product) (\<lambda>lp.
        if lp = 0 then Inl (solswap_err MathOverflow) else Inr lp))
      else
        rbind (ovf (checked_mul (u64_as_u128 amount_a) (u64_as_u128 supply))) (\<lambda>x.
        rbind (ovf (checked_div x (u64_as_u128 reserve_a))) (\<lambda>lp_a.
        rbind (ovf (checked_mul (u64_as_u128 amount_b) (u64_as_u128 supply))) (\<lambda>y.
        rbind (ovf (checked_div y (u64_as_u128 reserve_b))) (\<lambda>lp_b.
        let lp = u128_as_u64 (min lp_a lp_b) in
        if lp = 0 then Inl (solswap_err MathOverflow) else Inr lp)))))"

definition calculate_withdrawal :: "u64 \<Rightarrow> u64 \<Rightarrow> u64 \<Rightarrow> u64 \<Rightarrow> (u64 \<times> u64) res" where
  "calculate_withdrawal lp_amount supply reserve_a reserve_b =
     (if lp_amount = 0 then Inl (solswap_err ZeroLpBurn)
      else
      rbind (ovf (checked_mul (u64_as_u128 lp_amount) (u64_as_u128 reserve_a))) (\<lambda>x.
      rbind (ovf (checked_div x (u64_as_u128 supply))) (\<lambda>amount_a.
      rbind (ovf (checked_mul (u64_as_u128 lp_amount) (u64_as_u128 reserve_b))) (\<lambda>y.
      rbind (ovf (checked_div y (u64_as_u128 supply))) (\<lambda>amount_b.
      Inr (u128_as_u64 amount_a, u128_as_u64 amount_b))))))"

definition calculate_price_impact_bps :: "env \<Rightarrow> u64 \<Rightarrow> u64 \<Rightarrow> u64 \<Rightarrow> u64 \<Rightarrow> u64 res" where
  "calculate_price_impact_bps e amount_in amount_out reserve_in reserve_out =
     (if amount_in = 0 \<or> reserve_in = 0 \<or> reserve_out = 0 then Inr 0
      else
      rbind (op_mul e (u64_as_u128 reserve_out) (u64_as_u128 amount_in)) (\<lambda>spot_numerator.
      rbind (op_mul e (u64_as_u128 amount_out) (u64_as_u128 reserve_in)) (\<lambda>exec_numerator.
      if spot_numerator \<le> exec_numerator then Inr 0
      else
      rbind (op_sub e spot_numerator exec_numerator) (\<lambda>diff.
      rbind (op_mul e diff 10000) (\<lambda>x.
      rbind (op_div x spot_numerator) (\<lambda>impact.
      Inr (u128_as_u64 impact)))))))"

section \<open>Handlers\<close>

text \<open>
  \<open>try_from_slice(&pool_data[..LEN])\<close> panics on a shorter account; the copy of the encoded pool into the
  data panics where it does not fit.
\<close>

definition load_pool_state :: "solswap_codecs \<Rightarrow> pubkey \<Rightarrow> vm \<Rightarrow> pool_state res" where
  "load_pool_state c k v =
     (if length (data (mem v k)) < PoolState_LEN then Inl ProgramFailedToComplete
      else
      rbind (ok_or (try_from_slice (pool_state_codec c) (take PoolState_LEN (data (mem v k)))) InvalidAccountData) (\<lambda>p.
      if \<not> pool_is_initialized p then Inl (solswap_err NotInitialized) else Inr p))"

definition write_pool_state :: "solswap_codecs \<Rightarrow> pool_state \<Rightarrow> pubkey \<Rightarrow> vm \<Rightarrow> vm res" where
  "write_pool_state c p k v = copy_account (pool_state_codec c) p k v"

definition new_pool_state :: "pubkey \<Rightarrow> pubkey \<Rightarrow> pubkey \<Rightarrow> u64 \<Rightarrow> u64 \<Rightarrow> u64 \<Rightarrow> pubkey \<Rightarrow> pool_state" where
  "new_pool_state a b lp fn fd pf auth =
     \<lparr>pool_is_initialized = True, pool_bump = 0, token_a_mint = a, token_b_mint = b, token_a_reserve = 0,
      token_b_reserve = 0, lp_mint = lp, lp_supply = 0, fee_numerator = fn, fee_denominator = fd,
      protocol_fee_numerator = pf, pool_authority = auth, cumulative_volume_a = 0, cumulative_volume_b = 0\<rparr>"

definition solswap_process_initialize_pool ::
  "solswap_codecs \<Rightarrow> u64 \<Rightarrow> u64 \<Rightarrow> u64 \<Rightarrow> instruction_account list \<Rightarrow> vm \<Rightarrow> vm res" where
  "solswap_process_initialize_pool c fn fd pf ias v =
     rbind (next_account_info ias) (\<lambda>(pool_account, it).
     rbind (next_account_info it) (\<lambda>(mint_a, it).
     rbind (next_account_info it) (\<lambda>(mint_b, it).
     rbind (next_account_info it) (\<lambda>(vault_a, it).
     rbind (next_account_info it) (\<lambda>(vault_b, it).
     rbind (next_account_info it) (\<lambda>(lp, it).
     rbind (next_account_info it) (\<lambda>(authority, it).
     rbind (next_account_info it) (\<lambda>(system_program, it).
     rbind (next_account_info it) (\<lambda>(token_program, it).
     rbind (next_account_info it) (\<lambda>(rent, it).
     if \<not> is_signer authority then Inl MissingRequiredSignature
     else if fd = 0 \<or> fd < fn then Inl (solswap_err InvalidFeeConfig)
     else if fn < pf then Inl (solswap_err InvalidFeeConfig)
     else if key mint_a = key mint_b then Inl (solswap_err IdenticalMints)
     else
     let pool_data = data (mem v (key pool_account)) in
     if length pool_data < PoolState_LEN then Inl AccountDataTooSmall
     else if pool_data ! 0 \<noteq> 0 then Inl (solswap_err AlreadyInitialized)
     else
     write_pool_state c (new_pool_state (key mint_a) (key mint_b) (key lp) fn fd pf (key authority))
       (key pool_account) v))))))))))"

definition solswap_process_add_liquidity ::
  "env \<Rightarrow> solswap_codecs \<Rightarrow> u64 \<Rightarrow> u64 \<Rightarrow> u64 \<Rightarrow> instruction_account list \<Rightarrow> vm \<Rightarrow> vm res" where
  "solswap_process_add_liquidity e c amount_a amount_b min_lp_tokens ias v =
     rbind (next_account_info ias) (\<lambda>(pool_account, it).
     rbind (next_account_info it) (\<lambda>(vault_a, it).
     rbind (next_account_info it) (\<lambda>(vault_b, it).
     rbind (next_account_info it) (\<lambda>(lp_mint_account, it).
     rbind (next_account_info it) (\<lambda>(user_a, it).
     rbind (next_account_info it) (\<lambda>(user_b, it).
     rbind (next_account_info it) (\<lambda>(user_lp, it).
     rbind (next_account_info it) (\<lambda>(authority, it).
     rbind (next_account_info it) (\<lambda>(token_prog, it).
     if \<not> is_signer authority then Inl MissingRequiredSignature
     else
     rbind (load_pool_state c (key pool_account) v) (\<lambda>p.
     rbind (calculate_lp_tokens e amount_a amount_b (token_a_reserve p) (token_b_reserve p) (lp_supply p)) (\<lambda>lp_tokens.
     if lp_tokens < min_lp_tokens then Inl (solswap_err InsufficientLpMinted)
     else
     rbind (ovf (checked_add (token_a_reserve p) amount_a)) (\<lambda>ra.
     rbind (ovf (checked_add (token_b_reserve p) amount_b)) (\<lambda>rb.
     rbind (ovf (checked_add (lp_supply p) lp_tokens)) (\<lambda>s.
     write_pool_state c (p\<lparr>token_a_reserve := ra, token_b_reserve := rb, lp_supply := s\<rparr>) (key pool_account) v))))))))))))))"

definition solswap_process_remove_liquidity ::
  "solswap_codecs \<Rightarrow> u64 \<Rightarrow> u64 \<Rightarrow> u64 \<Rightarrow> instruction_account list \<Rightarrow> vm \<Rightarrow> vm res" where
  "solswap_process_remove_liquidity c lp_amount min_amount_a min_amount_b ias v =
     rbind (next_account_info ias) (\<lambda>(pool_account, it).
     rbind (next_account_info it) (\<lambda>(vault_a, it).
     rbind (next_account_info it) (\<lambda>(vault_b, it).
     rbind (next_account_info it) (\<lambda>(lp_mint_account, it).
     rbind (next_account_info it) (\<lambda>(user_a, it).
     rbind (next_account_info it) (\<lambda>(user_b, it).
     rbind (next_account_info it) (\<lambda>(user_lp, it).
     rbind (next_account_info it) (\<lambda>(authority, it).
     rbind (next_account_info it) (\<lambda>(token_prog, it).
     if \<not> is_signer authority then Inl MissingRequiredSignature
     else
     rbind (load_pool_state c (key pool_account) v) (\<lambda>p.
     if lp_supply p < lp_amount then Inl (solswap_err InsufficientLpBalance)
     else
     rbind (calculate_withdrawal lp_amount (lp_supply p) (token_a_reserve p) (token_b_reserve p)) (\<lambda>(amount_a, amount_b).
     if amount_a < min_amount_a \<or> amount_b < min_amount_b then Inl (solswap_err SlippageExceeded)
     else
     rbind (ovf (checked_sub (token_a_reserve p) amount_a)) (\<lambda>ra.
     rbind (ovf (checked_sub (token_b_reserve p) amount_b)) (\<lambda>rb.
     rbind (ovf (checked_sub (lp_supply p) lp_amount)) (\<lambda>s.
     write_pool_state c (p\<lparr>token_a_reserve := ra, token_b_reserve := rb, lp_supply := s\<rparr>) (key pool_account) v))))))))))))))"

text \<open>The reserves after a swap, and the running volume of the token that came in.\<close>

fun swap_reserves :: "swap_direction \<Rightarrow> u64 \<Rightarrow> u64 \<Rightarrow> pool_state \<Rightarrow> pool_state res" where
  "swap_reserves AtoB amount_in amount_out p =
     rbind (ovf (checked_add (token_a_reserve p) amount_in)) (\<lambda>ra.
     rbind (ovf (checked_sub (token_b_reserve p) amount_out)) (\<lambda>rb.
     rbind (ovf (checked_add (cumulative_volume_a p) (u64_as_u128 amount_in))) (\<lambda>va.
     Inr (p\<lparr>token_a_reserve := ra, token_b_reserve := rb, cumulative_volume_a := va\<rparr>))))"
| "swap_reserves BtoA amount_in amount_out p =
     rbind (ovf (checked_add (token_b_reserve p) amount_in)) (\<lambda>rb.
     rbind (ovf (checked_sub (token_a_reserve p) amount_out)) (\<lambda>ra.
     rbind (ovf (checked_add (cumulative_volume_b p) (u64_as_u128 amount_in))) (\<lambda>vb.
     Inr (p\<lparr>token_b_reserve := rb, token_a_reserve := ra, cumulative_volume_b := vb\<rparr>))))"

fun reserves :: "swap_direction \<Rightarrow> pool_state \<Rightarrow> u64 \<times> u64" where
  "reserves AtoB p = (token_a_reserve p, token_b_reserve p)"
| "reserves BtoA p = (token_b_reserve p, token_a_reserve p)"

definition solswap_process_swap ::
  "solswap_codecs \<Rightarrow> u64 \<Rightarrow> u64 \<Rightarrow> swap_direction \<Rightarrow> instruction_account list \<Rightarrow> vm \<Rightarrow> vm res" where
  "solswap_process_swap c amount_in minimum_amount_out direction ias v =
     rbind (next_account_info ias) (\<lambda>(pool_account, it).
     rbind (next_account_info it) (\<lambda>(vault_src, it).
     rbind (next_account_info it) (\<lambda>(vault_dst, it).
     rbind (next_account_info it) (\<lambda>(user_src, it).
     rbind (next_account_info it) (\<lambda>(user_dst, it).
     rbind (next_account_info it) (\<lambda>(protocol_dst, it).
     rbind (next_account_info it) (\<lambda>(authority, it).
     rbind (next_account_info it) (\<lambda>(token_prog, it).
     if \<not> is_signer authority then Inl MissingRequiredSignature
     else
     rbind (load_pool_state c (key pool_account) v) (\<lambda>p.
     let (reserve_in, reserve_out) = reserves direction p
     in
     rbind (calculate_swap_output amount_in reserve_in reserve_out (fee_numerator p) (fee_denominator p)) (\<lambda>(amount_out, total_fee).
     if amount_out < minimum_amount_out then Inl (solswap_err SlippageExceeded)
     else
     rbind (ovf (checked_mul (u64_as_u128 amount_in) (u64_as_u128 (protocol_fee_numerator p)))) (\<lambda>x.
     rbind (ovf (checked_div x (u64_as_u128 (fee_denominator p)))) (\<lambda>protocol_fee.
     rbind (swap_reserves direction amount_in amount_out p) (\<lambda>p.
     write_pool_state c p (key pool_account) v)))))))))))))"

definition solswap_process_instruction :: "env \<Rightarrow> solswap_codecs \<Rightarrow> bytes \<Rightarrow> program" where
  "solswap_process_instruction e c instruction_data ias v =
     rbind (ok_or (try_from_slice (solswap_instruction_codec c) instruction_data) InvalidInstructionData) (\<lambda>ix.
     case ix of
       InitializePool fn fd pf \<Rightarrow> solswap_process_initialize_pool c fn fd pf ias v
     | AddLiquidity amount_a amount_b min_lp \<Rightarrow> solswap_process_add_liquidity e c amount_a amount_b min_lp ias v
     | RemoveLiquidity lp min_a min_b \<Rightarrow> solswap_process_remove_liquidity c lp min_a min_b ias v
     | Swap amount_in min_out dir \<Rightarrow> solswap_process_swap c amount_in min_out dir ias v)"

section \<open>Layout\<close>

definition pool_state_layout :: "pool_state layout" where
  "pool_state_layout =
     iso_layout
       (\<lambda>(i, b, ma, mb, ra, rb, lm, ls, fn, fd, pf, au, va, vb).
          \<lparr>pool_is_initialized = i, pool_bump = b, token_a_mint = ma, token_b_mint = mb, token_a_reserve = ra,
           token_b_reserve = rb, lp_mint = lm, lp_supply = ls, fee_numerator = fn, fee_denominator = fd,
           protocol_fee_numerator = pf, pool_authority = au, cumulative_volume_a = va, cumulative_volume_b = vb\<rparr>)
       (\<lambda>p. (pool_is_initialized p, pool_bump p, token_a_mint p, token_b_mint p, token_a_reserve p,
             token_b_reserve p, lp_mint p, lp_supply p, fee_numerator p, fee_denominator p,
             protocol_fee_numerator p, pool_authority p, cumulative_volume_a p, cumulative_volume_b p))
       (pair_layout bool_layout (pair_layout word_layout (pair_layout word_layout (pair_layout word_layout
       (pair_layout word_layout (pair_layout word_layout (pair_layout word_layout (pair_layout word_layout
       (pair_layout word_layout (pair_layout word_layout (pair_layout word_layout (pair_layout word_layout
       (pair_layout word_layout word_layout)))))))))))))"

lemma wf_pool_state_layout: "wf_layout PoolState_LEN pool_state_layout"
  unfolding pool_state_layout_def by (rule wf_layout_eq, (rule wf_layouts)+) (simp_all add: PoolState_LEN_def)

interpretation pool_state_borsh: borsh_struct "of_layout pool_state_layout" PoolState_LEN
  by (rule borsh_struct_of_layout [OF wf_pool_state_layout])

lemmas solswap_io [simp] = of_layout_io [OF wf_pool_state_layout]

lemma keeps_write_pool_state: "keeps v (write_pool_state c p k v)"
  unfolding write_pool_state_def by (intro keeps_intros)

lemmas solswap_handler_defs = solswap_process_initialize_pool_def solswap_process_add_liquidity_def
  solswap_process_remove_liquidity_def solswap_process_swap_def

lemma solswap_keeps: "keeps v (solswap_process_instruction e c d ias v)"
  unfolding solswap_process_instruction_def
proof (rule keeps_bind)
  fix ix
  show "keeps v (case ix of
       InitializePool fn fd pf \<Rightarrow> solswap_process_initialize_pool c fn fd pf ias v
     | AddLiquidity amount_a amount_b min_lp \<Rightarrow> solswap_process_add_liquidity e c amount_a amount_b min_lp ias v
     | RemoveLiquidity lp min_a min_b \<Rightarrow> solswap_process_remove_liquidity c lp min_a min_b ias v
     | Swap amount_in min_out dir \<Rightarrow> solswap_process_swap c amount_in min_out dir ias v)"
    by (cases ix; simp only: solswap_instruction.case solswap_handler_defs; intro keeps_write_pool_state keeps_intros)
qed

sublocale chain \<subseteq> solswap: onchain_program "solswap_process_instruction e c d" for c d
  by unfold_locales (metis keepsD solswap_keeps)

section \<open>The integer square root\<close>

text \<open>
  One step of the iteration from \<open>x > 0\<close> never falls below the root, and a step that does not descend has
  reached it.
\<close>

lemma newton_step_above:
  fixes x v :: nat
  assumes "0 < x"
  shows "v < ((x + v div x) div 2 + 1)\<^sup>2"
proof -
  let ?q = "v div x" and ?y = "(x + v div x) div 2"
  have "v < x * (?q + 1)" using assms by (metis Suc_eq_plus1 dividend_less_times_div mult_Suc_right add.commute)
  then have "4 * v < 4 * (x * (?q + 1))" by simp
  also have "\<dots> \<le> (x + (?q + 1))\<^sup>2"
    using zero_le_power2 [of "int x - int (?q + 1)"] by (simp add: power2_eq_square algebra_simps flip: of_nat_add of_nat_mult)
  also have "\<dots> \<le> (2 * (?y + 1))\<^sup>2"
  proof (rule power_mono)
    have "m + 1 \<le> 2 * (m div 2 + 1)" for m :: nat by presburger
    from this [of "x + ?q"] show "x + (?q + 1) \<le> 2 * (?y + 1)" by simp
  qed simp
  also have "(2 * (?y + 1))\<^sup>2 = 4 * (?y + 1)\<^sup>2" by (simp only: power_mult_distrib) simp
  finally show ?thesis by simp
qed

lemma newton_stop:
  fixes x v :: nat
  assumes "x \<le> (x + v div x) div 2"
  shows "x\<^sup>2 \<le> v"
proof -
  have "x \<le> v div x" using assms by linarith
  then have "x * x \<le> x * (v div x)" by (rule mult_le_mono2)
  also have "\<dots> \<le> v" by simp
  finally show ?thesis by (simp add: power2_eq_square)
qed

lemma newton_sum_bound:
  fixes x v :: nat
  assumes "0 < x" and "x \<le> v"
  shows "x + v div x \<le> v + 1" and "1 \<le> v div x"
proof -
  show q: "1 \<le> v div x" using assms by (simp add: div_greater_zero_iff Suc_le_eq)
  have "(x - 1) * (v div x - 1) + x + v div x = x * (v div x) + 1"
    using assms(1) q by (cases x; cases "v div x") (simp_all add: algebra_simps)
  then show "x + v div x \<le> v + 1" using times_div_less_eq_dividend [of x v] by linarith
qed

lemma sqrt_loop_correct:
  fixes n x y :: u128
  assumes "0 < unat x" and "unat x \<le> unat n" and "unat n < 2 ^ 128 - 1"
    and "unat y = (unat x + unat n div unat x) div 2" and "unat n < (unat x + 1)\<^sup>2"
  shows "\<exists>r. sqrt_loop e n x y = Inr r \<and> (unat r)\<^sup>2 \<le> unat n \<and> unat n < (unat r + 1)\<^sup>2"
  using assms
proof (induction e n x y rule: sqrt_loop.induct)
  case (1 e n x y)
  let ?v = "unat n"
  note b = newton_sum_bound [OF "1.prems"(1,2)]
  show ?case
  proof (cases "y < x")
    case False
    then have "unat x \<le> (unat x + ?v div unat x) div 2" using "1.prems"(4) by (simp add: word_less_nat_alt)
    then show ?thesis using False newton_stop [of "unat x" ?v] "1.prems"(5) by (subst sqrt_loop.simps) auto
  next
    case True
    have y: "0 < unat y" "unat y \<le> ?v" using True b(2) "1.prems"(1,2,4) by (auto simp: word_less_nat_alt)
    then have y0: "y \<noteq> 0" by auto
    note yb = newton_sum_bound [OF y]
    have fits: "unat y + unat (n div y) < 2 ^ 128" using yb(1) "1.prems"(3) by (simp add: unat_div)
    then have add: "op_add e y (n div y) = Inr (y + n div y)" by (simp add: op_add_def)
    have sum: "unat ((y + n div y) div 2) = (unat y + ?v div unat y) div 2"
      using fits by (simp add: unat_div unat_word_ariths)
    have above: "?v < (unat y + 1)\<^sup>2" using newton_step_above [OF "1.prems"(1), of ?v] "1.prems"(4) by simp
    have div: "op_div n y = Inr (n div y)" using y0 by (simp add: op_div_def)
    from "1.IH" [OF True div add y "1.prems"(3) sum above] show ?thesis
      using True by (subst sqrt_loop.simps) (simp add: div add)
  qed
qed

lemma sqrt_correct:
  assumes "n \<noteq> - 1"
  shows "\<exists>r. sqrt e n = Inr r \<and> (unat r)\<^sup>2 \<le> unat n \<and> unat n < (unat r + 1)\<^sup>2"
proof (cases "n = 0")
  case False
  then have pos: "0 < unat n" by (simp add: unat_gt_0)
  have "unat n \<noteq> unat (- 1 :: u128)" using assms by (metis word_unat_eq_iff)
  then have lt: "unat n < 2 ^ 128 - 1" using unat_u128_bound [of n] by (simp add: unsigned_minus_1_eq_mask mask_eq_exp_minus_1)
  then have add: "op_add e n 1 = Inr (n + 1)" "unat ((n + 1) div 2) = (unat n + unat n div unat n) div 2"
    using pos by (simp_all add: op_add_def unat_div unat_word_ariths)
  have "unat n < (unat n + 1)\<^sup>2" by (simp add: power2_eq_square)
  from sqrt_loop_correct [OF pos order_refl lt add(2) this, of e] obtain r where
    r: "sqrt_loop e n n ((n + 1) div 2) = Inr r" "(unat r)\<^sup>2 \<le> unat n" "unat n < (unat r + 1)\<^sup>2" by blast
  have "unat r < 2 ^ 64"
  proof (rule ccontr)
    assume "\<not> unat r < 2 ^ 64"
    then have "(2 ^ 64)\<^sup>2 \<le> (unat r)\<^sup>2" by (intro power_mono) simp_all
    then show False using r(2) lt by simp
  qed
  then have "unat (u128_as_u64 r) = unat r" by (simp add: unat_u128_as_u64)
  with r add False show ?thesis by (simp add: sqrt_def)
qed (simp add: sqrt_def)

section \<open>The value of a liquidity token\<close>

text \<open>The three ways in which an instruction changes a pool.\<close>

inductive solswap_step :: "env \<Rightarrow> pool_state \<Rightarrow> pool_state \<Rightarrow> bool" for e where
  add: "calculate_lp_tokens e a b (token_a_reserve p) (token_b_reserve p) (lp_supply p) = Inr lp \<Longrightarrow>
    checked_add (token_a_reserve p) a = Some ra \<Longrightarrow> checked_add (token_b_reserve p) b = Some rb \<Longrightarrow>
    checked_add (lp_supply p) lp = Some s \<Longrightarrow>
    solswap_step e p (p\<lparr>token_a_reserve := ra, token_b_reserve := rb, lp_supply := s\<rparr>)"
| remove: "calculate_withdrawal lp (lp_supply p) (token_a_reserve p) (token_b_reserve p) = Inr (a, b) \<Longrightarrow>
    checked_sub (token_a_reserve p) a = Some ra \<Longrightarrow> checked_sub (token_b_reserve p) b = Some rb \<Longrightarrow>
    checked_sub (lp_supply p) lp = Some s \<Longrightarrow>
    solswap_step e p (p\<lparr>token_a_reserve := ra, token_b_reserve := rb, lp_supply := s\<rparr>)"
| swap: "reserves dir p = (ri, ro) \<Longrightarrow>
    calculate_swap_output n ri ro (fee_numerator p) (fee_denominator p) = Inr (out, fee) \<Longrightarrow>
    swap_reserves dir n out p = Inr p' \<Longrightarrow> solswap_step e p p'"

lemma lp_tokens_bound:
  assumes "calculate_lp_tokens e a b ra rb s = Inr lp" and "s \<noteq> 0"
  shows "unat lp * unat ra \<le> unat a * unat s" and "unat lp * unat rb \<le> unat b * unat s"
proof -
  from assms obtain x y :: u128 where x: "unat x = unat a * unat s" and y: "unat y = unat b * unat s"
    and lp: "lp = u128_as_u64 (min (x div u64_as_u128 ra) (y div u64_as_u128 rb))"
    by (auto simp: calculate_lp_tokens_def rust_simps split: if_splits)
  have "unat lp \<le> min (unat a * unat s div unat ra) (unat b * unat s div unat rb)"
    unfolding lp by (rule order_trans [OF unat_u128_as_u64_le]) (simp add: unat_div x y)
  then have le: "unat lp \<le> unat a * unat s div unat ra" "unat lp \<le> unat b * unat s div unat rb" by auto
  show "unat lp * unat ra \<le> unat a * unat s" "unat lp * unat rb \<le> unat b * unat s"
    using mult_le_mono1 [OF le(1), of "unat ra"] mult_le_mono1 [OF le(2), of "unat rb"] div_times_less_eq_dividend order_trans
    by blast+
qed

lemma withdrawal_bound:
  assumes "calculate_withdrawal lp s ra rb = Inr (a, b)"
  shows "unat a * unat s \<le> unat lp * unat ra" and "unat b * unat s \<le> unat lp * unat rb"
proof -
  from assms obtain x y :: u128 where x: "unat x = unat lp * unat ra" and y: "unat y = unat lp * unat rb"
    and ab: "a = u128_as_u64 (x div u64_as_u128 s)" "b = u128_as_u64 (y div u64_as_u128 s)"
    by (auto simp: calculate_withdrawal_def rust_simps split: if_splits)
  have le: "unat a \<le> unat lp * unat ra div unat s" "unat b \<le> unat lp * unat rb div unat s"
    unfolding ab by (rule order_trans [OF unat_u128_as_u64_le], simp add: unat_div x y)+
  show "unat a * unat s \<le> unat lp * unat ra" "unat b * unat s \<le> unat lp * unat rb"
    using mult_le_mono1 [OF le(1), of "unat s"] mult_le_mono1 [OF le(2), of "unat s"] div_times_less_eq_dividend order_trans
    by blast+
qed

lemma swap_arithmetic:
  fixes x i f n k r :: nat
  assumes le: "x * (i * f + n * k) \<le> n * k * r" and "k \<le> f" and pos: "0 < i" "0 < f" "0 < r"
  shows "x < r" and "x * (i + n) \<le> n * r"
proof -
  show lt: "x < r"
  proof (rule ccontr)
    assume "\<not> x < r"
    then have "r * (i * f + n * k) \<le> x * (i * f + n * k)" by (intro mult_le_mono1) simp
    also note le
    finally have "r * (i * f) + r * (n * k) \<le> r * (n * k)" by (simp only: distrib_left ac_simps)
    then show False using pos by simp
  qed
  then obtain t where r: "r = x + t" using less_imp_add_positive by blast
  have "x * i * f + x * (n * k) \<le> x * (n * k) + n * k * t" using le unfolding r by (simp only: distrib_left ac_simps)
  then have "x * i * f \<le> n * k * t" by simp
  also have "\<dots> \<le> n * t * f" using \<open>k \<le> f\<close> by simp
  finally have "x * i \<le> n * t" using pos(2) by simp
  then show "x * (i + n) \<le> n * r" unfolding r by (simp add: distrib_left mult.commute)
qed

text \<open>The output of a swap is smaller than the reserve and does not lower the product.\<close>

lemma swap_output_product:
  fixes n ri ro :: u64
  assumes "calculate_swap_output n ri ro fn fd = Inr (out, fee)"
  shows "unat out * (unat ri + unat n) \<le> unat n * unat ro" and "unat out < unat ro"
proof -
  from assms obtain k ef nu x de where raw: "checked_sub (u64_as_u128 fd) (u64_as_u128 fn) = Some k"
      "checked_mul (u64_as_u128 n) k = Some ef" "checked_mul ef (u64_as_u128 ro) = Some nu"
      "checked_mul (u64_as_u128 ri) (u64_as_u128 fd) = Some x" "checked_add x ef = Some de"
    and out: "out = u128_as_u64 (nu div de)" and ro: "ro \<noteq> 0" and ri: "ri \<noteq> 0" and fd: "fd \<noteq> 0"
    by (auto simp: calculate_swap_output_def rbind_eq_Inr ok_or_eq_Inr if_Inl_eq_Inr checked_div_eq_Some Let_def)
  have k: "unat k \<le> unat fd" and ef: "unat ef = unat n * unat k" and nu: "unat nu = unat ef * unat ro"
    and de: "unat de = unat ri * unat fd + unat ef"
    using raw by (simp_all add: rust_simps)
  have "unat out \<le> unat nu div unat de" unfolding out by (rule order_trans [OF unat_u128_as_u64_le]) (simp add: unat_div)
  then have "unat out * unat de \<le> unat nu" by (metis div_times_less_eq_dividend mult_le_mono1 order_trans)
  then have le: "unat out * (unat ri * unat fd + unat n * unat k) \<le> unat n * unat k * unat ro" by (simp add: de nu ef)
  have pos: "0 < unat ri" "0 < unat ro" "0 < unat fd" using ri ro fd by (simp_all add: unat_gt_0)
  from swap_arithmetic [OF le k pos(1,3,2)] show "unat out * (unat ri + unat n) \<le> unat n * unat ro" "unat out < unat ro" by auto
qed

lemma share_mono:
  fixes ra rb s :: nat
  assumes "ra * s' \<le> ra' * s" and "rb * s' \<le> rb' * s"
  shows "ra * rb * s'\<^sup>2 \<le> ra' * rb' * s\<^sup>2"
  using mult_le_mono [OF assms] by (simp add: power2_eq_square ac_simps)

lemma solswap_step_value:
  assumes "solswap_step e p p'" and "lp_supply p \<noteq> 0"
  shows "unat (token_a_reserve p) * unat (token_b_reserve p) * (unat (lp_supply p'))\<^sup>2
    \<le> unat (token_a_reserve p') * unat (token_b_reserve p') * (unat (lp_supply p))\<^sup>2"
  using assms(1)
proof cases
  case (add a b lp ra rb s)
  note bound = lp_tokens_bound [OF add(2) assms(2)]
  show ?thesis
    by (rule share_mono) (use bound add in \<open>simp_all add: rust_simps algebra_simps\<close>)
next
  case (remove lp a b ra rb s)
  note bound = withdrawal_bound [OF remove(2)]
  have "unat (token_a_reserve p) * unat s \<le> unat ra * unat (lp_supply p)"
    "unat (token_b_reserve p) * unat s \<le> unat rb * unat (lp_supply p)"
    using bound remove(3-5) by (simp_all add: rust_simps algebra_simps)
  then show ?thesis using share_mono remove(1) by simp
next
  case (swap dir ri ro n out fee)
  note bound = swap_output_product [OF swap(2)]
  show ?thesis
  proof (cases dir)
    case AtoB
    then have r: "ri = token_a_reserve p" "ro = token_b_reserve p" using swap(1) by auto
    from swap(3) AtoB have "unat (token_a_reserve p') = unat ri + unat n" "unat ro = unat out + unat (token_b_reserve p')"
      "lp_supply p' = lp_supply p" by (auto simp: r rust_simps)
    then show ?thesis using bound(1) by (simp add: r [symmetric] algebra_simps)
  next
    case BtoA
    then have r: "ri = token_b_reserve p" "ro = token_a_reserve p" using swap(1) by auto
    from swap(3) BtoA have "unat (token_b_reserve p') = unat ri + unat n" "unat ro = unat out + unat (token_a_reserve p')"
      "lp_supply p' = lp_supply p" by (auto simp: r rust_simps)
    then show ?thesis using bound(1) by (simp add: r [symmetric] algebra_simps)
  qed
qed

text \<open>The pool an account holds, and the handlers as steps on it.\<close>

definition holds_pool :: "solswap_codecs \<Rightarrow> pubkey \<Rightarrow> (pubkey \<Rightarrow> account) \<Rightarrow> pool_state \<Rightarrow> bool" where
  "holds_pool c k m p \<longleftrightarrow> PoolState_LEN \<le> length (data (m k)) \<and>
     try_from_slice (pool_state_codec c) (take PoolState_LEN (data (m k))) = Some p"

lemma load_pool_state_eq_Inr [rust_simps]:
  "load_pool_state c k v = Inr p \<longleftrightarrow> holds_pool c k (mem v) p \<and> pool_is_initialized p"
  by (auto simp: load_pool_state_def holds_pool_def rust_simps not_less)

locale solswap_accounts = borsh_struct "pool_state_codec c" PoolState_LEN for c :: solswap_codecs
begin

lemma write_pool_state_effect:
  assumes "write_pool_state c p k v = Inr v'"
  shows "holds_pool c k (mem v') p" and "j \<noteq> k \<Longrightarrow> mem v' j = mem v j"
  using assms to_length from_to by (auto simp: write_pool_state_def copy_account_eq_Inr holds_pool_def)

lemma handler_step:
  assumes run: "solswap_process_instruction e c d ias v = Inr v'"
    and ix: "try_from_slice (solswap_instruction_codec c) d = Some ix" "\<And>a b f. ix \<noteq> InitializePool a b f"
  shows "\<exists>p p'. holds_pool c (key (ias ! 0)) (mem v) p \<and> holds_pool c (key (ias ! 0)) (mem v') p' \<and> solswap_step e p p'"
proof (cases ix)
  case (InitializePool a b f)
  then show ?thesis using ix(2) by blast
next
  case (AddLiquidity a b m)
  with run ix(1) have "solswap_process_add_liquidity e c a b m ias v = Inr v'" by (simp add: solswap_process_instruction_def)
  then obtain p lp ra rb s where "holds_pool c (key (ias ! 0)) (mem v) p"
    "calculate_lp_tokens e a b (token_a_reserve p) (token_b_reserve p) (lp_supply p) = Inr lp"
    "checked_add (token_a_reserve p) a = Some ra" "checked_add (token_b_reserve p) b = Some rb"
    "checked_add (lp_supply p) lp = Some s"
    "write_pool_state c (p\<lparr>token_a_reserve := ra, token_b_reserve := rb, lp_supply := s\<rparr>) (key (ias ! 0)) v = Inr v'"
    by (auto simp: solswap_process_add_liquidity_def rbind_eq_Inr if_Inl_eq_Inr ok_or_eq_Inr next_account_info_eq_Inr
        load_pool_state_eq_Inr)
  then show ?thesis using write_pool_state_effect(1) solswap_step.add by blast
next
  case (RemoveLiquidity lp ma mb)
  with run ix(1) have "solswap_process_remove_liquidity c lp ma mb ias v = Inr v'" by (simp add: solswap_process_instruction_def)
  then obtain p a b ra rb s where "holds_pool c (key (ias ! 0)) (mem v) p"
    "calculate_withdrawal lp (lp_supply p) (token_a_reserve p) (token_b_reserve p) = Inr (a, b)"
    "checked_sub (token_a_reserve p) a = Some ra" "checked_sub (token_b_reserve p) b = Some rb"
    "checked_sub (lp_supply p) lp = Some s"
    "write_pool_state c (p\<lparr>token_a_reserve := ra, token_b_reserve := rb, lp_supply := s\<rparr>) (key (ias ! 0)) v = Inr v'"
    by (auto simp: solswap_process_remove_liquidity_def rbind_eq_Inr if_Inl_eq_Inr ok_or_eq_Inr next_account_info_eq_Inr
        load_pool_state_eq_Inr)
  then show ?thesis using write_pool_state_effect(1) solswap_step.remove by blast
next
  case (Swap n m dir)
  with run ix(1) have "solswap_process_swap c n m dir ias v = Inr v'" by (simp add: solswap_process_instruction_def)
  then obtain p ri ro out fee p' where "holds_pool c (key (ias ! 0)) (mem v) p" "reserves dir p = (ri, ro)"
    "calculate_swap_output n ri ro (fee_numerator p) (fee_denominator p) = Inr (out, fee)"
    "swap_reserves dir n out p = Inr p'" "write_pool_state c p' (key (ias ! 0)) v = Inr v'"
    by (cases dir) (auto simp: solswap_process_swap_def rbind_eq_Inr if_Inl_eq_Inr ok_or_eq_Inr next_account_info_eq_Inr Let_def
        load_pool_state_eq_Inr)
  then show ?thesis using write_pool_state_effect(1) solswap_step.swap by blast
qed

end

section \<open>Properties\<close>

definition solswap_layouts :: "solswap_instruction \<Rightarrow> solswap_codecs" where
  "solswap_layouts ix =
     \<lparr>pool_state_codec = of_layout pool_state_layout,
      solswap_instruction_codec = \<lparr>try_from_slice = (\<lambda>_. Some ix), to_vec = (\<lambda>_. [])\<rparr>\<rparr>"

interpretation solswap_layouts: solswap_accounts "solswap_layouts ix" for ix
  by (simp add: solswap_accounts_def solswap_layouts_def pool_state_borsh.borsh_struct_axioms)

definition solswap_chain :: env where
  "solswap_chain = native_env (\<lambda>_ _. (2, 255)) (\<lambda>_. 10) \<lparr>slot = 7, epoch = 1, unix_timestamp = 1000\<rparr> (\<lambda>b. b)"

definition sample_pool_state :: pool_state where
  "sample_pool_state = (new_pool_state 11 12 13 25 10000 5 1)\<lparr>token_a_reserve := 1000, token_b_reserve := 2000, lp_supply := 1414\<rparr>"

definition solswap_vm :: vm where
  "solswap_vm =
     enter_vm (tx_of [1, 2, 0]
       (\<lambda>k. if k = 2 then \<lparr>lamports = 10, data = put pool_state_layout sample_pool_state, owner = 99\<rparr> else wallet 50))"

definition solswap_refs :: "instruction_account list" where
  "solswap_refs =
     [account_ref 2 False True, account_ref 3 False True, account_ref 3 False True, account_ref 3 False True,
      account_ref 3 False True, account_ref 3 False True, account_ref 1 True True, account_ref 0 False False]"

text \<open>
  C29. The integer square root is exact. On every 128-bit value but the largest, Newton's iteration
  ends, without overflow or division by zero, at the greatest integer whose square does not exceed
  the value, and that integer fits the 64-bit result.
\<close>

theorem sqrt_is_floor_root:
  assumes "n \<noteq> - 1"
  shows "\<exists>r. sqrt e n = Inr r \<and> unat r = (GREATEST k. k\<^sup>2 \<le> unat n)"
proof -
  obtain r where r: "sqrt e n = Inr r" "(unat r)\<^sup>2 \<le> unat n" "unat n < (unat r + 1)\<^sup>2"
    using sqrt_correct [OF assms] by blast
  have "k \<le> unat r" if "k\<^sup>2 \<le> unat n" for k
    using power_less_imp_less_base [of k 2 "unat r + 1"] le_less_trans [OF that r(3)] by simp
  then have "(GREATEST k. k\<^sup>2 \<le> unat n) = unat r" using r(2) by (intro Greatest_equality)
  with r(1) show ?thesis by simp
qed

theorem sqrt_is_floor_root_witness: "\<exists>r. sqrt solswap_chain 4000001 = Inr r \<and> unat r = 2000"
proof -
  obtain r where "sqrt solswap_chain 4000001 = Inr r" "unat r = (GREATEST k. k\<^sup>2 \<le> unat (4000001 :: u128))"
    using sqrt_is_floor_root [of 4000001 solswap_chain] by auto
  moreover have "(GREATEST k. k\<^sup>2 \<le> unat (4000001 :: u128)) = 2000"
  proof (rule Greatest_equality)
    show "k \<le> 2000" if "k\<^sup>2 \<le> unat (4000001 :: u128)" for k
      using power_less_imp_less_base [of k 2 2001] that by simp
  qed simp
  ultimately show ?thesis by simp
qed

text \<open>
  C30. Liquidity tokens are not diluted. Whatever accepted instruction changes a pool with outstanding
  tokens, the product of the reserves per squared token never falls: swaps do not lower the product of
  the reserves, and deposits and withdrawals are rounded in favour of the remaining providers.
\<close>

theorem lp_value_never_falls:
  assumes "solswap_accounts c" and "try_from_slice (solswap_instruction_codec c) d = Some ix"
    and "\<And>a b f. ix \<noteq> InitializePool a b f" and "solswap_process_instruction e c d ias v = Inr v'"
    and "holds_pool c (key (ias ! 0)) (mem v) p" and "lp_supply p \<noteq> 0"
  shows "\<exists>p'. holds_pool c (key (ias ! 0)) (mem v') p' \<and>
    unat (token_a_reserve p) * unat (token_b_reserve p) * (unat (lp_supply p'))\<^sup>2
      \<le> unat (token_a_reserve p') * unat (token_b_reserve p') * (unat (lp_supply p))\<^sup>2"
proof -
  obtain q p' where q: "holds_pool c (key (ias ! 0)) (mem v) q" "holds_pool c (key (ias ! 0)) (mem v') p'" "solswap_step e q p'"
    using solswap_accounts.handler_step [OF assms(1,4,2,3)] by blast
  have "q = p" using q(1) assms(5) by (simp add: holds_pool_def)
  then show ?thesis using q(2) solswap_step_value [OF q(3)] assms(6) by auto
qed

theorem lp_value_never_falls_witness:
  "\<exists>v' p'. solswap_process_instruction solswap_chain (solswap_layouts (Swap 100 181 AtoB)) [] solswap_refs solswap_vm = Inr v' \<and>
     holds_pool (solswap_layouts (Swap 100 181 AtoB)) 2 (mem v') p' \<and>
     1000 * 2000 * (unat (lp_supply p'))\<^sup>2 \<le> unat (token_a_reserve p') * unat (token_b_reserve p') * 1414\<^sup>2"
proof -
  let ?c = "solswap_layouts (Swap 100 181 AtoB)"
  have ix: "try_from_slice (solswap_instruction_codec ?c) [] = Some (Swap 100 181 AtoB)" by (simp add: solswap_layouts_def)
  have h: "holds_pool ?c (key (solswap_refs ! 0)) (mem solswap_vm) sample_pool_state"
    using pool_state_borsh.from_to [of sample_pool_state]
    by (simp add: holds_pool_def solswap_layouts_def solswap_vm_def solswap_refs_def tx_of_def of_layout_def)
  have "load_pool_state ?c 2 solswap_vm = Inr sample_pool_state"
    using h by (simp add: load_pool_state_eq_Inr solswap_refs_def sample_pool_state_def new_pool_state_def)
  moreover have "write_pool_state ?c q 2 solswap_vm \<noteq> Inl err" for q err
    by (simp add: write_pool_state_def copy_account_def solswap_layouts_def solswap_vm_def tx_of_def of_layout_def Let_def)
  ultimately obtain v' where run: "solswap_process_instruction solswap_chain ?c [] solswap_refs solswap_vm = Inr v'"
    by (cases "solswap_process_instruction solswap_chain ?c [] solswap_refs solswap_vm")
      (auto simp: solswap_process_instruction_def ix solswap_process_swap_def solswap_refs_def sample_pool_state_def new_pool_state_def
        calculate_swap_output_def checked_sub_def checked_mul_def checked_add_def checked_div_def u64_as_u128_def u128_as_u64_def)
  have "lp_supply sample_pool_state \<noteq> 0" by (simp add: sample_pool_state_def)
  from lp_value_never_falls [OF solswap_layouts.solswap_accounts_axioms ix _ run h this] run show ?thesis
    by (auto simp: solswap_refs_def sample_pool_state_def)
qed

section \<open>Base 58 round trip\<close>

text \<open>The standard decoder: leading ones are zero bytes, the rest is a number in base 58.\<close>

definition bs58_index :: "char \<Rightarrow> nat" where
  "bs58_index ch = length (takeWhile (\<lambda>x. x \<noteq> ch) bs58_alphabet)"

function be_bytes :: "nat \<Rightarrow> bytes" where
  "be_bytes n = (if n = 0 then [] else be_bytes (n div 256) @ [word_of_nat (n mod 256)])"
  by pat_completeness auto
termination
  by (relation "measure id") auto

declare be_bytes.simps [simp del]

definition bs58_decode :: "string \<Rightarrow> bytes" where
  "bs58_decode s =
     (let ones = length (takeWhile (\<lambda>ch. ch = CHR ''1'') s)
      in replicate ones 0 @ be_bytes (fold (\<lambda>ch n. 58 * n + bs58_index ch) (drop ones s) 0))"

text \<open>The number that digits (least significant first) and bytes (most significant first) denote.\<close>

fun digits_val :: "u16 list \<Rightarrow> nat" where
  "digits_val [] = 0"
| "digits_val (d # ds) = unat d + 58 * digits_val ds"

definition bytes_val :: "bytes \<Rightarrow> nat" where
  "bytes_val bs = fold (\<lambda>b n. 256 * n + unat b) bs 0"

lemma digits_val_append: "digits_val (xs @ ys) = digits_val xs + 58 ^ length xs * digits_val ys"
  by (induction xs) (simp_all add: algebra_simps)

lemma digits_val_bound: "\<forall>d \<in> set ds. unat d < 58 \<Longrightarrow> digits_val ds < 58 ^ length ds"
  by (induction ds) auto

lemma carry_arith:
  fixes a p v q r c d :: nat
  assumes "a + p = 256 * v + q" and "r + 58 * q = c + 256 * d"
  shows "r + 58 * a + 58 * p = 256 * (d + 58 * v) + c"
proof -
  have "r + 58 * a + 58 * p = r + 58 * (a + p)" by simp
  also have "\<dots> = 58 * (256 * v) + (r + 58 * q)" unfolding assms(1) by simp
  also have "\<dots> = 256 * (d + 58 * v) + c" unfolding assms(2) by simp
  finally show ?thesis .
qed

lemma bs58_digits_val:
  assumes "bs58_digits c ds = (ds', c')" and "\<forall>d \<in> set ds. unat d < 58" and "unat c < 256"
  shows "(\<forall>d \<in> set ds'. unat d < 58) \<and> length ds' = length ds \<and> unat c' < 256 \<and>
    digits_val ds' + 58 ^ length ds * unat c' = 256 * digits_val ds + unat c"
  using assms
proof (induction c ds arbitrary: ds' c' rule: bs58_digits.induct)
  case (2 c d ds)
  let ?c = "c + push_bit 8 d"
  obtain ds1 c1 where r: "bs58_digits (?c div 58) ds = (ds1, c1)" by fastforce
  have c: "unat ?c = unat c + 256 * unat d"
    using "2.prems"(2,3) by (simp add: unat_word_ariths push_bit_eq_mult)
  have "unat c + 256 * unat d < 256 * 58" using "2.prems"(2,3) by auto
  then have "unat (?c div 58) < 256" by (simp add: unat_div c less_mult_imp_div_less)
  with "2.IH" [OF refl r] "2.prems"(2) have ih: "\<forall>d \<in> set ds1. unat d < 58" "length ds1 = length ds" "unat c1 < 256"
    "digits_val ds1 + 58 ^ length ds * unat c1 = 256 * digits_val ds + (unat c + 256 * unat d) div 58"
    by (auto simp: unat_div c)
  have res: "ds' = (?c mod 58) # ds1" "c' = c1" using "2.prems"(1) r by (auto simp: Let_def)
  have m: "unat (?c mod 58) = (unat c + 256 * unat d) mod 58" by (simp add: unat_mod c)
  have "(unat c + 256 * unat d) mod 58 + 58 * digits_val ds1 + 58 * (58 ^ length ds * unat c1)
    = 256 * (unat d + 58 * digits_val ds) + unat c"
    by (rule carry_arith [OF ih(4)]) simp
  then have "digits_val ds' + 58 ^ length (d # ds) * unat c' = 256 * digits_val (d # ds) + unat c"
    unfolding res by (simp add: m mult.assoc)
  with ih show ?case unfolding res by (auto simp: m)
qed simp

lemma bs58_push_val:
  "digits_val (bs58_push c) = unat c \<and> (\<forall>d \<in> set (bs58_push c). unat d < 58) \<and>
   (c \<noteq> 0 \<longrightarrow> bs58_push c \<noteq> [] \<and> last (bs58_push c) \<noteq> 0)"
proof (induction c rule: bs58_push.induct)
  case (1 c)
  show ?case
  proof (cases "c = 0")
    case True
    then show ?thesis by (subst (1 2 3 4) bs58_push.simps) simp
  next
    case False
    have e: "bs58_push c = (c mod 58) # bs58_push (c div 58)" using False by (subst bs58_push.simps) simp
    show ?thesis
    proof (cases "c div 58 = 0")
      case True
      then have nil: "bs58_push (c div 58) = []" by (subst bs58_push.simps) simp
      have "unat (c div 58) = 0" using True by simp
      then have "unat c < 58" by (simp add: unat_div)
      then have "unat (c mod 58) = unat c" by (simp add: unat_mod)
      then have "c mod 58 = c" by (rule word_unat_eq_iff [THEN iffD2])
      then show ?thesis using \<open>unat c < 58\<close> False by (simp add: e nil)
    next
      case nz: False
      then show ?thesis using "1.IH" [OF False] by (simp add: e unat_div unat_mod)
    qed
  qed
qed

text \<open>The digits of a number: no leading zero, unless the number is zero.\<close>

definition canonical :: "u16 list \<Rightarrow> bool" where
  "canonical ds \<longleftrightarrow> ds \<noteq> [] \<and> (\<forall>d \<in> set ds. unat d < 58) \<and> (ds = [0] \<or> last ds \<noteq> 0)"

lemma digits_val_last: "ds \<noteq> [] \<Longrightarrow> last ds \<noteq> 0 \<Longrightarrow> 58 ^ (length ds - 1) \<le> digits_val ds"
proof (induction ds)
  case (Cons d ds)
  then show ?case
  proof (cases "ds = []")
    case True
    then show ?thesis using Cons.prems(2) by (simp add: unat_gt_0 Suc_le_eq)
  next
    case False
    then have "58 ^ (length ds - 1) \<le> digits_val ds" using Cons by simp
    then have "58 * 58 ^ (length ds - 1) \<le> 58 * digits_val ds" by (rule mult_le_mono2)
    moreover have "58 * 58 ^ (length ds - 1) = (58 :: nat) ^ length ds"
      using False by (cases ds) simp_all
    ultimately show ?thesis by simp
  qed
qed simp

lemma last_of_large:
  assumes "\<forall>d \<in> set ds. unat d < 58" and "58 ^ (length ds - 1) \<le> digits_val ds" and "ds \<noteq> []"
  shows "last ds \<noteq> 0"
proof
  assume "last ds = 0"
  then have "digits_val ds = digits_val (butlast ds)"
    using digits_val_append [of "butlast ds" "[last ds]"] append_butlast_last_id [OF assms(3)] by simp
  also have "\<dots> < 58 ^ length (butlast ds)"
    using assms(1) by (intro digits_val_bound) (auto dest: in_set_butlastD)
  finally show False using assms(2) by simp
qed

lemma bs58_byte_canonical:
  assumes "canonical ds"
  shows "canonical (bs58_byte b ds) \<and> digits_val (bs58_byte b ds) = 256 * digits_val ds + unat b"
proof -
  obtain ds' c where r: "bs58_digits (ucast b) ds = (ds', c)" by fastforce
  have ub: "unat (ucast b :: u16) = unat b" by (simp add: unsigned_ucast_eq take_bit_nat_eq_self less_trans [OF unsigned_less])
  have "unat (ucast b :: u16) < 256" using unsigned_less [of b] by (simp add: ub)
  with bs58_digits_val [OF r] assms have d: "\<forall>d \<in> set ds'. unat d < 58" "length ds' = length ds" "unat c < 256"
    "digits_val ds' + 58 ^ length ds * unat c = 256 * digits_val ds + unat b"
    by (auto simp: canonical_def ub)
  note p = bs58_push_val [of c]
  have e: "bs58_byte b ds = ds' @ bs58_push c" by (simp add: bs58_byte_def r)
  have val: "digits_val (bs58_byte b ds) = 256 * digits_val ds + unat b"
    using d(2,4) p by (simp add: e digits_val_append)
  have "canonical (bs58_byte b ds)"
  proof (cases "c = 0")
    case False
    then show ?thesis using d(1) p by (auto simp: canonical_def e)
  next
    case c0: True
    then have nil: "bs58_push c = []" by (subst bs58_push.simps) simp
    have ne: "ds' \<noteq> []" using d(2) assms by (auto simp: canonical_def)
    show ?thesis
    proof (cases "ds = [0]")
      case True
      with d(2) obtain a where "ds' = [a]" by (auto simp: length_Suc_conv)
      then show ?thesis unfolding e nil using d(1) by (simp add: canonical_def)
    next
      case False
      have "58 ^ (length ds - 1) \<le> digits_val ds" using assms False by (intro digits_val_last) (auto simp: canonical_def)
      then have "58 ^ (length ds' - 1) \<le> digits_val ds'" using d(2,4) c0 by simp
      then show ?thesis using last_of_large [OF d(1)] ne d(1) by (simp add: canonical_def e nil)
    qed
  qed
  with val show ?thesis by simp
qed

lemma fold_bs58_byte:
  "canonical ds \<Longrightarrow> canonical (fold bs58_byte bs ds) \<and>
     digits_val (fold bs58_byte bs ds) = fold (\<lambda>b n. 256 * n + unat b) bs (digits_val ds)"
  by (induction bs arbitrary: ds) (simp_all add: bs58_byte_canonical)

lemma bytes_val_snoc: "bytes_val (bs @ [b]) = 256 * bytes_val bs + unat b"
  by (simp add: bytes_val_def)

lemma be_bytes_bytes_val: "be_bytes (bytes_val bs) = dropWhile (\<lambda>b. b = 0) bs"
proof (induction bs rule: rev_induct)
  case Nil
  then show ?case by (subst be_bytes.simps) (simp add: bytes_val_def)
next
  case (snoc b bs)
  have b: "unat b < 256" using unsigned_less [of b] by simp
  show ?case
  proof (cases "bytes_val (bs @ [b]) = 0")
    case True
    then have "bytes_val bs = 0" "b = 0" by (simp_all add: bytes_val_snoc unat_eq_zero)
    then have "dropWhile (\<lambda>b. b = 0) bs = []" using snoc.IH by (simp add: be_bytes.simps [of 0])
    then show ?thesis using True \<open>b = 0\<close> by (simp add: be_bytes.simps [of 0] dropWhile_append)
  next
    case False
    have "(256 * bytes_val bs + unat b) div 256 = bytes_val bs" "(256 * bytes_val bs + unat b) mod 256 = unat b"
      using b by simp_all
    then have step: "be_bytes (bytes_val (bs @ [b])) = dropWhile (\<lambda>b. b = 0) bs @ [b]"
      using False snoc.IH by (subst be_bytes.simps) (simp add: bytes_val_snoc)
    show ?thesis
    proof (cases "\<forall>x \<in> set bs. x = 0")
      case True
      then have nil: "dropWhile (\<lambda>b. b = 0) bs = []" by simp
      then have "bytes_val bs = 0" using snoc.IH by (metis be_bytes.simps snoc_eq_iff_butlast)
      then have "b \<noteq> 0" using False by (simp add: bytes_val_snoc unat_eq_zero)
      then show ?thesis using True by (simp add: step nil dropWhile_append)
    next
      case False
      then show ?thesis by (auto simp: step dropWhile_append)
    qed
  qed
qed

lemma bs58_index_nth: "i < 58 \<Longrightarrow> bs58_index (bs58_alphabet ! i) = i"
proof -
  have "list_all (\<lambda>i. bs58_index (bs58_alphabet ! i) = i) [0..<58]" by code_simp
  then show "i < 58 \<Longrightarrow> bs58_index (bs58_alphabet ! i) = i" by (simp add: list_all_iff)
qed

lemma decode_digits:
  assumes "\<forall>d \<in> set ds. unat d < 58"
  shows "fold (\<lambda>ch n. 58 * n + bs58_index ch) (map (\<lambda>d. bs58_alphabet ! unat d) (rev ds)) 0 = digits_val ds"
  using assms
proof (induction ds)
  case (Cons d ds)
  then show ?case by (simp add: bs58_index_nth)
qed simp

text \<open>
  C31. The base-58 encoder can be inverted. Unless all bytes are zero, the standard decoder recovers the
  bytes from their encoding, leading zeros included. (For zero bytes only, the encoder emits one digit
  too many.)
\<close>

theorem bs58_round_trip:
  assumes "\<exists>b \<in> set bs. b \<noteq> 0"
  shows "bs58_decode (bs58_encode bs) = bs"
proof -
  let ?ds = "fold bs58_byte bs [0]" and ?z = "length (takeWhile (\<lambda>b. b = 0) bs)"
  have ds: "canonical ?ds" "digits_val ?ds = bytes_val bs"
    using fold_bs58_byte [of "[0]" bs] by (simp_all add: canonical_def bytes_val_def)
  have ne: "?ds \<noteq> [0]"
  proof
    assume "?ds = [0]"
    then have "bytes_val bs = 0" using ds(2) by simp
    then have "dropWhile (\<lambda>b. b = 0) bs = []" using be_bytes_bytes_val [of bs] by (simp add: be_bytes.simps [of 0])
    with assms show False by simp
  qed
  with ds(1) have l: "last ?ds \<noteq> 0" "?ds \<noteq> []" "\<forall>d \<in> set ?ds. unat d < 58" by (auto simp: canonical_def)
  have "bs58_alphabet ! unat (last ?ds) \<noteq> CHR ''1''"
  proof
    assume "bs58_alphabet ! unat (last ?ds) = CHR ''1''"
    also have "CHR ''1'' = bs58_alphabet ! 0" by (simp add: bs58_alphabet_def)
    finally have "unat (last ?ds) = 0" using bs58_index_nth l by (metis last_in_set zero_less_numeral)
    with l(1) show False by (simp add: unat_eq_zero)
  qed
  then have first: "hd (map (\<lambda>d. bs58_alphabet ! unat d) (rev ?ds)) \<noteq> CHR ''1''" using l(2) by (simp add: hd_map hd_rev)
  have "takeWhile (\<lambda>ch. ch = CHR ''1'') (replicate ?z (CHR ''1'') @ map (\<lambda>d. bs58_alphabet ! unat d) (rev ?ds)) = replicate ?z (CHR ''1'')"
    using first l(2) by (cases "rev ?ds") (simp_all add: takeWhile_append)
  then have "bs58_decode (bs58_encode bs) = replicate ?z 0 @ be_bytes (bytes_val bs)"
    using assms decode_digits [OF l(3)] ds(2) by (auto simp: bs58_decode_def bs58_encode_def)
  also have "replicate ?z 0 = takeWhile (\<lambda>b. b = 0) bs"
    by (rule replicate_length_same) (auto dest: set_takeWhileD)
  finally show ?thesis by (simp add: be_bytes_bytes_val)
qed

theorem bs58_round_trip_witness: "bs58_decode (bs58_encode [0, 0, 255, 7]) = [0, 0, 255, 7]"
  using bs58_round_trip [of "[0, 0, 255, 7]"] by simp

end
