(* ===== verification/SolLend.thy ===== *)
theory SolLend
  imports Cpi
begin

text \<open>
  The lending market (\<open>defi/sollend/program/src/lib.rs\<close>): deposits earn and loans pay interest through
  two growing indices, the rate follows a kinked curve of the utilization, and a position whose health
  falls below one can be liquidated. Like the exchange, the source keeps the books only.
\<close>

section \<open>Data\<close>

definition BPS :: u64 where "BPS = 10000"
definition BASE_RATE_BPS :: u64 where "BASE_RATE_BPS = 200"
definition SLOPE1_BPS :: u64 where "SLOPE1_BPS = 400"
definition SLOPE2_BPS :: u64 where "SLOPE2_BPS = 7500"
definition OPTIMAL_UTILIZATION_BPS :: u64 where "OPTIMAL_UTILIZATION_BPS = 8000"
definition LTV_RATIO_BPS :: u64 where "LTV_RATIO_BPS = 8000"
definition LIQUIDATION_THRESHOLD_BPS :: u64 where "LIQUIDATION_THRESHOLD_BPS = 8500"
definition LIQUIDATION_BONUS_BPS :: u64 where "LIQUIDATION_BONUS_BPS = 500"
definition SLOTS_PER_YEAR :: u64 where "SLOTS_PER_YEAR = 78840000"

record lending_market =
  market_is_initialized :: bool
  market_authority :: pubkey
  market_token_mint :: pubkey
  total_deposits :: u64
  total_borrows :: u64
  deposit_rate :: u64
  borrow_rate :: u64
  last_update_slot :: u64
  utilization_rate :: u64
  ltv_ratio :: u64
  liquidation_threshold :: u64
  liquidation_bonus :: u64
  cumulative_deposit_index :: u64
  cumulative_borrow_index :: u64

definition LendingMarket_LEN :: nat where
  "LendingMarket_LEN = 1 + 32 + 32 + 8 + 8 + 8 + 8 + 8 + 8 + 8 + 8 + 8 + 8 + 8"

record user_position =
  position_is_initialized :: bool
  position_owner :: pubkey
  position_market :: pubkey
  deposited_amount :: u64
  borrowed_amount :: u64
  deposit_index_snapshot :: u64
  borrow_index_snapshot :: u64
  health_factor :: u64

definition UserPosition_LEN :: nat where
  "UserPosition_LEN = 1 + 32 + 32 + 8 + 8 + 8 + 8 + 8"

datatype lending_instruction =
    InitializeMarket
  | Deposit u64
  | Withdraw u64
  | Borrow u64
  | Repay u64
  | Liquidate u64
  | AccrueInterest

datatype lending_error =
    AlreadyInitialized | NotInitialized | InsufficientCollateral | PositionHealthy | InsufficientDeposit
  | RepayExceedsDebt | MathOverflow | InvalidAuthority

fun lending_err :: "lending_error \<Rightarrow> instruction_error" where
  "lending_err AlreadyInitialized = Custom 0"
| "lending_err NotInitialized = Custom 1"
| "lending_err InsufficientCollateral = Custom 2"
| "lending_err PositionHealthy = Custom 3"
| "lending_err InsufficientDeposit = Custom 4"
| "lending_err RepayExceedsDebt = Custom 5"
| "lending_err MathOverflow = Custom 6"
| "lending_err InvalidAuthority = Custom 7"

record lending_codecs =
  market_codec :: "lending_market borsh"
  position_codec :: "user_position borsh"
  lending_instruction_codec :: "lending_instruction borsh"

abbreviation ovf :: "'a option \<Rightarrow> 'a res" where
  "ovf m \<equiv> ok_or m (lending_err MathOverflow)"

section \<open>Rates, health and interest\<close>

definition calculate_interest_rate :: "u64 \<Rightarrow> u64" where
  "calculate_interest_rate utilization_bps =
     (if utilization_bps = 0 then BASE_RATE_BPS
      else if utilization_bps \<le> OPTIMAL_UTILIZATION_BPS
      then
        let variable = unwrap_or (checked_mul SLOPE1_BPS utilization_bps) (- 1) div OPTIMAL_UTILIZATION_BPS
        in unwrap_or (checked_add BASE_RATE_BPS variable) (- 1)
      else
        let excess = saturating_sub utilization_bps OPTIMAL_UTILIZATION_BPS;
            remaining = saturating_sub BPS OPTIMAL_UTILIZATION_BPS;
            steep = unwrap_or (checked_mul SLOPE2_BPS excess) (- 1) div remaining
        in unwrap_or (Option.bind (checked_add BASE_RATE_BPS SLOPE1_BPS) (\<lambda>x. checked_add x steep)) (- 1))"

definition calculate_utilization :: "u64 \<Rightarrow> u64 \<Rightarrow> u64" where
  "calculate_utilization deposits borrows =
     (if deposits = 0 then 0 else unwrap_or (checked_mul borrows BPS) (- 1) div deposits)"

definition calculate_health_factor :: "u64 \<Rightarrow> u64 \<Rightarrow> u64 \<Rightarrow> u64" where
  "calculate_health_factor deposited borrowed threshold =
     (if borrowed = 0 then - 1 else unwrap_or (checked_mul deposited threshold) (- 1) div borrowed)"

definition compound_index :: "u64 \<Rightarrow> u64 \<Rightarrow> u64 \<Rightarrow> u64" where
  "compound_index current_index rate_bps slots_elapsed =
     (case (Option.bind (checked_mul current_index rate_bps) (\<lambda>x. checked_mul x slots_elapsed), checked_mul BPS SLOTS_PER_YEAR) of
        (Some n, Some d) \<Rightarrow> if 0 < d then saturating_add current_index (n div d) else current_index
      | _ \<Rightarrow> current_index)"

text \<open>A balance grown by the ratio of two index values; it stays where the product overflows.\<close>

definition grown :: "u64 \<Rightarrow> u64 \<Rightarrow> u64 \<Rightarrow> u64" where
  "grown amount index snapshot = unwrap_or (map_option (\<lambda>x. x div snapshot) (checked_mul amount index)) amount"

definition settle_user_interest :: "lending_market \<Rightarrow> user_position \<Rightarrow> user_position" where
  "settle_user_interest m p =
     (let p = (if 0 < deposit_index_snapshot p \<and> 0 < deposited_amount p
               then p\<lparr>deposited_amount := grown (deposited_amount p) (cumulative_deposit_index m) (deposit_index_snapshot p)\<rparr>
               else p);
          p = (if 0 < borrow_index_snapshot p \<and> 0 < borrowed_amount p
               then p\<lparr>borrowed_amount := grown (borrowed_amount p) (cumulative_borrow_index m) (borrow_index_snapshot p)\<rparr>
               else p)
      in p\<lparr>deposit_index_snapshot := cumulative_deposit_index m, borrow_index_snapshot := cumulative_borrow_index m\<rparr>)"

text \<open>The recalculations at the end of the handlers.\<close>

definition refresh_rates :: "lending_market \<Rightarrow> lending_market" where
  "refresh_rates m =
     (let utilization = calculate_utilization (total_deposits m) (total_borrows m);
          rate = calculate_interest_rate utilization
      in m\<lparr>utilization_rate := utilization, borrow_rate := rate,
           deposit_rate := unwrap_or (checked_mul rate utilization) 0 div BPS\<rparr>)"

definition refresh_position :: "lending_market \<Rightarrow> user_position \<Rightarrow> user_position" where
  "refresh_position m p =
     p\<lparr>health_factor := calculate_health_factor (deposited_amount p) (borrowed_amount p) (liquidation_threshold m),
       deposit_index_snapshot := cumulative_deposit_index m, borrow_index_snapshot := cumulative_borrow_index m\<rparr>"

section \<open>Handlers\<close>

text \<open>
  \<open>serialize(&mut *data.borrow_mut())\<close> moves the slice of the account forward: when both records are
  written through the same account, the second one follows the first.
\<close>

definition write_market_and_position ::
  "lending_codecs \<Rightarrow> lending_market \<Rightarrow> pubkey \<Rightarrow> user_position \<Rightarrow> pubkey \<Rightarrow> vm \<Rightarrow> vm res" where
  "write_market_and_position c m mk p pk v =
     rbind (store_account (market_codec c) m mk v) (\<lambda>v.
     if pk \<noteq> mk then store_account (position_codec c) p pk v
     else
     let d = data (mem v mk); n = length (to_vec (market_codec c) m) in
     rbind (store (position_codec c) p (drop n d)) (\<lambda>r. Inr (set_mem_data mk (take n d @ r) v)))"

definition blank_market :: lending_market where
  "blank_market =
     \<lparr>market_is_initialized = False, market_authority = 0, market_token_mint = 0, total_deposits = 0,
      total_borrows = 0, deposit_rate = 0, borrow_rate = BASE_RATE_BPS, last_update_slot = 0,
      utilization_rate = 0, ltv_ratio = LTV_RATIO_BPS, liquidation_threshold = LIQUIDATION_THRESHOLD_BPS,
      liquidation_bonus = LIQUIDATION_BONUS_BPS, cumulative_deposit_index = 1000000000,
      cumulative_borrow_index = 1000000000\<rparr>"

definition lending_initialize_market ::
  "env \<Rightarrow> lending_codecs \<Rightarrow> instruction_account list \<Rightarrow> vm \<Rightarrow> vm res" where
  "lending_initialize_market e c ias v =
     rbind (next_account_info ias) (\<lambda>(market_account, it).
     rbind (next_account_info it) (\<lambda>(authority, it).
     rbind (next_account_info it) (\<lambda>(token_mint, it).
     if \<not> is_signer authority then Inl MissingRequiredSignature
     else
     let m = unwrap_or (try_from_slice (market_codec c) (data (mem v (key market_account)))) blank_market in
     if market_is_initialized m then Inl (lending_err AlreadyInitialized)
     else
     rbind (clock_get e) (\<lambda>clk.
     store_account (market_codec c)
       (m\<lparr>market_is_initialized := True, market_authority := key authority, market_token_mint := key token_mint,
          last_update_slot := slot clk\<rparr>) (key market_account) v))))"

definition load_market :: "lending_codecs \<Rightarrow> pubkey \<Rightarrow> vm \<Rightarrow> lending_market res" where
  "load_market c k v =
     rbind (load_account (market_codec c) k v) (\<lambda>m.
     if \<not> market_is_initialized m then Inl (lending_err NotInitialized) else Inr m)"

definition load_own_position :: "lending_codecs \<Rightarrow> pubkey \<Rightarrow> pubkey \<Rightarrow> vm \<Rightarrow> user_position res" where
  "load_own_position c own k v =
     rbind (load_account (position_codec c) k v) (\<lambda>p.
     if position_owner p \<noteq> own then Inl (lending_err InvalidAuthority) else Inr p)"

definition blank_position :: "pubkey \<Rightarrow> pubkey \<Rightarrow> lending_market \<Rightarrow> user_position" where
  "blank_position own mk m =
     \<lparr>position_is_initialized = False, position_owner = own, position_market = mk, deposited_amount = 0,
      borrowed_amount = 0, deposit_index_snapshot = cumulative_deposit_index m,
      borrow_index_snapshot = cumulative_borrow_index m, health_factor = - 1\<rparr>"

definition lending_deposit ::
  "lending_codecs \<Rightarrow> u64 \<Rightarrow> instruction_account list \<Rightarrow> vm \<Rightarrow> vm res" where
  "lending_deposit c amount ias v =
     rbind (next_account_info ias) (\<lambda>(market_account, it).
     rbind (next_account_info it) (\<lambda>(position_account, it).
     rbind (next_account_info it) (\<lambda>(depositor, it).
     if \<not> is_signer depositor then Inl MissingRequiredSignature
     else
     rbind (load_market c (key market_account) v) (\<lambda>m.
     let p = unwrap_or (try_from_slice (position_codec c) (data (mem v (key position_account))))
               (blank_position (key depositor) (key market_account) m);
         p = (if position_is_initialized p then p
              else p\<lparr>position_is_initialized := True, position_owner := key depositor, position_market := key market_account,
                     deposit_index_snapshot := cumulative_deposit_index m,
                     borrow_index_snapshot := cumulative_borrow_index m\<rparr>);
         p = settle_user_interest m p
     in
     rbind (ovf (checked_add (deposited_amount p) amount)) (\<lambda>d.
     rbind (ovf (checked_add (total_deposits m) amount)) (\<lambda>td.
     let m = refresh_rates (m\<lparr>total_deposits := td\<rparr>); p = refresh_position m (p\<lparr>deposited_amount := d\<rparr>) in
     write_market_and_position c m (key market_account) p (key position_account) v))))))"

definition lending_withdraw ::
  "lending_codecs \<Rightarrow> u64 \<Rightarrow> instruction_account list \<Rightarrow> vm \<Rightarrow> vm res" where
  "lending_withdraw c amount ias v =
     rbind (next_account_info ias) (\<lambda>(market_account, it).
     rbind (next_account_info it) (\<lambda>(position_account, it).
     rbind (next_account_info it) (\<lambda>(withdrawer, it).
     if \<not> is_signer withdrawer then Inl MissingRequiredSignature
     else
     rbind (load_market c (key market_account) v) (\<lambda>m.
     rbind (load_own_position c (key withdrawer) (key position_account) v) (\<lambda>p.
     let p = settle_user_interest m p in
     if deposited_amount p < amount then Inl (lending_err InsufficientDeposit)
     else
     let new_deposited = saturating_sub (deposited_amount p) amount in
     if 0 < borrowed_amount p \<and> calculate_health_factor new_deposited (borrowed_amount p) (liquidation_threshold m) < BPS
     then Inl (lending_err InsufficientCollateral)
     else
     let m = refresh_rates (m\<lparr>total_deposits := saturating_sub (total_deposits m) amount\<rparr>);
         p = refresh_position m (p\<lparr>deposited_amount := new_deposited\<rparr>)
     in write_market_and_position c m (key market_account) p (key position_account) v)))))"

definition lending_borrow ::
  "lending_codecs \<Rightarrow> u64 \<Rightarrow> instruction_account list \<Rightarrow> vm \<Rightarrow> vm res" where
  "lending_borrow c amount ias v =
     rbind (next_account_info ias) (\<lambda>(market_account, it).
     rbind (next_account_info it) (\<lambda>(position_account, it).
     rbind (next_account_info it) (\<lambda>(borrower, it).
     if \<not> is_signer borrower then Inl MissingRequiredSignature
     else
     rbind (load_market c (key market_account) v) (\<lambda>m.
     rbind (load_own_position c (key borrower) (key position_account) v) (\<lambda>p.
     let p = settle_user_interest m p;
         max_borrow = unwrap_or (checked_mul (deposited_amount p) (ltv_ratio m)) 0 div BPS
     in
     rbind (ovf (checked_add (borrowed_amount p) amount)) (\<lambda>new_borrowed.
     if max_borrow < new_borrowed then Inl (lending_err InsufficientCollateral)
     else
     rbind (ovf (checked_add (total_borrows m) amount)) (\<lambda>tb.
     let m = refresh_rates (m\<lparr>total_borrows := tb\<rparr>); p = refresh_position m (p\<lparr>borrowed_amount := new_borrowed\<rparr>) in
     write_market_and_position c m (key market_account) p (key position_account) v)))))))"

definition lending_repay ::
  "lending_codecs \<Rightarrow> u64 \<Rightarrow> instruction_account list \<Rightarrow> vm \<Rightarrow> vm res" where
  "lending_repay c amount ias v =
     rbind (next_account_info ias) (\<lambda>(market_account, it).
     rbind (next_account_info it) (\<lambda>(position_account, it).
     rbind (next_account_info it) (\<lambda>(repayer, it).
     if \<not> is_signer repayer then Inl MissingRequiredSignature
     else
     rbind (load_market c (key market_account) v) (\<lambda>m.
     rbind (load_own_position c (key repayer) (key position_account) v) (\<lambda>p.
     let p = settle_user_interest m p in
     if borrowed_amount p < amount then Inl (lending_err RepayExceedsDebt)
     else
     let m = refresh_rates (m\<lparr>total_borrows := saturating_sub (total_borrows m) amount\<rparr>);
         p = refresh_position m (p\<lparr>borrowed_amount := saturating_sub (borrowed_amount p) amount\<rparr>)
     in write_market_and_position c m (key market_account) p (key position_account) v)))))"

definition seized_collateral :: "lending_market \<Rightarrow> user_position \<Rightarrow> u64 \<Rightarrow> u64" where
  "seized_collateral m p actual_repay =
     min (unwrap_or (checked_mul actual_repay (unwrap_or (checked_add BPS (liquidation_bonus m)) BPS)) (- 1) div BPS)
       (deposited_amount p)"

definition lending_liquidate ::
  "lending_codecs \<Rightarrow> u64 \<Rightarrow> instruction_account list \<Rightarrow> vm \<Rightarrow> vm res" where
  "lending_liquidate c repay_amount ias v =
     rbind (next_account_info ias) (\<lambda>(market_account, it).
     rbind (next_account_info it) (\<lambda>(position_account, it).
     rbind (next_account_info it) (\<lambda>(liquidator, it).
     if \<not> is_signer liquidator then Inl MissingRequiredSignature
     else
     rbind (load_market c (key market_account) v) (\<lambda>m.
     rbind (load_account (position_codec c) (key position_account) v) (\<lambda>p.
     let p = settle_user_interest m p in
     if BPS \<le> calculate_health_factor (deposited_amount p) (borrowed_amount p) (liquidation_threshold m)
     then Inl (lending_err PositionHealthy)
     else
     let actual_repay = min repay_amount (borrowed_amount p);
         seized = seized_collateral m p actual_repay;
         p = p\<lparr>borrowed_amount := saturating_sub (borrowed_amount p) actual_repay,
               deposited_amount := saturating_sub (deposited_amount p) seized\<rparr>;
         m = refresh_rates (m\<lparr>total_borrows := saturating_sub (total_borrows m) actual_repay,
                              total_deposits := saturating_sub (total_deposits m) seized\<rparr>)
     in write_market_and_position c m (key market_account) (refresh_position m p) (key position_account) v)))))"

definition lending_accrue_interest ::
  "env \<Rightarrow> lending_codecs \<Rightarrow> instruction_account list \<Rightarrow> vm \<Rightarrow> vm res" where
  "lending_accrue_interest e c ias v =
     rbind (next_account_info ias) (\<lambda>(market_account, it).
     rbind (load_market c (key market_account) v) (\<lambda>m.
     rbind (clock_get e) (\<lambda>clk.
     let current_slot = slot clk in
     if current_slot \<le> last_update_slot m then Inr v
     else
     let slots_elapsed = saturating_sub current_slot (last_update_slot m);
         interest_accrued = unwrap_or (map_option (\<lambda>x. x div (BPS * SLOTS_PER_YEAR))
           (Option.bind (checked_mul (total_borrows m) (borrow_rate m)) (\<lambda>x. checked_mul x slots_elapsed))) 0;
         m = m\<lparr>cumulative_borrow_index := compound_index (cumulative_borrow_index m) (borrow_rate m) slots_elapsed,
               cumulative_deposit_index := compound_index (cumulative_deposit_index m) (deposit_rate m) slots_elapsed,
               total_borrows := saturating_add (total_borrows m) interest_accrued,
               total_deposits := saturating_add (total_deposits m) interest_accrued\<rparr>
     in store_account (market_codec c) ((refresh_rates m)\<lparr>last_update_slot := current_slot\<rparr>) (key market_account) v)))"

definition lending_process_instruction :: "env \<Rightarrow> lending_codecs \<Rightarrow> bytes \<Rightarrow> program" where
  "lending_process_instruction e c instruction_data ias v =
     rbind (ok_or (try_from_slice (lending_instruction_codec c) instruction_data) InvalidInstructionData) (\<lambda>ix.
     case ix of
       InitializeMarket \<Rightarrow> lending_initialize_market e c ias v
     | Deposit amount \<Rightarrow> lending_deposit c amount ias v
     | Withdraw amount \<Rightarrow> lending_withdraw c amount ias v
     | Borrow amount \<Rightarrow> lending_borrow c amount ias v
     | Repay amount \<Rightarrow> lending_repay c amount ias v
     | Liquidate amount \<Rightarrow> lending_liquidate c amount ias v
     | AccrueInterest \<Rightarrow> lending_accrue_interest e c ias v)"

section \<open>Layouts\<close>

definition market_layout :: "lending_market layout" where
  "market_layout =
     iso_layout
       (\<lambda>(i, au, tm, td, tb, dr, br, ls, ut, lt, lq, lb, cd, cb).
          \<lparr>market_is_initialized = i, market_authority = au, market_token_mint = tm, total_deposits = td,
           total_borrows = tb, deposit_rate = dr, borrow_rate = br, last_update_slot = ls, utilization_rate = ut,
           ltv_ratio = lt, liquidation_threshold = lq, liquidation_bonus = lb, cumulative_deposit_index = cd,
           cumulative_borrow_index = cb\<rparr>)
       (\<lambda>m. (market_is_initialized m, market_authority m, market_token_mint m, total_deposits m, total_borrows m,
             deposit_rate m, borrow_rate m, last_update_slot m, utilization_rate m, ltv_ratio m,
             liquidation_threshold m, liquidation_bonus m, cumulative_deposit_index m, cumulative_borrow_index m))
       (pair_layout bool_layout (pair_layout word_layout (pair_layout word_layout (pair_layout word_layout
       (pair_layout word_layout (pair_layout word_layout (pair_layout word_layout (pair_layout word_layout
       (pair_layout word_layout (pair_layout word_layout (pair_layout word_layout (pair_layout word_layout
       (pair_layout word_layout word_layout)))))))))))))"

definition position_layout :: "user_position layout" where
  "position_layout =
     iso_layout
       (\<lambda>(i, ow, mk, d, b, ds, bs, h).
          \<lparr>position_is_initialized = i, position_owner = ow, position_market = mk, deposited_amount = d,
           borrowed_amount = b, deposit_index_snapshot = ds, borrow_index_snapshot = bs, health_factor = h\<rparr>)
       (\<lambda>p. (position_is_initialized p, position_owner p, position_market p, deposited_amount p, borrowed_amount p,
             deposit_index_snapshot p, borrow_index_snapshot p, health_factor p))
       (pair_layout bool_layout (pair_layout word_layout (pair_layout word_layout (pair_layout word_layout
       (pair_layout word_layout (pair_layout word_layout (pair_layout word_layout word_layout)))))))"

lemma wf_market_layout: "wf_layout LendingMarket_LEN market_layout"
  unfolding market_layout_def by (rule wf_layout_eq, (rule wf_layouts)+) (simp_all add: LendingMarket_LEN_def)

lemma wf_position_layout: "wf_layout UserPosition_LEN position_layout"
  unfolding position_layout_def by (rule wf_layout_eq, (rule wf_layouts)+) (simp_all add: UserPosition_LEN_def)

interpretation market_borsh: borsh_struct "of_layout market_layout" LendingMarket_LEN
  by (rule borsh_struct_of_layout [OF wf_market_layout])

interpretation position_borsh: borsh_struct "of_layout position_layout" UserPosition_LEN
  by (rule borsh_struct_of_layout [OF wf_position_layout])

lemmas lending_io [simp] = of_layout_io [OF wf_market_layout] of_layout_io [OF wf_position_layout]

lemma keeps_write_market_and_position: "keeps v (write_market_and_position c m mk p pk v)"
  unfolding write_market_and_position_def by (intro keeps_intros)

lemmas lending_handler_defs = lending_initialize_market_def lending_deposit_def lending_withdraw_def
  lending_borrow_def lending_repay_def lending_liquidate_def lending_accrue_interest_def

lemma lending_keeps: "keeps v (lending_process_instruction e c d ias v)"
  unfolding lending_process_instruction_def
proof (rule keeps_bind)
  fix ix
  show "keeps v (case ix of
       InitializeMarket \<Rightarrow> lending_initialize_market e c ias v
     | Deposit amount \<Rightarrow> lending_deposit c amount ias v
     | Withdraw amount \<Rightarrow> lending_withdraw c amount ias v
     | Borrow amount \<Rightarrow> lending_borrow c amount ias v
     | Repay amount \<Rightarrow> lending_repay c amount ias v
     | Liquidate amount \<Rightarrow> lending_liquidate c amount ias v
     | AccrueInterest \<Rightarrow> lending_accrue_interest e c ias v)"
    by (cases ix; simp only: lending_instruction.case lending_handler_defs;
        intro keeps_write_market_and_position keeps_intros)
qed

sublocale chain \<subseteq> lending: onchain_program "lending_process_instruction e c d" for c d
  by unfold_locales (metis keepsD lending_keeps)

section \<open>Account contents\<close>

locale lending_accounts = account_pair "market_codec c" LendingMarket_LEN "position_codec c" UserPosition_LEN
  for c :: lending_codecs
begin

lemma write_effect:
  assumes "load (market_codec c) (data (mem v mk)) = Inr m0" and "load (position_codec c) (data (mem v pk)) = Inr p0"
    and run: "write_market_and_position c m mk p pk v = Inr v'"
  shows "load (market_codec c) (data (mem v' mk)) = Inr m" and "load (position_codec c) (data (mem v' pk)) = Inr p"
proof -
  have ne: "mk \<noteq> pk" by (rule accounts_apart [where m = "mem v", OF assms(1,2)])
  with run obtain u where u: "store_account (market_codec c) m mk v = Inr u" and w: "store_account (position_codec c) p pk u = Inr v'"
    by (auto simp: write_market_and_position_def rbind_eq_Inr)
  have "length (data (mem u pk)) = UserPosition_LEN"
    using snd.load_length [OF assms(2)] store_fst(4) [OF fst.load_length [OF assms(1)] u, of pk] ne by simp
  from store_two(1,2) [OF fst.load_length [OF assms(1)] u this w]
  show "load (market_codec c) (data (mem v' mk)) = Inr m" "load (position_codec c) (data (mem v' pk)) = Inr p" .
qed

lemma write_total:
  assumes "load (market_codec c) (data (mem v mk)) = Inr m0" and "load (position_codec c) (data (mem v pk)) = Inr p0"
  shows "\<exists>v'. write_market_and_position c m mk p pk v = Inr v'"
proof -
  have ne: "mk \<noteq> pk" by (rule accounts_apart [where m = "mem v", OF assms])
  have "store (market_codec c) m (data (mem v mk)) = Inr (to_vec (market_codec c) m)" by (rule fst.store_after_load [OF assms(1)])
  moreover have "store (position_codec c) p (data (mem v pk)) = Inr (to_vec (position_codec c) p)"
    by (rule snd.store_after_load [OF assms(2)])
  ultimately show ?thesis using ne by (simp add: write_market_and_position_def store_account_def)
qed

end

lemma load_market_eq_Inr [rust_simps]:
  "load_market c k v = Inr m \<longleftrightarrow> load (market_codec c) (data (mem v k)) = Inr m \<and> market_is_initialized m"
  by (auto simp: load_market_def load_account_def rust_simps)

lemma load_own_position_eq_Inr [rust_simps]:
  "load_own_position c own k v = Inr p \<longleftrightarrow> load (position_codec c) (data (mem v k)) = Inr p \<and> position_owner p = own"
  by (auto simp: load_own_position_def load_account_def rust_simps)

lemma borrow_effect:
  assumes "lending_borrow c amount ias v = Inr v'"
  obtains ma pa bo rest m p nb tb where "ias = ma # pa # bo # rest" "is_signer bo"
    "load (market_codec c) (data (mem v (key ma))) = Inr m" "market_is_initialized m"
    "load (position_codec c) (data (mem v (key pa))) = Inr p" "position_owner p = key bo"
    "checked_add (borrowed_amount (settle_user_interest m p)) amount = Some nb"
    "nb \<le> unwrap_or (checked_mul (deposited_amount (settle_user_interest m p)) (ltv_ratio m)) 0 div BPS"
    "checked_add (total_borrows m) amount = Some tb"
    "write_market_and_position c (refresh_rates (m\<lparr>total_borrows := tb\<rparr>)) (key ma)
       (refresh_position (refresh_rates (m\<lparr>total_borrows := tb\<rparr>)) ((settle_user_interest m p)\<lparr>borrowed_amount := nb\<rparr>))
       (key pa) v = Inr v'"
proof -
  from assms obtain ma pa bo rest where ias: "ias = ma # pa # bo # rest"
    by (auto simp: lending_borrow_def rust_simps)
  from assms [unfolded lending_borrow_def ias] show thesis
    by (auto simp: rbind_eq_Inr if_Inl_eq_Inr ok_or_eq_Inr load_market_eq_Inr load_own_position_eq_Inr Let_def
        not_less ias intro!: that)
qed

section \<open>Health\<close>




lemma refresh_rates_fields [simp]:
  "ltv_ratio (refresh_rates m) = ltv_ratio m" "liquidation_threshold (refresh_rates m) = liquidation_threshold m"
  "cumulative_deposit_index (refresh_rates m) = cumulative_deposit_index m"
  "cumulative_borrow_index (refresh_rates m) = cumulative_borrow_index m"
  "market_is_initialized (refresh_rates m) = market_is_initialized m"
  by (simp_all add: refresh_rates_def Let_def)

section \<open>Properties\<close>

definition lending_layouts :: "lending_instruction \<Rightarrow> lending_codecs" where
  "lending_layouts ix =
     \<lparr>market_codec = of_layout market_layout, position_codec = of_layout position_layout,
      lending_instruction_codec = \<lparr>try_from_slice = (\<lambda>_. Some ix), to_vec = (\<lambda>_. [])\<rparr>\<rparr>"

interpretation lending_layouts: lending_accounts "lending_layouts ix" for ix
  by (simp add: lending_accounts_def account_pair_def account_pair_axioms_def lending_layouts_def
      market_borsh.borsh_struct_axioms position_borsh.borsh_struct_axioms)
    (simp add: LendingMarket_LEN_def UserPosition_LEN_def)

text \<open>Market 2 for its own token, and a position 3 of owner 1 that belongs to another market.\<close>

definition sample_market :: lending_market where
  "sample_market = blank_market\<lparr>market_is_initialized := True, total_deposits := 5000\<rparr>"

definition sample_position :: "pubkey \<Rightarrow> user_position" where
  "sample_position mk = (blank_position 1 mk sample_market)\<lparr>position_is_initialized := True, deposited_amount := 1000\<rparr>"

definition lending_vm :: "user_position \<Rightarrow> vm" where
  "lending_vm p =
     enter_vm (tx_of [1, 2, 3, 0]
       (\<lambda>k. if k = 2 then \<lparr>lamports = 10, data = put market_layout sample_market, owner = 99\<rparr>
            else if k = 3 then \<lparr>lamports = 10, data = put position_layout p, owner = 99\<rparr>
            else wallet 50))"

definition lending_refs :: "instruction_account list" where
  "lending_refs = [account_ref 2 False True, account_ref 3 False True, account_ref 1 True True]"

lemmas lending_eval = lending_layouts_def sample_market_def blank_market_def sample_position_def blank_position_def
  lending_vm_def lending_refs_def load_market_def load_own_position_def settle_user_interest_def refresh_rates_def
  refresh_position_def write_market_and_position_def grown_def LendingMarket_LEN_def UserPosition_LEN_def
  calculate_utilization_def calculate_interest_rate_def calculate_health_factor_def checked_mul_def checked_add_def
  BPS_def BASE_RATE_BPS_def SLOPE1_BPS_def OPTIMAL_UTILIZATION_BPS_def LTV_RATIO_BPS_def LIQUIDATION_THRESHOLD_BPS_def



text \<open>
  C33. Loans do not look at the market of the collateral. If \<open>Borrow\<close> succeeds with a position, it also
  succeeds when the position belongs to any other market: neither \<open>Borrow\<close> nor the other handlers
  compare the market a position records with the market account, so a deposit of a worthless token in
  an own market is collateral for a loan in every other market.
\<close>

theorem borrow_ignores_market:
  assumes "lending_accounts c" and "lending_borrow c amount ias v = Inr v'"
    and "load (position_codec c) (data (mem v (key (ias ! 1)))) = Inr p"
  shows "\<exists>w'. lending_borrow c amount ias
    (set_mem_data (key (ias ! 1)) (to_vec (position_codec c) (p\<lparr>position_market := mk\<rparr>)) v) = Inr w'"
  using assms(2)
proof (rule borrow_effect)
  fix ma pa bo :: instruction_account and rest m p' nb tb
  assume ias: "ias = ma # pa # bo # rest" "is_signer bo"
    and m: "load (market_codec c) (data (mem v (key ma))) = Inr m" "market_is_initialized m"
    and p': "load (position_codec c) (data (mem v (key pa))) = Inr p'" "position_owner p' = key bo"
    and nb: "checked_add (borrowed_amount (settle_user_interest m p')) amount = Some nb"
      "nb \<le> unwrap_or (checked_mul (deposited_amount (settle_user_interest m p')) (ltv_ratio m)) 0 div BPS"
    and tb: "checked_add (total_borrows m) amount = Some tb"
  let ?p = "p\<lparr>position_market := mk\<rparr>" and ?w = "set_mem_data (key pa) (to_vec (position_codec c) (p\<lparr>position_market := mk\<rparr>)) v"
  have p: "p' = p" using p' assms(3) by (simp add: ias)
  have ne: "key ma \<noteq> key pa"
    using lending_accounts.axioms [OF assms(1)] m(1) p'(1) by (rule account_pair.accounts_apart [where m = "mem v"])
  have lm: "load (market_codec c) (data (mem ?w (key ma))) = Inr m" using m(1) ne by simp
  have lp: "load (position_codec c) (data (mem ?w (key pa))) = Inr ?p"
    using borsh_struct.load_to_vec [OF account_pair.axioms(2) [OF lending_accounts.axioms [OF assms(1)]]] by simp
  have s: "borrowed_amount (settle_user_interest m ?p) = borrowed_amount (settle_user_interest m p)"
    "deposited_amount (settle_user_interest m ?p) = deposited_amount (settle_user_interest m p)"
    by (auto simp: settle_user_interest_def Let_def)
  have "load_market c (key ma) ?w = Inr m" "load_own_position c (key bo) (key pa) ?w = Inr ?p"
    using lm lp m(2) p'(2) p by (simp_all add: load_market_eq_Inr load_own_position_eq_Inr)
  then show ?thesis
    using lending_accounts.write_total [OF assms(1) lm lp] nb tb ias(2)
    by (auto simp: lending_borrow_def ias(1) s p not_less [symmetric] Let_def)
qed

theorem borrow_ignores_market_witness:
  "\<exists>v' w'. lending_borrow (lending_layouts AccrueInterest) 800 lending_refs (lending_vm (sample_position 2)) = Inr v' \<and>
     lending_borrow (lending_layouts AccrueInterest) 800 lending_refs (set_mem_data 3
       (to_vec (position_codec (lending_layouts AccrueInterest)) ((sample_position 2)\<lparr>position_market := 77\<rparr>))
       (lending_vm (sample_position 2))) = Inr w'"
proof -
  let ?c = "lending_layouts AccrueInterest"
  obtain v' where run: "lending_borrow ?c 800 lending_refs (lending_vm (sample_position 2)) = Inr v'"
    by (simp add: lending_borrow_def lending_eval runtime_eval cpi_eval)
  have "load (position_codec ?c) (data (mem (lending_vm (sample_position 2)) (key (lending_refs ! 1)))) = Inr (sample_position 2)"
    by (simp add: lending_refs_def lending_vm_def lending_layouts_def tx_of_def)
  from borrow_ignores_market [OF lending_layouts.lending_accounts_axioms run this, of 77] run
  show ?thesis by (simp add: lending_refs_def)
qed

end
