(* ===== verification/Scusd.thy ===== *)
theory Scusd
  imports Cpi
begin

text \<open>
  The SCUSD stablecoin (\<open>defi/scusd/program/src/lib.rs\<close>): vaults of PRISM tokens against which SCUSD is
  minted through the token program, with a stability fee and liquidations at a discount. The instruction
  builders of the token crate are parameters.
\<close>

section \<open>Data\<close>

definition COLLATERAL_RATIO_MIN_BPS :: u64 where "COLLATERAL_RATIO_MIN_BPS = 15000"
definition LIQUIDATION_RATIO_BPS :: u64 where "LIQUIDATION_RATIO_BPS = 12000"
definition STABILITY_FEE_RATE_BPS :: u64 where "STABILITY_FEE_RATE_BPS = 200"
definition LIQUIDATION_DISCOUNT_BPS :: u64 where "LIQUIDATION_DISCOUNT_BPS = 500"
definition PRICE_DECIMALS :: u64 where "PRICE_DECIMALS = 100000000"
definition SECONDS_PER_YEAR :: u64 where "SECONDS_PER_YEAR = 31557600"
definition GLOBAL_STATE_SEED :: bytes where "GLOBAL_STATE_SEED = ascii ''scusd_global''"
definition VAULT_SEED :: bytes where "VAULT_SEED = ascii ''scusd_vault''"

record global_state =
  global_authority :: pubkey
  scusd_mint :: pubkey
  prism_mint :: pubkey
  collateral_pool :: pubkey
  total_collateral :: u64
  total_debt :: u64
  collateral_ratio_min :: u64
  liquidation_ratio :: u64
  stability_fee_rate :: u64
  global_bump :: u8
  global_is_initialized :: bool

definition GlobalState_LEN :: nat where
  "GlobalState_LEN = 32 + 32 + 32 + 32 + 8 + 8 + 8 + 8 + 8 + 1 + 1"

record scusd_vault =
  vault_owner :: pubkey
  collateral_amount :: u64
  debt_amount :: u64
  collateral_ratio :: u64
  last_update :: i64
  vault_bump :: u8
  vault_is_initialized :: bool

definition Vault_LEN :: nat where
  "Vault_LEN = 32 + 8 + 8 + 8 + 8 + 1 + 1"

datatype scusd_instruction =
    Initialize
  | OpenVault
  | DepositCollateral u64
  | MintScusd u64
  | RepayScusd u64
  | WithdrawCollateral u64
  | LiquidateVault

record scusd_codecs =
  global_codec :: "global_state borsh"
  scusd_vault_codec :: "scusd_vault borsh"
  scusd_instruction_codec :: "scusd_instruction borsh"
  token_transfer :: "pubkey \<Rightarrow> pubkey \<Rightarrow> pubkey \<Rightarrow> pubkey \<Rightarrow> u64 \<Rightarrow> cpi_instruction res"
  token_mint_to :: "pubkey \<Rightarrow> pubkey \<Rightarrow> pubkey \<Rightarrow> pubkey \<Rightarrow> u64 \<Rightarrow> cpi_instruction res"
  token_burn :: "pubkey \<Rightarrow> pubkey \<Rightarrow> pubkey \<Rightarrow> pubkey \<Rightarrow> u64 \<Rightarrow> cpi_instruction res"

abbreviation ovf :: "'a option \<Rightarrow> 'a res" where
  "ovf m \<equiv> ok_or m ArithmeticOverflow"

section \<open>Arithmetic\<close>

definition calculate_collateral_ratio :: "u64 \<Rightarrow> u64 \<Rightarrow> u64 \<Rightarrow> u64 res" where
  "calculate_collateral_ratio collateral debt prism_price =
     (if debt = 0 then Inr (- 1)
      else
      let collateral_value = unwrap_or (checked_mul (u64_as_u128 collateral) (u64_as_u128 prism_price)) 0;
          debt_value = unwrap_or (checked_mul (u64_as_u128 debt) (u64_as_u128 PRICE_DECIMALS)) 1
      in
      rbind (op_div (unwrap_or (checked_mul collateral_value 10000) 0) debt_value) (\<lambda>ratio.
      Inr (u128_as_u64 ratio)))"

definition calculate_max_mint :: "env \<Rightarrow> u64 \<Rightarrow> u64 \<Rightarrow> u64 \<Rightarrow> u64 \<Rightarrow> u64 res" where
  "calculate_max_mint e collateral current_debt prism_price min_ratio_bps =
     (let collateral_value = unwrap_or (checked_mul (u64_as_u128 collateral) (u64_as_u128 prism_price)) 0 in
      rbind (op_mul e (u64_as_u128 PRICE_DECIMALS) (u64_as_u128 min_ratio_bps)) (\<lambda>d.
      rbind (op_div (unwrap_or (checked_mul collateral_value 10000) 0) d) (\<lambda>max_debt.
      Inr (saturating_sub (u128_as_u64 max_debt) current_debt))))"

definition calculate_stability_fee :: "u64 \<Rightarrow> u64 \<Rightarrow> u64 \<Rightarrow> u64" where
  "calculate_stability_fee debt rate_bps elapsed_seconds =
     (if debt = 0 \<or> elapsed_seconds = 0 then 0
      else
      u128_as_u64 (unwrap_or (checked_mul (unwrap_or (checked_mul (u64_as_u128 debt) (u64_as_u128 rate_bps)) 0)
        (u64_as_u128 elapsed_seconds)) 0 div (10000 * u64_as_u128 SECONDS_PER_YEAR)))"

definition accrue_stability_fee :: "env \<Rightarrow> scusd_vault \<Rightarrow> global_state \<Rightarrow> i64 \<Rightarrow> scusd_vault res" where
  "accrue_stability_fee e s g now =
     (if debt_amount s = 0 \<or> sint now \<le> sint (last_update s) then Inr s
      else if overflow_checks e \<and> \<not> i64_fits (sint now - sint (last_update s)) then Inl ProgramFailedToComplete
      else
      let fee = calculate_stability_fee (debt_amount s) (stability_fee_rate g) (now - last_update s)
      in if 0 < fee then Inr (s\<lparr>debt_amount := saturating_add (debt_amount s) fee\<rparr>) else Inr s)"

definition scusd_read_oracle_price :: "pubkey \<Rightarrow> vm \<Rightarrow> u64 res" where
  "scusd_read_oracle_price oracle v =
     (let d = data (mem v oracle) in
      if length d < 72 then Inl InvalidAccountData
      else
      let price = word_of_nat (nat_of_le (take 8 (drop 64 d))) in
      if price = 0 then Inl InvalidAccountData else Inr price)"

section \<open>Handlers\<close>

definition initial_global :: "pubkey \<Rightarrow> pubkey \<Rightarrow> pubkey \<Rightarrow> pubkey \<Rightarrow> u8 \<Rightarrow> global_state" where
  "initial_global auth sm pm cp b =
     \<lparr>global_authority = auth, scusd_mint = sm, prism_mint = pm, collateral_pool = cp, total_collateral = 0,
      total_debt = 0, collateral_ratio_min = COLLATERAL_RATIO_MIN_BPS, liquidation_ratio = LIQUIDATION_RATIO_BPS,
      stability_fee_rate = STABILITY_FEE_RATE_BPS, global_bump = b, global_is_initialized = True\<rparr>"

definition scusd_process_initialize ::
  "env \<Rightarrow> scusd_codecs \<Rightarrow> pubkey \<Rightarrow> instruction_account list \<Rightarrow> vm \<Rightarrow> vm res" where
  "scusd_process_initialize e c program_id ias v =
     rbind (next_account_info ias) (\<lambda>(authority, it).
     rbind (next_account_info it) (\<lambda>(global_info, it).
     rbind (next_account_info it) (\<lambda>(scusd_mint_info, it).
     rbind (next_account_info it) (\<lambda>(prism_mint_info, it).
     rbind (next_account_info it) (\<lambda>(pool_info, it).
     rbind (next_account_info it) (\<lambda>(token_program, it).
     rbind (next_account_info it) (\<lambda>(system_program, it).
     rbind (next_account_info it) (\<lambda>(rent_sysvar, it).
     if \<not> is_signer authority then Inl MissingRequiredSignature
     else
     let (global_pda, b) = find_program_address e [GLOBAL_STATE_SEED] program_id
     in
     if key global_info \<noteq> global_pda then Inl InvalidArgument
     else
     rbind (rent_get e) (\<lambda>minimum_balance.
     rbind (invoke_signed e program_id ias
              (system_create_account (key authority) (key global_info)
                 (minimum_balance GlobalState_LEN) (word_of_nat GlobalState_LEN) program_id)
              [authority, global_info, system_program] [[GLOBAL_STATE_SEED, [b]]] v) (\<lambda>v.
     store_account (global_codec c)
       (initial_global (key authority) (key scusd_mint_info) (key prism_mint_info) (key pool_info) b)
       (key global_info) v))))))))))"

definition new_scusd_vault :: "pubkey \<Rightarrow> clock \<Rightarrow> u8 \<Rightarrow> scusd_vault" where
  "new_scusd_vault own clk b =
     \<lparr>vault_owner = own, collateral_amount = 0, debt_amount = 0, collateral_ratio = 0,
      last_update = unix_timestamp clk, vault_bump = b, vault_is_initialized = True\<rparr>"

definition scusd_process_open_vault ::
  "env \<Rightarrow> scusd_codecs \<Rightarrow> pubkey \<Rightarrow> instruction_account list \<Rightarrow> vm \<Rightarrow> vm res" where
  "scusd_process_open_vault e c program_id ias v =
     rbind (next_account_info ias) (\<lambda>(own, it).
     rbind (next_account_info it) (\<lambda>(vault_info, it).
     rbind (next_account_info it) (\<lambda>(global_info, it).
     rbind (next_account_info it) (\<lambda>(system_program, it).
     if \<not> is_signer own then Inl MissingRequiredSignature
     else
     rbind (load_account (global_codec c) (key global_info) v) (\<lambda>g.
     if \<not> global_is_initialized g then Inl UninitializedAccount
     else
     let (vault_pda, b) = find_program_address e [VAULT_SEED, to_le_bytes (key own)] program_id
     in
     if key vault_info \<noteq> vault_pda then Inl InvalidArgument
     else
     rbind (rent_get e) (\<lambda>minimum_balance.
     rbind (invoke_signed e program_id ias
              (system_create_account (key own) (key vault_info)
                 (minimum_balance Vault_LEN) (word_of_nat Vault_LEN) program_id)
              [own, vault_info, system_program] [[VAULT_SEED, to_le_bytes (key own), [b]]] v) (\<lambda>v.
     rbind (clock_get e) (\<lambda>clk.
     store_account (scusd_vault_codec c) (new_scusd_vault (key own) clk b) (key vault_info) v))))))))"

text \<open>The owner's vault and the global state, with the fee accrued.\<close>

definition load_accrued ::
  "env \<Rightarrow> scusd_codecs \<Rightarrow> pubkey \<Rightarrow> pubkey \<Rightarrow> pubkey \<Rightarrow> vm \<Rightarrow> (scusd_vault \<times> global_state \<times> clock) res" where
  "load_accrued e c own vk gk v =
     rbind (load_account (scusd_vault_codec c) vk v) (\<lambda>s.
     if \<not> vault_is_initialized s \<or> vault_owner s \<noteq> own then Inl InvalidArgument
     else
     rbind (load_account (global_codec c) gk v) (\<lambda>g.
     rbind (clock_get e) (\<lambda>clk.
     rbind (accrue_stability_fee e s g (unix_timestamp clk)) (\<lambda>s.
     Inr (s, g, clk)))))"

text \<open>The end of the handlers: the vault, then the global state.\<close>

definition store_both :: "scusd_codecs \<Rightarrow> scusd_vault \<Rightarrow> pubkey \<Rightarrow> global_state \<Rightarrow> pubkey \<Rightarrow> vm \<Rightarrow> vm res" where
  "store_both c s vk g gk v =
     rbind (store_account (scusd_vault_codec c) s vk v) (\<lambda>v.
     store_account (global_codec c) g gk v)"

definition scusd_process_deposit_collateral ::
  "env \<Rightarrow> scusd_codecs \<Rightarrow> pubkey \<Rightarrow> u64 \<Rightarrow> instruction_account list \<Rightarrow> vm \<Rightarrow> vm res" where
  "scusd_process_deposit_collateral e c program_id amount ias v =
     rbind (next_account_info ias) (\<lambda>(own, it).
     rbind (next_account_info it) (\<lambda>(vault_info, it).
     rbind (next_account_info it) (\<lambda>(global_info, it).
     rbind (next_account_info it) (\<lambda>(owner_prism, it).
     rbind (next_account_info it) (\<lambda>(pool, it).
     rbind (next_account_info it) (\<lambda>(token_program, it).
     rbind (next_account_info it) (\<lambda>(clock_sysvar, it).
     if \<not> is_signer own then Inl MissingRequiredSignature
     else
     rbind (load_accrued e c (key own) (key vault_info) (key global_info) v) (\<lambda>(s, g, clk).
     rbind (token_transfer c (key token_program) (key owner_prism) (key pool) (key own) amount) (\<lambda>ix.
     rbind (invoke e program_id ias ix [owner_prism, pool, own, token_program] v) (\<lambda>v.
     rbind (ovf (checked_add (collateral_amount s) amount)) (\<lambda>ca.
     rbind (ovf (checked_add (total_collateral g) amount)) (\<lambda>tc.
     store_both c (s\<lparr>collateral_amount := ca, last_update := unix_timestamp clk\<rparr>) (key vault_info)
       (g\<lparr>total_collateral := tc\<rparr>) (key global_info) v))))))))))))"

definition scusd_process_mint_scusd ::
  "env \<Rightarrow> scusd_codecs \<Rightarrow> pubkey \<Rightarrow> u64 \<Rightarrow> instruction_account list \<Rightarrow> vm \<Rightarrow> vm res" where
  "scusd_process_mint_scusd e c program_id amount ias v =
     rbind (next_account_info ias) (\<lambda>(own, it).
     rbind (next_account_info it) (\<lambda>(vault_info, it).
     rbind (next_account_info it) (\<lambda>(global_info, it).
     rbind (next_account_info it) (\<lambda>(mint, it).
     rbind (next_account_info it) (\<lambda>(owner_scusd, it).
     rbind (next_account_info it) (\<lambda>(oracle_feed, it).
     rbind (next_account_info it) (\<lambda>(token_program, it).
     rbind (next_account_info it) (\<lambda>(clock_sysvar, it).
     if \<not> is_signer own then Inl MissingRequiredSignature
     else
     rbind (load_accrued e c (key own) (key vault_info) (key global_info) v) (\<lambda>(s, g, clk).
     rbind (scusd_read_oracle_price (key oracle_feed) v) (\<lambda>prism_price.
     rbind (ovf (checked_add (debt_amount s) amount)) (\<lambda>new_debt.
     rbind (calculate_collateral_ratio (collateral_amount s) new_debt prism_price) (\<lambda>ratio.
     if ratio < collateral_ratio_min g then Inl InsufficientFunds
     else
     rbind (token_mint_to c (key token_program) (key mint) (key owner_scusd) (key global_info) amount) (\<lambda>ix.
     rbind (invoke_signed e program_id ias ix [mint, owner_scusd, global_info, token_program]
              [[GLOBAL_STATE_SEED, [global_bump g]]] v) (\<lambda>v.
     rbind (ovf (checked_add (total_debt g) amount)) (\<lambda>td.
     store_both c (s\<lparr>debt_amount := new_debt, collateral_ratio := ratio, last_update := unix_timestamp clk\<rparr>) (key vault_info)
       (g\<lparr>total_debt := td\<rparr>) (key global_info) v)))))))))))))))"

definition scusd_process_repay_scusd ::
  "env \<Rightarrow> scusd_codecs \<Rightarrow> pubkey \<Rightarrow> u64 \<Rightarrow> instruction_account list \<Rightarrow> vm \<Rightarrow> vm res" where
  "scusd_process_repay_scusd e c program_id amount ias v =
     rbind (next_account_info ias) (\<lambda>(own, it).
     rbind (next_account_info it) (\<lambda>(vault_info, it).
     rbind (next_account_info it) (\<lambda>(global_info, it).
     rbind (next_account_info it) (\<lambda>(mint, it).
     rbind (next_account_info it) (\<lambda>(owner_scusd, it).
     rbind (next_account_info it) (\<lambda>(token_program, it).
     rbind (next_account_info it) (\<lambda>(clock_sysvar, it).
     if \<not> is_signer own then Inl MissingRequiredSignature
     else
     rbind (load_accrued e c (key own) (key vault_info) (key global_info) v) (\<lambda>(s, g, clk).
     let repay_amount = min amount (debt_amount s)
     in
     rbind (token_burn c (key token_program) (key owner_scusd) (key mint) (key own) repay_amount) (\<lambda>ix.
     rbind (invoke e program_id ias ix [owner_scusd, mint, own, token_program] v) (\<lambda>v.
     rbind (ovf (checked_sub (debt_amount s) repay_amount)) (\<lambda>d.
     rbind (ovf (checked_sub (total_debt g) repay_amount)) (\<lambda>td.
     store_both c (s\<lparr>debt_amount := d, last_update := unix_timestamp clk\<rparr>) (key vault_info)
       (g\<lparr>total_debt := td\<rparr>) (key global_info) v))))))))))))"

definition check_withdrawal :: "global_state \<Rightarrow> u64 \<Rightarrow> pubkey \<Rightarrow> vm \<Rightarrow> scusd_vault \<Rightarrow> scusd_vault res" where
  "check_withdrawal g new_collateral oracle v s =
     (if 0 < debt_amount s
      then
        rbind (scusd_read_oracle_price oracle v) (\<lambda>prism_price.
        rbind (calculate_collateral_ratio new_collateral (debt_amount s) prism_price) (\<lambda>ratio.
        if ratio < collateral_ratio_min g then Inl InsufficientFunds
        else Inr (s\<lparr>collateral_ratio := ratio\<rparr>)))
      else Inr s)"

definition scusd_process_withdraw_collateral ::
  "env \<Rightarrow> scusd_codecs \<Rightarrow> pubkey \<Rightarrow> u64 \<Rightarrow> instruction_account list \<Rightarrow> vm \<Rightarrow> vm res" where
  "scusd_process_withdraw_collateral e c program_id amount ias v =
     rbind (next_account_info ias) (\<lambda>(own, it).
     rbind (next_account_info it) (\<lambda>(vault_info, it).
     rbind (next_account_info it) (\<lambda>(global_info, it).
     rbind (next_account_info it) (\<lambda>(pool, it).
     rbind (next_account_info it) (\<lambda>(owner_prism, it).
     rbind (next_account_info it) (\<lambda>(oracle_feed, it).
     rbind (next_account_info it) (\<lambda>(token_program, it).
     rbind (next_account_info it) (\<lambda>(clock_sysvar, it).
     if \<not> is_signer own then Inl MissingRequiredSignature
     else
     rbind (load_accrued e c (key own) (key vault_info) (key global_info) v) (\<lambda>(s, g, clk).
     if collateral_amount s < amount then Inl InsufficientFunds
     else
     rbind (ovf (checked_sub (collateral_amount s) amount)) (\<lambda>new_collateral.
     rbind (check_withdrawal g new_collateral (key oracle_feed) v s) (\<lambda>s.
     rbind (token_transfer c (key token_program) (key pool) (key owner_prism) (key global_info) amount) (\<lambda>ix.
     rbind (invoke_signed e program_id ias ix [pool, owner_prism, global_info, token_program]
              [[GLOBAL_STATE_SEED, [global_bump g]]] v) (\<lambda>v.
     rbind (ovf (checked_sub (total_collateral g) amount)) (\<lambda>tc.
     store_both c (s\<lparr>collateral_amount := new_collateral, last_update := unix_timestamp clk\<rparr>) (key vault_info)
       (g\<lparr>total_collateral := tc\<rparr>) (key global_info) v))))))))))))))"

definition scusd_process_liquidate_vault ::
  "env \<Rightarrow> scusd_codecs \<Rightarrow> pubkey \<Rightarrow> instruction_account list \<Rightarrow> vm \<Rightarrow> vm res" where
  "scusd_process_liquidate_vault e c program_id ias v =
     rbind (next_account_info ias) (\<lambda>(liquidator, it).
     rbind (next_account_info it) (\<lambda>(vault_info, it).
     rbind (next_account_info it) (\<lambda>(global_info, it).
     rbind (next_account_info it) (\<lambda>(mint, it).
     rbind (next_account_info it) (\<lambda>(liquidator_scusd, it).
     rbind (next_account_info it) (\<lambda>(liquidator_prism, it).
     rbind (next_account_info it) (\<lambda>(pool, it).
     rbind (next_account_info it) (\<lambda>(oracle_feed, it).
     rbind (next_account_info it) (\<lambda>(token_program, it).
     rbind (next_account_info it) (\<lambda>(clock_sysvar, it).
     if \<not> is_signer liquidator then Inl MissingRequiredSignature
     else
     rbind (load_account (scusd_vault_codec c) (key vault_info) v) (\<lambda>s.
     if \<not> vault_is_initialized s then Inl UninitializedAccount
     else
     rbind (load_account (global_codec c) (key global_info) v) (\<lambda>g.
     rbind (clock_get e) (\<lambda>clk.
     rbind (accrue_stability_fee e s g (unix_timestamp clk)) (\<lambda>s.
     rbind (scusd_read_oracle_price (key oracle_feed) v) (\<lambda>prism_price.
     rbind (calculate_collateral_ratio (collateral_amount s) (debt_amount s) prism_price) (\<lambda>ratio.
     if liquidation_ratio g \<le> ratio then Inl InvalidArgument
     else
     let debt_to_repay = debt_amount s
     in
     rbind (ovf (checked_mul prism_price (10000 - LIQUIDATION_DISCOUNT_BPS))) (\<lambda>x.
     let discounted_price = x div 10000 in
     rbind (ovf (checked_mul debt_to_repay PRICE_DECIMALS)) (\<lambda>y.
     rbind (ovf (checked_div y discounted_price)) (\<lambda>z.
     let collateral_to_liquidate = min z (collateral_amount s)
     in
     rbind (token_burn c (key token_program) (key liquidator_scusd) (key mint) (key liquidator) debt_to_repay) (\<lambda>ix.
     rbind (invoke e program_id ias ix [liquidator_scusd, mint, liquidator, token_program] v) (\<lambda>v.
     rbind (token_transfer c (key token_program) (key pool) (key liquidator_prism) (key global_info) collateral_to_liquidate) (\<lambda>ix.
     rbind (invoke_signed e program_id ias ix [pool, liquidator_prism, global_info, token_program]
              [[GLOBAL_STATE_SEED, [global_bump g]]] v) (\<lambda>v.
     rbind (ovf (checked_sub (collateral_amount s) collateral_to_liquidate)) (\<lambda>ca.
     rbind (ovf (checked_sub (total_debt g) debt_to_repay)) (\<lambda>td.
     rbind (ovf (checked_sub (total_collateral g) collateral_to_liquidate)) (\<lambda>tc.
     store_both c
       (s\<lparr>debt_amount := 0, collateral_amount := ca, collateral_ratio := 0, last_update := unix_timestamp clk\<rparr>)
       (key vault_info) (g\<lparr>total_debt := td, total_collateral := tc\<rparr>) (key global_info) v))))))))))))))))))))))))))"

definition scusd_process_instruction :: "env \<Rightarrow> scusd_codecs \<Rightarrow> pubkey \<Rightarrow> bytes \<Rightarrow> program" where
  "scusd_process_instruction e c program_id instruction_data ias v =
     rbind (ok_or (try_from_slice (scusd_instruction_codec c) instruction_data) InvalidInstructionData) (\<lambda>ix.
     case ix of
       Initialize \<Rightarrow> scusd_process_initialize e c program_id ias v
     | OpenVault \<Rightarrow> scusd_process_open_vault e c program_id ias v
     | DepositCollateral amount \<Rightarrow> scusd_process_deposit_collateral e c program_id amount ias v
     | MintScusd amount \<Rightarrow> scusd_process_mint_scusd e c program_id amount ias v
     | RepayScusd amount \<Rightarrow> scusd_process_repay_scusd e c program_id amount ias v
     | WithdrawCollateral amount \<Rightarrow> scusd_process_withdraw_collateral e c program_id amount ias v
     | LiquidateVault \<Rightarrow> scusd_process_liquidate_vault e c program_id ias v)"

lemma keeps_store_both: "keeps v (store_both c s vk g gk v)"
  unfolding store_both_def by (intro keeps_intros)

lemmas scusd_handler_defs = scusd_process_initialize_def scusd_process_open_vault_def
  scusd_process_deposit_collateral_def scusd_process_mint_scusd_def scusd_process_repay_scusd_def
  scusd_process_withdraw_collateral_def scusd_process_liquidate_vault_def

context chain
begin

lemma scusd_keeps: "keeps v (scusd_process_instruction e c pid d ias v)"
  unfolding scusd_process_instruction_def
proof (rule keeps_bind)
  fix ix
  show "keeps v (case ix of
       Initialize \<Rightarrow> scusd_process_initialize e c pid ias v
     | OpenVault \<Rightarrow> scusd_process_open_vault e c pid ias v
     | DepositCollateral amount \<Rightarrow> scusd_process_deposit_collateral e c pid amount ias v
     | MintScusd amount \<Rightarrow> scusd_process_mint_scusd e c pid amount ias v
     | RepayScusd amount \<Rightarrow> scusd_process_repay_scusd e c pid amount ias v
     | WithdrawCollateral amount \<Rightarrow> scusd_process_withdraw_collateral e c pid amount ias v
     | LiquidateVault \<Rightarrow> scusd_process_liquidate_vault e c pid ias v)"
    by (cases ix; simp only: scusd_instruction.case scusd_handler_defs;
        intro keeps_store_both keeps_intros keeps_invoke)
qed

end

sublocale chain \<subseteq> scusd: onchain_program "scusd_process_instruction e c pid d" for c pid d
  by unfold_locales (metis keepsD scusd_keeps)

section \<open>Layouts\<close>

definition global_layout :: "global_state layout" where
  "global_layout =
     iso_layout
       (\<lambda>(a, sm, pm, cp, tc, td, cr, lr, fr, b, i).
          \<lparr>global_authority = a, scusd_mint = sm, prism_mint = pm, collateral_pool = cp, total_collateral = tc,
           total_debt = td, collateral_ratio_min = cr, liquidation_ratio = lr, stability_fee_rate = fr,
           global_bump = b, global_is_initialized = i\<rparr>)
       (\<lambda>g. (global_authority g, scusd_mint g, prism_mint g, collateral_pool g, total_collateral g, total_debt g,
             collateral_ratio_min g, liquidation_ratio g, stability_fee_rate g, global_bump g, global_is_initialized g))
       (pair_layout word_layout (pair_layout word_layout (pair_layout word_layout (pair_layout word_layout
       (pair_layout word_layout (pair_layout word_layout (pair_layout word_layout (pair_layout word_layout
       (pair_layout word_layout (pair_layout word_layout bool_layout))))))))))"

definition scusd_vault_layout :: "scusd_vault layout" where
  "scusd_vault_layout =
     iso_layout
       (\<lambda>(ow, ca, d, cr, lu, b, i).
          \<lparr>vault_owner = ow, collateral_amount = ca, debt_amount = d, collateral_ratio = cr, last_update = lu,
           vault_bump = b, vault_is_initialized = i\<rparr>)
       (\<lambda>s. (vault_owner s, collateral_amount s, debt_amount s, collateral_ratio s, last_update s, vault_bump s,
             vault_is_initialized s))
       (pair_layout word_layout (pair_layout word_layout (pair_layout word_layout (pair_layout word_layout
       (pair_layout word_layout (pair_layout word_layout bool_layout))))))"

lemma wf_global_layout: "wf_layout GlobalState_LEN global_layout"
  unfolding global_layout_def by (rule wf_layout_eq, (rule wf_layouts)+) (simp_all add: GlobalState_LEN_def)

lemma wf_scusd_vault_layout: "wf_layout Vault_LEN scusd_vault_layout"
  unfolding scusd_vault_layout_def by (rule wf_layout_eq, (rule wf_layouts)+) (simp_all add: Vault_LEN_def)

interpretation global_borsh: borsh_struct "of_layout global_layout" GlobalState_LEN
  by (rule borsh_struct_of_layout [OF wf_global_layout])

interpretation scusd_vault_borsh: borsh_struct "of_layout scusd_vault_layout" Vault_LEN
  by (rule borsh_struct_of_layout [OF wf_scusd_vault_layout])

lemmas scusd_io [simp] = of_layout_io [OF wf_global_layout] of_layout_io [OF wf_scusd_vault_layout]

text \<open>
  What the handlers rely on: the two kinds of accounts, and that the builders of the token crate name the accounts
  they are given (source or mint, destination, authority) and no others.
\<close>

locale scusd_accounts = account_pair "scusd_vault_codec c" Vault_LEN "global_codec c" GlobalState_LEN
  for c :: scusd_codecs +
  assumes transfer_names: "token_transfer c p a b auth n = Inr ix \<Longrightarrow> map meta_key (cpi_accounts ix) = [a, b, auth]"
    and mint_to_names: "token_mint_to c p a b auth n = Inr ix \<Longrightarrow> map meta_key (cpi_accounts ix) = [a, b, auth]"

definition token_instruction :: "pubkey \<Rightarrow> pubkey \<Rightarrow> pubkey \<Rightarrow> pubkey \<Rightarrow> u64 \<Rightarrow> cpi_instruction res" where
  "token_instruction p a b auth n =
     Inr \<lparr>cpi_program_id = p,
          cpi_accounts = [\<lparr>meta_key = a, meta_signer = False, meta_writable = True\<rparr>,
                          \<lparr>meta_key = b, meta_signer = False, meta_writable = True\<rparr>,
                          \<lparr>meta_key = auth, meta_signer = True, meta_writable = False\<rparr>],
          cpi_data_of = RawData (to_le_bytes n)\<rparr>"

definition scusd_layouts :: "scusd_instruction \<Rightarrow> scusd_codecs" where
  "scusd_layouts ix =
     \<lparr>global_codec = of_layout global_layout, scusd_vault_codec = of_layout scusd_vault_layout,
      scusd_instruction_codec = \<lparr>try_from_slice = (\<lambda>_. Some ix), to_vec = (\<lambda>_. [])\<rparr>,
      token_transfer = token_instruction, token_mint_to = token_instruction, token_burn = token_instruction\<rparr>"

interpretation scusd_layouts: scusd_accounts "scusd_layouts ix" for ix
  by (simp add: scusd_accounts_def scusd_accounts_axioms_def account_pair_def account_pair_axioms_def scusd_layouts_def
      global_borsh.borsh_struct_axioms scusd_vault_borsh.borsh_struct_axioms)
    (auto simp: Vault_LEN_def GlobalState_LEN_def token_instruction_def)

section \<open>Collateral\<close>

text \<open>The required ratio, without rounding and without overflow.\<close>

definition collateralised :: "global_state \<Rightarrow> u64 \<Rightarrow> scusd_vault \<Rightarrow> bool" where
  "collateralised g price s \<longleftrightarrow>
     unat (collateral_ratio_min g) * (unat (debt_amount s) * 10 ^ 8) \<le> unat (collateral_amount s) * unat price * 10 ^ 4"

lemma nat_le_div: "(m :: nat) \<le> x div d \<Longrightarrow> m * d \<le> x"
  by (metis div_times_less_eq_dividend le_trans mult_le_mono1)

lemma ratio_bound:
  assumes "calculate_collateral_ratio col deb price = Inr r" and "m \<le> r"
  shows "unat m * (unat deb * 10 ^ 8) \<le> unat col * unat price * 10 ^ 4"
proof (cases "deb = 0 \<or> m = 0")
  case False
  let ?v = "u64_as_u128 col * u64_as_u128 price" and ?d = "u64_as_u128 deb * u64_as_u128 PRICE_DECIMALS"
  have fits: "unat (u64_as_u128 col) * unat (u64_as_u128 price) < 2 ^ 128"
    using mult_strict_mono [OF unat_u64_bound [of col] unat_u64_bound [of price]] by simp
  have d: "unat (u64_as_u128 deb) * unat (u64_as_u128 PRICE_DECIMALS) < 2 ^ 128"
    using unat_u64_bound [of deb] by (simp add: PRICE_DECIMALS_def)
  note v' = u128_mult_fits [OF fits] and d' = u128_mult_fits [OF d]
  have r: "r = u128_as_u64 (unwrap_or (checked_mul ?v 10000) 0 div ?d)"
    using assms(1) False by (auto simp: calculate_collateral_ratio_def v' d' op_div_def Let_def split: if_splits)
  show ?thesis
  proof (cases "checked_mul ?v 10000")
    case None
    then show ?thesis using r assms(2) False by (simp add: u128_as_u64_def)
  next
    case (Some x)
    then have "unat x = unat col * unat price * 10000" using v'(2) by (simp add: checked_mul_eq_Some)
    moreover have "unat m \<le> unat x div unat ?d"
      using assms(2) unat_u128_as_u64_le [of "x div ?d"] r Some by (simp add: word_le_nat_alt unat_div)
    moreover have "unat ?d = unat deb * 10 ^ 8" using d'(2) by (simp add: PRICE_DECIMALS_def)
    ultimately show ?thesis using nat_le_div [of "unat m" "unat x" "unat ?d"] by simp
  qed
qed auto

lemma check_withdrawal_bound:
  assumes "check_withdrawal g n oracle v s = Inr s'" and "scusd_read_oracle_price oracle v = Inr p"
  shows "unat (collateral_ratio_min g) * (unat (debt_amount s') * 10 ^ 8) \<le> unat n * unat p * 10 ^ 4"
proof (cases "0 < debt_amount s")
  case True
  with assms obtain r where r: "calculate_collateral_ratio n (debt_amount s) p = Inr r" "collateral_ratio_min g \<le> r"
    and "s' = s\<lparr>collateral_ratio := r\<rparr>"
    by (auto simp: check_withdrawal_def rbind_eq_Inr not_less split: if_splits)
  then show ?thesis using ratio_bound [OF r] by simp
next
  case False
  then show ?thesis using assms(1) by (simp add: check_withdrawal_def word_neq_0_conv [symmetric])
qed

lemma accrue_keeps:
  assumes "accrue_stability_fee e s g now = Inr s'"
  shows "collateral_amount s' = collateral_amount s" and "debt_amount s \<le> debt_amount s'"
  using assms unat_saturating_add_ge [of "debt_amount s"]
  by (auto simp: accrue_stability_fee_def Let_def word_le_nat_alt split: if_splits)

lemma load_accrued_eq_Inr:
  "load_accrued e c own vk gk v = Inr (s, g, clk) \<longleftrightarrow>
     (\<exists>s0. load (scusd_vault_codec c) (data (mem v vk)) = Inr s0 \<and> vault_is_initialized s0 \<and> vault_owner s0 = own \<and>
        load (global_codec c) (data (mem v gk)) = Inr g \<and> clock_get e = Inr clk \<and>
        accrue_stability_fee e s0 g (unix_timestamp clk) = Inr s)"
  by (auto simp: load_accrued_def load_account_def rbind_eq_Inr if_Inl_eq_Inr)

context scusd_accounts
begin

text \<open>A vault that no account of the token call aliases is stored as computed.\<close>

lemma vault_stored:
  assumes "load (scusd_vault_codec c) (data (mem v vk)) = Inr s0" and "load (global_codec c) (data (mem v gk)) = Inr g"
    and "cpi_common e pid caller ix infos seeds v = Inr u" and "vk \<notin> set (map meta_key (cpi_accounts ix))"
    and "store_both c s vk g' gk u = Inr v'"
  shows "load (scusd_vault_codec c) (data (mem v' vk)) = Inr s"
proof -
  obtain w where w: "store_account (scusd_vault_codec c) s vk u = Inr w" and v': "store_account (global_codec c) g' gk w = Inr v'"
    using assms(5) by (auto simp: store_both_def rbind_eq_Inr)
  have "length (data (mem u vk)) = Vault_LEN"
    using cpi_common_frame [OF assms(3)] assms(4) fst.load_length [OF assms(1)] by simp
  note eff = store_fst [OF this w]
  have "vk \<noteq> gk" by (rule accounts_apart [where m = "mem v", OF assms(1,2)])
  then have "mem v' vk = mem w vk" using v' by (auto simp: store_account_eq_Inr)
  then show ?thesis using eff(1) by simp
qed

lemma mint_collateralised:
  assumes run: "scusd_process_mint_scusd e c pid amount ias v = Inr v'"
    and price: "scusd_read_oracle_price (key (ias ! 5)) v = Inr p"
    and other: "key (ias ! 1) \<noteq> key (ias ! 3)" "key (ias ! 1) \<noteq> key (ias ! 4)"
  shows "\<exists>s g. load (scusd_vault_codec c) (data (mem v' (key (ias ! 1)))) = Inr s \<and>
    load (global_codec c) (data (mem v (key (ias ! 2)))) = Inr g \<and> collateralised g p s"
proof -
  from run obtain own va ga mi os orc tp cl rest where ias: "ias = own # va # ga # mi # os # orc # tp # cl # rest"
    by (auto simp: scusd_process_mint_scusd_def rust_simps)
  from run [unfolded scusd_process_mint_scusd_def ias] price obtain s0 s g n r ix u td and clk :: clock where
    s0: "load (scusd_vault_codec c) (data (mem v (key va))) = Inr s0"
    and g: "load (global_codec c) (data (mem v (key ga))) = Inr g"
    and r: "calculate_collateral_ratio (collateral_amount s) n p = Inr r" and min: "collateral_ratio_min g \<le> r"
    and ix: "token_mint_to c (key tp) (key mi) (key os) (key ga) amount = Inr ix"
    and u: "cpi_common e pid ias ix (map key [mi, os, ga, tp]) [[GLOBAL_STATE_SEED, [global_bump g]]] v = Inr u"
    and st: "store_both c (s\<lparr>debt_amount := n, collateral_ratio := r, last_update := unix_timestamp clk\<rparr>) (key va)
       (g\<lparr>total_debt := td\<rparr>) (key ga) u = Inr v'"
    by (auto simp: rbind_eq_Inr if_Inl_eq_Inr load_accrued_eq_Inr not_less ias)
  have "key va \<noteq> key ga" by (rule accounts_apart [where m = "mem v", OF s0 g])
  then have "key va \<notin> set (map meta_key (cpi_accounts ix))" using mint_to_names [OF ix] other ias by auto
  from vault_stored [OF s0 g u this st] show ?thesis
    using g ratio_bound [OF r min] by (auto simp: collateralised_def ias ac_simps)
qed

lemma withdraw_collateralised:
  assumes run: "scusd_process_withdraw_collateral e c pid amount ias v = Inr v'"
    and price: "scusd_read_oracle_price (key (ias ! 5)) v = Inr p"
    and other: "key (ias ! 1) \<noteq> key (ias ! 3)" "key (ias ! 1) \<noteq> key (ias ! 4)"
  shows "\<exists>s g. load (scusd_vault_codec c) (data (mem v' (key (ias ! 1)))) = Inr s \<and>
    load (global_codec c) (data (mem v (key (ias ! 2)))) = Inr g \<and> collateralised g p s"
proof -
  from run obtain own va ga po op orc tp cl rest where ias: "ias = own # va # ga # po # op # orc # tp # cl # rest"
    by (auto simp: scusd_process_withdraw_collateral_def rust_simps)
  from run [unfolded scusd_process_withdraw_collateral_def ias] obtain s0 s s1 g n ix u tc and clk :: clock where
    s0: "load (scusd_vault_codec c) (data (mem v (key va))) = Inr s0"
    and g: "load (global_codec c) (data (mem v (key ga))) = Inr g"
    and s1: "check_withdrawal g n (key orc) v s = Inr s1"
    and ix: "token_transfer c (key tp) (key po) (key op) (key ga) amount = Inr ix"
    and u: "cpi_common e pid ias ix (map key [po, op, ga, tp]) [[GLOBAL_STATE_SEED, [global_bump g]]] v = Inr u"
    and st: "store_both c (s1\<lparr>collateral_amount := n, last_update := unix_timestamp clk\<rparr>) (key va)
       (g\<lparr>total_collateral := tc\<rparr>) (key ga) u = Inr v'"
    by (auto simp: rbind_eq_Inr if_Inl_eq_Inr load_accrued_eq_Inr ias)
  have "key va \<noteq> key ga" by (rule accounts_apart [where m = "mem v", OF s0 g])
  then have "key va \<notin> set (map meta_key (cpi_accounts ix))" using transfer_names [OF ix] other ias by auto
  note stored = vault_stored [OF s0 g u this st]
  have "collateralised g p (s1\<lparr>collateral_amount := n, last_update := unix_timestamp clk\<rparr>)"
    using check_withdrawal_bound [OF s1] price by (simp add: ias collateralised_def ac_simps)
  then show ?thesis using stored g by (auto simp: ias)
qed

end

section \<open>Properties\<close>

definition scusd_chain :: "i64 \<Rightarrow> env" where
  "scusd_chain now =
     (native_env (\<lambda>_ _. (3, 255)) (\<lambda>_. 10) \<lparr>slot = 7, epoch = 1, unix_timestamp = now\<rparr> (\<lambda>b. b))
       \<lparr>other_program := (\<lambda>_ _ _ t. Inr t)\<rparr>"

text \<open>A vault (2) with 1500 of collateral and 1000 of debt, the global state (3), a price feed (5) and a token program (6).\<close>

definition sample_scusd_vault :: scusd_vault where
  "sample_scusd_vault = (new_scusd_vault 1 \<lparr>slot = 0, epoch = 0, unix_timestamp = 0\<rparr> 255)\<lparr>collateral_amount := 1500, debt_amount := 1000\<rparr>"

definition sample_global :: "u64 \<Rightarrow> global_state" where
  "sample_global d = (initial_global 1 7 8 4 255)\<lparr>total_debt := d, total_collateral := 1500\<rparr>"

definition scusd_vm :: "u64 \<Rightarrow> u64 \<Rightarrow> vm" where
  "scusd_vm d price =
     enter_vm (tx_of [1, 2, 3, 4, 5, 6, 7, 8]
       (\<lambda>k. if k = 2 then \<lparr>lamports = 10, data = put scusd_vault_layout sample_scusd_vault, owner = 99\<rparr>
            else if k = 3 then \<lparr>lamports = 10, data = put global_layout (sample_global d), owner = 99\<rparr>
            else if k = 5 then \<lparr>lamports = 10, data = replicate 64 0 @ to_le_bytes price, owner = 98\<rparr>
            else wallet 50))"

lemma scusd_vm_load [simp]:
  "load (scusd_vault_codec (scusd_layouts ix)) (data (mem (scusd_vm d p) 2)) = Inr sample_scusd_vault"
  "load (global_codec (scusd_layouts ix)) (data (mem (scusd_vm d p) 3)) = Inr (sample_global d)"
  by (simp_all add: scusd_vm_def scusd_layouts_def tx_of_def)

lemma scusd_vm_price: "p \<noteq> 0 \<Longrightarrow> scusd_read_oracle_price 5 (scusd_vm d p) = Inr p"
  by (simp add: scusd_read_oracle_price_def scusd_vm_def tx_of_def to_le_bytes_inverse)

lemmas scusd_eval = scusd_layouts_def scusd_chain_def scusd_vm_def load_accrued_def store_both_def token_instruction_def
  accrue_stability_fee_def calculate_stability_fee_def calculate_collateral_ratio_def op_div_def sample_scusd_vault_def
  new_scusd_vault_def sample_global_def initial_global_def saturating_add_def checked_add_def checked_sub_def
  checked_mul_def checked_div_def u64_as_u128_def u128_as_u64_def COLLATERAL_RATIO_MIN_BPS_def LIQUIDATION_RATIO_BPS_def
  STABILITY_FEE_RATE_BPS_def LIQUIDATION_DISCOUNT_BPS_def PRICE_DECIMALS_def SECONDS_PER_YEAR_def GlobalState_LEN_def Vault_LEN_def

text \<open>
  C34. The stability fee makes vaults unliquidatable. The fee is added to the debt of a vault but not to the total
  debt of the global state, from which \<open>RepayScusd\<close> and \<open>LiquidateVault\<close> subtract. As soon as the accrued debt of a vault
  exceeds the recorded total (for the only vault: after the first unit of fee), the vault cannot be liquidated
  however low the price falls, and its owner cannot repay it in full.
\<close>

theorem fee_blocks_liquidation:
  assumes "load (scusd_vault_codec c) (data (mem v (key (ias ! 1)))) = Inr s"
    and "load (global_codec c) (data (mem v (key (ias ! 2)))) = Inr g"
    and "clock_get e = Inr clk" and "accrue_stability_fee e s g (unix_timestamp clk) = Inr s'"
    and "total_debt g < debt_amount s'"
  shows "scusd_process_liquidate_vault e c pid ias v \<noteq> Inr v' \<and>
    (debt_amount s' \<le> amount \<longrightarrow> scusd_process_repay_scusd e c pid amount ias v \<noteq> Inr v')"
proof (intro conjI impI)
  have none: "checked_sub (total_debt g) (debt_amount s') = None"
    using assms(5) by (simp add: checked_sub_eq_None word_less_nat_alt)
  show "scusd_process_liquidate_vault e c pid ias v \<noteq> Inr v'"
    using assms(1-4) none
    by (auto simp: scusd_process_liquidate_vault_def rbind_eq_Inr next_account_info_eq_Inr if_Inl_eq_Inr load_account_def
        Let_def ok_or_eq_Inr)
  show "scusd_process_repay_scusd e c pid amount ias v \<noteq> Inr v'" if "debt_amount s' \<le> amount"
    using assms(1-4) none that
    by (auto simp: scusd_process_repay_scusd_def rbind_eq_Inr next_account_info_eq_Inr if_Inl_eq_Inr load_accrued_eq_Inr
        Let_def ok_or_eq_Inr min_def)
qed

text \<open>After a year the only vault owes 1020, and a price of 0.5 dollars does not make it liquidatable; with a larger
  total it would be.\<close>

theorem fee_blocks_liquidation_witness:
  "(\<forall>v'. scusd_process_liquidate_vault (scusd_chain 31557600) (scusd_layouts LiquidateVault) 99
      [account_ref 1 True True, account_ref 2 False True, account_ref 3 False True, account_ref 7 False True,
       account_ref 8 False True, account_ref 8 False True, account_ref 4 False True, account_ref 5 False False,
       account_ref 6 False False, account_ref 6 False False] (scusd_vm 1000 50000000) \<noteq> Inr v') \<and>
   (\<exists>v'. scusd_process_liquidate_vault (scusd_chain 31557600) (scusd_layouts LiquidateVault) 99
      [account_ref 1 True True, account_ref 2 False True, account_ref 3 False True, account_ref 7 False True,
       account_ref 8 False True, account_ref 8 False True, account_ref 4 False True, account_ref 5 False False,
       account_ref 6 False False, account_ref 6 False False] (scusd_vm 5000 50000000) = Inr v')"
proof (intro conjI allI)
  let ?ias = "[account_ref 1 True True, account_ref 2 False True, account_ref 3 False True, account_ref 7 False True,
       account_ref 8 False True, account_ref 8 False True, account_ref 4 False True, account_ref 5 False False,
       account_ref 6 False False, account_ref 6 False False]" and ?e = "scusd_chain 31557600"
  have acc: "accrue_stability_fee ?e sample_scusd_vault (sample_global 1000) 31557600 =
      Inr (sample_scusd_vault\<lparr>debt_amount := 1020\<rparr>)"
    by (simp add: scusd_eval native_env_def)
  show "scusd_process_liquidate_vault ?e (scusd_layouts LiquidateVault) 99 ?ias (scusd_vm 1000 50000000) \<noteq> Inr v'" for v'
    by (rule fee_blocks_liquidation [THEN conjunct1, of _ _ _ sample_scusd_vault "sample_global 1000" _
          "\<lparr>slot = 7, epoch = 1, unix_timestamp = 31557600\<rparr>" "sample_scusd_vault\<lparr>debt_amount := 1020\<rparr>"])
      (simp_all add: acc, simp_all add: scusd_chain_def native_env_def sample_global_def initial_global_def)
  show "\<exists>v'. scusd_process_liquidate_vault ?e (scusd_layouts LiquidateVault) 99 ?ias (scusd_vm 5000 50000000) = Inr v'"
    using scusd_vm_price [of 50000000 5000]
    by (simp add: scusd_process_liquidate_vault_def scusd_eval runtime_eval cpi_eval system_program_id_def)
qed

text \<open>
  C35. Minting and withdrawing never leave a vault below the minimum. If \<open>MintScusd\<close> or \<open>WithdrawCollateral\<close>
  succeeds, the stored vault satisfies the minimum ratio of the global state at the price that was read, over the
  integers: neither the rounding, nor the cast of the ratio to 64 bits, nor an overflow of the product weakens the check.
\<close>

theorem vault_stays_collateralised:
  assumes "scusd_accounts c"
    and "scusd_process_mint_scusd e c pid amount ias v = Inr v' \<or> scusd_process_withdraw_collateral e c pid amount ias v = Inr v'"
    and "scusd_read_oracle_price (key (ias ! 5)) v = Inr price"
    and "key (ias ! 1) \<noteq> key (ias ! 3)" and "key (ias ! 1) \<noteq> key (ias ! 4)"
  shows "\<exists>s g. load (scusd_vault_codec c) (data (mem v' (key (ias ! 1)))) = Inr s \<and>
    load (global_codec c) (data (mem v (key (ias ! 2)))) = Inr g \<and> collateralised g price s"
  using assms(2)
proof
  assume "scusd_process_mint_scusd e c pid amount ias v = Inr v'"
  then show ?thesis using scusd_accounts.mint_collateralised [OF assms(1) _ assms(3-5)] by blast
next
  assume "scusd_process_withdraw_collateral e c pid amount ias v = Inr v'"
  then show ?thesis using scusd_accounts.withdraw_collateralised [OF assms(1) _ assms(3-5)] by blast
qed

theorem vault_stays_collateralised_witness:
  "\<exists>v' s. scusd_process_mint_scusd (scusd_chain 0) (scusd_layouts LiquidateVault) 99 500
      [account_ref 1 True True, account_ref 2 False True, account_ref 3 False True, account_ref 7 False True,
       account_ref 8 False True, account_ref 5 False False, account_ref 6 False False, account_ref 6 False False]
      (scusd_vm 1000 150000000) = Inr v' \<and>
    load (scusd_vault_codec (scusd_layouts LiquidateVault)) (data (mem v' 2)) = Inr s \<and>
    collateralised (sample_global 1000) 150000000 s"
proof -
  let ?ias = "[account_ref 1 True True, account_ref 2 False True, account_ref 3 False True, account_ref 7 False True,
       account_ref 8 False True, account_ref 5 False False, account_ref 6 False False, account_ref 6 False False]"
    and ?v = "scusd_vm 1000 150000000" and ?c = "scusd_layouts LiquidateVault"
  have price: "scusd_read_oracle_price 5 ?v = Inr 150000000" by (rule scusd_vm_price) simp
  then obtain v' where run: "scusd_process_mint_scusd (scusd_chain 0) ?c 99 500 ?ias ?v = Inr v'"
    by (simp add: scusd_process_mint_scusd_def scusd_eval runtime_eval cpi_eval system_program_id_def)
  have "\<exists>s g. load (scusd_vault_codec ?c) (data (mem v' (key (?ias ! 1)))) = Inr s \<and>
    load (global_codec ?c) (data (mem ?v (key (?ias ! 2)))) = Inr g \<and> collateralised g 150000000 s"
    by (rule vault_stays_collateralised [OF scusd_layouts.scusd_accounts_axioms disjI1 [OF run]])
      (simp_all add: price)
  then show ?thesis using run by (auto simp:)
qed

end
