(* ===== verification/Multisig.thy ===== *)
theory Multisig
  imports Cpi
begin

text \<open>
  The multisig program (\<open>programs/multisig/src/lib.rs\<close>): M-of-N wallets that propose, approve and execute
  instructions. The decisions (\<open>record_approval\<close>, \<open>record_rejection\<close>, \<open>check_approved\<close>) are separate from the
  account handling. A \<open>[u8; 32]\<close> is the word of its bytes, as a key is.
\<close>

section \<open>Data\<close>

definition MULTISIG_SEED :: bytes where "MULTISIG_SEED = ascii ''multisig''"
definition TRANSACTION_SEED :: bytes where "TRANSACTION_SEED = ascii ''ms_transaction''"
definition MAX_SIGNERS :: nat where "MAX_SIGNERS = 11"
definition MIN_SIGNERS :: nat where "MIN_SIGNERS = 2"
definition MAX_INSTRUCTION_DATA_LEN :: nat where "MAX_INSTRUCTION_DATA_LEN = 1024"
definition MAX_INSTRUCTION_ACCOUNTS :: nat where "MAX_INSTRUCTION_ACCOUNTS = 16"
definition MAX_TIME_LOCK_SECS :: i64 where "MAX_TIME_LOCK_SECS = 30 * 24 * 60 * 60"

datatype multisig_error =
    NotEnoughSigners | TooManySigners | ThresholdTooHigh | ThresholdTooLow | NotASigner | AlreadyApproved
  | AlreadyRejected | ThresholdNotMet | AlreadyExecuted | AlreadyCancelled | TimeLockNotElapsed | TimeLockTooLong
  | SignerAlreadyExists | CannotRemoveBelowThreshold | MsInvalidAuthority | MsAlreadyInitialized
  | TransactionNotPending | InstructionDataTooLarge | TooManyInstructionAccounts | MsOverflow
  | MsInvalidAccountData | TransactionRejected

fun multisig_err :: "multisig_error \<Rightarrow> instruction_error" where
  "multisig_err NotEnoughSigners = Custom 0"
| "multisig_err TooManySigners = Custom 1"
| "multisig_err ThresholdTooHigh = Custom 2"
| "multisig_err ThresholdTooLow = Custom 3"
| "multisig_err NotASigner = Custom 4"
| "multisig_err AlreadyApproved = Custom 5"
| "multisig_err AlreadyRejected = Custom 6"
| "multisig_err ThresholdNotMet = Custom 7"
| "multisig_err AlreadyExecuted = Custom 8"
| "multisig_err AlreadyCancelled = Custom 9"
| "multisig_err TimeLockNotElapsed = Custom 10"
| "multisig_err TimeLockTooLong = Custom 11"
| "multisig_err SignerAlreadyExists = Custom 12"
| "multisig_err CannotRemoveBelowThreshold = Custom 13"
| "multisig_err MsInvalidAuthority = Custom 14"
| "multisig_err MsAlreadyInitialized = Custom 15"
| "multisig_err TransactionNotPending = Custom 16"
| "multisig_err InstructionDataTooLarge = Custom 17"
| "multisig_err TooManyInstructionAccounts = Custom 18"
| "multisig_err MsOverflow = Custom 19"
| "multisig_err MsInvalidAccountData = Custom 20"
| "multisig_err TransactionRejected = Custom 21"

datatype transaction_status = Pending | Approved | Executed | Rejected | Cancelled

record multisig_account_meta =
  ms_pubkey :: pubkey
  ms_is_signer :: bool
  ms_is_writable :: bool

record multisig_instruction_data =
  target_program_id :: pubkey
  target_accounts :: "multisig_account_meta list"
  target_data :: bytes

record multisig =
  ms_is_initialized :: bool
  threshold :: u8
  signers :: "pubkey list"
  transaction_count :: u64
  time_lock_seconds :: i64
  label :: "256 word"
  ms_bump :: u8

record multisig_transaction =
  tx_is_initialized :: bool
  tx_multisig :: pubkey
  tx_id :: u64
  proposer :: pubkey
  instruction :: multisig_instruction_data
  status :: transaction_status
  approvals :: "pubkey list"
  rejections :: "pubkey list"
  approved_at :: i64
  created_at :: i64
  executed_at :: i64
  tx_bump :: u8

datatype multisig_instruction =
    CreateMultisig u8 "pubkey list" i64 "256 word"
  | ProposeTransaction multisig_instruction_data
  | ApproveTransaction
  | RejectTransaction
  | ExecuteTransaction
  | CancelTransaction
  | AddSigner pubkey
  | RemoveSigner pubkey
  | ChangeThreshold u8

record multisig_codecs =
  multisig_codec :: "multisig borsh"
  transaction_codec :: "multisig_transaction borsh"
  multisig_instruction_codec :: "multisig_instruction borsh"

abbreviation ovf :: "'a option \<Rightarrow> 'a res" where
  "ovf m \<equiv> ok_or m (multisig_err MsOverflow)"

abbreviation load_ms :: "multisig_codecs \<Rightarrow> pubkey \<Rightarrow> vm \<Rightarrow> multisig res" where
  "load_ms c \<equiv> load_or (multisig_err MsInvalidAccountData) (multisig_codec c)"

abbreviation load_tx :: "multisig_codecs \<Rightarrow> pubkey \<Rightarrow> vm \<Rightarrow> multisig_transaction res" where
  "load_tx c \<equiv> load_or (multisig_err MsInvalidAccountData) (transaction_codec c)"

section \<open>Membership\<close>

definition is_signer_of :: "multisig \<Rightarrow> pubkey \<Rightarrow> bool" where
  "is_signer_of m k \<longleftrightarrow> k \<in> set (signers m)"

definition new_multisig :: "u8 \<Rightarrow> pubkey list \<Rightarrow> i64 \<Rightarrow> 256 word \<Rightarrow> u8 \<Rightarrow> multisig" where
  "new_multisig thr ks lock lab b =
     \<lparr>ms_is_initialized = True, threshold = thr, signers = ks, transaction_count = 0, time_lock_seconds = lock,
      label = lab, ms_bump = b\<rparr>"

definition check_config :: "u8 \<Rightarrow> pubkey list \<Rightarrow> i64 \<Rightarrow> unit res" where
  "check_config thr ks lock =
     (if length ks < MIN_SIGNERS then Inl (multisig_err NotEnoughSigners)
      else if MAX_SIGNERS < length ks then Inl (multisig_err TooManySigners)
      else if thr < 1 then Inl (multisig_err ThresholdTooLow)
      else if length ks < unat thr then Inl (multisig_err ThresholdTooHigh)
      else if sint MAX_TIME_LOCK_SECS < sint lock then Inl (multisig_err TimeLockTooLong)
      else if has_duplicates ks then Inl (multisig_err SignerAlreadyExists)
      else Inr ())"

definition add_signer :: "pubkey \<Rightarrow> multisig \<Rightarrow> multisig res" where
  "add_signer k m =
     (if k \<in> set (signers m) then Inl (multisig_err SignerAlreadyExists)
      else if MAX_SIGNERS \<le> length (signers m) then Inl (multisig_err TooManySigners)
      else Inr (m\<lparr>signers := signers m @ [k]\<rparr>))"

definition remove_signer :: "pubkey \<Rightarrow> multisig \<Rightarrow> multisig res" where
  "remove_signer k m =
     (if k \<notin> set (signers m) then Inl (multisig_err NotASigner)
      else if length (signers m) - 1 < unat (threshold m) then Inl (multisig_err CannotRemoveBelowThreshold)
      else if length (signers m) - 1 < MIN_SIGNERS then Inl (multisig_err NotEnoughSigners)
      else Inr (m\<lparr>signers := remove1 k (signers m)\<rparr>))"

definition change_threshold :: "u8 \<Rightarrow> multisig \<Rightarrow> multisig res" where
  "change_threshold n m =
     (if n < 1 then Inl (multisig_err ThresholdTooLow)
      else if length (signers m) < unat n then Inl (multisig_err ThresholdTooHigh)
      else Inr (m\<lparr>threshold := n\<rparr>))"

section \<open>Decisions\<close>

definition new_transaction :: "pubkey \<Rightarrow> u64 \<Rightarrow> pubkey \<Rightarrow> multisig_instruction_data \<Rightarrow> clock \<Rightarrow> u8 \<Rightarrow> multisig_transaction" where
  "new_transaction ms n prop ix clk b =
     \<lparr>tx_is_initialized = True, tx_multisig = ms, tx_id = n, proposer = prop, instruction = ix, status = Pending,
      approvals = [prop], rejections = [], approved_at = 0, created_at = unix_timestamp clk, executed_at = 0,
      tx_bump = b\<rparr>"

definition record_approval :: "multisig \<Rightarrow> pubkey \<Rightarrow> clock res \<Rightarrow> multisig_transaction \<Rightarrow> multisig_transaction res" where
  "record_approval m k clock t =
     (if status t \<noteq> Pending then Inl (multisig_err TransactionNotPending)
      else if k \<in> set (approvals t) then Inl (multisig_err AlreadyApproved)
      else if k \<in> set (rejections t) then Inl (multisig_err AlreadyRejected)
      else
      let t = t\<lparr>approvals := approvals t @ [k]\<rparr> in
      if unat (threshold m) \<le> length (approvals t)
      then rbind clock (\<lambda>clk. Inr (t\<lparr>status := Approved, approved_at := unix_timestamp clk\<rparr>))
      else Inr t)"

definition record_rejection :: "env \<Rightarrow> multisig \<Rightarrow> pubkey \<Rightarrow> multisig_transaction \<Rightarrow> multisig_transaction res" where
  "record_rejection e m k t =
     (if status t \<noteq> Pending then Inl (multisig_err TransactionNotPending)
      else if k \<in> set (rejections t) then Inl (multisig_err AlreadyRejected)
      else if k \<in> set (approvals t) then Inl (multisig_err AlreadyApproved)
      else
      let t = t\<lparr>rejections := rejections t @ [k]\<rparr> in
      rbind (op_sub e (word_of_nat (length (signers m)) :: u64) (word_of_nat (length (rejections t)))) (\<lambda>max_possible_approvals.
      if unat max_possible_approvals < unat (threshold m) then Inr (t\<lparr>status := Rejected\<rparr>) else Inr t))"

fun check_approved :: "transaction_status \<Rightarrow> unit res" where
  "check_approved Approved = Inr ()"
| "check_approved Executed = Inl (multisig_err AlreadyExecuted)"
| "check_approved Rejected = Inl (multisig_err TransactionRejected)"
| "check_approved Cancelled = Inl (multisig_err AlreadyCancelled)"
| "check_approved Pending = Inl (multisig_err ThresholdNotMet)"

definition check_time_lock :: "env \<Rightarrow> multisig \<Rightarrow> multisig_transaction \<Rightarrow> i64 \<Rightarrow> unit res" where
  "check_time_lock e m t now =
     (if 0 < sint (time_lock_seconds m)
      then
        rbind (ovf (i64_checked_add (approved_at t) (time_lock_seconds m))) (\<lambda>unlock_time.
        wait_until e (multisig_err TimeLockNotElapsed) unlock_time now)
      else Inr ())"

definition mark_executed :: "i64 \<Rightarrow> multisig_transaction \<Rightarrow> multisig_transaction" where
  "mark_executed now t = t\<lparr>status := Executed, executed_at := now\<rparr>"

definition cancel_transaction :: "pubkey \<Rightarrow> multisig_transaction \<Rightarrow> multisig_transaction res" where
  "cancel_transaction k t =
     (if proposer t \<noteq> k then Inl (multisig_err MsInvalidAuthority)
      else if status t \<noteq> Pending then Inl (multisig_err TransactionNotPending)
      else Inr (t\<lparr>status := Cancelled\<rparr>))"

section \<open>Handlers\<close>

definition process_create_multisig ::
  "env \<Rightarrow> multisig_codecs \<Rightarrow> pubkey \<Rightarrow> u8 \<Rightarrow> pubkey list \<Rightarrow> i64 \<Rightarrow> 256 word \<Rightarrow> instruction_account list \<Rightarrow> vm \<Rightarrow> vm res" where
  "process_create_multisig e c program_id thr ks lock lab ias v =
     rbind (next_account_info ias) (\<lambda>(multisig_info, it).
     rbind (next_account_info it) (\<lambda>(payer_info, it).
     rbind (next_account_info it) (\<lambda>(system_program, it).
     rbind (next_account_info it) (\<lambda>(rent_sysvar, it).
     if \<not> is_signer payer_info then Inl MissingRequiredSignature
     else
     rbind (check_config thr ks lock) (\<lambda>_.
     let (expected_pda, b) = find_program_address e [MULTISIG_SEED, to_le_bytes lab] program_id
     in
     if key multisig_info \<noteq> expected_pda then Inl InvalidSeeds
     else
     let d = data (mem v (key multisig_info)) in
     if 0 < length d \<and> (case try_from_slice (multisig_codec c) d of Some m \<Rightarrow> ms_is_initialized m | None \<Rightarrow> False)
     then Inl (multisig_err MsAlreadyInitialized)
     else copy_account (multisig_codec c) (new_multisig thr ks lock lab b) (key multisig_info) v)))))"

definition process_propose_transaction ::
  "env \<Rightarrow> multisig_codecs \<Rightarrow> pubkey \<Rightarrow> multisig_instruction_data \<Rightarrow> instruction_account list \<Rightarrow> vm \<Rightarrow> vm res" where
  "process_propose_transaction e c program_id ix ias v =
     rbind (next_account_info ias) (\<lambda>(multisig_info, it).
     rbind (next_account_info it) (\<lambda>(transaction_info, it).
     rbind (next_account_info it) (\<lambda>(proposer_info, it).
     rbind (next_account_info it) (\<lambda>(clock_sysvar, it).
     rbind (next_account_info it) (\<lambda>(system_program, it).
     rbind (next_account_info it) (\<lambda>(rent_sysvar, it).
     if \<not> is_signer proposer_info then Inl MissingRequiredSignature
     else if MAX_INSTRUCTION_DATA_LEN < length (target_data ix) then Inl (multisig_err InstructionDataTooLarge)
     else if MAX_INSTRUCTION_ACCOUNTS < length (target_accounts ix) then Inl (multisig_err TooManyInstructionAccounts)
     else
     rbind (load_ms c (key multisig_info) v) (\<lambda>m.
     if \<not> is_signer_of m (key proposer_info) then Inl (multisig_err NotASigner)
     else
     rbind (ovf (checked_add (transaction_count m) 1)) (\<lambda>n.
     rbind (clock_from_account_info e (key clock_sysvar) (mem v (key clock_sysvar))) (\<lambda>clk.
     let (expected_pda, b) = find_program_address e
           [TRANSACTION_SEED, to_le_bytes (key multisig_info), to_le_bytes (transaction_count m)] program_id
     in
     if key transaction_info \<noteq> expected_pda then Inl InvalidSeeds
     else
     rbind (copy_account (multisig_codec c) (m\<lparr>transaction_count := n\<rparr>) (key multisig_info) v) (\<lambda>v.
     copy_account (transaction_codec c)
       (new_transaction (key multisig_info) (transaction_count m) (key proposer_info) ix clk b) (key transaction_info) v))))))))))"

definition process_approve_transaction ::
  "env \<Rightarrow> multisig_codecs \<Rightarrow> instruction_account list \<Rightarrow> vm \<Rightarrow> vm res" where
  "process_approve_transaction e c ias v =
     rbind (next_account_info ias) (\<lambda>(multisig_info, it).
     rbind (next_account_info it) (\<lambda>(transaction_info, it).
     rbind (next_account_info it) (\<lambda>(approver_info, it).
     rbind (next_account_info it) (\<lambda>(clock_sysvar, it).
     if \<not> is_signer approver_info then Inl MissingRequiredSignature
     else
     rbind (load_ms c (key multisig_info) v) (\<lambda>m.
     if \<not> is_signer_of m (key approver_info) then Inl (multisig_err NotASigner)
     else
     rbind (load_tx c (key transaction_info) v) (\<lambda>t.
     rbind (record_approval m (key approver_info)
              (clock_from_account_info e (key clock_sysvar) (mem v (key clock_sysvar))) t) (\<lambda>t.
     copy_account (transaction_codec c) t (key transaction_info) v)))))))"

definition process_reject_transaction ::
  "env \<Rightarrow> multisig_codecs \<Rightarrow> instruction_account list \<Rightarrow> vm \<Rightarrow> vm res" where
  "process_reject_transaction e c ias v =
     rbind (next_account_info ias) (\<lambda>(multisig_info, it).
     rbind (next_account_info it) (\<lambda>(transaction_info, it).
     rbind (next_account_info it) (\<lambda>(rejector_info, it).
     rbind (next_account_info it) (\<lambda>(clock_sysvar, it).
     if \<not> is_signer rejector_info then Inl MissingRequiredSignature
     else
     rbind (load_ms c (key multisig_info) v) (\<lambda>m.
     if \<not> is_signer_of m (key rejector_info) then Inl (multisig_err NotASigner)
     else
     rbind (load_tx c (key transaction_info) v) (\<lambda>t.
     rbind (record_rejection e m (key rejector_info) t) (\<lambda>t.
     copy_account (transaction_codec c) t (key transaction_info) v)))))))"

definition target_instruction :: "multisig_instruction_data \<Rightarrow> cpi_instruction" where
  "target_instruction ix =
     \<lparr>cpi_program_id = target_program_id ix,
      cpi_accounts = map (\<lambda>m. \<lparr>meta_key = ms_pubkey m, meta_signer = ms_is_signer m, meta_writable = ms_is_writable m\<rparr>)
        (target_accounts ix),
      cpi_data_of = RawData (target_data ix)\<rparr>"

definition process_execute_transaction ::
  "env \<Rightarrow> multisig_codecs \<Rightarrow> pubkey \<Rightarrow> instruction_account list \<Rightarrow> vm \<Rightarrow> vm res" where
  "process_execute_transaction e c program_id ias v =
     rbind (next_account_info ias) (\<lambda>(multisig_info, it).
     rbind (next_account_info it) (\<lambda>(transaction_info, it).
     rbind (next_account_info it) (\<lambda>(executor_info, it).
     rbind (next_account_info it) (\<lambda>(clock_sysvar, it).
     if \<not> is_signer executor_info then Inl MissingRequiredSignature
     else
     rbind (load_ms c (key multisig_info) v) (\<lambda>m.
     if \<not> is_signer_of m (key executor_info) then Inl (multisig_err NotASigner)
     else
     rbind (load_tx c (key transaction_info) v) (\<lambda>t.
     rbind (check_approved (status t)) (\<lambda>_.
     rbind (clock_from_account_info e (key clock_sysvar) (mem v (key clock_sysvar))) (\<lambda>clk.
     rbind (check_time_lock e m t (unix_timestamp clk)) (\<lambda>_.
     rbind (invoke_signed e program_id ias (target_instruction (instruction t)) it
              [[MULTISIG_SEED, to_le_bytes (label m), [ms_bump m]]] v) (\<lambda>v.
     copy_account (transaction_codec c) (mark_executed (unix_timestamp clk) t) (key transaction_info) v))))))))))"

definition process_cancel_transaction :: "multisig_codecs \<Rightarrow> instruction_account list \<Rightarrow> vm \<Rightarrow> vm res" where
  "process_cancel_transaction c ias v =
     rbind (next_account_info ias) (\<lambda>(transaction_info, it).
     rbind (next_account_info it) (\<lambda>(proposer_info, it).
     if \<not> is_signer proposer_info then Inl MissingRequiredSignature
     else
     rbind (load_tx c (key transaction_info) v) (\<lambda>t.
     rbind (cancel_transaction (key proposer_info) t) (\<lambda>t.
     copy_account (transaction_codec c) t (key transaction_info) v))))"

text \<open>The three handlers that change the multisig itself differ in the update only.\<close>

definition update_multisig ::
  "multisig_codecs \<Rightarrow> (multisig \<Rightarrow> multisig res) \<Rightarrow> instruction_account list \<Rightarrow> vm \<Rightarrow> vm res" where
  "update_multisig c f ias v =
     rbind (next_account_info ias) (\<lambda>(multisig_info, it).
     rbind (next_account_info it) (\<lambda>(authority_info, it).
     if \<not> is_signer authority_info \<or> key authority_info \<noteq> key multisig_info then Inl (multisig_err MsInvalidAuthority)
     else
     rbind (load_ms c (key multisig_info) v) (\<lambda>m.
     rbind (f m) (\<lambda>m.
     copy_account (multisig_codec c) m (key multisig_info) v))))"

definition process_add_signer :: "multisig_codecs \<Rightarrow> pubkey \<Rightarrow> instruction_account list \<Rightarrow> vm \<Rightarrow> vm res" where
  "process_add_signer c new_signer = update_multisig c (add_signer new_signer)"

definition process_remove_signer :: "multisig_codecs \<Rightarrow> pubkey \<Rightarrow> instruction_account list \<Rightarrow> vm \<Rightarrow> vm res" where
  "process_remove_signer c signer_to_remove = update_multisig c (remove_signer signer_to_remove)"

definition process_change_threshold :: "multisig_codecs \<Rightarrow> u8 \<Rightarrow> instruction_account list \<Rightarrow> vm \<Rightarrow> vm res" where
  "process_change_threshold c new_threshold = update_multisig c (change_threshold new_threshold)"

definition multisig_process_instruction :: "env \<Rightarrow> multisig_codecs \<Rightarrow> pubkey \<Rightarrow> bytes \<Rightarrow> program" where
  "multisig_process_instruction e c program_id instruction_data ias v =
     rbind (ok_or (try_from_slice (multisig_instruction_codec c) instruction_data) InvalidInstructionData) (\<lambda>ix.
     case ix of
       CreateMultisig thr ks lock lab \<Rightarrow> process_create_multisig e c program_id thr ks lock lab ias v
     | ProposeTransaction ix \<Rightarrow> process_propose_transaction e c program_id ix ias v
     | ApproveTransaction \<Rightarrow> process_approve_transaction e c ias v
     | RejectTransaction \<Rightarrow> process_reject_transaction e c ias v
     | ExecuteTransaction \<Rightarrow> process_execute_transaction e c program_id ias v
     | CancelTransaction \<Rightarrow> process_cancel_transaction c ias v
     | AddSigner k \<Rightarrow> process_add_signer c k ias v
     | RemoveSigner k \<Rightarrow> process_remove_signer c k ias v
     | ChangeThreshold n \<Rightarrow> process_change_threshold c n ias v)"

lemmas multisig_handler_defs = process_create_multisig_def process_propose_transaction_def
  process_approve_transaction_def process_reject_transaction_def process_execute_transaction_def
  process_cancel_transaction_def process_add_signer_def process_remove_signer_def process_change_threshold_def
  update_multisig_def

context chain
begin

lemma multisig_keeps: "keeps v (multisig_process_instruction e c pid d ias v)"
  unfolding multisig_process_instruction_def
proof (rule keeps_bind)
  fix ix
  show "keeps v (case ix of
       CreateMultisig thr ks lock lab \<Rightarrow> process_create_multisig e c pid thr ks lock lab ias v
     | ProposeTransaction ix \<Rightarrow> process_propose_transaction e c pid ix ias v
     | ApproveTransaction \<Rightarrow> process_approve_transaction e c ias v
     | RejectTransaction \<Rightarrow> process_reject_transaction e c ias v
     | ExecuteTransaction \<Rightarrow> process_execute_transaction e c pid ias v
     | CancelTransaction \<Rightarrow> process_cancel_transaction c ias v
     | AddSigner k \<Rightarrow> process_add_signer c k ias v
     | RemoveSigner k \<Rightarrow> process_remove_signer c k ias v
     | ChangeThreshold n \<Rightarrow> process_change_threshold c n ias v)"
    by (cases ix; simp only: multisig_instruction.case multisig_handler_defs; intro keeps_intros keeps_invoke)
qed

end

sublocale chain \<subseteq> multisig: onchain_program "multisig_process_instruction e c pid d" for c pid d
  by unfold_locales (metis keepsD multisig_keeps)

section \<open>Layouts\<close>

fun status_tag :: "transaction_status \<Rightarrow> u8" where
  "status_tag Pending = 0"
| "status_tag Approved = 1"
| "status_tag Executed = 2"
| "status_tag Rejected = 3"
| "status_tag Cancelled = 4"

definition status_of :: "u8 \<Rightarrow> transaction_status option" where
  "status_of b = (if b = 0 then Some Pending else if b = 1 then Some Approved else if b = 2 then Some Executed
     else if b = 3 then Some Rejected else if b = 4 then Some Cancelled else None)"

lemma status_of_tag [simp]: "status_of (status_tag s) = Some s"
  by (cases s) (simp_all add: status_of_def)

definition meta_layout :: "multisig_account_meta layout" where
  "meta_layout = iso_layout (\<lambda>(k, s, w). \<lparr>ms_pubkey = k, ms_is_signer = s, ms_is_writable = w\<rparr>)
     (\<lambda>m. (ms_pubkey m, ms_is_signer m, ms_is_writable m)) (pair_layout word_layout (pair_layout bool_layout bool_layout))"

definition target_layout :: "multisig_instruction_data layout" where
  "target_layout = iso_layout (\<lambda>(p, a, d). \<lparr>target_program_id = p, target_accounts = a, target_data = d\<rparr>)
     (\<lambda>i. (target_program_id i, target_accounts i, target_data i))
     (pair_layout word_layout (pair_layout (vec_layout meta_layout) (vec_layout word_layout)))"

definition multisig_layout :: "multisig layout" where
  "multisig_layout =
     iso_layout
       (\<lambda>((i, t), s, n, l, lb, b). \<lparr>ms_is_initialized = i, threshold = t, signers = s, transaction_count = n,
          time_lock_seconds = l, label = lb, ms_bump = b\<rparr>)
       (\<lambda>m. ((ms_is_initialized m, threshold m), signers m, transaction_count m, time_lock_seconds m, label m, ms_bump m))
       (pair_layout (pair_layout bool_layout word_layout) (pair_layout (vec_layout word_layout)
         (pair_layout word_layout (pair_layout word_layout (pair_layout word_layout word_layout)))))"

definition transaction_layout :: "multisig_transaction layout" where
  "transaction_layout =
     iso_layout
       (\<lambda>((i, m, n, p), ix, s, ap, rj, aa, ca, ea, b).
          \<lparr>tx_is_initialized = i, tx_multisig = m, tx_id = n, proposer = p, instruction = ix, status = s, approvals = ap,
           rejections = rj, approved_at = aa, created_at = ca, executed_at = ea, tx_bump = b\<rparr>)
       (\<lambda>t. ((tx_is_initialized t, tx_multisig t, tx_id t, proposer t), instruction t, status t, approvals t,
             rejections t, approved_at t, created_at t, executed_at t, tx_bump t))
       (pair_layout (pair_layout bool_layout (pair_layout word_layout (pair_layout word_layout word_layout)))
       (pair_layout target_layout (pair_layout (enum_layout status_tag status_of) (pair_layout (vec_layout word_layout)
       (pair_layout (vec_layout word_layout) (pair_layout word_layout (pair_layout word_layout (pair_layout word_layout
         word_layout))))))))"

definition ms_representable :: "multisig \<Rightarrow> bool" where
  "ms_representable m \<longleftrightarrow> length (signers m) < 2 ^ 32"

definition tx_representable :: "multisig_transaction \<Rightarrow> bool" where
  "tx_representable t \<longleftrightarrow>
     length (target_accounts (instruction t)) < 2 ^ 32 \<and> length (target_data (instruction t)) < 2 ^ 32 \<and>
     length (approvals t) < 2 ^ 32 \<and> length (rejections t) < 2 ^ 32"

lemma wf_meta_layout: "wf_layout 34 meta_layout"
  unfolding meta_layout_def by (rule wf_layout_eq, (rule wf_layouts)+) simp_all

lemma wf_status_layout: "wf_layout 1 (enum_layout status_tag status_of)"
  by (rule wf_enum_layout) simp

lemmas wf_ms_words = wf_word_layouts wf_bool_layout wf_status_layout wf_meta_layout
lemmas ms_vars = wf_ms_words [THEN var_layout_fixed] wf_ms_words [THEN var_layout_fixed, THEN var_vec_layout]

lemma var_target_layout:
  "var_layout (\<lambda>i. length (target_accounts i) < 2 ^ 32 \<and> length (target_data i) < 2 ^ 32) target_layout"
  unfolding target_layout_def
  by (rule var_layout_mono, rule var_iso_layout, (rule var_pair_layout ms_vars)+) (simp_all add: list_all_iff)

lemma var_multisig_layout: "var_layout ms_representable multisig_layout"
  unfolding multisig_layout_def
  by (rule var_layout_mono, rule var_iso_layout, (rule var_pair_layout ms_vars)+) (simp_all add: list_all_iff ms_representable_def)

lemma var_transaction_layout: "var_layout tx_representable transaction_layout"
  unfolding transaction_layout_def
  by (rule var_layout_mono, rule var_iso_layout, (rule var_pair_layout var_target_layout ms_vars)+)
    (simp_all add: list_all_iff tx_representable_def)

lemmas ms_exact = wf_ms_words [THEN exact_fixed] wf_ms_words [THEN exact_fixed, THEN exact_vec_layout]

lemma exact_target_layout:
  "exact_layout (\<lambda>i. length (target_accounts i) < 2 ^ 32 \<and> length (target_data i) < 2 ^ 32) target_layout"
  unfolding target_layout_def
  by (rule exact_layout_mono, rule exact_iso_layout, (rule exact_pair_layout ms_exact)+) auto

lemma exact_multisig_layout: "exact_layout ms_representable multisig_layout"
  unfolding multisig_layout_def
  by (rule exact_layout_mono, rule exact_iso_layout, (rule exact_pair_layout ms_exact)+) (auto simp: ms_representable_def)

lemma exact_transaction_layout: "exact_layout tx_representable transaction_layout"
  unfolding transaction_layout_def
  by (rule exact_layout_mono, rule exact_iso_layout, (rule exact_pair_layout exact_target_layout ms_exact)+)
    (auto simp: tx_representable_def)

interpretation multisig_borsh: borsh_exact "of_layout multisig_layout" ms_representable
  by (rule borsh_exact_of_layout [OF var_multisig_layout exact_multisig_layout])

interpretation transaction_borsh: borsh_exact "of_layout transaction_layout" tx_representable
  by (rule borsh_exact_of_layout [OF var_transaction_layout exact_transaction_layout])

lemma length_multisig: "length (put multisig_layout m) = 55 + 32 * length (signers m)"
  by (simp add: multisig_layout_def iso_layout_def pair_layout_def vec_layout_def word_layout_def bool_layout_def
      length_concat o_def sum_list_triv)

lemma length_transaction:
  "length (put transaction_layout t) = 147 + 34 * length (target_accounts (instruction t)) +
     length (target_data (instruction t)) + 32 * length (approvals t) + 32 * length (rejections t)"
  using wf_meta_layout
  by (simp add: wf_layout_def transaction_layout_def target_layout_def enum_layout_def iso_layout_def pair_layout_def
      vec_layout_def word_layout_def bool_layout_def length_concat o_def sum_list_triv)

text \<open>What the handlers rely on: the encoding of the two records, and how its length grows with the vectors.\<close>

locale multisig_accounts = ms: borsh_exact "multisig_codec c" ms_representable + tr: borsh_exact "transaction_codec c" tx_representable
  for c :: multisig_codecs +
  assumes multisig_size: "length (to_vec (multisig_codec c) m) = 55 + 32 * length (signers m)"
    and transaction_size: "length (to_vec (transaction_codec c) t) = 147 + 34 * length (target_accounts (instruction t)) +
      length (target_data (instruction t)) + 32 * length (approvals t) + 32 * length (rejections t)"
begin

lemma grown_transaction_fails:
  assumes "try_from_slice (transaction_codec c) (data (mem v k)) = Some t" and "instruction t' = instruction t"
    and "length (approvals t) + length (rejections t) < length (approvals t') + length (rejections t')"
  shows "copy_account (transaction_codec c) t' k v = Inl ProgramFailedToComplete"
  using tr.no_room [OF assms(1), of t'] assms(2,3) by (simp add: copy_account_def transaction_size)

lemma grown_multisig_fails:
  assumes "try_from_slice (multisig_codec c) (data (mem v k)) = Some m" and "length (signers m) < length (signers m')"
  shows "copy_account (multisig_codec c) m' k v = Inl ProgramFailedToComplete"
  using ms.no_room [OF assms(1), of m'] assms(2) by (simp add: copy_account_def multisig_size)

lemma shrunk_multisig_unreadable:
  assumes "try_from_slice (multisig_codec c) (data (mem v k)) = Some m" and "length (signers m') < length (signers m)"
    and "copy_account (multisig_codec c) m' k v = Inr v'"
  shows "load_ms c k v' = Inl (multisig_err MsInvalidAccountData)"
  using ms.rewritten_shorter [OF assms(1), of m'] ms.from_valid [OF assms(1)] assms(2,3)
  by (auto simp: copy_account_eq_Inr multisig_size load_or_def ms_representable_def)

end

definition multisig_layouts :: "multisig_instruction \<Rightarrow> multisig_codecs" where
  "multisig_layouts ix =
     \<lparr>multisig_codec = of_layout multisig_layout, transaction_codec = of_layout transaction_layout,
      multisig_instruction_codec = \<lparr>try_from_slice = (\<lambda>_. Some ix), to_vec = (\<lambda>_. [])\<rparr>\<rparr>"

interpretation multisig_layouts: multisig_accounts "multisig_layouts ix" for ix
  by (simp add: multisig_accounts_def multisig_accounts_axioms_def multisig_layouts_def length_multisig length_transaction
      multisig_borsh.borsh_exact_axioms transaction_borsh.borsh_exact_axioms)

section \<open>Records without a decision\<close>

text \<open>
  What the transaction accounts \<open>T\<close> hold where they can be read: a pending or cancelled transaction, with no
  vote but the one its proposer cast by proposing it.
\<close>

definition no_decision :: "multisig_transaction \<Rightarrow> bool" where
  "no_decision t \<longleftrightarrow> status t \<in> {Pending, Cancelled} \<and> set (approvals t) \<subseteq> {proposer t} \<and> rejections t = []"

definition undecided :: "multisig_codecs \<Rightarrow> pubkey set \<Rightarrow> (pubkey \<Rightarrow> account) \<Rightarrow> bool" where
  "undecided c T m \<longleftrightarrow> (\<forall>k \<in> T. \<forall>t. try_from_slice (transaction_codec c) (data (m k)) = Some t \<longrightarrow> no_decision t)"

text \<open>An instruction is given transactions of \<open>T\<close> in the place of a transaction, and no other account of \<open>T\<close> to write to.\<close>

fun transaction_account :: "multisig_instruction \<Rightarrow> instruction_account list \<Rightarrow> pubkey option" where
  "transaction_account CancelTransaction ias = Some (key (ias ! 0))"
| "transaction_account (ProposeTransaction _) ias = Some (key (ias ! 1))"
| "transaction_account ApproveTransaction ias = Some (key (ias ! 1))"
| "transaction_account RejectTransaction ias = Some (key (ias ! 1))"
| "transaction_account ExecuteTransaction ias = Some (key (ias ! 1))"
| "transaction_account _ ias = None"

definition accounts_given :: "pubkey set \<Rightarrow> multisig_instruction \<Rightarrow> instruction_account list \<Rightarrow> bool" where
  "accounts_given T ix ias \<longleftrightarrow>
     (case transaction_account ix ias of None \<Rightarrow> True | Some k \<Rightarrow> k \<in> T) \<and>
     (ix \<noteq> CancelTransaction \<longrightarrow> key (ias ! 0) \<notin> T)"

lemma check_approved_eq_Inr: "check_approved s = Inr u \<longleftrightarrow> s = Approved"
  by (cases s) auto

lemma undecided_other_account:
  assumes "undecided c T (mem v)" and "copy_account cc x k v = Inr v'" and "k \<notin> T"
  shows "undecided c T (mem v') \<and> (\<forall>j \<in> T. mem v' j = mem v j)"
  using assms by (auto simp: undecided_def copy_account_eq_Inr)

context multisig_accounts
begin

lemma undecided_transaction:
  assumes "undecided c T (mem v)" and "copy_account (transaction_codec c) t k v = Inr v'"
    and "tx_representable t" and "no_decision t"
  shows "undecided c T (mem v')"
proof -
  let ?rest = "drop (length (to_vec (transaction_codec c) t)) (data (mem v k))"
  have v': "v' = set_mem_data k (to_vec (transaction_codec c) t @ ?rest) v" using assms(2) by (simp add: copy_account_eq_Inr)
  have "u = t" if "try_from_slice (transaction_codec c) (to_vec (transaction_codec c) t @ ?rest) = Some u" for u
    using that tr.from_to_valid [OF assms(3)] tr.from_trailing [OF assms(3), of ?rest] by (cases "?rest = []") auto
  then show ?thesis using assms(1,4) by (auto simp: undecided_def v')
qed

lemma propose_undecided:
  assumes "process_propose_transaction e c pid ix ias v = Inr v'" and "undecided c T (mem v)" and "key (ias ! 0) \<notin> T"
  shows "is_signer (ias ! 2) \<and> undecided c T (mem v') \<and> (\<forall>j \<in> T - {key (ias ! 1)}. mem v' j = mem v j)"
proof -
  from assms(1) obtain ms tr pr rest where ias: "ias = ms # tr # pr # rest" "is_signer pr"
    by (auto simp: process_propose_transaction_def rust_simps)
  with assms(1) obtain m n clk b u where size: "length (target_data ix) \<le> MAX_INSTRUCTION_DATA_LEN"
      "length (target_accounts ix) \<le> MAX_INSTRUCTION_ACCOUNTS"
    and u: "copy_account (multisig_codec c) (m\<lparr>transaction_count := n\<rparr>) (key ms) v = Inr u"
    and v': "copy_account (transaction_codec c) (new_transaction (key ms) (transaction_count m) (key pr) ix clk b) (key tr) u = Inr v'"
    by (auto simp: process_propose_transaction_def rust_simps not_less Let_def case_prod_beta)
  have "tx_representable (new_transaction (key ms) (transaction_count m) (key pr) ix clk b)"
    "no_decision (new_transaction (key ms) (transaction_count m) (key pr) ix clk b)"
    using size by (simp_all add: tx_representable_def no_decision_def new_transaction_def MAX_INSTRUCTION_DATA_LEN_def
        MAX_INSTRUCTION_ACCOUNTS_def)
  moreover have "undecided c T (mem u) \<and> (\<forall>j \<in> T. mem u j = mem v j)"
    by (rule undecided_other_account [OF assms(2) u]) (use assms(3) ias in simp)
  ultimately show ?thesis
    using undecided_transaction [OF _ v'] v' ias by (auto simp: copy_account_eq_Inr)
qed

lemma cancel_undecided:
  assumes "process_cancel_transaction c ias v = Inr v'" and "undecided c T (mem v)" and "key (ias ! 0) \<in> T"
  obtains t where "is_signer (ias ! 1)" "try_from_slice (transaction_codec c) (data (mem v (key (ias ! 0)))) = Some t"
    "proposer t = key (ias ! 1)" "status t = Pending"
    "try_from_slice (transaction_codec c) (data (mem v' (key (ias ! 0)))) = Some (t\<lparr>status := Cancelled\<rparr>)"
    "undecided c T (mem v')" "\<And>j. j \<noteq> key (ias ! 0) \<Longrightarrow> mem v' j = mem v j"
proof -
  from assms(1) obtain tr pr rest t where ias: "ias = tr # pr # rest" "is_signer pr"
    and t: "try_from_slice (transaction_codec c) (data (mem v (key tr))) = Some t" "proposer t = key pr" "status t = Pending"
    and w: "copy_account (transaction_codec c) (t\<lparr>status := Cancelled\<rparr>) (key tr) v = Inr v'"
    by (auto simp: process_cancel_transaction_def cancel_transaction_def rust_simps split: if_splits)
  let ?t = "t\<lparr>status := Cancelled\<rparr>"
  have r: "tx_representable ?t" using tr.from_valid [OF t(1)] by (simp add: tx_representable_def)
  have "no_decision ?t" using assms(2,3) t(1) ias(1) by (auto simp: undecided_def no_decision_def)
  note undecided_transaction [OF assms(2) w r this]
  moreover have "try_from_slice (transaction_codec c) (data (mem v' (key tr))) = Some ?t"
    using w tr.rewritten_same_length [OF t(1) _ r] by (simp add: copy_account_eq_Inr transaction_size)
  ultimately show thesis using that [of t] ias t w by (auto simp: copy_account_eq_Inr)
qed

lemma execute_undecided:
  assumes "undecided c T (mem v)" and "key (ias ! 1) \<in> T"
  shows "process_execute_transaction e c pid ias v \<noteq> Inr v'"
proof
  assume "process_execute_transaction e c pid ias v = Inr v'"
  then obtain ms tr rest t where "ias = ms # tr # rest" "status t = Approved"
    "try_from_slice (transaction_codec c) (data (mem v (key tr))) = Some t"
    by (auto simp: process_execute_transaction_def rust_simps check_approved_eq_Inr)
  with assms show False by (auto simp: undecided_def no_decision_def)
qed

lemma votes_fail:
  "process_approve_transaction e c ias v \<noteq> Inr v'" "process_reject_transaction e c ias v \<noteq> Inr v'"
  using grown_transaction_fails
  by (auto simp: process_approve_transaction_def process_reject_transaction_def record_approval_def record_rejection_def
      rust_simps Let_def split: if_splits)

end

text \<open>The handlers that write a multisig account only.\<close>

lemma membership_undecided:
  assumes "undecided c T (mem v)" and "key (ias ! 0) \<notin> T"
  shows "process_create_multisig e c pid thr ks lock lab ias v = Inr v' \<Longrightarrow>
      undecided c T (mem v') \<and> (\<forall>j \<in> T. mem v' j = mem v j)"
    and "update_multisig c f ias v = Inr v' \<Longrightarrow> undecided c T (mem v') \<and> (\<forall>j \<in> T. mem v' j = mem v j)"
  using assms
  by (auto simp: process_create_multisig_def update_multisig_def rust_simps Let_def case_prod_beta
      dest: undecided_other_account)

section \<open>Properties\<close>

definition multisig_chain :: env where
  "multisig_chain = native_env (\<lambda>_ _. (3, 255)) (\<lambda>_. 10) \<lparr>slot = 7, epoch = 1, unix_timestamp = 1000\<rparr> (\<lambda>b. b)"

definition sample_multisig :: multisig where
  "sample_multisig = new_multisig 2 [11, 12, 13] 60 0 255"

definition sample_transaction :: multisig_transaction where
  "sample_transaction = new_transaction 2 0 11 \<lparr>target_program_id = 0, target_accounts = [], target_data = []\<rparr>
     \<lparr>slot = 7, epoch = 1, unix_timestamp = 900\<rparr> 255"

definition multisig_vm :: vm where
  "multisig_vm = enter_vm (tx_of [2, 3, 4, 11, 12, 13]
     (\<lambda>k. if k = 2 then \<lparr>lamports = 10, data = put multisig_layout sample_multisig, owner = 99\<rparr>
          else if k = 3 then \<lparr>lamports = 10, data = put transaction_layout sample_transaction, owner = 99\<rparr>
          else wallet 50))"

lemma multisig_vm_load:
  "try_from_slice (multisig_codec (multisig_layouts ix)) (data (mem multisig_vm 2)) = Some sample_multisig"
  "try_from_slice (transaction_codec (multisig_layouts ix)) (data (mem multisig_vm 3)) = Some sample_transaction"
  using multisig_borsh.from_to_valid [of sample_multisig] transaction_borsh.from_to_valid [of sample_transaction]
  by (simp_all add: multisig_vm_def multisig_layouts_def tx_of_def enter_vm_def ms_representable_def tx_representable_def
      sample_multisig_def new_multisig_def sample_transaction_def new_transaction_def)

text \<open>
  C36. No vote is ever recorded. A record can be read only from an account of exactly its size, and a vote or a
  new signer makes the record 32 bytes longer; writing it back then panics. \<open>ApproveTransaction\<close>,
  \<open>RejectTransaction\<close> and \<open>AddSigner\<close> therefore never succeed, whatever accounts they are given, and no
  transaction can be approved. \<open>RemoveSigner\<close> succeeds and leaves a multisig that cannot be read any more.
\<close>

theorem no_vote_recorded:
  assumes "multisig_accounts c"
  shows "process_approve_transaction e c ias v \<noteq> Inr v' \<and> process_reject_transaction e c ias v \<noteq> Inr v' \<and>
    process_add_signer c k ias v \<noteq> Inr v' \<and>
    (process_remove_signer c k ias v = Inr v' \<longrightarrow> load_ms c (key (ias ! 0)) v' = Inl (multisig_err MsInvalidAccountData))"
proof (intro conjI impI notI)
  note votes = multisig_accounts.votes_fail [OF assms] and ms = multisig_accounts.grown_multisig_fails [OF assms]
  show False if "process_approve_transaction e c ias v = Inr v'" using that votes(1) by blast
  show False if "process_reject_transaction e c ias v = Inr v'" using that votes(2) by blast
  show False if "process_add_signer c k ias v = Inr v'"
    using that ms by (auto simp: process_add_signer_def update_multisig_def add_signer_def rust_simps split: if_splits)
  show "load_ms c (key (ias ! 0)) v' = Inl (multisig_err MsInvalidAccountData)" if "process_remove_signer c k ias v = Inr v'"
  proof -
    from that obtain a b rest m where ias: "ias = a # b # rest" and m: "try_from_slice (multisig_codec c) (data (mem v (key a))) = Some m"
      and k: "k \<in> set (signers m)" and w: "copy_account (multisig_codec c) (m\<lparr>signers := remove1 k (signers m)\<rparr>) (key a) v = Inr v'"
      by (auto simp: process_remove_signer_def update_multisig_def remove_signer_def rust_simps split: if_splits)
    have "length (remove1 k (signers m)) < length (signers m)" using k length_pos_if_in_set [OF k] by (simp add: length_remove1)
    then show ?thesis
      using multisig_accounts.shrunk_multisig_unreadable [OF assms m _ w] ias by simp
  qed
qed

theorem no_vote_recorded_witness:
  "process_approve_transaction multisig_chain (multisig_layouts ApproveTransaction)
     [account_ref 2 False False, account_ref 3 False True, account_ref 12 True False, account_ref 4 False False] multisig_vm
     = Inl ProgramFailedToComplete \<and>
   (\<exists>v'. process_remove_signer (multisig_layouts ApproveTransaction) 13 [account_ref 2 False True, account_ref 2 True False] multisig_vm = Inr v' \<and>
     load_ms (multisig_layouts ApproveTransaction) 2 v' = Inl (multisig_err MsInvalidAccountData))"
proof -
  let ?c = "multisig_layouts ApproveTransaction"
    and ?ias = "[account_ref 2 False False, account_ref 3 False True, account_ref 12 True False, account_ref 4 False False]"
    and ?ref = "[account_ref 2 False True, account_ref 2 True False]"
  have ok: "multisig_accounts ?c" by (rule multisig_layouts.multisig_accounts_axioms)
  have "process_approve_transaction multisig_chain ?c ?ias multisig_vm \<noteq> Inr v'" for v'
    using no_vote_recorded [OF ok] by blast
  moreover have "process_approve_transaction multisig_chain ?c ?ias multisig_vm \<noteq> Inl err" if "err \<noteq> ProgramFailedToComplete" for err
    using that multisig_vm_load
    by (auto simp: process_approve_transaction_def load_or_def ok_or_def sample_multisig_def new_multisig_def is_signer_of_def
        sample_transaction_def new_transaction_def record_approval_def multisig_chain_def native_env_def copy_account_def Let_def
        split: if_splits)
  ultimately have app: "process_approve_transaction multisig_chain ?c ?ias multisig_vm = Inl ProgramFailedToComplete"
    by (metis sum.exhaust)
  obtain v' where run: "process_remove_signer ?c 13 ?ref multisig_vm = Inr v'"
    using multisig_vm_load multisig_layouts.ms.from_exact [OF multisig_vm_load(1)]
    by (auto simp: process_remove_signer_def update_multisig_def load_or_def ok_or_def remove_signer_def sample_multisig_def
        new_multisig_def copy_account_def Let_def MIN_SIGNERS_def multisig_layouts.multisig_size)
  then show ?thesis using app no_vote_recorded [OF ok, of multisig_chain "[]" multisig_vm v' 13]
      no_vote_recorded [OF ok, of multisig_chain ?ref multisig_vm v' 13] by auto
qed

text \<open>
  C37. The program decides no transaction. Suppose the records in the transaction accounts are pending or
  cancelled and carry no vote but the proposer's, and every instruction is given one of these accounts where it
  expects a transaction and none of them where it expects a multisig. Then no approval, no rejection and no execution
  succeeds, and whatever instruction does succeed leaves all records so. A transaction account changes in two ways
  only: a signed proposal writes it, or the signing proposer of a pending transaction cancels it. The program does
  not check which accounts it is given, nor who owns them; the assumption on the accounts is the caller's.
\<close>

theorem no_transaction_decided:
  assumes "multisig_accounts c" and "try_from_slice (multisig_instruction_codec c) d = Some ix"
    and "accounts_given T ix ias" and "undecided c T (mem v)" and "multisig_process_instruction e c pid d ias v = Inr v'"
  shows "ix \<notin> {ApproveTransaction, RejectTransaction, ExecuteTransaction} \<and> undecided c T (mem v') \<and>
    (\<forall>k \<in> T. mem v' k \<noteq> mem v k \<longrightarrow>
       (\<exists>i. ix = ProposeTransaction i \<and> k = key (ias ! 1) \<and> is_signer (ias ! 2)) \<or>
       (ix = CancelTransaction \<and> k = key (ias ! 0) \<and> is_signer (ias ! 1) \<and>
        (\<exists>t. try_from_slice (transaction_codec c) (data (mem v k)) = Some t \<and> proposer t = key (ias ! 1) \<and> status t = Pending \<and>
           try_from_slice (transaction_codec c) (data (mem v' k)) = Some (t\<lparr>status := Cancelled\<rparr>))))"
proof (cases ix)
  case (ProposeTransaction i)
  then show ?thesis
    using multisig_accounts.propose_undecided [OF assms(1), of e pid i ias v v' T] assms(2-5)
    by (auto simp: multisig_process_instruction_def accounts_given_def)
next
  case CancelTransaction
  then have run: "process_cancel_transaction c ias v = Inr v'" and T: "key (ias ! 0) \<in> T"
    using assms(2,3,5) by (simp_all add: multisig_process_instruction_def accounts_given_def)
  show ?thesis
  proof (rule multisig_accounts.cancel_undecided [OF assms(1) run assms(4) T])
    fix t
    assume t: "is_signer (ias ! 1)" "try_from_slice (transaction_codec c) (data (mem v (key (ias ! 0)))) = Some t"
      "proposer t = key (ias ! 1)" "status t = Pending"
      "try_from_slice (transaction_codec c) (data (mem v' (key (ias ! 0)))) = Some (t\<lparr>status := Cancelled\<rparr>)"
      "undecided c T (mem v')" and "\<And>j. j \<noteq> key (ias ! 0) \<Longrightarrow> mem v' j = mem v j"
    then have "k = key (ias ! 0)" if "mem v' k \<noteq> mem v k" for k using that by blast
    then show ?thesis using CancelTransaction t by blast
  qed
next
  case ApproveTransaction
  then show ?thesis
    using multisig_accounts.votes_fail(1) [OF assms(1)] assms(2,5) by (simp add: multisig_process_instruction_def)
next
  case RejectTransaction
  then show ?thesis
    using multisig_accounts.votes_fail(2) [OF assms(1)] assms(2,5) by (simp add: multisig_process_instruction_def)
next
  case ExecuteTransaction
  then show ?thesis
    using multisig_accounts.execute_undecided [OF assms(1,4)] assms(2,3,5)
    by (simp add: multisig_process_instruction_def accounts_given_def)
qed (insert assms(2,3,5), auto simp: multisig_process_instruction_def accounts_given_def process_add_signer_def
    process_remove_signer_def process_change_threshold_def dest: membership_undecided [OF assms(4)])

theorem no_transaction_decided_witness:
  "\<exists>v'. multisig_process_instruction multisig_chain (multisig_layouts CancelTransaction) 99 []
      [account_ref 3 False True, account_ref 11 True False] multisig_vm = Inr v' \<and>
    undecided (multisig_layouts CancelTransaction) {3} (mem v') \<and>
    try_from_slice (of_layout transaction_layout) (data (mem v' 3)) = Some (sample_transaction\<lparr>status := Cancelled\<rparr>)"
proof -
  let ?c = "multisig_layouts CancelTransaction" and ?ias = "[account_ref 3 False True, account_ref 11 True False]"
  have codec: "multisig_accounts ?c" "try_from_slice (multisig_instruction_codec ?c) [] = Some CancelTransaction"
    by (rule multisig_layouts.multisig_accounts_axioms) (simp add: multisig_layouts_def)
  have given: "accounts_given {3} CancelTransaction ?ias" by (simp add: accounts_given_def)
  have tx: "status sample_transaction = Pending" "proposer sample_transaction = 11" "no_decision sample_transaction"
    by (simp_all add: sample_transaction_def new_transaction_def no_decision_def)
  have start: "undecided ?c {3} (mem multisig_vm)" using tx(3) by (simp add: undecided_def multisig_vm_load)
  obtain v' where run: "multisig_process_instruction multisig_chain ?c 99 [] ?ias multisig_vm = Inr v'"
    using multisig_layouts.tr.from_exact [OF multisig_vm_load(2)]
    by (auto simp: multisig_process_instruction_def codec(2) process_cancel_transaction_def cancel_transaction_def
        load_or_def multisig_vm_load tx copy_account_def Let_def multisig_layouts.transaction_size)
  note decided = no_transaction_decided [OF codec given start run]
  have "try_from_slice (transaction_codec ?c) (data (mem v' 3)) = Some (sample_transaction\<lparr>status := Cancelled\<rparr>)"
    by (rule multisig_layouts.cancel_undecided [of CancelTransaction ?ias multisig_vm v', OF _ start])
      (use run multisig_vm_load(2) in \<open>simp_all add: multisig_process_instruction_def codec(2)\<close>)
  then show ?thesis using decided run by (auto simp: multisig_layouts_def)
qed

end
