(* ===== verification/SocialRecovery.thy ===== *)
theory SocialRecovery
  imports Cpi
begin

text \<open>
  The social recovery program (\<open>programs/social-recovery/src/lib.rs\<close>): guardians of an account vote on a new
  owner, who takes over after a delay; the owner can replace guardians one at a time, after a delay as well.
\<close>

section \<open>Data\<close>

definition RECOVERY_CONFIG_SEED :: bytes where "RECOVERY_CONFIG_SEED = ascii ''recovery_config''"
definition RECOVERY_REQUEST_SEED :: bytes where "RECOVERY_REQUEST_SEED = ascii ''recovery_request''"
definition MIN_GUARDIANS :: nat where "MIN_GUARDIANS = 3"
definition MAX_GUARDIANS :: nat where "MAX_GUARDIANS = 5"
definition RECOVERY_DELAY_SECS :: i64 where "RECOVERY_DELAY_SECS = 48 * 60 * 60"
definition GUARDIAN_REPLACEMENT_DELAY_SECS :: i64 where "GUARDIAN_REPLACEMENT_DELAY_SECS = 7 * 24 * 60 * 60"
definition RECOVERY_EXPIRY_SECS :: i64 where "RECOVERY_EXPIRY_SECS = 14 * 24 * 60 * 60"

datatype recovery_error =
    RecAlreadyInitialized | RecNotInitialized | TooFewGuardians | TooManyGuardians | NotOwner | NotGuardian
  | DelayNotElapsed | RecoveryCancelled | RecoveryExpired | RecAlreadyApproved | RecThresholdNotMet
  | GuardianAlreadyExists | ReplacementDelayNotElapsed | NoActiveRecovery | RecAlreadyExecuted | SelfGuardian
  | DuplicateGuardian | RecOverflow | RecInvalidAccountData | InvalidStatus | ReplacementAlreadyPending
  | NoPendingReplacement

fun recovery_err :: "recovery_error \<Rightarrow> instruction_error" where
  "recovery_err RecAlreadyInitialized = Custom 0"
| "recovery_err RecNotInitialized = Custom 1"
| "recovery_err TooFewGuardians = Custom 2"
| "recovery_err TooManyGuardians = Custom 3"
| "recovery_err NotOwner = Custom 4"
| "recovery_err NotGuardian = Custom 5"
| "recovery_err DelayNotElapsed = Custom 6"
| "recovery_err RecoveryCancelled = Custom 7"
| "recovery_err RecoveryExpired = Custom 8"
| "recovery_err RecAlreadyApproved = Custom 9"
| "recovery_err RecThresholdNotMet = Custom 10"
| "recovery_err GuardianAlreadyExists = Custom 11"
| "recovery_err ReplacementDelayNotElapsed = Custom 12"
| "recovery_err NoActiveRecovery = Custom 13"
| "recovery_err RecAlreadyExecuted = Custom 14"
| "recovery_err SelfGuardian = Custom 15"
| "recovery_err DuplicateGuardian = Custom 16"
| "recovery_err RecOverflow = Custom 17"
| "recovery_err RecInvalidAccountData = Custom 18"
| "recovery_err InvalidStatus = Custom 19"
| "recovery_err ReplacementAlreadyPending = Custom 20"
| "recovery_err NoPendingReplacement = Custom 21"

datatype recovery_status = Pending | Approved | Executed | Cancelled | Expired

datatype guardian_replacement_status = ReplacementPending | ReplacementExecuted | ReplacementCancelled

record guardian_replacement =
  old_guardian :: pubkey
  new_guardian :: pubkey
  initiated_at :: i64
  replacement_status :: guardian_replacement_status

record recovery_config =
  config_is_initialized :: bool
  config_owner :: pubkey
  guardians :: "pubkey list"
  config_threshold :: u8
  request_count :: u64
  pending_replacement :: "guardian_replacement option"
  config_bump :: u8

record recovery_request =
  request_is_initialized :: bool
  account_owner :: pubkey
  request_id :: u64
  new_owner :: pubkey
  initiator :: pubkey
  request_status :: recovery_status
  approvals :: "pubkey list"
  request_threshold :: u8
  created_at :: i64
  approved_at :: i64
  executed_at :: i64
  request_bump :: u8

datatype recovery_instruction =
    InitializeRecovery "pubkey list"
  | InitiateRecovery pubkey
  | ApproveRecovery
  | ExecuteRecovery
  | CancelRecovery
  | InitiateGuardianReplacement pubkey pubkey
  | FinalizeGuardianReplacement
  | CancelGuardianReplacement
  | UpdateThreshold u8

record recovery_codecs =
  recovery_config_codec :: "recovery_config borsh"
  recovery_request_codec :: "recovery_request borsh"
  recovery_instruction_codec :: "recovery_instruction borsh"

abbreviation ovf :: "'a option \<Rightarrow> 'a res" where
  "ovf m \<equiv> ok_or m (recovery_err RecOverflow)"

abbreviation load_config :: "recovery_codecs \<Rightarrow> pubkey \<Rightarrow> vm \<Rightarrow> recovery_config res" where
  "load_config c \<equiv> load_or (recovery_err RecInvalidAccountData) (recovery_config_codec c)"

abbreviation load_request :: "recovery_codecs \<Rightarrow> pubkey \<Rightarrow> vm \<Rightarrow> recovery_request res" where
  "load_request c \<equiv> load_or (recovery_err RecInvalidAccountData) (recovery_request_codec c)"

section \<open>Decisions\<close>

definition majority_threshold :: "nat \<Rightarrow> u8" where
  "majority_threshold guardian_count = word_of_nat (guardian_count div 2 + 1)"

definition is_guardian :: "recovery_config \<Rightarrow> pubkey \<Rightarrow> bool" where
  "is_guardian cfg k \<longleftrightarrow> k \<in> set (guardians cfg)"

definition check_guardians :: "pubkey \<Rightarrow> pubkey list \<Rightarrow> unit res" where
  "check_guardians own gs =
     (if length gs < MIN_GUARDIANS then Inl (recovery_err TooFewGuardians)
      else if MAX_GUARDIANS < length gs then Inl (recovery_err TooManyGuardians)
      else if own \<in> set gs then Inl (recovery_err SelfGuardian)
      else if has_duplicates gs then Inl (recovery_err DuplicateGuardian)
      else Inr ())"

definition new_config :: "pubkey \<Rightarrow> pubkey list \<Rightarrow> u8 \<Rightarrow> recovery_config" where
  "new_config own gs b =
     \<lparr>config_is_initialized = True, config_owner = own, guardians = gs,
      config_threshold = majority_threshold (length gs), request_count = 0, pending_replacement = None, config_bump = b\<rparr>"

definition new_request :: "recovery_config \<Rightarrow> pubkey \<Rightarrow> pubkey \<Rightarrow> i64 \<Rightarrow> u8 \<Rightarrow> recovery_request" where
  "new_request cfg own g now b =
     \<lparr>request_is_initialized = True, account_owner = config_owner cfg, request_id = request_count cfg, new_owner = own,
      initiator = g, request_status = Pending, approvals = [g], request_threshold = config_threshold cfg,
      created_at = now, approved_at = 0, executed_at = 0, request_bump = b\<rparr>"

definition approve_request :: "pubkey \<Rightarrow> i64 \<Rightarrow> recovery_request \<Rightarrow> recovery_request res" where
  "approve_request g now r =
     (if g \<in> set (approvals r) then Inl (recovery_err RecAlreadyApproved)
      else
      let r = r\<lparr>approvals := approvals r @ [g]\<rparr> in
      if unat (request_threshold r) \<le> length (approvals r)
      then Inr (r\<lparr>request_status := Approved, approved_at := now\<rparr>) else Inr r)"

fun check_recovery_approved :: "recovery_status \<Rightarrow> unit res" where
  "check_recovery_approved Approved = Inr ()"
| "check_recovery_approved Executed = Inl (recovery_err RecAlreadyExecuted)"
| "check_recovery_approved Cancelled = Inl (recovery_err RecoveryCancelled)"
| "check_recovery_approved Expired = Inl (recovery_err RecoveryExpired)"
| "check_recovery_approved Pending = Inl (recovery_err RecThresholdNotMet)"

fun check_cancellable :: "recovery_status \<Rightarrow> unit res" where
  "check_cancellable Executed = Inl (recovery_err RecAlreadyExecuted)"
| "check_cancellable Cancelled = Inl (recovery_err InvalidStatus)"
| "check_cancellable Expired = Inl (recovery_err InvalidStatus)"
| "check_cancellable _ = Inr ()"

definition replacement_pending :: "recovery_config \<Rightarrow> bool" where
  "replacement_pending cfg \<longleftrightarrow>
     (case pending_replacement cfg of Some p \<Rightarrow> replacement_status p = ReplacementPending | None \<Rightarrow> False)"

definition pending_or_fail :: "recovery_config \<Rightarrow> guardian_replacement res" where
  "pending_or_fail cfg =
     rbind (ok_or (pending_replacement cfg) (recovery_err NoPendingReplacement)) (\<lambda>p.
     if replacement_status p \<noteq> ReplacementPending then Inl (recovery_err NoPendingReplacement) else Inr p)"

definition initiate_replacement :: "pubkey \<Rightarrow> pubkey \<Rightarrow> pubkey \<Rightarrow> clock res \<Rightarrow> recovery_config \<Rightarrow> recovery_config res" where
  "initiate_replacement own old new clock cfg =
     (if old \<notin> set (guardians cfg) then Inl (recovery_err NotGuardian)
      else if new \<in> set (guardians cfg) then Inl (recovery_err GuardianAlreadyExists)
      else if new = own then Inl (recovery_err SelfGuardian)
      else if replacement_pending cfg then Inl (recovery_err ReplacementAlreadyPending)
      else
      rbind clock (\<lambda>clk.
      Inr (cfg\<lparr>pending_replacement := Some \<lparr>old_guardian = old, new_guardian = new,
             initiated_at = unix_timestamp clk, replacement_status = ReplacementPending\<rparr>\<rparr>)))"

text \<open>The first occurrence of the old guardian is overwritten.\<close>

fun replace_first :: "pubkey \<Rightarrow> pubkey \<Rightarrow> pubkey list \<Rightarrow> pubkey list option" where
  "replace_first old new [] = None"
| "replace_first old new (g # gs) =
     (if g = old then Some (new # gs) else map_option (Cons g) (replace_first old new gs))"

definition finalize_replacement :: "env \<Rightarrow> clock res \<Rightarrow> recovery_config \<Rightarrow> recovery_config res" where
  "finalize_replacement e clock cfg =
     rbind (pending_or_fail cfg) (\<lambda>p.
     rbind clock (\<lambda>clk.
     rbind (ovf (i64_checked_add (initiated_at p) GUARDIAN_REPLACEMENT_DELAY_SECS)) (\<lambda>execute_after.
     rbind (wait_until e (recovery_err ReplacementDelayNotElapsed) execute_after (unix_timestamp clk)) (\<lambda>_.
     rbind (ok_or (replace_first (old_guardian p) (new_guardian p) (guardians cfg)) (recovery_err NotGuardian)) (\<lambda>gs.
     Inr (cfg\<lparr>guardians := gs, pending_replacement := Some (p\<lparr>replacement_status := ReplacementExecuted\<rparr>)\<rparr>))))))"

definition cancel_replacement :: "recovery_config \<Rightarrow> recovery_config res" where
  "cancel_replacement cfg =
     rbind (pending_or_fail cfg) (\<lambda>p.
     Inr (cfg\<lparr>pending_replacement := Some (p\<lparr>replacement_status := ReplacementCancelled\<rparr>)\<rparr>))"

definition update_threshold :: "u8 \<Rightarrow> recovery_config \<Rightarrow> recovery_config res" where
  "update_threshold n cfg =
     (if n < majority_threshold (length (guardians cfg)) then Inl InvalidArgument
      else if length (guardians cfg) < unat n then Inl InvalidArgument
      else Inr (cfg\<lparr>config_threshold := n\<rparr>))"

section \<open>Handlers\<close>

definition process_initialize_recovery ::
  "env \<Rightarrow> recovery_codecs \<Rightarrow> pubkey \<Rightarrow> pubkey list \<Rightarrow> instruction_account list \<Rightarrow> vm \<Rightarrow> vm res" where
  "process_initialize_recovery e c program_id gs ias v =
     rbind (next_account_info ias) (\<lambda>(config_info, it).
     rbind (next_account_info it) (\<lambda>(owner_info, it).
     rbind (next_account_info it) (\<lambda>(system_program, it).
     rbind (next_account_info it) (\<lambda>(rent_sysvar, it).
     if \<not> is_signer owner_info then Inl MissingRequiredSignature
     else
     rbind (check_guardians (key owner_info) gs) (\<lambda>_.
     let (expected_pda, b) = find_program_address e [RECOVERY_CONFIG_SEED, to_le_bytes (key owner_info)] program_id
     in
     if key config_info \<noteq> expected_pda then Inl InvalidSeeds
     else
     let d = data (mem v (key config_info)) in
     if 0 < length d \<and> (case try_from_slice (recovery_config_codec c) d of Some cfg \<Rightarrow> config_is_initialized cfg | None \<Rightarrow> False)
     then Inl (recovery_err RecAlreadyInitialized)
     else copy_account (recovery_config_codec c) (new_config (key owner_info) gs b) (key config_info) v)))))"

definition process_initiate_recovery ::
  "env \<Rightarrow> recovery_codecs \<Rightarrow> pubkey \<Rightarrow> pubkey \<Rightarrow> instruction_account list \<Rightarrow> vm \<Rightarrow> vm res" where
  "process_initiate_recovery e c program_id own ias v =
     rbind (next_account_info ias) (\<lambda>(config_info, it).
     rbind (next_account_info it) (\<lambda>(request_info, it).
     rbind (next_account_info it) (\<lambda>(guardian_info, it).
     rbind (next_account_info it) (\<lambda>(clock_sysvar, it).
     rbind (next_account_info it) (\<lambda>(system_program, it).
     rbind (next_account_info it) (\<lambda>(rent_sysvar, it).
     if \<not> is_signer guardian_info then Inl MissingRequiredSignature
     else
     rbind (load_config c (key config_info) v) (\<lambda>cfg.
     if \<not> config_is_initialized cfg then Inl (recovery_err RecNotInitialized)
     else if \<not> is_guardian cfg (key guardian_info) then Inl (recovery_err NotGuardian)
     else
     rbind (clock_from_account_info e (key clock_sysvar) (mem v (key clock_sysvar))) (\<lambda>clk.
     rbind (ovf (checked_add (request_count cfg) 1)) (\<lambda>n.
     let (expected_pda, b) = find_program_address e
           [RECOVERY_REQUEST_SEED, to_le_bytes (config_owner cfg), to_le_bytes (request_count cfg)] program_id
     in
     if key request_info \<noteq> expected_pda then Inl InvalidSeeds
     else
     rbind (copy_account (recovery_config_codec c) (cfg\<lparr>request_count := n\<rparr>) (key config_info) v) (\<lambda>v.
     copy_account (recovery_request_codec c) (new_request cfg own (key guardian_info) (unix_timestamp clk) b)
       (key request_info) v))))))))))"

definition process_approve_recovery ::
  "env \<Rightarrow> recovery_codecs \<Rightarrow> instruction_account list \<Rightarrow> vm \<Rightarrow> vm res" where
  "process_approve_recovery e c ias v =
     rbind (next_account_info ias) (\<lambda>(config_info, it).
     rbind (next_account_info it) (\<lambda>(request_info, it).
     rbind (next_account_info it) (\<lambda>(guardian_info, it).
     rbind (next_account_info it) (\<lambda>(clock_sysvar, it).
     if \<not> is_signer guardian_info then Inl MissingRequiredSignature
     else
     rbind (load_config c (key config_info) v) (\<lambda>cfg.
     if \<not> is_guardian cfg (key guardian_info) then Inl (recovery_err NotGuardian)
     else
     rbind (load_request c (key request_info) v) (\<lambda>r.
     if request_status r \<noteq> Pending then Inl (recovery_err InvalidStatus)
     else
     rbind (clock_from_account_info e (key clock_sysvar) (mem v (key clock_sysvar))) (\<lambda>clk.
     rbind (ovf (i64_checked_add (created_at r) RECOVERY_EXPIRY_SECS)) (\<lambda>expiry.
     if sint expiry < sint (unix_timestamp clk)
     then
       rbind (copy_account (recovery_request_codec c) (r\<lparr>request_status := Expired\<rparr>) (key request_info) v) (\<lambda>_.
       Inl (recovery_err RecoveryExpired))
     else
     rbind (approve_request (key guardian_info) (unix_timestamp clk) r) (\<lambda>r.
     copy_account (recovery_request_codec c) r (key request_info) v)))))))))"

definition process_execute_recovery ::
  "env \<Rightarrow> recovery_codecs \<Rightarrow> instruction_account list \<Rightarrow> vm \<Rightarrow> vm res" where
  "process_execute_recovery e c ias v =
     rbind (next_account_info ias) (\<lambda>(config_info, it).
     rbind (next_account_info it) (\<lambda>(request_info, it).
     rbind (next_account_info it) (\<lambda>(executor_info, it).
     rbind (next_account_info it) (\<lambda>(clock_sysvar, it).
     if \<not> is_signer executor_info then Inl MissingRequiredSignature
     else
     rbind (load_config c (key config_info) v) (\<lambda>cfg.
     rbind (load_request c (key request_info) v) (\<lambda>r.
     rbind (check_recovery_approved (request_status r)) (\<lambda>_.
     rbind (clock_from_account_info e (key clock_sysvar) (mem v (key clock_sysvar))) (\<lambda>clk.
     rbind (ovf (i64_checked_add (approved_at r) RECOVERY_DELAY_SECS)) (\<lambda>execute_after.
     rbind (wait_until e (recovery_err DelayNotElapsed) execute_after (unix_timestamp clk)) (\<lambda>_.
     rbind (copy_account (recovery_config_codec c) (cfg\<lparr>config_owner := new_owner r\<rparr>) (key config_info) v) (\<lambda>v.
     copy_account (recovery_request_codec c) (r\<lparr>request_status := Executed, executed_at := unix_timestamp clk\<rparr>)
       (key request_info) v)))))))))))"

definition process_cancel_recovery :: "recovery_codecs \<Rightarrow> instruction_account list \<Rightarrow> vm \<Rightarrow> vm res" where
  "process_cancel_recovery c ias v =
     rbind (next_account_info ias) (\<lambda>(request_info, it).
     rbind (next_account_info it) (\<lambda>(owner_info, it).
     if \<not> is_signer owner_info then Inl MissingRequiredSignature
     else
     rbind (load_request c (key request_info) v) (\<lambda>r.
     if account_owner r \<noteq> key owner_info then Inl (recovery_err NotOwner)
     else
     rbind (check_cancellable (request_status r)) (\<lambda>_.
     copy_account (recovery_request_codec c) (r\<lparr>request_status := Cancelled\<rparr>) (key request_info) v))))"

text \<open>The four handlers of the owner: load the own configuration, change it, write it back.\<close>

definition update_config ::
  "recovery_codecs \<Rightarrow> instruction_account \<Rightarrow> instruction_account \<Rightarrow> (recovery_config \<Rightarrow> recovery_config res) \<Rightarrow> vm \<Rightarrow> vm res" where
  "update_config c config_info owner_info f v =
     (if \<not> is_signer owner_info then Inl MissingRequiredSignature
      else
      rbind (load_config c (key config_info) v) (\<lambda>cfg.
      if config_owner cfg \<noteq> key owner_info then Inl (recovery_err NotOwner)
      else
      rbind (f cfg) (\<lambda>cfg.
      copy_account (recovery_config_codec c) cfg (key config_info) v)))"

definition process_initiate_guardian_replacement ::
  "env \<Rightarrow> recovery_codecs \<Rightarrow> pubkey \<Rightarrow> pubkey \<Rightarrow> instruction_account list \<Rightarrow> vm \<Rightarrow> vm res" where
  "process_initiate_guardian_replacement e c old new ias v =
     rbind (next_account_info ias) (\<lambda>(config_info, it).
     rbind (next_account_info it) (\<lambda>(owner_info, it).
     rbind (next_account_info it) (\<lambda>(clock_sysvar, it).
     update_config c config_info owner_info
       (initiate_replacement (key owner_info) old new
          (clock_from_account_info e (key clock_sysvar) (mem v (key clock_sysvar)))) v)))"

definition process_finalize_guardian_replacement ::
  "env \<Rightarrow> recovery_codecs \<Rightarrow> instruction_account list \<Rightarrow> vm \<Rightarrow> vm res" where
  "process_finalize_guardian_replacement e c ias v =
     rbind (next_account_info ias) (\<lambda>(config_info, it).
     rbind (next_account_info it) (\<lambda>(owner_info, it).
     rbind (next_account_info it) (\<lambda>(clock_sysvar, it).
     update_config c config_info owner_info
       (finalize_replacement e (clock_from_account_info e (key clock_sysvar) (mem v (key clock_sysvar)))) v)))"

definition process_cancel_guardian_replacement :: "recovery_codecs \<Rightarrow> instruction_account list \<Rightarrow> vm \<Rightarrow> vm res" where
  "process_cancel_guardian_replacement c ias v =
     rbind (next_account_info ias) (\<lambda>(config_info, it).
     rbind (next_account_info it) (\<lambda>(owner_info, it).
     update_config c config_info owner_info cancel_replacement v))"

definition process_update_threshold :: "recovery_codecs \<Rightarrow> u8 \<Rightarrow> instruction_account list \<Rightarrow> vm \<Rightarrow> vm res" where
  "process_update_threshold c n ias v =
     rbind (next_account_info ias) (\<lambda>(config_info, it).
     rbind (next_account_info it) (\<lambda>(owner_info, it).
     update_config c config_info owner_info (update_threshold n) v))"

definition recovery_process_instruction :: "env \<Rightarrow> recovery_codecs \<Rightarrow> pubkey \<Rightarrow> bytes \<Rightarrow> program" where
  "recovery_process_instruction e c program_id instruction_data ias v =
     rbind (ok_or (try_from_slice (recovery_instruction_codec c) instruction_data) InvalidInstructionData) (\<lambda>ix.
     case ix of
       InitializeRecovery gs \<Rightarrow> process_initialize_recovery e c program_id gs ias v
     | InitiateRecovery own \<Rightarrow> process_initiate_recovery e c program_id own ias v
     | ApproveRecovery \<Rightarrow> process_approve_recovery e c ias v
     | ExecuteRecovery \<Rightarrow> process_execute_recovery e c ias v
     | CancelRecovery \<Rightarrow> process_cancel_recovery c ias v
     | InitiateGuardianReplacement old new \<Rightarrow> process_initiate_guardian_replacement e c old new ias v
     | FinalizeGuardianReplacement \<Rightarrow> process_finalize_guardian_replacement e c ias v
     | CancelGuardianReplacement \<Rightarrow> process_cancel_guardian_replacement c ias v
     | UpdateThreshold n \<Rightarrow> process_update_threshold c n ias v)"

lemmas recovery_handler_defs = process_initialize_recovery_def process_initiate_recovery_def process_approve_recovery_def
  process_execute_recovery_def process_cancel_recovery_def process_initiate_guardian_replacement_def
  process_finalize_guardian_replacement_def process_cancel_guardian_replacement_def process_update_threshold_def
  update_config_def

lemma recovery_keeps: "keeps v (recovery_process_instruction e c pid d ias v)"
  unfolding recovery_process_instruction_def
proof (rule keeps_bind)
  fix ix
  show "keeps v (case ix of
       InitializeRecovery gs \<Rightarrow> process_initialize_recovery e c pid gs ias v
     | InitiateRecovery own \<Rightarrow> process_initiate_recovery e c pid own ias v
     | ApproveRecovery \<Rightarrow> process_approve_recovery e c ias v
     | ExecuteRecovery \<Rightarrow> process_execute_recovery e c ias v
     | CancelRecovery \<Rightarrow> process_cancel_recovery c ias v
     | InitiateGuardianReplacement old new \<Rightarrow> process_initiate_guardian_replacement e c old new ias v
     | FinalizeGuardianReplacement \<Rightarrow> process_finalize_guardian_replacement e c ias v
     | CancelGuardianReplacement \<Rightarrow> process_cancel_guardian_replacement c ias v
     | UpdateThreshold n \<Rightarrow> process_update_threshold c n ias v)"
    by (cases ix; simp only: recovery_instruction.case recovery_handler_defs; intro keeps_intros)
qed

sublocale chain \<subseteq> recovery: onchain_program "recovery_process_instruction e c pid d" for c pid d
  by unfold_locales (metis keepsD recovery_keeps)

section \<open>Layouts\<close>

fun recovery_status_tag :: "recovery_status \<Rightarrow> u8" where
  "recovery_status_tag Pending = 0"
| "recovery_status_tag Approved = 1"
| "recovery_status_tag Executed = 2"
| "recovery_status_tag Cancelled = 3"
| "recovery_status_tag Expired = 4"

definition recovery_status_of :: "u8 \<Rightarrow> recovery_status option" where
  "recovery_status_of b = (if b = 0 then Some Pending else if b = 1 then Some Approved else if b = 2 then Some Executed
     else if b = 3 then Some Cancelled else if b = 4 then Some Expired else None)"

fun replacement_status_tag :: "guardian_replacement_status \<Rightarrow> u8" where
  "replacement_status_tag ReplacementPending = 0"
| "replacement_status_tag ReplacementExecuted = 1"
| "replacement_status_tag ReplacementCancelled = 2"

definition replacement_status_of :: "u8 \<Rightarrow> guardian_replacement_status option" where
  "replacement_status_of b = (if b = 0 then Some ReplacementPending else if b = 1 then Some ReplacementExecuted
     else if b = 2 then Some ReplacementCancelled else None)"

lemma wf_recovery_status_layout: "wf_layout 1 (enum_layout recovery_status_tag recovery_status_of)"
  by (rule wf_enum_layout, case_tac x) (simp_all add: recovery_status_of_def)

lemma wf_replacement_status_layout: "wf_layout 1 (enum_layout replacement_status_tag replacement_status_of)"
  by (rule wf_enum_layout, case_tac x) (simp_all add: replacement_status_of_def)

definition replacement_layout :: "guardian_replacement layout" where
  "replacement_layout =
     iso_layout (\<lambda>(og, ng, t, s). \<lparr>old_guardian = og, new_guardian = ng, initiated_at = t, replacement_status = s\<rparr>)
       (\<lambda>p. (old_guardian p, new_guardian p, initiated_at p, replacement_status p))
       (pair_layout word_layout (pair_layout word_layout (pair_layout word_layout
         (enum_layout replacement_status_tag replacement_status_of))))"

definition recovery_config_layout :: "recovery_config layout" where
  "recovery_config_layout =
     iso_layout
       (\<lambda>((i, own), gs, t, n, p, b). \<lparr>config_is_initialized = i, config_owner = own, guardians = gs, config_threshold = t,
          request_count = n, pending_replacement = p, config_bump = b\<rparr>)
       (\<lambda>g. ((config_is_initialized g, config_owner g), guardians g, config_threshold g, request_count g,
             pending_replacement g, config_bump g))
       (pair_layout (pair_layout bool_layout word_layout) (pair_layout (vec_layout word_layout) (pair_layout word_layout
         (pair_layout word_layout (pair_layout (option_layout replacement_layout) word_layout)))))"

definition recovery_request_layout :: "recovery_request layout" where
  "recovery_request_layout =
     iso_layout
       (\<lambda>((i, ao, n, no, g, s), ap, t, ca, aa, ea, b).
          \<lparr>request_is_initialized = i, account_owner = ao, request_id = n, new_owner = no, initiator = g, request_status = s,
           approvals = ap, request_threshold = t, created_at = ca, approved_at = aa, executed_at = ea, request_bump = b\<rparr>)
       (\<lambda>r. ((request_is_initialized r, account_owner r, request_id r, new_owner r, initiator r, request_status r),
             approvals r, request_threshold r, created_at r, approved_at r, executed_at r, request_bump r))
       (pair_layout (pair_layout bool_layout (pair_layout word_layout (pair_layout word_layout (pair_layout word_layout
         (pair_layout word_layout (enum_layout recovery_status_tag recovery_status_of))))))
       (pair_layout (vec_layout word_layout) (pair_layout word_layout (pair_layout word_layout (pair_layout word_layout
         (pair_layout word_layout word_layout))))))"

definition config_representable :: "recovery_config \<Rightarrow> bool" where
  "config_representable cfg \<longleftrightarrow> length (guardians cfg) < 2 ^ 32"

definition request_representable :: "recovery_request \<Rightarrow> bool" where
  "request_representable r \<longleftrightarrow> length (approvals r) < 2 ^ 32"

lemma wf_replacement_layout: "wf_layout 73 replacement_layout"
  unfolding replacement_layout_def
  by (rule wf_layout_eq, (rule wf_layouts wf_replacement_status_layout)+) simp_all

lemmas wf_recovery_words = wf_word_layouts wf_bool_layout wf_recovery_status_layout wf_replacement_layout
lemmas recovery_vars = wf_recovery_words [THEN var_layout_fixed] wf_recovery_words [THEN var_layout_fixed, THEN var_vec_layout]
  var_option_layout [OF var_layout_fixed [OF wf_replacement_layout]]
lemmas recovery_exacts = wf_recovery_words [THEN exact_fixed] wf_recovery_words [THEN exact_fixed, THEN exact_vec_layout]
  exact_option_layout [OF exact_fixed [OF wf_replacement_layout]]

lemma var_recovery_config: "var_layout config_representable recovery_config_layout"
  unfolding recovery_config_layout_def
  by (rule var_layout_mono, rule var_iso_layout, (rule var_pair_layout recovery_vars)+)
    (simp_all add: list_all_iff config_representable_def split: option.split)

lemma var_recovery_request: "var_layout request_representable recovery_request_layout"
  unfolding recovery_request_layout_def
  by (rule var_layout_mono, rule var_iso_layout, (rule var_pair_layout recovery_vars)+)
    (simp_all add: list_all_iff request_representable_def)

lemma exact_recovery_config: "exact_layout config_representable recovery_config_layout"
  unfolding recovery_config_layout_def
  by (rule exact_layout_mono, rule exact_iso_layout, (rule exact_pair_layout recovery_exacts)+) (auto simp: config_representable_def)

lemma exact_recovery_request: "exact_layout request_representable recovery_request_layout"
  unfolding recovery_request_layout_def
  by (rule exact_layout_mono, rule exact_iso_layout, (rule exact_pair_layout recovery_exacts)+) (auto simp: request_representable_def)

interpretation recovery_config_borsh: borsh_exact "of_layout recovery_config_layout" config_representable
  by (rule borsh_exact_of_layout [OF var_recovery_config exact_recovery_config])

interpretation recovery_request_borsh: borsh_exact "of_layout recovery_request_layout" request_representable
  by (rule borsh_exact_of_layout [OF var_recovery_request exact_recovery_request])

lemma length_recovery_config:
  "length (put recovery_config_layout cfg) =
     48 + 32 * length (guardians cfg) + (case pending_replacement cfg of None \<Rightarrow> 0 | Some _ \<Rightarrow> 73)"
  using wf_replacement_layout
  by (simp add: recovery_config_layout_def option_layout_def iso_layout_def pair_layout_def vec_layout_def
      word_layout_def bool_layout_def length_concat o_def sum_list_triv wf_layout_def split: option.split)

lemma length_recovery_request: "length (put recovery_request_layout r) = 136 + 32 * length (approvals r)"
  by (simp add: recovery_request_layout_def enum_layout_def iso_layout_def pair_layout_def vec_layout_def
      word_layout_def bool_layout_def length_concat o_def sum_list_triv)

text \<open>What the handlers rely on: the encoding of the two records, and how its length depends on the contents.\<close>

locale recovery_accounts = cfg: borsh_exact "recovery_config_codec c" config_representable +
    req: borsh_exact "recovery_request_codec c" request_representable for c :: recovery_codecs +
  assumes config_size: "length (to_vec (recovery_config_codec c) g) =
      48 + 32 * length (guardians g) + (case pending_replacement g of None \<Rightarrow> 0 | Some _ \<Rightarrow> 73)"
    and request_size: "length (to_vec (recovery_request_codec c) r) = 136 + 32 * length (approvals r)"
begin

text \<open>As in the multisig program, a vote does not fit the account it is read from, and neither does a first replacement.\<close>

lemma approve_never_succeeds: "process_approve_recovery e c ias v \<noteq> Inr v'"
proof
  assume "process_approve_recovery e c ias v = Inr v'"
  then obtain k r r' g now where r: "try_from_slice (recovery_request_codec c) (data (mem v k)) = Some r"
    and r': "approve_request g now r = Inr r'" and w: "copy_account (recovery_request_codec c) r' k v = Inr v'"
    by (auto simp: process_approve_recovery_def rust_simps split: if_splits)
  have "approvals r' = approvals r @ [g]" using r' by (auto simp: approve_request_def Let_def split: if_splits)
  then show False using req.no_room [OF r, of r'] w by (simp add: copy_account_eq_Inr request_size)
qed

lemma first_replacement_never_starts:
  assumes "try_from_slice (recovery_config_codec c) (data (mem v (key (ias ! 0)))) = Some g" and "pending_replacement g = None"
  shows "process_initiate_guardian_replacement e c old new ias v \<noteq> Inr v'"
proof
  assume "process_initiate_guardian_replacement e c old new ias v = Inr v'"
  then obtain own clock g' where g': "initiate_replacement own old new clock g = Inr g'"
    and w: "copy_account (recovery_config_codec c) g' (key (ias ! 0)) v = Inr v'"
    using assms(1) by (auto simp: process_initiate_guardian_replacement_def update_config_def rust_simps)
  then obtain p where "guardians g' = guardians g" "pending_replacement g' = Some p"
    by (auto simp: initiate_replacement_def rbind_eq_Inr split: if_splits)
  then show False using cfg.no_room [OF assms(1), of g'] assms(2) w by (simp add: copy_account_eq_Inr config_size)
qed

lemma config_rewritten:
  assumes "try_from_slice (recovery_config_codec c) (data (mem v k)) = Some g"
    and "length (guardians g') = length (guardians g)" and "pending_replacement g' = pending_replacement g"
  shows "\<exists>u. copy_account (recovery_config_codec c) g' k v = Inr u \<and> load_config c k u = Inr g' \<and> (\<forall>j. j \<noteq> k \<longrightarrow> mem u j = mem v j)"
proof -
  have len: "length (to_vec (recovery_config_codec c) g') = length (to_vec (recovery_config_codec c) g)"
    using assms(2,3) by (simp add: config_size)
  then have "try_from_slice (recovery_config_codec c) (to_vec (recovery_config_codec c) g' @
      drop (length (to_vec (recovery_config_codec c) g')) (data (mem v k))) = Some g'"
    by (rule cfg.rewritten_same_length [OF assms(1)]) (use cfg.from_valid [OF assms(1)] assms(2) in \<open>simp add: config_representable_def\<close>)
  then show ?thesis using cfg.from_exact [OF assms(1)] len by (simp add: copy_account_def load_or_def)
qed

lemma request_rewritten:
  assumes "try_from_slice (recovery_request_codec c) (data (mem v k)) = Some r" and "approvals r' = approvals r"
  shows "\<exists>u. copy_account (recovery_request_codec c) r' k v = Inr u \<and> load_request c k u = Inr r' \<and> (\<forall>j. j \<noteq> k \<longrightarrow> mem u j = mem v j)"
proof -
  have len: "length (to_vec (recovery_request_codec c) r') = length (to_vec (recovery_request_codec c) r)"
    using assms(2) by (simp add: request_size)
  then have "try_from_slice (recovery_request_codec c) (to_vec (recovery_request_codec c) r' @
      drop (length (to_vec (recovery_request_codec c) r')) (data (mem v k))) = Some r'"
    by (rule req.rewritten_same_length [OF assms(1)]) (use req.from_valid [OF assms(1)] assms(2) in \<open>simp add: request_representable_def\<close>)
  then show ?thesis using req.from_exact [OF assms(1)] len by (simp add: copy_account_def load_or_def)
qed

end

definition recovery_layouts :: "recovery_instruction \<Rightarrow> recovery_codecs" where
  "recovery_layouts ix =
     \<lparr>recovery_config_codec = of_layout recovery_config_layout, recovery_request_codec = of_layout recovery_request_layout,
      recovery_instruction_codec = \<lparr>try_from_slice = (\<lambda>_. Some ix), to_vec = (\<lambda>_. [])\<rparr>\<rparr>"

interpretation recovery_layouts: recovery_accounts "recovery_layouts ix" for ix
  by (simp add: recovery_accounts_def recovery_accounts_axioms_def recovery_layouts_def length_recovery_config
      length_recovery_request recovery_config_borsh.borsh_exact_axioms recovery_request_borsh.borsh_exact_axioms)

section \<open>Guardians\<close>

text \<open>
  Three to five different guardians, a threshold between the majority and all of them, and a pending
  replacement that brings in somebody new.
\<close>

definition config_wf :: "recovery_config \<Rightarrow> bool" where
  "config_wf g \<longleftrightarrow> distinct (guardians g) \<and> 3 \<le> length (guardians g) \<and> length (guardians g) \<le> 5 \<and>
     length (guardians g) < 2 * unat (config_threshold g) \<and> unat (config_threshold g) \<le> length (guardians g) \<and>
     (\<forall>p. pending_replacement g = Some p \<and> replacement_status p = ReplacementPending \<longrightarrow> new_guardian p \<notin> set (guardians g))"

lemma unat_majority: "n \<le> 5 \<Longrightarrow> unat (majority_threshold n) = n div 2 + 1"
  unfolding majority_threshold_def by (subst unat_of_nat) (simp add: take_bit_nat_eq_self)

lemma new_config_wf: "check_guardians own gs = Inr u \<Longrightarrow> config_wf (new_config own gs b)"
  by (auto simp: check_guardians_def config_wf_def new_config_def MIN_GUARDIANS_def MAX_GUARDIANS_def has_duplicates_iff
      unat_majority split: if_splits)

lemma replace_first_props:
  "replace_first old new gs = Some gs' \<Longrightarrow> distinct gs \<Longrightarrow> new \<notin> set gs \<Longrightarrow>
     distinct gs' \<and> length gs' = length gs \<and> set gs' \<subseteq> insert new (set gs)"
  by (induction gs arbitrary: gs') (auto split: if_splits)

lemma config_updates_wf:
  assumes "config_wf g"
  shows "initiate_replacement own old new clock g = Inr g' \<Longrightarrow> config_wf g'" and "finalize_replacement e clock g = Inr g' \<Longrightarrow> config_wf g'"
    and "cancel_replacement g = Inr g' \<Longrightarrow> config_wf g'" and "update_threshold n g = Inr g' \<Longrightarrow> config_wf g'"
proof -
  show "config_wf g'" if "initiate_replacement own old new clock g = Inr g'"
    using that assms by (auto simp: initiate_replacement_def config_wf_def rbind_eq_Inr split: if_splits)
  show "config_wf g'" if "cancel_replacement g = Inr g'"
    using that assms by (auto simp: cancel_replacement_def pending_or_fail_def config_wf_def rust_simps split: if_splits)
  show "config_wf g'" if "update_threshold n g = Inr g'"
    using that assms by (auto simp: update_threshold_def config_wf_def word_less_nat_alt unat_majority split: if_splits)
  show "config_wf g'" if "finalize_replacement e clock g = Inr g'"
  proof -
    from that obtain p gs where p: "pending_replacement g = Some p" "replacement_status p = ReplacementPending"
      and gs: "replace_first (old_guardian p) (new_guardian p) (guardians g) = Some gs"
      and g': "g' = g\<lparr>guardians := gs, pending_replacement := Some (p\<lparr>replacement_status := ReplacementExecuted\<rparr>)\<rparr>"
      by (auto simp: finalize_replacement_def pending_or_fail_def rust_simps split: if_splits)
    have "new_guardian p \<notin> set (guardians g)" "distinct (guardians g)" using p assms by (auto simp: config_wf_def)
    then show ?thesis using replace_first_props [OF gs] assms by (auto simp: g' config_wf_def)
  qed
qed

section \<open>Properties\<close>

definition recovery_chain :: "i64 \<Rightarrow> env" where
  "recovery_chain now = native_env (\<lambda>_ _. (3, 255)) (\<lambda>_. 10) \<lparr>slot = 7, epoch = 1, unix_timestamp = now\<rparr> (\<lambda>b. b)"

definition victim_config :: recovery_config where
  "victim_config = new_config 50 [51, 52, 53] 255"

definition foreign_request :: recovery_request where
  "foreign_request = (new_request (new_config 60 [61, 62, 63] 254) 66 61 0 253)\<lparr>request_status := Approved, approvals := [61, 62], approved_at := 0\<rparr>"

definition recovery_vm :: vm where
  "recovery_vm = enter_vm (tx_of [2, 3, 4, 66]
     (\<lambda>k. if k = 2 then \<lparr>lamports = 10, data = put recovery_config_layout victim_config, owner = 99\<rparr>
          else if k = 3 then \<lparr>lamports = 10, data = put recovery_request_layout foreign_request, owner = 99\<rparr>
          else wallet 50))"

lemma recovery_vm_load:
  "try_from_slice (recovery_config_codec (recovery_layouts ix)) (data (mem recovery_vm 2)) = Some victim_config"
  "try_from_slice (recovery_request_codec (recovery_layouts ix)) (data (mem recovery_vm 3)) = Some foreign_request"
  using recovery_config_borsh.from_to_valid [of victim_config] recovery_request_borsh.from_to_valid [of foreign_request]
  by (simp_all add: recovery_vm_def recovery_layouts_def tx_of_def enter_vm_def config_representable_def request_representable_def
      victim_config_def new_config_def foreign_request_def new_request_def)

text \<open>
  C38. An approved recovery takes over any account. \<open>ExecuteRecovery\<close> compares neither the owner recorded in
  the request with the configuration nor the executor with the guardians: with an approved request whose delay
  is over, whoever signs makes the request's new owner the owner of whatever configuration account is passed,
  leaving its guardians and threshold as they are.
\<close>

theorem recovery_takes_any_config:
  assumes "recovery_accounts c" and "4 \<le> length ias" and "is_signer (ias ! 2)" and "key (ias ! 0) \<noteq> key (ias ! 1)"
    and "try_from_slice (recovery_config_codec c) (data (mem v (key (ias ! 0)))) = Some g"
    and "try_from_slice (recovery_request_codec c) (data (mem v (key (ias ! 1)))) = Some r" and "request_status r = Approved"
    and "clock_from_account_info e (key (ias ! 3)) (mem v (key (ias ! 3))) = Inr clk"
    and "sint (approved_at r) + 48 * 60 * 60 \<le> sint (unix_timestamp clk)"
  shows "\<exists>v'. process_execute_recovery e c ias v = Inr v' \<and>
    load_config c (key (ias ! 0)) v' = Inr (g\<lparr>config_owner := new_owner r\<rparr>)"
proof -
  from assms(2) obtain ca ra ex cl rest where ias: "ias = ca # ra # ex # cl # rest"
    by (auto simp: numeral_eq_Suc Suc_le_length_iff)
  let ?r = "r\<lparr>request_status := Executed, executed_at := unix_timestamp clk\<rparr>"
  have delay: "sint RECOVERY_DELAY_SECS = 172800" by (simp add: RECOVERY_DELAY_SECS_def)
  have "i64_fits (sint (approved_at r) + 172800)"
    using assms(9) sint_greater_eq [of "approved_at r"] sint_less [of "unix_timestamp clk"] by (simp add: i64_fits_def)
  then obtain t :: i64 where "sint t = sint (approved_at r) + 172800" using sint_word_of_int_fits by blast
  then have t: "i64_checked_add (approved_at r) RECOVERY_DELAY_SECS = Some t" "sint t \<le> sint (unix_timestamp clk)"
    using assms(9) by (simp_all add: i64_checked_add_eq_Some delay)
  obtain u where u: "copy_account (recovery_config_codec c) (g\<lparr>config_owner := new_owner r\<rparr>) (key ca) v = Inr u"
    "load_config c (key ca) u = Inr (g\<lparr>config_owner := new_owner r\<rparr>)" "\<forall>j. j \<noteq> key ca \<longrightarrow> mem u j = mem v j"
    using recovery_accounts.config_rewritten [OF assms(1), of v "key ca" g "g\<lparr>config_owner := new_owner r\<rparr>"] assms(5) ias by auto
  obtain w where w: "copy_account (recovery_request_codec c) ?r (key ra) u = Inr w" "\<forall>j. j \<noteq> key ra \<longrightarrow> mem w j = mem u j"
    using recovery_accounts.request_rewritten [OF assms(1), of u "key ra" r ?r] assms(4,6) ias u(3) by auto
  have "process_execute_recovery e c ias v = Inr w"
    using assms(3,5-8) t u(1) w(1) by (simp add: process_execute_recovery_def ias load_or_def wait_until_def)
  then show ?thesis using u(2) w(2) assms(4) by (simp add: ias load_or_def)
qed

theorem recovery_takes_any_config_witness:
  "\<exists>v'. process_execute_recovery (recovery_chain 172800) (recovery_layouts ExecuteRecovery)
      [account_ref 2 False True, account_ref 3 False True, account_ref 66 True False, account_ref 4 False False] recovery_vm = Inr v' \<and>
    load_config (recovery_layouts ExecuteRecovery) 2 v' = Inr (victim_config\<lparr>config_owner := 66\<rparr>) \<and>
    config_owner victim_config = 50 \<and> account_owner foreign_request = 60"
proof -
  let ?c = "recovery_layouts ExecuteRecovery"
    and ?ias = "[account_ref 2 False True, account_ref 3 False True, account_ref 66 True False, account_ref 4 False False]"
  have req: "request_status foreign_request = Approved" "approved_at foreign_request = 0" "new_owner foreign_request = 66"
    "account_owner foreign_request = 60" "config_owner victim_config = 50"
    by (simp_all add: foreign_request_def new_request_def new_config_def victim_config_def)
  have clk: "clock_from_account_info (recovery_chain 172800) (key (?ias ! 3)) (mem recovery_vm (key (?ias ! 3))) =
      Inr \<lparr>slot = 7, epoch = 1, unix_timestamp = 172800\<rparr>"
    by (simp add: recovery_chain_def native_env_def)
  have "\<exists>v'. process_execute_recovery (recovery_chain 172800) ?c ?ias recovery_vm = Inr v' \<and>
      load_config ?c (key (?ias ! 0)) v' = Inr (victim_config\<lparr>config_owner := new_owner foreign_request\<rparr>)"
    by (rule recovery_takes_any_config [OF recovery_layouts.recovery_accounts_axioms _ _ _ _ _ req(1) clk])
      (simp_all add: recovery_vm_load req(2))
  then show ?thesis by (simp add: req)
qed

end
