(* ===== verification/Oracle.thy ===== *)
theory Oracle
  imports Cpi "HOL-Library.Multiset"
begin

text \<open>
  The price oracle (\<open>programs/oracle/src/lib.rs\<close>): registered sources submit prices to a feed, and a round is closed
  with the median of the submissions. Prices are signed 128-bit integers; \<open>symbol\<close> is the word of its 32 bytes.
\<close>

section \<open>Data\<close>

type_synonym i128 = "128 word"

definition MAX_ORACLES :: nat where "MAX_ORACLES = 16"
definition MAX_STALENESS_SECONDS :: i64 where "MAX_STALENESS_SECONDS = 60"
definition DEFAULT_STALENESS :: i64 where "DEFAULT_STALENESS = 30"
definition MIN_SUBMISSIONS :: u32 where "MIN_SUBMISSIONS = 3"
definition MAX_HISTORY :: nat where "MAX_HISTORY = 32"
definition FEED_SEED :: bytes where "FEED_SEED = ascii ''price_feed''"
definition PRICE_DECIMALS :: u8 where "PRICE_DECIMALS = 8"

datatype oracle_error =
    OrAlreadyInitialized | OrNotInitialized | UnauthorizedOracle | StaleData | InsufficientSubmissions | InvalidPrice
  | InvalidConfidence | MaxOraclesReached | OracleAlreadyRegistered | OrUnauthorized | OrOverflow | InvalidPDA
  | InvalidAssetClass

fun oracle_err :: "oracle_error \<Rightarrow> instruction_error" where
  "oracle_err OrAlreadyInitialized = Custom 0"
| "oracle_err OrNotInitialized = Custom 1"
| "oracle_err UnauthorizedOracle = Custom 2"
| "oracle_err StaleData = Custom 3"
| "oracle_err InsufficientSubmissions = Custom 4"
| "oracle_err InvalidPrice = Custom 5"
| "oracle_err InvalidConfidence = Custom 6"
| "oracle_err MaxOraclesReached = Custom 7"
| "oracle_err OracleAlreadyRegistered = Custom 8"
| "oracle_err OrUnauthorized = Custom 9"
| "oracle_err OrOverflow = Custom 10"
| "oracle_err InvalidPDA = Custom 11"
| "oracle_err InvalidAssetClass = Custom 12"

datatype asset_class = Crypto | Forex | Commodity | Equity

record oracle_submission =
  sub_oracle :: pubkey
  sub_price :: i128
  sub_confidence :: u64
  sub_timestamp :: i64
  slot_timestamp :: i64

record price_round =
  round_id :: u64
  round_price :: i128
  round_confidence :: u64
  num_submissions :: u32
  round_timestamp :: i64

record price_feed =
  feed_is_initialized :: bool
  feed_admin :: pubkey
  symbol :: "256 word"
  feed_asset_class :: asset_class
  decimals :: u8
  max_staleness :: i64
  min_submissions :: u32
  current_round :: u64
  latest_price :: i128
  latest_confidence :: u64
  latest_timestamp :: i64
  feed_is_active :: bool
  feed_bump :: u8
  oracle_count :: u32
  oracles :: "pubkey list"
  current_submissions :: "oracle_submission list"
  history :: "price_round list"

datatype oracle_instruction =
    InitializeFeed "256 word" asset_class i64 u32
  | AddOracle pubkey
  | RemoveOracle pubkey
  | SubmitPrice i128 u64 i64
  | ForceAggregate
  | ReadPrice

record oracle_codecs =
  price_feed_codec :: "price_feed borsh"
  oracle_instruction_codec :: "oracle_instruction borsh"

section \<open>Aggregation\<close>

text \<open>Plain operators on \<open>i128\<close>: panic or wrap, as the compilation mode has it; \<open>i64::saturating_sub\<close>.\<close>

definition i128_op :: "env \<Rightarrow> int \<Rightarrow> i128 res" where
  "i128_op e s = (if overflow_checks e \<and> \<not> (- (2 ^ 127) \<le> s \<and> s < 2 ^ 127) then Inl ProgramFailedToComplete else Inr (word_of_int s))"

text \<open>Division by two rounds towards zero. An empty slice is indexed out of range.\<close>

definition median :: "env \<Rightarrow> i128 list \<Rightarrow> i128 res" where
  "median e values =
     (let sorted = sort_key sint values; mid = length sorted div 2 in
      if sorted = [] then Inl ProgramFailedToComplete
      else if length sorted mod 2 = 0
      then rbind (i128_op e (sint (sorted ! (mid - 1)) + sint (sorted ! mid))) (\<lambda>s.
           Inr (word_of_int (if 0 \<le> sint s then sint s div 2 else - (- sint s div 2))))
      else Inr (sorted ! mid))"

definition deviation :: "env \<Rightarrow> i128 \<Rightarrow> oracle_submission \<Rightarrow> u64 res" where
  "deviation e median_price s =
     rbind (i128_op e (sint (sub_price s) - sint median_price)) (\<lambda>diff.
     rbind (if sint diff < 0 then i128_op e (- sint diff) else Inr diff) (\<lambda>a.
     Inr (ucast a)))"

fun max_deviation :: "env \<Rightarrow> i128 \<Rightarrow> oracle_submission list \<Rightarrow> u64 \<Rightarrow> u64 res" where
  "max_deviation e p [] m = Inr m"
| "max_deviation e p (s # ss) m = rbind (deviation e p s) (\<lambda>d. max_deviation e p ss (max m d))"

definition aggregate_confidence :: "env \<Rightarrow> oracle_submission list \<Rightarrow> i128 \<Rightarrow> u64 res" where
  "aggregate_confidence e submissions median_price =
     (if submissions = [] then Inr 0
      else
      let max_confidence = fold (\<lambda>s m. max m (sub_confidence s)) submissions 0 in
      rbind (max_deviation e median_price submissions 0) (\<lambda>md.
      Inr (max max_confidence md)))"

definition push_round :: "price_round \<Rightarrow> u64 \<Rightarrow> price_round list \<Rightarrow> price_round list" where
  "push_round r n hs = (if MAX_HISTORY \<le> length hs then hs[(unat n - 1) mod MAX_HISTORY := r] else hs @ [r])"

definition aggregate_prices :: "env \<Rightarrow> i64 \<Rightarrow> price_feed \<Rightarrow> price_feed res" where
  "aggregate_prices e now f =
     (let n = length (current_submissions f) in
      if n < unat (min_submissions f) then Inl (oracle_err InsufficientSubmissions)
      else
      rbind (median e (map sub_price (current_submissions f))) (\<lambda>median_price.
      rbind (aggregate_confidence e (current_submissions f) median_price) (\<lambda>confidence.
      let r = saturating_add (current_round f) 1;
          round = \<lparr>round_id = r, round_price = median_price, round_confidence = confidence,
                   num_submissions = word_of_nat n, round_timestamp = now\<rparr>
      in Inr (f\<lparr>current_round := r, history := push_round round r (history f), latest_price := median_price,
                latest_confidence := confidence, latest_timestamp := now, current_submissions := []\<rparr>))))"

section \<open>Handlers\<close>

definition feed_space :: nat where
  "feed_space = 2048 + MAX_ORACLES * 32 + MAX_ORACLES * 128 + MAX_HISTORY * 64"

definition new_feed :: "pubkey \<Rightarrow> 256 word \<Rightarrow> asset_class \<Rightarrow> i64 \<Rightarrow> u32 \<Rightarrow> u8 \<Rightarrow> price_feed" where
  "new_feed adm symb cls staleness min_subs b =
     \<lparr>feed_is_initialized = True, feed_admin = adm, symbol = symb, feed_asset_class = cls, decimals = PRICE_DECIMALS,
      max_staleness = (if sint staleness \<le> 0 then DEFAULT_STALENESS
                       else if sint MAX_STALENESS_SECONDS < sint staleness then MAX_STALENESS_SECONDS else staleness),
      min_submissions = (if min_subs = 0 then MIN_SUBMISSIONS else min_subs),
      current_round = 0, latest_price = 0, latest_confidence = 0, latest_timestamp = 0, feed_is_active = True,
      feed_bump = b, oracle_count = 0, oracles = [], current_submissions = [], history = []\<rparr>"

definition process_initialize_feed ::
  "env \<Rightarrow> oracle_codecs \<Rightarrow> pubkey \<Rightarrow> 256 word \<Rightarrow> asset_class \<Rightarrow> i64 \<Rightarrow> u32 \<Rightarrow> instruction_account list \<Rightarrow> vm \<Rightarrow> vm res" where
  "process_initialize_feed e c program_id symb cls staleness min_subs ias v =
     rbind (next_account_info ias) (\<lambda>(adm, it).
     rbind (next_account_info it) (\<lambda>(feed_account, it).
     rbind (next_account_info it) (\<lambda>(system_program, it).
     if \<not> is_signer adm then Inl MissingRequiredSignature
     else
     let (feed_pda, feed_bump) = find_program_address e [FEED_SEED, to_le_bytes symb] program_id
     in
     if feed_pda \<noteq> key feed_account then Inl (oracle_err InvalidPDA)
     else
     rbind (rent_get e) (\<lambda>minimum_balance.
     rbind (invoke_signed e program_id ias
              (system_create_account (key adm) (key feed_account) (minimum_balance feed_space) (word_of_nat feed_space) program_id)
              [adm, feed_account, system_program] [[FEED_SEED, to_le_bytes symb, [feed_bump]]] v) (\<lambda>v.
     store_account (price_feed_codec c) (new_feed (key adm) symb cls staleness min_subs feed_bump) (key feed_account) v)))))"

definition load_feed :: "oracle_codecs \<Rightarrow> pubkey \<Rightarrow> pubkey \<Rightarrow> vm \<Rightarrow> price_feed res" where
  "load_feed c program_id k v =
     (if owner (mem v k) \<noteq> program_id then Inl IncorrectProgramId else load_account (price_feed_codec c) k v)"

definition load_own_feed :: "oracle_codecs \<Rightarrow> pubkey \<Rightarrow> pubkey \<Rightarrow> pubkey \<Rightarrow> vm \<Rightarrow> price_feed res" where
  "load_own_feed c program_id adm k v =
     rbind (load_feed c program_id k v) (\<lambda>f.
     if \<not> feed_is_initialized f then Inl (oracle_err OrNotInitialized)
     else if feed_admin f \<noteq> adm then Inl (oracle_err OrUnauthorized)
     else Inr f)"

definition add_oracle :: "pubkey \<Rightarrow> price_feed \<Rightarrow> price_feed res" where
  "add_oracle k f =
     (if MAX_ORACLES \<le> length (oracles f) then Inl (oracle_err MaxOraclesReached)
      else if k \<in> set (oracles f) then Inl (oracle_err OracleAlreadyRegistered)
      else Inr (f\<lparr>oracles := oracles f @ [k], oracle_count := word_of_nat (length (oracles f) + 1)\<rparr>))"

definition remove_oracle :: "pubkey \<Rightarrow> price_feed \<Rightarrow> price_feed res" where
  "remove_oracle k f =
     (let os = filter (\<lambda>x. x \<noteq> k) (oracles f) in
      if length os = length (oracles f) then Inl (oracle_err UnauthorizedOracle)
      else Inr (f\<lparr>oracles := os, oracle_count := word_of_nat (length os),
                  current_submissions := filter (\<lambda>s. sub_oracle s \<noteq> k) (current_submissions f)\<rparr>))"

text \<open>A source submits once per round; a second submission replaces the first.\<close>

fun replace_submission :: "oracle_submission \<Rightarrow> oracle_submission list \<Rightarrow> oracle_submission list" where
  "replace_submission s [] = []"
| "replace_submission s (x # xs) = (if sub_oracle x = sub_oracle s then s # xs else x # replace_submission s xs)"

definition record_submission :: "oracle_submission \<Rightarrow> oracle_submission list \<Rightarrow> oracle_submission list" where
  "record_submission s xs = (if list_ex (\<lambda>x. sub_oracle x = sub_oracle s) xs then replace_submission s xs else xs @ [s])"

definition submit_price :: "env \<Rightarrow> pubkey \<Rightarrow> i128 \<Rightarrow> u64 \<Rightarrow> i64 \<Rightarrow> price_feed \<Rightarrow> price_feed res" where
  "submit_price e k price confidence timestamp f =
     (if k \<notin> set (oracles f) then Inl (oracle_err UnauthorizedOracle)
      else if sint price \<le> 0 then Inl (oracle_err InvalidPrice)
      else
      rbind (clock_get e) (\<lambda>clk.
      if sint (max_staleness f) < sint (i64_saturating_sub (unix_timestamp clk) timestamp) then Inl (oracle_err StaleData)
      else
      let s = \<lparr>sub_oracle = k, sub_price = price, sub_confidence = confidence, sub_timestamp = timestamp,
               slot_timestamp = unix_timestamp clk\<rparr>;
          f = f\<lparr>current_submissions := record_submission s (current_submissions f)\<rparr>
      in if unat (min_submissions f) \<le> length (current_submissions f)
         then aggregate_prices e (unix_timestamp clk) f else Inr f))"

definition process_add_oracle ::
  "oracle_codecs \<Rightarrow> pubkey \<Rightarrow> pubkey \<Rightarrow> instruction_account list \<Rightarrow> vm \<Rightarrow> vm res" where
  "process_add_oracle c program_id k ias v =
     rbind (next_account_info ias) (\<lambda>(adm, it).
     rbind (next_account_info it) (\<lambda>(feed_account, it).
     if \<not> is_signer adm then Inl MissingRequiredSignature
     else
     rbind (load_own_feed c program_id (key adm) (key feed_account) v) (\<lambda>f.
     rbind (add_oracle k f) (\<lambda>f.
     store_account (price_feed_codec c) f (key feed_account) v))))"

definition process_remove_oracle ::
  "oracle_codecs \<Rightarrow> pubkey \<Rightarrow> pubkey \<Rightarrow> instruction_account list \<Rightarrow> vm \<Rightarrow> vm res" where
  "process_remove_oracle c program_id k ias v =
     rbind (next_account_info ias) (\<lambda>(adm, it).
     rbind (next_account_info it) (\<lambda>(feed_account, it).
     if \<not> is_signer adm then Inl MissingRequiredSignature
     else
     rbind (load_own_feed c program_id (key adm) (key feed_account) v) (\<lambda>f.
     rbind (remove_oracle k f) (\<lambda>f.
     store_account (price_feed_codec c) f (key feed_account) v))))"

definition process_submit_price ::
  "env \<Rightarrow> oracle_codecs \<Rightarrow> pubkey \<Rightarrow> i128 \<Rightarrow> u64 \<Rightarrow> i64 \<Rightarrow> instruction_account list \<Rightarrow> vm \<Rightarrow> vm res" where
  "process_submit_price e c program_id price confidence timestamp ias v =
     rbind (next_account_info ias) (\<lambda>(source, it).
     rbind (next_account_info it) (\<lambda>(feed_account, it).
     if \<not> is_signer source then Inl MissingRequiredSignature
     else
     rbind (load_feed c program_id (key feed_account) v) (\<lambda>f.
     if \<not> feed_is_initialized f \<or> \<not> feed_is_active f then Inl (oracle_err OrNotInitialized)
     else
     rbind (submit_price e (key source) price confidence timestamp f) (\<lambda>f.
     store_account (price_feed_codec c) f (key feed_account) v))))"

definition process_force_aggregate ::
  "env \<Rightarrow> oracle_codecs \<Rightarrow> pubkey \<Rightarrow> instruction_account list \<Rightarrow> vm \<Rightarrow> vm res" where
  "process_force_aggregate e c program_id ias v =
     rbind (next_account_info ias) (\<lambda>(adm, it).
     rbind (next_account_info it) (\<lambda>(feed_account, it).
     if \<not> is_signer adm then Inl MissingRequiredSignature
     else
     rbind (load_own_feed c program_id (key adm) (key feed_account) v) (\<lambda>f.
     rbind (clock_get e) (\<lambda>clk.
     rbind (aggregate_prices e (unix_timestamp clk) f) (\<lambda>f.
     store_account (price_feed_codec c) f (key feed_account) v)))))"

text \<open>Reading only logs.\<close>

definition process_read_price :: "env \<Rightarrow> oracle_codecs \<Rightarrow> pubkey \<Rightarrow> instruction_account list \<Rightarrow> vm \<Rightarrow> vm res" where
  "process_read_price e c program_id ias v =
     rbind (next_account_info ias) (\<lambda>(feed_account, it).
     rbind (load_feed c program_id (key feed_account) v) (\<lambda>f.
     if \<not> feed_is_initialized f then Inl (oracle_err OrNotInitialized)
     else
     rbind (clock_get e) (\<lambda>clk.
     Inr v)))"

definition oracle_process_instruction :: "env \<Rightarrow> oracle_codecs \<Rightarrow> pubkey \<Rightarrow> bytes \<Rightarrow> program" where
  "oracle_process_instruction e c program_id instruction_data ias v =
     rbind (ok_or (try_from_slice (oracle_instruction_codec c) instruction_data) InvalidInstructionData) (\<lambda>ix.
     case ix of
       InitializeFeed symb cls staleness min_subs \<Rightarrow> process_initialize_feed e c program_id symb cls staleness min_subs ias v
     | AddOracle k \<Rightarrow> process_add_oracle c program_id k ias v
     | RemoveOracle k \<Rightarrow> process_remove_oracle c program_id k ias v
     | SubmitPrice price confidence timestamp \<Rightarrow> process_submit_price e c program_id price confidence timestamp ias v
     | ForceAggregate \<Rightarrow> process_force_aggregate e c program_id ias v
     | ReadPrice \<Rightarrow> process_read_price e c program_id ias v)"

lemmas oracle_handler_defs = process_initialize_feed_def process_add_oracle_def process_remove_oracle_def
  process_submit_price_def process_force_aggregate_def process_read_price_def

context chain
begin

lemma oracle_keeps: "keeps v (oracle_process_instruction e c pid d ias v)"
  unfolding oracle_process_instruction_def
proof (rule keeps_bind)
  fix ix
  show "keeps v (case ix of
       InitializeFeed symb cls staleness min_subs \<Rightarrow> process_initialize_feed e c pid symb cls staleness min_subs ias v
     | AddOracle k \<Rightarrow> process_add_oracle c pid k ias v
     | RemoveOracle k \<Rightarrow> process_remove_oracle c pid k ias v
     | SubmitPrice price confidence timestamp \<Rightarrow> process_submit_price e c pid price confidence timestamp ias v
     | ForceAggregate \<Rightarrow> process_force_aggregate e c pid ias v
     | ReadPrice \<Rightarrow> process_read_price e c pid ias v)"
    by (cases ix; simp only: oracle_instruction.case oracle_handler_defs; intro keeps_intros keeps_invoke)
qed

end

sublocale chain \<subseteq> price_oracle: onchain_program "oracle_process_instruction e c pid d" for c pid d
  by unfold_locales (metis keepsD oracle_keeps)

section \<open>Layouts\<close>

fun asset_class_tag :: "asset_class \<Rightarrow> u8" where
  "asset_class_tag Crypto = 0"
| "asset_class_tag Forex = 1"
| "asset_class_tag Commodity = 2"
| "asset_class_tag Equity = 3"

definition asset_class_of :: "u8 \<Rightarrow> asset_class option" where
  "asset_class_of b = (if b = 0 then Some Crypto else if b = 1 then Some Forex else if b = 2 then Some Commodity
     else if b = 3 then Some Equity else None)"

lemma wf_asset_class_layout: "wf_layout 1 (enum_layout asset_class_tag asset_class_of)"
  by (rule wf_enum_layout, case_tac x) (simp_all add: asset_class_of_def)

definition submission_layout :: "oracle_submission layout" where
  "submission_layout =
     iso_layout (\<lambda>(k, p, n, t, s). \<lparr>sub_oracle = k, sub_price = p, sub_confidence = n, sub_timestamp = t, slot_timestamp = s\<rparr>)
       (\<lambda>s. (sub_oracle s, sub_price s, sub_confidence s, sub_timestamp s, slot_timestamp s))
       (pair_layout word_layout (pair_layout word_layout (pair_layout word_layout (pair_layout word_layout word_layout))))"

definition round_layout :: "price_round layout" where
  "round_layout =
     iso_layout (\<lambda>(r, p, n, k, t). \<lparr>round_id = r, round_price = p, round_confidence = n, num_submissions = k, round_timestamp = t\<rparr>)
       (\<lambda>r. (round_id r, round_price r, round_confidence r, num_submissions r, round_timestamp r))
       (pair_layout word_layout (pair_layout word_layout (pair_layout word_layout (pair_layout word_layout word_layout))))"

definition feed_layout :: "price_feed layout" where
  "feed_layout =
     iso_layout
       (\<lambda>((i, a, s, k, d, ms, mn, r, p, n, t, ac, b, oc), os, cs, hs).
          \<lparr>feed_is_initialized = i, feed_admin = a, symbol = s, feed_asset_class = k, decimals = d, max_staleness = ms,
           min_submissions = mn, current_round = r, latest_price = p, latest_confidence = n, latest_timestamp = t,
           feed_is_active = ac, feed_bump = b, oracle_count = oc, oracles = os, current_submissions = cs, history = hs\<rparr>)
       (\<lambda>f. ((feed_is_initialized f, feed_admin f, symbol f, feed_asset_class f, decimals f, max_staleness f,
              min_submissions f, current_round f, latest_price f, latest_confidence f, latest_timestamp f,
              feed_is_active f, feed_bump f, oracle_count f), oracles f, current_submissions f, history f))
       (pair_layout
         (pair_layout bool_layout (pair_layout word_layout (pair_layout word_layout (pair_layout (enum_layout asset_class_tag asset_class_of)
         (pair_layout word_layout (pair_layout word_layout (pair_layout word_layout (pair_layout word_layout
         (pair_layout word_layout (pair_layout word_layout (pair_layout word_layout (pair_layout bool_layout
         (pair_layout word_layout word_layout)))))))))))))
       (pair_layout (vec_layout word_layout) (pair_layout (vec_layout submission_layout) (vec_layout round_layout))))"

definition feed_representable :: "price_feed \<Rightarrow> bool" where
  "feed_representable f \<longleftrightarrow>
     length (oracles f) < 2 ^ 32 \<and> length (current_submissions f) < 2 ^ 32 \<and> length (history f) < 2 ^ 32"

lemma wf_submission_layout: "wf_layout 72 submission_layout"
  unfolding submission_layout_def by (rule wf_layout_eq, (rule wf_layouts)+) simp_all

lemma wf_round_layout: "wf_layout 44 round_layout"
  unfolding round_layout_def by (rule wf_layout_eq, (rule wf_layouts)+) simp_all

lemmas wf_oracle_words = wf_word_layouts wf_bool_layout wf_asset_class_layout wf_submission_layout wf_round_layout
lemmas oracle_vars = wf_oracle_words [THEN var_layout_fixed] wf_oracle_words [THEN var_layout_fixed, THEN var_vec_layout]
lemmas oracle_exacts = wf_oracle_words [THEN exact_fixed] wf_oracle_words [THEN exact_fixed, THEN exact_vec_layout]

lemma var_feed_layout: "var_layout feed_representable feed_layout"
  unfolding feed_layout_def
  by (rule var_layout_mono, rule var_iso_layout, (rule var_pair_layout oracle_vars)+) (simp_all add: list_all_iff feed_representable_def)

lemma exact_feed_layout: "exact_layout feed_representable feed_layout"
  unfolding feed_layout_def
  by (rule exact_layout_mono, rule exact_iso_layout, (rule exact_pair_layout oracle_exacts)+) (auto simp: feed_representable_def)

interpretation feed_borsh: borsh_exact "of_layout feed_layout" feed_representable
  by (rule borsh_exact_of_layout [OF var_feed_layout exact_feed_layout])

lemma length_feed:
  "length (put feed_layout f) = 137 + 32 * length (oracles f) + 72 * length (current_submissions f) + 44 * length (history f)"
  using wf_submission_layout wf_round_layout
  by (simp add: feed_layout_def enum_layout_def iso_layout_def pair_layout_def vec_layout_def word_layout_def bool_layout_def
      length_concat o_def sum_list_triv wf_layout_def)

locale oracle_accounts = feed: borsh_exact "price_feed_codec c" feed_representable for c :: oracle_codecs +
  assumes feed_size: "length (to_vec (price_feed_codec c) f) =
      137 + 32 * length (oracles f) + 72 * length (current_submissions f) + 44 * length (history f)"
begin

text \<open>The account is allocated for the largest feed, and the new feed is shorter: what is stored cannot be read again.\<close>

lemma initialized_feed_unreadable:
  assumes "process_initialize_feed e c pid symb cls staleness min_subs ias v = Inr v'"
  shows "load_account (price_feed_codec c) (key (ias ! 1)) v' = Inl BorshIoError"
proof -
  from assms obtain adm fa sys rest where ias: "ias = adm # fa # sys # rest"
    by (auto simp: process_initialize_feed_def rust_simps)
  obtain pda b where pda: "find_program_address e [FEED_SEED, to_le_bytes symb] pid = (pda, b)" by fastforce
  from assms [unfolded process_initialize_feed_def ias] pda obtain n u where
    u: "cpi_common e pid ias (system_create_account (key adm) (key fa) n (word_of_nat feed_space) pid)
        [key adm, key fa, key sys] [[FEED_SEED, to_le_bytes symb, [b]]] v = Inr u"
    and st: "store_account (price_feed_codec c) (new_feed (key adm) symb cls staleness min_subs b) (key fa) u = Inr v'"
    by (auto simp: ias rbind_eq_Inr if_Inl_eq_Inr Let_def)
  have len: "length (data (mem u (key fa))) = feed_space"
    by (simp add: invoke_create_account_effect [OF u] fresh_account_def feed_space_def MAX_ORACLES_def MAX_HISTORY_def)
  have f: "feed_representable (new_feed (key adm) symb cls staleness min_subs b)"
    "length (to_vec (price_feed_codec c) (new_feed (key adm) symb cls staleness min_subs b)) < feed_space"
    by (simp_all add: feed_representable_def new_feed_def feed_size feed_space_def MAX_ORACLES_def MAX_HISTORY_def)
  from st obtain d where "store (price_feed_codec c) (new_feed (key adm) symb cls staleness min_subs b) (data (mem u (key fa))) = Inr d"
    and "v' = set_mem_data (key fa) d u" by (auto simp: store_account_eq_Inr)
  then show ?thesis using feed.load_oversized [OF f(1)] f(2) len by (simp add: ias load_account_def)
qed

end

definition oracle_layouts :: "oracle_instruction \<Rightarrow> oracle_codecs" where
  "oracle_layouts ix =
     \<lparr>price_feed_codec = of_layout feed_layout,
      oracle_instruction_codec = \<lparr>try_from_slice = (\<lambda>_. Some ix), to_vec = (\<lambda>_. [])\<rparr>\<rparr>"

interpretation oracle_layouts: oracle_accounts "oracle_layouts ix" for ix
  by (simp add: oracle_accounts_def oracle_accounts_axioms_def oracle_layouts_def length_feed feed_borsh.borsh_exact_axioms)

section \<open>The median\<close>

lemma sorted_below:
  assumes "sorted xs" and "i < length xs" and "xs ! i < (lo :: int)" and "\<And>x. p x \<Longrightarrow> lo \<le> x"
  shows "length (filter p xs) \<le> length xs - Suc i"
proof -
  have "\<not> p x" if x: "x \<in> set (take (Suc i) xs)" for x
  proof -
    from x obtain j where "j \<le> i" "x = xs ! j" using assms(2) by (auto simp: in_set_conv_nth less_Suc_eq_le)
    then have "x \<le> xs ! i" using sorted_nth_mono [OF assms(1)] assms(2) by blast
    then show ?thesis using assms(3,4) by force
  qed
  then have "filter p (take (Suc i) xs) = []" by (simp add: filter_empty_conv)
  then have "filter p xs = filter p (drop (Suc i) xs)" by (metis append_self_conv2 append_take_drop_id filter_append)
  then show ?thesis by (metis length_drop length_filter_le)
qed

lemma sorted_above:
  assumes "sorted xs" and "i < length xs" and "(hi :: int) < xs ! i" and "\<And>x. p x \<Longrightarrow> x \<le> hi"
  shows "length (filter p xs) \<le> i"
proof -
  have "\<not> p x" if x: "x \<in> set (drop i xs)" for x
  proof -
    from x obtain j where "i \<le> j" "j < length xs" "x = xs ! j" by (auto simp: in_set_conv_nth) (metis add.commute le_add1 less_diff_conv)
    then have "xs ! i \<le> x" using sorted_nth_mono [OF assms(1)] by blast
    then show ?thesis using assms(3,4) by force
  qed
  then have "filter p (drop i xs) = []" by (simp add: filter_empty_conv)
  then have "filter p xs = filter p (take i xs)" by (metis append_Nil2 append_take_drop_id filter_append)
  then show ?thesis using assms(2) by (metis length_filter_le length_take less_imp_le_nat min.absorb2)
qed

lemma sint_word_of_int_i128: "- (2 ^ 127) \<le> x \<Longrightarrow> x < 2 ^ 127 \<Longrightarrow> sint (word_of_int x :: i128) = x"
  by (simp add: int_word_sint)

lemma sint_in_range: "0 \<le> lo \<Longrightarrow> hi < 2 ^ 126 \<Longrightarrow> lo \<le> x \<Longrightarrow> x \<le> hi \<Longrightarrow> sint (word_of_int x :: i128) = x"
  by (rule sint_word_of_int_i128) simp_all

lemma double_fits: "2 * lo \<le> t \<Longrightarrow> t \<le> 2 * hi \<Longrightarrow> 0 \<le> lo \<Longrightarrow> hi < 2 ^ 126 \<Longrightarrow> - (2 ^ 127) \<le> t \<and> t < 2 ^ 127 \<and> 0 \<le> (t :: int)"
  by simp

text \<open>If most elements of a sorted list lie in an interval, so do the middle ones.\<close>

lemma middle_in_range:
  assumes "sorted xs" and "length xs < 2 * length (filter (\<lambda>x. lo \<le> x \<and> x \<le> hi) xs)"
    and i: "i \<le> length xs div 2" "length xs \<le> 2 * Suc i" and "i < length xs"
  shows "lo \<le> xs ! i \<and> xs ! i \<le> (hi :: int)"
proof (rule conjI; rule ccontr)
  let ?p = "\<lambda>x. lo \<le> x \<and> x \<le> hi"
  show False if "\<not> lo \<le> xs ! i"
    using sorted_below [OF assms(1,5), of lo ?p] that assms(2) i by auto
  show False if "\<not> xs ! i \<le> hi"
    using sorted_above [OF assms(1,5), of hi ?p] that assms(2) i by auto
qed

lemma map_sint_sort: "map sint (sort_key sint vs) = sort (map sint vs)"
  by (rule properties_for_sort [symmetric]) simp_all

lemma median_in_range:
  assumes maj: "length vs < 2 * length (filter (\<lambda>x. lo \<le> sint x \<and> sint x \<le> hi) vs)" and lo: "0 \<le> lo" and hi: "hi < 2 ^ 126"
  shows "\<exists>p. median e vs = Inr p \<and> lo \<le> sint p \<and> sint p \<le> hi"
proof -
  let ?s = "sort_key sint vs" and ?n = "length vs" and ?m = "length vs div 2"
  let ?xs = "sort (map sint vs)"
  have "length (filter (\<lambda>x. lo \<le> x \<and> x \<le> hi) ?xs) = length (filter (\<lambda>x. lo \<le> sint x \<and> sint x \<le> hi) vs)"
    by (simp add: filter_sort filter_map o_def)
  then have maj': "length ?xs < 2 * length (filter (\<lambda>x. lo \<le> x \<and> x \<le> hi) ?xs)" using maj by simp
  have ne: "vs \<noteq> []" using maj by auto
  then have sn: "?s \<noteq> []" by (metis length_0_conv length_sort)
  have nth: "sint (?s ! i) = ?xs ! i" if "i < ?n" for i using that by (simp flip: map_sint_sort)
  have mid: "lo \<le> sint (?s ! i) \<and> sint (?s ! i) \<le> hi" if "i \<le> ?m" "?n \<le> 2 * Suc i" "i < ?n" for i
    using middle_in_range [OF sorted_sort maj', of i] that nth by simp
  have m: "lo \<le> sint (?s ! ?m) \<and> sint (?s ! ?m) \<le> hi" by (rule mid) (use ne in auto)
  show ?thesis
  proof (cases "?n mod 2 = 0")
    case False
    then show ?thesis using m sn by (simp add: median_def Let_def)
  next
    case True
    then have "0 < ?m" using ne by (cases vs) auto
    then have m1: "lo \<le> sint (?s ! (?m - 1)) \<and> sint (?s ! (?m - 1)) \<le> hi" by (intro mid) (use True in auto)
    let ?t = "sint (?s ! (?m - 1)) + sint (?s ! ?m)"
    have t: "2 * lo \<le> ?t" "?t \<le> 2 * hi" using m m1 by auto
    have fits: "- (2 ^ 127) \<le> ?t" "?t < 2 ^ 127" "0 \<le> ?t" using double_fits [OF t lo hi] by blast+
    have half: "lo \<le> ?t div 2" "?t div 2 \<le> hi" using t by linarith+
    have "median e vs = Inr (word_of_int (?t div 2))"
      using True sn fits sint_word_of_int_i128 [OF fits(1,2)] unfolding median_def i128_op_def Let_def
      by (simp only: length_sort if_True if_False simp_thms rbind_Inr)
    then show ?thesis using half sint_in_range [OF lo hi half] by simp
  qed
qed

text \<open>A source has at most one submission in a round, so a majority of submissions is a majority of sources.\<close>

lemma replace_submission_sources: "map sub_oracle (replace_submission s xs) = map sub_oracle xs"
  by (induction xs) auto

lemma record_submission_distinct:
  "distinct (map sub_oracle xs) \<Longrightarrow> distinct (map sub_oracle (record_submission s xs))"
  by (auto simp: record_submission_def replace_submission_sources list_ex_iff)

lemma fold_max_ge: "m \<le> fold (\<lambda>s m. max m (f s)) xs m \<and> (\<forall>s \<in> set xs. f s \<le> fold (\<lambda>s m. max m (f s)) xs (m :: 'b::linorder))"
proof (induction xs arbitrary: m)
  case (Cons x xs)
  show ?case using Cons.IH [of "max m (f x)"] by (auto intro: order_trans)
qed simp

lemma aggregate_confidence_covers:
  assumes "aggregate_confidence e ss p = Inr n" and "s \<in> set ss"
  shows "sub_confidence s \<le> n"
proof -
  from assms obtain d where "n = max (fold (\<lambda>s m. max m (sub_confidence s)) ss 0) d"
    by (auto simp: aggregate_confidence_def Let_def rbind_eq_Inr split: if_splits)
  then show ?thesis using fold_max_ge [of 0 sub_confidence ss] assms(2) by (simp add: le_max_iff_disj)
qed

section \<open>Properties\<close>

definition sample_submission :: "pubkey \<Rightarrow> i128 \<Rightarrow> oracle_submission" where
  "sample_submission k p = \<lparr>sub_oracle = k, sub_price = p, sub_confidence = 5, sub_timestamp = 0, slot_timestamp = 0\<rparr>"

definition sample_feed :: price_feed where
  "sample_feed = (new_feed 1 0 Crypto 0 0 255)
     \<lparr>oracles := [11, 12, 13], current_submissions := [sample_submission 11 100, sample_submission 12 (- 1), sample_submission 13 102]\<rparr>"

definition oracle_chain :: env where
  "oracle_chain = native_env (\<lambda>_ _. (2, 255)) (\<lambda>_. 10) \<lparr>slot = 7, epoch = 1, unix_timestamp = 1000\<rparr> (\<lambda>b. b)"

text \<open>
  C39. A minority of sources cannot move the price. If more than half of the submissions of a round lie in an
  interval of non-negative prices below \<open>2 ^ 126\<close>, the median is computed without overflow and lies in the interval,
  whatever the other submissions are; and a round that is closed publishes a price of the interval, stamped with
  the time of the aggregation, with a confidence of at least every confidence submitted.
\<close>

theorem median_resists_minority:
  assumes "length (current_submissions f) < 2 * length (filter (\<lambda>s. lo \<le> sint (sub_price s) \<and> sint (sub_price s) \<le> hi) (current_submissions f))"
    and "0 \<le> lo" and "hi < 2 ^ 126"
  shows "(\<exists>p. median e (map sub_price (current_submissions f)) = Inr p \<and> lo \<le> sint p \<and> sint p \<le> hi) \<and>
    (aggregate_prices e now f = Inr f' \<longrightarrow> lo \<le> sint (latest_price f') \<and> sint (latest_price f') \<le> hi \<and>
       latest_timestamp f' = now \<and> (\<forall>s \<in> set (current_submissions f). sub_confidence s \<le> latest_confidence f'))"
proof (intro conjI impI)
  let ?ss = "current_submissions f"
  have "\<exists>p. median e (map sub_price ?ss) = Inr p \<and> lo \<le> sint p \<and> sint p \<le> hi"
    by (rule median_in_range) (use assms in \<open>simp_all add: filter_map o_def\<close>)
  then obtain p where p: "median e (map sub_price ?ss) = Inr p" "lo \<le> sint p" "sint p \<le> hi" by blast
  then show "\<exists>p. median e (map sub_price ?ss) = Inr p \<and> lo \<le> sint p \<and> sint p \<le> hi" by blast
  assume "aggregate_prices e now f = Inr f'"
  then obtain n where n: "aggregate_confidence e ?ss p = Inr n"
    and f': "latest_price f' = p" "latest_timestamp f' = now" "latest_confidence f' = n"
    using p(1) by (auto simp: aggregate_prices_def Let_def rbind_eq_Inr split: if_splits)
  then show "lo \<le> sint (latest_price f')" "sint (latest_price f') \<le> hi" "latest_timestamp f' = now" using p by simp_all
  show "\<forall>s \<in> set ?ss. sub_confidence s \<le> latest_confidence f'"
    using aggregate_confidence_covers [OF n] f'(3) by simp
qed

theorem median_resists_minority_witness:
  "\<exists>f'. aggregate_prices oracle_chain 1000 sample_feed = Inr f' \<and> 100 \<le> sint (latest_price f') \<and> sint (latest_price f') \<le> 102"
proof -
  have run: "\<exists>f'. aggregate_prices oracle_chain 1000 sample_feed = Inr f'"
    by (simp add: aggregate_prices_def sample_feed_def new_feed_def sample_submission_def MIN_SUBMISSIONS_def median_def
        aggregate_confidence_def deviation_def i128_op_def oracle_chain_def native_env_def Let_def)
  have "length (current_submissions sample_feed) <
      2 * length (filter (\<lambda>s. 100 \<le> sint (sub_price s) \<and> sint (sub_price s) \<le> 102) (current_submissions sample_feed))"
    by (simp add: sample_feed_def sample_submission_def)
  from median_resists_minority [OF this, of oracle_chain 1000] run show ?thesis by auto
qed

end
