(* ===== verification/Governance.thy ===== *)
theory Governance
  imports Cpi
begin

text \<open>
  The governance program (\<open>programs/governance/src/lib.rs\<close>): proposals, weighted votes, delegation, the
  count at the end of the voting period, the time lock, and the veto of the council.
\<close>

section \<open>Data\<close>

definition MIN_PROPOSAL_STAKE :: u64 where "MIN_PROPOSAL_STAKE = 100000000000000"
definition QUORUM_BPS :: "16 word" where "QUORUM_BPS = 1000"
definition VOTING_PERIOD_SECS :: i64 where "VOTING_PERIOD_SECS = 7 * 24 * 60 * 60"
definition EMERGENCY_VOTING_PERIOD_SECS :: i64 where "EMERGENCY_VOTING_PERIOD_SECS = 24 * 60 * 60"
definition EXECUTION_DELAY_SECS :: i64 where "EXECUTION_DELAY_SECS = 48 * 60 * 60"
definition VETO_WINDOW_SECS :: i64 where "VETO_WINDOW_SECS = 48 * 60 * 60"
definition EMERGENCY_SUPERMAJORITY_BPS :: "16 word" where "EMERGENCY_SUPERMAJORITY_BPS = 6667"
definition MAX_DESCRIPTION_LEN :: nat where "MAX_DESCRIPTION_LEN = 512"
definition MAX_COUNCIL_MEMBERS :: nat where "MAX_COUNCIL_MEMBERS = 11"
definition GOVERNANCE_SEED :: bytes where "GOVERNANCE_SEED = ascii ''governance''"
definition PROPOSAL_SEED :: bytes where "PROPOSAL_SEED = ascii ''proposal''"
definition VOTE_RECORD_SEED :: bytes where "VOTE_RECORD_SEED = ascii ''vote_record''"
definition DELEGATION_SEED :: bytes where "DELEGATION_SEED = ascii ''delegation''"

datatype governance_error =
    InsufficientStake | ProposalNotVoting | VotingPeriodEnded | VotingPeriodNotEnded | QuorumNotReached
  | ProposalNotPassed | TimeLockNotElapsed | ProposalVetoed | NotCouncilMember | VetoWindowExpired
  | SupermajorityNotReached | AlreadyVoted | InvalidProposalType | DescriptionTooLong | SelfDelegation
  | ProposalAlreadyFinalized | GovAlreadyInitialized | InvalidAuthority | GovOverflow | GovInvalidAccountData
  | GovInvalidOwner

fun governance_err :: "governance_error \<Rightarrow> instruction_error" where
  "governance_err InsufficientStake = Custom 0"
| "governance_err ProposalNotVoting = Custom 1"
| "governance_err VotingPeriodEnded = Custom 2"
| "governance_err VotingPeriodNotEnded = Custom 3"
| "governance_err QuorumNotReached = Custom 4"
| "governance_err ProposalNotPassed = Custom 5"
| "governance_err TimeLockNotElapsed = Custom 6"
| "governance_err ProposalVetoed = Custom 7"
| "governance_err NotCouncilMember = Custom 8"
| "governance_err VetoWindowExpired = Custom 9"
| "governance_err SupermajorityNotReached = Custom 10"
| "governance_err AlreadyVoted = Custom 11"
| "governance_err InvalidProposalType = Custom 12"
| "governance_err DescriptionTooLong = Custom 13"
| "governance_err SelfDelegation = Custom 14"
| "governance_err ProposalAlreadyFinalized = Custom 15"
| "governance_err GovAlreadyInitialized = Custom 16"
| "governance_err InvalidAuthority = Custom 17"
| "governance_err GovOverflow = Custom 18"
| "governance_err GovInvalidAccountData = Custom 19"
| "governance_err GovInvalidOwner = Custom 20"

datatype proposal_type =
    ParameterChange "256 word" "256 word"
  | TreasurySpend pubkey u64
  | ProgramUpgrade pubkey pubkey
  | Emergency "512 word"

datatype proposal_status = Voting | Passed | Defeated | Vetoed | Executed | Cancelled

datatype vote_choice = For | Against | Abstain

record governance_state =
  gov_is_initialized :: bool
  gov_authority :: pubkey
  proposal_count :: u64
  total_staked_supply :: u64
  council :: "pubkey list"
  gov_bump :: u8

record proposal =
  proposal_is_initialized :: bool
  proposal_id :: u64
  proposer :: pubkey
  description :: bytes
  proposal_kind :: proposal_type
  proposal_status :: proposal_status
  voting_start :: i64
  voting_end :: i64
  votes_for :: u64
  votes_against :: u64
  votes_abstain :: u64
  is_emergency :: bool
  execution_time :: i64
  proposal_bump :: u8

record vote_record =
  vote_is_initialized :: bool
  vote_proposal_id :: u64
  voter :: pubkey
  vote_choice :: vote_choice
  vote_weight :: u64
  vote_timestamp :: i64
  vote_bump :: u8

record delegation =
  delegation_is_initialized :: bool
  delegator :: pubkey
  delegate :: pubkey
  delegation_weight :: u64
  delegation_timestamp :: i64
  delegation_bump :: u8

datatype governance_instruction =
    InitializeGovernance "pubkey list" u64
  | CreateProposal bytes proposal_type bool
  | CastVote vote_choice u64
  | DelegateVote pubkey u64
  | RevokeDelegation
  | FinalizeVoting
  | ExecuteProposal
  | VetoProposal
  | CancelProposal
  | UpdateStakedSupply u64

text \<open>
  Beside the codecs of its accounts the program reads the rent sysvar from an account: the parameter gives the
  least exempt balance of an account by the length of its data, or the error of an account that is not the
  sysvar.
\<close>

record governance_codecs =
  governance_state_codec :: "governance_state borsh"
  proposal_codec :: "proposal borsh"
  vote_record_codec :: "vote_record borsh"
  delegation_codec :: "delegation borsh"
  governance_instruction_codec :: "governance_instruction borsh"
  rent_from_account_info :: "pubkey \<Rightarrow> account \<Rightarrow> (nat \<Rightarrow> u64) res"

abbreviation ovf :: "'a option \<Rightarrow> 'a res" where
  "ovf m \<equiv> ok_or m (governance_err GovOverflow)"

abbreviation load_governance :: "governance_codecs \<Rightarrow> pubkey \<Rightarrow> vm \<Rightarrow> governance_state res" where
  "load_governance c \<equiv> load_or (governance_err GovInvalidAccountData) (governance_state_codec c)"

abbreviation load_proposal :: "governance_codecs \<Rightarrow> pubkey \<Rightarrow> vm \<Rightarrow> proposal res" where
  "load_proposal c \<equiv> load_or (governance_err GovInvalidAccountData) (proposal_codec c)"

abbreviation load_delegation :: "governance_codecs \<Rightarrow> pubkey \<Rightarrow> vm \<Rightarrow> delegation res" where
  "load_delegation c \<equiv> load_or (governance_err GovInvalidAccountData) (delegation_codec c)"

section \<open>Decisions\<close>

definition voting_times :: "bool \<Rightarrow> i64 \<Rightarrow> (i64 \<times> i64) res" where
  "voting_times emergency now =
     (let voting_period = if emergency then EMERGENCY_VOTING_PERIOD_SECS else VOTING_PERIOD_SECS in
      rbind (ovf (i64_checked_add now voting_period)) (\<lambda>vend.
      rbind (ovf (i64_checked_add vend EXECUTION_DELAY_SECS)) (\<lambda>exec.
      Inr (vend, exec))))"

definition new_proposal ::
  "u64 \<Rightarrow> pubkey \<Rightarrow> bytes \<Rightarrow> proposal_type \<Rightarrow> i64 \<Rightarrow> i64 \<Rightarrow> bool \<Rightarrow> i64 \<Rightarrow> u8 \<Rightarrow> proposal" where
  "new_proposal n who descr kind now vend emergency exec b =
     \<lparr>proposal_is_initialized = True, proposal_id = n, proposer = who, description = descr, proposal_kind = kind,
      proposal_status = Voting, voting_start = now, voting_end = vend, votes_for = 0, votes_against = 0,
      votes_abstain = 0, is_emergency = emergency, execution_time = exec, proposal_bump = b\<rparr>"

fun tally :: "vote_choice \<Rightarrow> u64 \<Rightarrow> proposal \<Rightarrow> proposal res" where
  "tally For w p = rbind (ovf (checked_add (votes_for p) w)) (\<lambda>n. Inr (p\<lparr>votes_for := n\<rparr>))"
| "tally Against w p = rbind (ovf (checked_add (votes_against p) w)) (\<lambda>n. Inr (p\<lparr>votes_against := n\<rparr>))"
| "tally Abstain w p = rbind (ovf (checked_add (votes_abstain p) w)) (\<lambda>n. Inr (p\<lparr>votes_abstain := n\<rparr>))"

definition check_votable :: "i64 \<Rightarrow> proposal \<Rightarrow> unit res" where
  "check_votable now p =
     (if proposal_status p \<noteq> Voting then Inl (governance_err ProposalNotVoting)
      else if sint (voting_end p) < sint now then Inl (governance_err VotingPeriodEnded)
      else Inr ())"

definition check_finalizable :: "i64 \<Rightarrow> proposal \<Rightarrow> unit res" where
  "check_finalizable now p =
     (if proposal_status p \<noteq> Voting then Inl (governance_err ProposalNotVoting)
      else if sint now < sint (voting_end p) then Inl (governance_err VotingPeriodNotEnded)
      else Inr ())"

text \<open>The count of \<open>process_finalize_voting\<close>.\<close>

definition count_votes :: "u64 \<Rightarrow> proposal \<Rightarrow> proposal_status res" where
  "count_votes supply p =
     rbind (ovf (Option.bind (checked_add (votes_for p) (votes_against p)) (\<lambda>n. checked_add n (votes_abstain p)))) (\<lambda>total_votes.
     rbind (ovf (Option.bind (checked_mul supply (ucast QUORUM_BPS)) (\<lambda>n. checked_div n 10000))) (\<lambda>quorum_threshold.
     if total_votes < quorum_threshold then Inr Defeated
     else if is_emergency p
     then
       rbind (ovf (checked_add (votes_for p) (votes_against p))) (\<lambda>decisive_votes.
       rbind (ovf (Option.bind (checked_mul decisive_votes (ucast EMERGENCY_SUPERMAJORITY_BPS)) (\<lambda>n. checked_div n 10000)))
         (\<lambda>supermajority_threshold.
       Inr (if supermajority_threshold \<le> votes_for p then Passed else Defeated)))
     else Inr (if votes_against p < votes_for p then Passed else Defeated)))"

definition check_executable :: "i64 \<Rightarrow> proposal \<Rightarrow> unit res" where
  "check_executable now p =
     (if proposal_status p \<noteq> Passed then Inl (governance_err ProposalNotPassed)
      else if sint now < sint (execution_time p) then Inl (governance_err TimeLockNotElapsed)
      else Inr ())"

definition check_vetoable :: "i64 \<Rightarrow> proposal \<Rightarrow> unit res" where
  "check_vetoable now p =
     (if proposal_status p \<noteq> Passed then Inl (governance_err ProposalNotPassed)
      else
      rbind (ovf (i64_checked_add (voting_end p) VETO_WINDOW_SECS)) (\<lambda>veto_deadline.
      if sint veto_deadline < sint now then Inl (governance_err VetoWindowExpired) else Inr ()))"

definition check_cancel :: "pubkey \<Rightarrow> proposal \<Rightarrow> unit res" where
  "check_cancel who p =
     (if proposer p \<noteq> who then Inl (governance_err InvalidAuthority)
      else if proposal_status p \<noteq> Voting then Inl (governance_err ProposalAlreadyFinalized)
      else Inr ())"

section \<open>Handlers\<close>

text \<open>\<open>data.borrow_mut().copy_from_slice(..)\<close> on the whole account: it panics unless the lengths agree.\<close>

definition overwrite_account :: "'a borsh \<Rightarrow> 'a \<Rightarrow> pubkey \<Rightarrow> vm \<Rightarrow> vm res" where
  "overwrite_account c x k v =
     (if length (data (mem v k)) \<noteq> length (to_vec c x) then Inl ProgramFailedToComplete
      else Inr (set_mem_data k (to_vec c x) v))"

definition process_initialize_governance ::
  "env \<Rightarrow> governance_codecs \<Rightarrow> pubkey \<Rightarrow> pubkey list \<Rightarrow> u64 \<Rightarrow> instruction_account list \<Rightarrow> vm \<Rightarrow> vm res" where
  "process_initialize_governance e c program_id members supply ias v =
     rbind (next_account_info ias) (\<lambda>(governance_info, it).
     rbind (next_account_info it) (\<lambda>(authority_info, it).
     rbind (next_account_info it) (\<lambda>(system_program, it).
     rbind (next_account_info it) (\<lambda>(rent_sysvar, it).
     if \<not> is_signer authority_info then Inl MissingRequiredSignature
     else
     rbind (rent_from_account_info c (key rent_sysvar) (mem v (key rent_sysvar))) (\<lambda>minimum_balance.
     let (expected_pda, b) = find_program_address e [GOVERNANCE_SEED] program_id
     in
     if key governance_info \<noteq> expected_pda then Inl InvalidSeeds
     else
     let d = data (mem v (key governance_info)) in
     if 0 < length d \<and> (case try_from_slice (governance_state_codec c) d of Some g \<Rightarrow> gov_is_initialized g | None \<Rightarrow> False)
     then Inl (governance_err GovAlreadyInitialized)
     else if MAX_COUNCIL_MEMBERS < length members then Inl InvalidArgument
     else
     let state = \<lparr>gov_is_initialized = True, gov_authority = key authority_info, proposal_count = 0,
           total_staked_supply = supply, council = members, gov_bump = b\<rparr> in
     if lamports (mem v (key governance_info)) < minimum_balance (length (to_vec (governance_state_codec c) state))
     then Inl AccountNotRentExempt
     else overwrite_account (governance_state_codec c) state (key governance_info) v)))))"

definition process_create_proposal ::
  "env \<Rightarrow> governance_codecs \<Rightarrow> pubkey \<Rightarrow> bytes \<Rightarrow> proposal_type \<Rightarrow> bool \<Rightarrow> instruction_account list \<Rightarrow> vm \<Rightarrow> vm res" where
  "process_create_proposal e c program_id descr kind emergency ias v =
     rbind (next_account_info ias) (\<lambda>(governance_info, it).
     rbind (next_account_info it) (\<lambda>(proposal_info, it).
     rbind (next_account_info it) (\<lambda>(proposer_info, it).
     rbind (next_account_info it) (\<lambda>(stake_info, it).
     rbind (next_account_info it) (\<lambda>(clock_sysvar, it).
     rbind (next_account_info it) (\<lambda>(system_program, it).
     rbind (next_account_info it) (\<lambda>(rent_sysvar, it).
     if \<not> is_signer proposer_info then Inl MissingRequiredSignature
     else if MAX_DESCRIPTION_LEN < length descr then Inl (governance_err DescriptionTooLong)
     else if lamports (mem v (key stake_info)) < MIN_PROPOSAL_STAKE then Inl (governance_err InsufficientStake)
     else
     rbind (clock_from_account_info e (key clock_sysvar) (mem v (key clock_sysvar))) (\<lambda>clk.
     rbind (load_governance c (key governance_info) v) (\<lambda>g.
     rbind (ovf (checked_add (proposal_count g) 1)) (\<lambda>n.
     rbind (voting_times emergency (unix_timestamp clk)) (\<lambda>(vend, exec).
     let (expected_pda, b) = find_program_address e [PROPOSAL_SEED, to_le_bytes (proposal_count g)] program_id
     in
     if key proposal_info \<noteq> expected_pda then Inl InvalidSeeds
     else
     rbind (copy_account (governance_state_codec c) (g\<lparr>proposal_count := n\<rparr>) (key governance_info) v) (\<lambda>v.
     copy_account (proposal_codec c)
       (new_proposal (proposal_count g) (key proposer_info) descr kind (unix_timestamp clk) vend emergency exec b)
       (key proposal_info) v))))))))))))"

definition process_cast_vote ::
  "env \<Rightarrow> governance_codecs \<Rightarrow> pubkey \<Rightarrow> vote_choice \<Rightarrow> u64 \<Rightarrow> instruction_account list \<Rightarrow> vm \<Rightarrow> vm res" where
  "process_cast_vote e c program_id choice w ias v =
     rbind (next_account_info ias) (\<lambda>(proposal_info, it).
     rbind (next_account_info it) (\<lambda>(vote_record_info, it).
     rbind (next_account_info it) (\<lambda>(voter_info, it).
     rbind (next_account_info it) (\<lambda>(stake_info, it).
     rbind (next_account_info it) (\<lambda>(clock_sysvar, it).
     rbind (next_account_info it) (\<lambda>(system_program, it).
     rbind (next_account_info it) (\<lambda>(rent_sysvar, it).
     if \<not> is_signer voter_info then Inl MissingRequiredSignature
     else
     rbind (clock_from_account_info e (key clock_sysvar) (mem v (key clock_sysvar))) (\<lambda>clk.
     rbind (load_proposal c (key proposal_info) v) (\<lambda>p.
     rbind (check_votable (unix_timestamp clk) p) (\<lambda>_.
     let (expected_vr, b) = find_program_address e
           [VOTE_RECORD_SEED, to_le_bytes (proposal_id p), to_le_bytes (key voter_info)] program_id
     in
     if key vote_record_info \<noteq> expected_vr then Inl InvalidSeeds
     else
     let d = data (mem v (key vote_record_info)) in
     if 0 < length d \<and> (case try_from_slice (vote_record_codec c) d of Some r \<Rightarrow> vote_is_initialized r | None \<Rightarrow> False)
     then Inl (governance_err AlreadyVoted)
     else
     rbind (tally choice w p) (\<lambda>p'.
     rbind (copy_account (vote_record_codec c)
       \<lparr>vote_is_initialized = True, vote_proposal_id = proposal_id p, voter = key voter_info, vote_choice = choice,
        vote_weight = w, vote_timestamp = unix_timestamp clk, vote_bump = b\<rparr> (key vote_record_info) v) (\<lambda>v.
     copy_account (proposal_codec c) p' (key proposal_info) v))))))))))))"

definition process_delegate_vote ::
  "env \<Rightarrow> governance_codecs \<Rightarrow> pubkey \<Rightarrow> pubkey \<Rightarrow> u64 \<Rightarrow> instruction_account list \<Rightarrow> vm \<Rightarrow> vm res" where
  "process_delegate_vote e c program_id to_whom w ias v =
     rbind (next_account_info ias) (\<lambda>(delegation_info, it).
     rbind (next_account_info it) (\<lambda>(delegator_info, it).
     rbind (next_account_info it) (\<lambda>(delegate_info, it).
     rbind (next_account_info it) (\<lambda>(stake_info, it).
     rbind (next_account_info it) (\<lambda>(clock_sysvar, it).
     rbind (next_account_info it) (\<lambda>(system_program, it).
     rbind (next_account_info it) (\<lambda>(rent_sysvar, it).
     if \<not> is_signer delegator_info then Inl MissingRequiredSignature
     else if key delegator_info = key delegate_info then Inl (governance_err SelfDelegation)
     else
     rbind (clock_from_account_info e (key clock_sysvar) (mem v (key clock_sysvar))) (\<lambda>clk.
     let (expected_pda, b) = find_program_address e [DELEGATION_SEED, to_le_bytes (key delegator_info)] program_id
     in
     if key delegation_info \<noteq> expected_pda then Inl InvalidSeeds
     else copy_account (delegation_codec c)
       \<lparr>delegation_is_initialized = True, delegator = key delegator_info, delegate = to_whom, delegation_weight = w,
        delegation_timestamp = unix_timestamp clk, delegation_bump = b\<rparr> (key delegation_info) v))))))))"

definition process_revoke_delegation :: "governance_codecs \<Rightarrow> instruction_account list \<Rightarrow> vm \<Rightarrow> vm res" where
  "process_revoke_delegation c ias v =
     rbind (next_account_info ias) (\<lambda>(delegation_info, it).
     rbind (next_account_info it) (\<lambda>(delegator_info, it).
     if \<not> is_signer delegator_info then Inl MissingRequiredSignature
     else
     rbind (load_delegation c (key delegation_info) v) (\<lambda>d.
     if delegator d \<noteq> key delegator_info then Inl (governance_err InvalidAuthority)
     else copy_account (delegation_codec c) (d\<lparr>delegation_is_initialized := False, delegation_weight := 0\<rparr>)
       (key delegation_info) v)))"

definition process_finalize_voting :: "env \<Rightarrow> governance_codecs \<Rightarrow> instruction_account list \<Rightarrow> vm \<Rightarrow> vm res" where
  "process_finalize_voting e c ias v =
     rbind (next_account_info ias) (\<lambda>(proposal_info, it).
     rbind (next_account_info it) (\<lambda>(governance_info, it).
     rbind (next_account_info it) (\<lambda>(clock_sysvar, it).
     rbind (clock_from_account_info e (key clock_sysvar) (mem v (key clock_sysvar))) (\<lambda>clk.
     rbind (load_proposal c (key proposal_info) v) (\<lambda>p.
     rbind (check_finalizable (unix_timestamp clk) p) (\<lambda>_.
     rbind (load_governance c (key governance_info) v) (\<lambda>g.
     rbind (count_votes (total_staked_supply g) p) (\<lambda>status.
     copy_account (proposal_codec c) (p\<lparr>proposal_status := status\<rparr>) (key proposal_info) v))))))))"

text \<open>The action of a proposal is only logged.\<close>

definition process_execute_proposal :: "env \<Rightarrow> governance_codecs \<Rightarrow> instruction_account list \<Rightarrow> vm \<Rightarrow> vm res" where
  "process_execute_proposal e c ias v =
     rbind (next_account_info ias) (\<lambda>(proposal_info, it).
     rbind (next_account_info it) (\<lambda>(governance_info, it).
     rbind (next_account_info it) (\<lambda>(executor_info, it).
     rbind (next_account_info it) (\<lambda>(clock_sysvar, it).
     if \<not> is_signer executor_info then Inl MissingRequiredSignature
     else
     rbind (clock_from_account_info e (key clock_sysvar) (mem v (key clock_sysvar))) (\<lambda>clk.
     rbind (load_proposal c (key proposal_info) v) (\<lambda>p.
     rbind (check_executable (unix_timestamp clk) p) (\<lambda>_.
     copy_account (proposal_codec c) (p\<lparr>proposal_status := Executed\<rparr>) (key proposal_info) v)))))))"

definition process_veto_proposal :: "env \<Rightarrow> governance_codecs \<Rightarrow> instruction_account list \<Rightarrow> vm \<Rightarrow> vm res" where
  "process_veto_proposal e c ias v =
     rbind (next_account_info ias) (\<lambda>(proposal_info, it).
     rbind (next_account_info it) (\<lambda>(governance_info, it).
     rbind (next_account_info it) (\<lambda>(council_member_info, it).
     rbind (next_account_info it) (\<lambda>(clock_sysvar, it).
     if \<not> is_signer council_member_info then Inl MissingRequiredSignature
     else
     rbind (clock_from_account_info e (key clock_sysvar) (mem v (key clock_sysvar))) (\<lambda>clk.
     rbind (load_governance c (key governance_info) v) (\<lambda>g.
     if key council_member_info \<notin> set (council g) then Inl (governance_err NotCouncilMember)
     else
     rbind (load_proposal c (key proposal_info) v) (\<lambda>p.
     rbind (check_vetoable (unix_timestamp clk) p) (\<lambda>_.
     copy_account (proposal_codec c) (p\<lparr>proposal_status := Vetoed\<rparr>) (key proposal_info) v))))))))"

definition process_cancel_proposal :: "governance_codecs \<Rightarrow> instruction_account list \<Rightarrow> vm \<Rightarrow> vm res" where
  "process_cancel_proposal c ias v =
     rbind (next_account_info ias) (\<lambda>(proposal_info, it).
     rbind (next_account_info it) (\<lambda>(proposer_info, it).
     if \<not> is_signer proposer_info then Inl MissingRequiredSignature
     else
     rbind (load_proposal c (key proposal_info) v) (\<lambda>p.
     rbind (check_cancel (key proposer_info) p) (\<lambda>_.
     copy_account (proposal_codec c) (p\<lparr>proposal_status := Cancelled\<rparr>) (key proposal_info) v))))"

definition process_update_staked_supply :: "governance_codecs \<Rightarrow> u64 \<Rightarrow> instruction_account list \<Rightarrow> vm \<Rightarrow> vm res" where
  "process_update_staked_supply c supply ias v =
     rbind (next_account_info ias) (\<lambda>(governance_info, it).
     rbind (next_account_info it) (\<lambda>(authority_info, it).
     if \<not> is_signer authority_info then Inl MissingRequiredSignature
     else
     rbind (load_governance c (key governance_info) v) (\<lambda>g.
     if gov_authority g \<noteq> key authority_info then Inl (governance_err InvalidAuthority)
     else copy_account (governance_state_codec c) (g\<lparr>total_staked_supply := supply\<rparr>) (key governance_info) v)))"

fun governance_dispatch ::
  "env \<Rightarrow> governance_codecs \<Rightarrow> pubkey \<Rightarrow> governance_instruction \<Rightarrow> instruction_account list \<Rightarrow> vm \<Rightarrow> vm res" where
  "governance_dispatch e c pid (InitializeGovernance members supply) = process_initialize_governance e c pid members supply"
| "governance_dispatch e c pid (CreateProposal descr kind emergency) = process_create_proposal e c pid descr kind emergency"
| "governance_dispatch e c pid (CastVote choice w) = process_cast_vote e c pid choice w"
| "governance_dispatch e c pid (DelegateVote to_whom w) = process_delegate_vote e c pid to_whom w"
| "governance_dispatch e c pid RevokeDelegation = process_revoke_delegation c"
| "governance_dispatch e c pid FinalizeVoting = process_finalize_voting e c"
| "governance_dispatch e c pid ExecuteProposal = process_execute_proposal e c"
| "governance_dispatch e c pid VetoProposal = process_veto_proposal e c"
| "governance_dispatch e c pid CancelProposal = process_cancel_proposal c"
| "governance_dispatch e c pid (UpdateStakedSupply supply) = process_update_staked_supply c supply"

definition governance_process_instruction ::
  "env \<Rightarrow> governance_codecs \<Rightarrow> pubkey \<Rightarrow> bytes \<Rightarrow> instruction_account list \<Rightarrow> vm \<Rightarrow> vm res" where
  "governance_process_instruction e c program_id d ias v =
     (case try_from_slice (governance_instruction_codec c) d of
        None \<Rightarrow> Inl InvalidInstructionData
      | Some ix \<Rightarrow> governance_dispatch e c program_id ix ias v)"

section \<open>Balances\<close>

lemma keeps_overwrite_account: "keeps v (overwrite_account c x k v)"
  by (simp add: overwrite_account_def keeps_intros)

lemmas governance_handlers = process_initialize_governance_def process_create_proposal_def process_cast_vote_def
  process_delegate_vote_def process_revoke_delegation_def process_finalize_voting_def process_execute_proposal_def
  process_veto_proposal_def process_cancel_proposal_def process_update_staked_supply_def

lemma governance_keeps: "keeps v (governance_process_instruction e c pid d ias v)"
proof -
  have "keeps v (governance_dispatch e c pid ix ias v)" for ix
    by (cases ix) (simp_all only: governance_dispatch.simps governance_handlers, (intro keeps_intros keeps_overwrite_account)+)
  then show ?thesis by (simp add: governance_process_instruction_def keeps_Inl split: option.split)
qed

sublocale chain \<subseteq> governance: onchain_program "governance_process_instruction e c pid d" for c pid d
  by unfold_locales (metis keepsD governance_keeps)

section \<open>The life of a proposal\<close>

text \<open>
  What the handlers do to one proposal, as steps at a time of the clock. The times of a new proposal are fixed by
  its kind, and the status moves from \<open>Voting\<close> to a decision, from \<open>Passed\<close> to \<open>Vetoed\<close> or \<open>Executed\<close>, and never back.
\<close>

inductive proposal_step :: "i64 \<Rightarrow> proposal \<Rightarrow> proposal \<Rightarrow> bool" for now where
  vote: "check_votable now p = Inr () \<Longrightarrow> tally choice w p = Inr p' \<Longrightarrow> proposal_step now p p'"
| finalize: "check_finalizable now p = Inr () \<Longrightarrow> count_votes supply p = Inr st \<Longrightarrow>
    proposal_step now p (p\<lparr>proposal_status := st\<rparr>)"
| execute: "check_executable now p = Inr () \<Longrightarrow> proposal_step now p (p\<lparr>proposal_status := Executed\<rparr>)"
| veto: "check_vetoable now p = Inr () \<Longrightarrow> proposal_step now p (p\<lparr>proposal_status := Vetoed\<rparr>)"
| cancel: "check_cancel who p = Inr () \<Longrightarrow> proposal_step now p (p\<lparr>proposal_status := Cancelled\<rparr>)"

lemmas proposal_checks = check_votable_def check_finalizable_def check_executable_def check_vetoable_def check_cancel_def

lemma tally_keeps:
  "tally choice w p = Inr p' \<Longrightarrow> proposal_status p' = proposal_status p \<and> voting_end p' = voting_end p \<and>
     execution_time p' = execution_time p \<and> is_emergency p' = is_emergency p"
  by (cases choice) (auto simp: rust_simps)

lemma tally_monotone:
  "tally choice w p = Inr p' \<Longrightarrow>
     unat (votes_for p') + unat (votes_against p') + unat (votes_abstain p') =
     unat (votes_for p) + unat (votes_against p) + unat (votes_abstain p) + unat w"
  by (cases choice) (auto simp: rust_simps)

lemma count_votes_status: "count_votes supply p = Inr st \<Longrightarrow> st = Passed \<or> st = Defeated"
  by (auto simp: count_votes_def rust_simps split: if_splits)

text \<open>\<open>Defeated\<close>, \<open>Vetoed\<close>, \<open>Executed\<close> and \<open>Cancelled\<close> are final.\<close>

lemma proposal_step_final:
  "proposal_step now p p' \<Longrightarrow> proposal_status p = Voting \<or> proposal_status p = Passed"
  by (induction rule: proposal_step.induct) (auto simp: proposal_checks split: if_splits)

text \<open>The decision and the end of the voting period never overlap with a later vote, except at its last second.\<close>

lemma vote_and_count_overlap:
  "check_votable now p = Inr () \<Longrightarrow> check_finalizable now p = Inr () \<Longrightarrow> sint now = sint (voting_end p)"
  by (auto simp: proposal_checks split: if_splits)

text \<open>
  The time lock and the veto window both run for 48 hours from the end of voting, however late the votes are
  counted: a passed proposal can be vetoed up to its execution time and executed from then on, so that one that is
  counted after that time can be executed at once and never be vetoed.
\<close>

lemma veto_or_execute:
  assumes "voting_times b t = Inr (voting_end p, execution_time p)" and "proposal_status p = Passed"
  shows "check_vetoable now p = Inr () \<longleftrightarrow> sint now \<le> sint (execution_time p)"
    and "check_executable now p = Inr () \<longleftrightarrow> sint (execution_time p) \<le> sint now"
proof -
  have "i64_checked_add (voting_end p) VETO_WINDOW_SECS = Some (execution_time p)"
    using assms(1) by (auto simp: voting_times_def Let_def rust_simps EXECUTION_DELAY_SECS_def VETO_WINDOW_SECS_def)
  then show "check_vetoable now p = Inr () \<longleftrightarrow> sint now \<le> sint (execution_time p)"
    using assms(2) by (auto simp: check_vetoable_def ok_or_def)
  show "check_executable now p = Inr () \<longleftrightarrow> sint (execution_time p) \<le> sint now"
    using assms(2) by (auto simp: check_executable_def)
qed

text \<open>The two thresholds and the sum of the votes over the natural numbers.\<close>

lemma bps_of:
  fixes a b :: u64
  shows "Option.bind (checked_mul a b) (\<lambda>n. checked_div n 10000) =
      (if unat a * unat b < 2 ^ 64 then Some (a * b div 10000) else None)"
    and "unat a * unat b < 2 ^ 64 \<Longrightarrow> unat (a * b div 10000) = unat a * unat b div 10000"
proof -
  show "Option.bind (checked_mul a b) (\<lambda>n. checked_div n 10000) =
      (if unat a * unat b < 2 ^ 64 then Some (a * b div 10000) else None)"
    by (simp add: checked_mul_def checked_div_def)
  assume "unat a * unat b < 2 ^ 64"
  then have "unat (a * b) = unat a * unat b" by (simp add: unat_word_ariths)
  then show "unat (a * b div 10000) = unat a * unat b div 10000" by (simp add: unat_div)
qed

lemma three_votes:
  fixes a b d :: u64
  shows "Option.bind (checked_add a b) (\<lambda>n. checked_add n d) =
      (if unat a + unat b + unat d < 2 ^ 64 then Some (a + b + d) else None)"
    and "unat a + unat b + unat d < 2 ^ 64 \<Longrightarrow> unat (a + b + d) = unat a + unat b + unat d"
  by (auto simp: checked_add_def unat_word_ariths)

lemma div_le_iff_less: "0 < k \<Longrightarrow> m div k \<le> n \<longleftrightarrow> m < k * (n + 1)" for m n k :: nat
  using div_less_iff_less_mult [of k m "Suc n"] by (simp add: less_Suc_eq_le mult.commute)

text \<open>An emergency proposal on which everybody abstained passes: zero votes are two thirds of zero.\<close>

lemma abstentions_pass_emergency:
  assumes "is_emergency p" and "votes_for p = 0" and "votes_against p = 0"
    and "unat s * 1000 < 2 ^ 64" and "unat s \<le> 10 * unat (votes_abstain p)"
  shows "count_votes s p = Inr Passed"
proof -
  have "unat (s * 1000 div 10000) \<le> unat (votes_abstain p)"
    using bps_of(2) [of s 1000] assms(4,5) by (simp add: div_le_iff_less)
  then show ?thesis
    using assms bps_of(1) [of s 1000] three_votes(1) [of 0 0 "votes_abstain p"] unsigned_less [of "votes_abstain p"]
    by (simp add: count_votes_def QUORUM_BPS_def EMERGENCY_SUPERMAJORITY_BPS_def bps_of(1) checked_add_def
        ok_or_def word_less_nat_alt)
qed

section \<open>Properties\<close>

text \<open>
  The rule of the count over the natural numbers, without division: the quorum is a tenth of the supply, an
  emergency needs 66.67\% of the decisive votes, and both thresholds are rounded down.
\<close>

definition quorum_met :: "nat \<Rightarrow> nat \<Rightarrow> bool" where
  "quorum_met supply votes \<longleftrightarrow> supply < 10 * (votes + 1)"

definition proposal_wins :: "bool \<Rightarrow> nat \<Rightarrow> nat \<Rightarrow> bool" where
  "proposal_wins emergency yes no \<longleftrightarrow> (if emergency then 6667 * (yes + no) < 10000 * (yes + 1) else no < yes)"

text \<open>
  C40. The count is the rule over the natural numbers, for every tally and supply. It fails with \<open>Overflow\<close> exactly
  when the votes add up to more than 64 bits, the supply times 1000 takes more than 64 bits (18.4 million
  tokens of nine decimals), or the decisive votes of an emergency that meets the quorum do so when multiplied by 6667. In
  all other cases the proposal passes if the quorum is met and it wins by the rule, and is defeated otherwise.
\<close>

theorem count_votes_is_the_rule:
  "count_votes s p =
    (let yes = unat (votes_for p); no = unat (votes_against p); votes = yes + no + unat (votes_abstain p);
         quorum = quorum_met (unat s) votes
     in if 2 ^ 64 \<le> votes \<or> 2 ^ 64 \<le> 1000 * unat s \<or> quorum \<and> is_emergency p \<and> 2 ^ 64 \<le> 6667 * (yes + no)
        then Inl (governance_err GovOverflow)
        else Inr (if quorum \<and> proposal_wins (is_emergency p) yes no then Passed else Defeated))"
proof (cases "unat (votes_for p) + unat (votes_against p) + unat (votes_abstain p) < 2 ^ 64 \<and> unat s * 1000 < 2 ^ 64")
  case True
  let ?f = "votes_for p" and ?a = "votes_against p"
  have q: "s * 1000 div 10000 \<le> ?f + ?a + votes_abstain p \<longleftrightarrow>
      quorum_met (unat s) (unat ?f + unat ?a + unat (votes_abstain p))"
    using True bps_of(2) [of s 1000] three_votes(2) [of ?f ?a "votes_abstain p"]
    by (simp add: word_le_nat_alt quorum_met_def div_le_iff_less)
  have d: "checked_add ?f ?a = Some (?f + ?a)" "unat (?f + ?a) = unat ?f + unat ?a"
    using True by (simp_all add: checked_add_def unat_word_ariths)
  have w: "unat (?f + ?a) * 6667 < 2 ^ 64 \<Longrightarrow>
      ((?f + ?a) * 6667 div 10000 \<le> ?f) = proposal_wins True (unat ?f) (unat ?a)"
    using bps_of(2) [of "?f + ?a" 6667] d(2) by (simp add: word_le_nat_alt proposal_wins_def div_le_iff_less mult.commute)
  have bps: "ucast QUORUM_BPS = (1000 :: u64)" "ucast EMERGENCY_SUPERMAJORITY_BPS = (6667 :: u64)"
    by (simp_all add: QUORUM_BPS_def EMERGENCY_SUPERMAJORITY_BPS_def)
  have v: "checked_add (?f + ?a) (votes_abstain p) = Some (?f + ?a + votes_abstain p)"
    using True three_votes(1) [of ?f ?a "votes_abstain p"] d(1) by simp
  have t: "Option.bind (checked_mul s 1000) (\<lambda>n. checked_div n 10000) = Some (s * 1000 div 10000)"
    using True by (simp add: bps_of(1))
  have c: "count_votes s p =
     (if \<not> quorum_met (unat s) (unat ?f + unat ?a + unat (votes_abstain p)) then Inr Defeated
      else if \<not> is_emergency p then Inr (if ?a < ?f then Passed else Defeated)
      else if unat (?f + ?a) * 6667 < 2 ^ 64
      then Inr (if proposal_wins True (unat ?f) (unat ?a) then Passed else Defeated) else Inl (governance_err GovOverflow))"
    unfolding count_votes_def bps t d(1) using w
    by (simp add: v bps_of(1) ok_or_def not_le del: governance_err.simps flip: q)
  show ?thesis
    unfolding c Let_def using True by (simp add: d(2) proposal_wins_def word_less_nat_alt mult.commute not_less)
next
  case False
  then show ?thesis
    by (auto simp: count_votes_def three_votes(1) bps_of(1) QUORUM_BPS_def ok_or_def Let_def not_less mult.commute)
qed

end
