(* ===== verification/NameService.thy ===== *)
theory NameService
  imports Cpi
begin

text \<open>
  The name service (\<open>programs/name-service/src/lib.rs\<close>): names under \<open>.prism\<close> with an owner, an expiry and a list of
  records, subdomains, and reverse lookups. A name hash is the list of bytes that the hash function gives. The
  source leaves the collection of fees to a later version.
\<close>

section \<open>Data\<close>

definition NAME_SEED :: bytes where "NAME_SEED = ascii ''name''"
definition REVERSE_SEED :: bytes where "REVERSE_SEED = ascii ''reverse''"
definition SUBDOMAIN_SEED :: bytes where "SUBDOMAIN_SEED = ascii ''subdomain''"
definition REGISTRY_SEED :: bytes where "REGISTRY_SEED = ascii ''ns_registry''"
definition MAX_NAME_LEN :: nat where "MAX_NAME_LEN = 64"
definition MIN_NAME_LEN :: nat where "MIN_NAME_LEN = 1"
definition MAX_SUBDOMAIN_LEN :: nat where "MAX_SUBDOMAIN_LEN = 32"
definition MAX_RECORDS :: nat where "MAX_RECORDS = 16"
definition MAX_RECORD_VALUE_LEN :: nat where "MAX_RECORD_VALUE_LEN = 256"
definition REGISTRATION_PERIOD_SECS :: i64 where "REGISTRATION_PERIOD_SECS = 365 * 24 * 60 * 60"
definition GRACE_PERIOD_SECS :: i64 where "GRACE_PERIOD_SECS = 30 * 24 * 60 * 60"
definition BASE_FEE_LAMPORTS :: u64 where "BASE_FEE_LAMPORTS = 100000000"
definition SHORT_NAME_MULTIPLIER :: u64 where "SHORT_NAME_MULTIPLIER = 10"
definition ULTRA_SHORT_NAME_MULTIPLIER :: u64 where "ULTRA_SHORT_NAME_MULTIPLIER = 100"

datatype name_service_error =
    NameAlreadyRegistered | NameExpired | NameNotExpired | NotOwner | NameTooLong | NameTooShort | InvalidNameChars
  | InvalidHyphenPlacement | TooManyRecords | RecordValueTooLong | SubdomainTooLong | InvalidParentName
  | InsufficientFee | NsAlreadyInitialized | InvalidAuthority | NsOverflow | NsInvalidAccountData | RecordNotFound
  | ReverseRecordExists | NameNotFound

fun name_service_err :: "name_service_error \<Rightarrow> instruction_error" where
  "name_service_err NameAlreadyRegistered = Custom 0"
| "name_service_err NameExpired = Custom 1"
| "name_service_err NameNotExpired = Custom 2"
| "name_service_err NotOwner = Custom 3"
| "name_service_err NameTooLong = Custom 4"
| "name_service_err NameTooShort = Custom 5"
| "name_service_err InvalidNameChars = Custom 6"
| "name_service_err InvalidHyphenPlacement = Custom 7"
| "name_service_err TooManyRecords = Custom 8"
| "name_service_err RecordValueTooLong = Custom 9"
| "name_service_err SubdomainTooLong = Custom 10"
| "name_service_err InvalidParentName = Custom 11"
| "name_service_err InsufficientFee = Custom 12"
| "name_service_err NsAlreadyInitialized = Custom 13"
| "name_service_err InvalidAuthority = Custom 14"
| "name_service_err NsOverflow = Custom 15"
| "name_service_err NsInvalidAccountData = Custom 16"
| "name_service_err RecordNotFound = Custom 17"
| "name_service_err ReverseRecordExists = Custom 18"
| "name_service_err NameNotFound = Custom 19"

datatype record_key =
    Wallet | Ipfs | Arweave | Twitter | Discord | Telegram | Github | Email | Url | Avatar | Btc | Eth
  | CustomKey bytes

record name_record =
  record_key :: record_key
  record_value :: bytes

record name_registry =
  registry_is_initialized :: bool
  registry_authority :: pubkey
  registry_treasury :: pubkey
  total_names :: u64
  registry_bump :: u8

record name_entry =
  name_is_initialized :: bool
  name_label :: bytes
  name_hash :: bytes
  name_owner :: pubkey
  expires_at :: i64
  registered_at :: i64
  records :: "name_record list"
  has_reverse :: bool
  name_bump :: u8

record subdomain =
  sub_is_initialized :: bool
  sub_label :: bytes
  parent_name_hash :: bytes
  sub_owner :: pubkey
  sub_records :: "name_record list"
  sub_bump :: u8

record reverse_lookup =
  reverse_is_initialized :: bool
  reverse_address :: pubkey
  reverse_name_hash :: bytes
  reverse_bump :: u8

datatype name_service_instruction =
    InitializeRegistry
  | RegisterName bytes
  | RenewName
  | TransferName pubkey
  | SetRecord record_key bytes
  | DeleteRecord record_key
  | CreateSubdomain bytes pubkey
  | DeleteSubdomain
  | SetReverseLookup
  | RemoveReverseLookup
  | ClaimExpiredName

record name_service_codecs =
  registry_codec :: "name_registry borsh"
  name_codec :: "name_entry borsh"
  subdomain_codec :: "subdomain borsh"
  reverse_codec :: "reverse_lookup borsh"
  name_service_instruction_codec :: "name_service_instruction borsh"

abbreviation ovf :: "'a option \<Rightarrow> 'a res" where
  "ovf m \<equiv> ok_or m (name_service_err NsOverflow)"

abbreviation load_ns :: "'a borsh \<Rightarrow> pubkey \<Rightarrow> vm \<Rightarrow> 'a res" where
  "load_ns \<equiv> load_or (name_service_err NsInvalidAccountData)"

section \<open>Names\<close>

definition compute_name_hash :: "env \<Rightarrow> bytes \<Rightarrow> bytes" where
  "compute_name_hash e n = sha256 e n"

definition name_char :: "u8 \<Rightarrow> bool" where
  "name_char b \<longleftrightarrow> 97 \<le> b \<and> b \<le> 122 \<or> 48 \<le> b \<and> b \<le> 57 \<or> b = 45"

definition validate_name :: "bytes \<Rightarrow> unit res" where
  "validate_name n =
     (if MAX_NAME_LEN < length n then Inl (name_service_err NameTooLong)
      else if length n < MIN_NAME_LEN then Inl (name_service_err NameTooShort)
      else if \<not> list_all name_char n then Inl (name_service_err InvalidNameChars)
      else if n ! 0 = 45 \<or> n ! (length n - 1) = 45 then Inl (name_service_err InvalidHyphenPlacement)
      else Inr ())"

definition calculate_fee :: "nat \<Rightarrow> u64" where
  "calculate_fee name_len =
     (if name_len \<le> 2 then BASE_FEE_LAMPORTS * ULTRA_SHORT_NAME_MULTIPLIER
      else if name_len \<le> 4 then BASE_FEE_LAMPORTS * SHORT_NAME_MULTIPLIER
      else BASE_FEE_LAMPORTS)"

definition check_available :: "i64 \<Rightarrow> name_entry option \<Rightarrow> unit res" where
  "check_available now existing =
     (case existing of
        Some n \<Rightarrow>
          if name_is_initialized n
          then
            rbind (ovf (i64_checked_add (expires_at n) GRACE_PERIOD_SECS)) (\<lambda>grace_deadline.
            if sint now < sint grace_deadline then Inl (name_service_err NameAlreadyRegistered) else Inr ())
          else Inr ()
      | None \<Rightarrow> Inr ())"

definition new_name :: "bytes \<Rightarrow> bytes \<Rightarrow> pubkey \<Rightarrow> i64 \<Rightarrow> i64 \<Rightarrow> u8 \<Rightarrow> name_entry" where
  "new_name n h own expiry now b =
     \<lparr>name_is_initialized = True, name_label = n, name_hash = h, name_owner = own, expires_at = expiry,
      registered_at = now, records = [], has_reverse = False, name_bump = b\<rparr>"

definition renew :: "i64 \<Rightarrow> name_entry \<Rightarrow> name_entry res" where
  "renew now n =
     rbind (ovf (i64_checked_add (expires_at n) GRACE_PERIOD_SECS)) (\<lambda>grace_deadline.
     if sint grace_deadline < sint now then Inl (name_service_err NameExpired)
     else
     let base_time = if sint (expires_at n) < sint now then now else expires_at n in
     rbind (ovf (i64_checked_add base_time REGISTRATION_PERIOD_SECS)) (\<lambda>expiry.
     Inr (n\<lparr>expires_at := expiry\<rparr>)))"

definition claim_expired :: "i64 \<Rightarrow> pubkey \<Rightarrow> name_entry \<Rightarrow> name_entry res" where
  "claim_expired now claimant n =
     (if \<not> name_is_initialized n then Inl (name_service_err NameNotFound)
      else
      rbind (ovf (i64_checked_add (expires_at n) GRACE_PERIOD_SECS)) (\<lambda>grace_deadline.
      if sint now < sint grace_deadline then Inl (name_service_err NameNotExpired)
      else
      rbind (ovf (i64_checked_add now REGISTRATION_PERIOD_SECS)) (\<lambda>expiry.
      Inr (n\<lparr>name_owner := claimant, expires_at := expiry, registered_at := now, records := [], has_reverse := False\<rparr>))))"

text \<open>The first record with the key is overwritten, or a new one is appended.\<close>

fun overwrite_record :: "record_key \<Rightarrow> bytes \<Rightarrow> name_record list \<Rightarrow> name_record list option" where
  "overwrite_record k x [] = None"
| "overwrite_record k x (r # rs) =
     (if record_key r = k then Some (r\<lparr>record_value := x\<rparr> # rs) else map_option (Cons r) (overwrite_record k x rs))"

definition set_record :: "record_key \<Rightarrow> bytes \<Rightarrow> name_record list \<Rightarrow> name_record list res" where
  "set_record k x rs =
     (case overwrite_record k x rs of
        Some rs' \<Rightarrow> Inr rs'
      | None \<Rightarrow>
          if MAX_RECORDS \<le> length rs then Inl (name_service_err TooManyRecords)
          else Inr (rs @ [\<lparr>record_key = k, record_value = x\<rparr>]))"

fun delete_record :: "record_key \<Rightarrow> name_record list \<Rightarrow> name_record list res" where
  "delete_record k [] = Inl (name_service_err RecordNotFound)"
| "delete_record k (r # rs) =
     (if record_key r = k then Inr rs else rbind (delete_record k rs) (\<lambda>rs'. Inr (r # rs')))"

section \<open>Handlers\<close>

definition process_initialize_registry ::
  "env \<Rightarrow> name_service_codecs \<Rightarrow> pubkey \<Rightarrow> instruction_account list \<Rightarrow> vm \<Rightarrow> vm res" where
  "process_initialize_registry e c program_id ias v =
     rbind (next_account_info ias) (\<lambda>(registry_info, it).
     rbind (next_account_info it) (\<lambda>(authority_info, it).
     rbind (next_account_info it) (\<lambda>(treasury_info, it).
     rbind (next_account_info it) (\<lambda>(system_program, it).
     rbind (next_account_info it) (\<lambda>(rent_sysvar, it).
     if \<not> is_signer authority_info then Inl MissingRequiredSignature
     else
     let (expected_pda, b) = find_program_address e [REGISTRY_SEED] program_id in
     if key registry_info \<noteq> expected_pda then Inl InvalidSeeds
     else
     let d = data (mem v (key registry_info)) in
     if 0 < length d \<and> (case try_from_slice (registry_codec c) d of Some r \<Rightarrow> registry_is_initialized r | None \<Rightarrow> False)
     then Inl (name_service_err NsAlreadyInitialized)
     else copy_account (registry_codec c)
       \<lparr>registry_is_initialized = True, registry_authority = key authority_info, registry_treasury = key treasury_info,
        total_names = 0, registry_bump = b\<rparr> (key registry_info) v)))))"

definition process_register_name ::
  "env \<Rightarrow> name_service_codecs \<Rightarrow> pubkey \<Rightarrow> bytes \<Rightarrow> instruction_account list \<Rightarrow> vm \<Rightarrow> vm res" where
  "process_register_name e c program_id n ias v =
     rbind (next_account_info ias) (\<lambda>(registry_info, it).
     rbind (next_account_info it) (\<lambda>(name_info, it).
     rbind (next_account_info it) (\<lambda>(registrant_info, it).
     rbind (next_account_info it) (\<lambda>(treasury_info, it).
     rbind (next_account_info it) (\<lambda>(clock_sysvar, it).
     rbind (next_account_info it) (\<lambda>(system_program, it).
     rbind (next_account_info it) (\<lambda>(rent_sysvar, it).
     if \<not> is_signer registrant_info then Inl MissingRequiredSignature
     else
     rbind (validate_name n) (\<lambda>_.
     let h = compute_name_hash e n in
     rbind (clock_from_account_info e (key clock_sysvar) (mem v (key clock_sysvar))) (\<lambda>clk.
     let now = unix_timestamp clk; (expected_pda, b) = find_program_address e [NAME_SEED, h] program_id in
     if key name_info \<noteq> expected_pda then Inl InvalidSeeds
     else
     let d = data (mem v (key name_info)) in
     rbind (check_available now (if 0 < length d then try_from_slice (name_codec c) d else None)) (\<lambda>_.
     let fee = calculate_fee (length n) in
     rbind (ovf (i64_checked_add now REGISTRATION_PERIOD_SECS)) (\<lambda>expiry.
     rbind (load_ns (registry_codec c) (key registry_info) v) (\<lambda>registry.
     rbind (ovf (checked_add (total_names registry) 1)) (\<lambda>m.
     rbind (copy_account (registry_codec c) (registry\<lparr>total_names := m\<rparr>) (key registry_info) v) (\<lambda>v.
     copy_account (name_codec c) (new_name n h (key registrant_info) expiry now b) (key name_info) v))))))))))))))"

definition process_renew_name :: "env \<Rightarrow> name_service_codecs \<Rightarrow> instruction_account list \<Rightarrow> vm \<Rightarrow> vm res" where
  "process_renew_name e c ias v =
     rbind (next_account_info ias) (\<lambda>(name_info, it).
     rbind (next_account_info it) (\<lambda>(owner_info, it).
     rbind (next_account_info it) (\<lambda>(treasury_info, it).
     rbind (next_account_info it) (\<lambda>(clock_sysvar, it).
     if \<not> is_signer owner_info then Inl MissingRequiredSignature
     else
     rbind (load_ns (name_codec c) (key name_info) v) (\<lambda>n.
     if \<not> name_is_initialized n then Inl (name_service_err NameNotFound)
     else if name_owner n \<noteq> key owner_info then Inl (name_service_err NotOwner)
     else
     rbind (clock_from_account_info e (key clock_sysvar) (mem v (key clock_sysvar))) (\<lambda>clk.
     rbind (renew (unix_timestamp clk) n) (\<lambda>n.
     copy_account (name_codec c) n (key name_info) v)))))))"

definition process_transfer_name :: "name_service_codecs \<Rightarrow> pubkey \<Rightarrow> instruction_account list \<Rightarrow> vm \<Rightarrow> vm res" where
  "process_transfer_name c new_owner ias v =
     rbind (next_account_info ias) (\<lambda>(name_info, it).
     rbind (next_account_info it) (\<lambda>(owner_info, it).
     rbind (next_account_info it) (\<lambda>(new_owner_info, it).
     if \<not> is_signer owner_info then Inl MissingRequiredSignature
     else
     rbind (load_ns (name_codec c) (key name_info) v) (\<lambda>n.
     if name_owner n \<noteq> key owner_info then Inl (name_service_err NotOwner)
     else copy_account (name_codec c) (n\<lparr>name_owner := new_owner, has_reverse := False\<rparr>) (key name_info) v))))"

definition process_set_record ::
  "env \<Rightarrow> name_service_codecs \<Rightarrow> record_key \<Rightarrow> bytes \<Rightarrow> instruction_account list \<Rightarrow> vm \<Rightarrow> vm res" where
  "process_set_record e c k x ias v =
     rbind (next_account_info ias) (\<lambda>(name_info, it).
     rbind (next_account_info it) (\<lambda>(owner_info, it).
     rbind (next_account_info it) (\<lambda>(clock_sysvar, it).
     if \<not> is_signer owner_info then Inl MissingRequiredSignature
     else if MAX_RECORD_VALUE_LEN < length x then Inl (name_service_err RecordValueTooLong)
     else
     rbind (clock_from_account_info e (key clock_sysvar) (mem v (key clock_sysvar))) (\<lambda>clk.
     rbind (load_ns (name_codec c) (key name_info) v) (\<lambda>n.
     if name_owner n \<noteq> key owner_info then Inl (name_service_err NotOwner)
     else if sint (expires_at n) < sint (unix_timestamp clk) then Inl (name_service_err NameExpired)
     else
     rbind (set_record k x (records n)) (\<lambda>rs.
     copy_account (name_codec c) (n\<lparr>records := rs\<rparr>) (key name_info) v))))))"

definition process_delete_record :: "name_service_codecs \<Rightarrow> record_key \<Rightarrow> instruction_account list \<Rightarrow> vm \<Rightarrow> vm res" where
  "process_delete_record c k ias v =
     rbind (next_account_info ias) (\<lambda>(name_info, it).
     rbind (next_account_info it) (\<lambda>(owner_info, it).
     if \<not> is_signer owner_info then Inl MissingRequiredSignature
     else
     rbind (load_ns (name_codec c) (key name_info) v) (\<lambda>n.
     if name_owner n \<noteq> key owner_info then Inl (name_service_err NotOwner)
     else
     rbind (delete_record k (records n)) (\<lambda>rs.
     copy_account (name_codec c) (n\<lparr>records := rs\<rparr>) (key name_info) v))))"

definition process_create_subdomain ::
  "env \<Rightarrow> name_service_codecs \<Rightarrow> pubkey \<Rightarrow> bytes \<Rightarrow> pubkey \<Rightarrow> instruction_account list \<Rightarrow> vm \<Rightarrow> vm res" where
  "process_create_subdomain e c program_id label own ias v =
     rbind (next_account_info ias) (\<lambda>(parent_info, it).
     rbind (next_account_info it) (\<lambda>(subdomain_info, it).
     rbind (next_account_info it) (\<lambda>(owner_info, it).
     rbind (next_account_info it) (\<lambda>(clock_sysvar, it).
     rbind (next_account_info it) (\<lambda>(system_program, it).
     rbind (next_account_info it) (\<lambda>(rent_sysvar, it).
     if \<not> is_signer owner_info then Inl MissingRequiredSignature
     else if MAX_SUBDOMAIN_LEN < length label then Inl (name_service_err SubdomainTooLong)
     else if \<not> list_all name_char label then Inl (name_service_err InvalidNameChars)
     else
     rbind (load_ns (name_codec c) (key parent_info) v) (\<lambda>parent.
     if \<not> name_is_initialized parent then Inl (name_service_err InvalidParentName)
     else if name_owner parent \<noteq> key owner_info then Inl (name_service_err NotOwner)
     else
     rbind (clock_from_account_info e (key clock_sysvar) (mem v (key clock_sysvar))) (\<lambda>clk.
     if sint (expires_at parent) < sint (unix_timestamp clk) then Inl (name_service_err InvalidParentName)
     else
     let (expected_pda, b) = find_program_address e [SUBDOMAIN_SEED, label, name_hash parent] program_id in
     if key subdomain_info \<noteq> expected_pda then Inl InvalidSeeds
     else copy_account (subdomain_codec c)
       \<lparr>sub_is_initialized = True, sub_label = label, parent_name_hash = name_hash parent, sub_owner = own,
        sub_records = [], sub_bump = b\<rparr> (key subdomain_info) v))))))))"

definition process_delete_subdomain :: "name_service_codecs \<Rightarrow> instruction_account list \<Rightarrow> vm \<Rightarrow> vm res" where
  "process_delete_subdomain c ias v =
     rbind (next_account_info ias) (\<lambda>(parent_info, it).
     rbind (next_account_info it) (\<lambda>(subdomain_info, it).
     rbind (next_account_info it) (\<lambda>(owner_info, it).
     if \<not> is_signer owner_info then Inl MissingRequiredSignature
     else
     rbind (load_ns (name_codec c) (key parent_info) v) (\<lambda>parent.
     rbind
       (if name_owner parent \<noteq> key owner_info
        then
          rbind (load_ns (subdomain_codec c) (key subdomain_info) v) (\<lambda>s.
          if sub_owner s \<noteq> key owner_info then Inl (name_service_err NotOwner) else Inr ())
        else Inr ()) (\<lambda>_.
     rbind (load_ns (subdomain_codec c) (key subdomain_info) v) (\<lambda>s.
     copy_account (subdomain_codec c) (s\<lparr>sub_is_initialized := False, sub_records := []\<rparr>) (key subdomain_info) v))))))"

definition process_set_reverse_lookup ::
  "env \<Rightarrow> name_service_codecs \<Rightarrow> pubkey \<Rightarrow> instruction_account list \<Rightarrow> vm \<Rightarrow> vm res" where
  "process_set_reverse_lookup e c program_id ias v =
     rbind (next_account_info ias) (\<lambda>(name_info, it).
     rbind (next_account_info it) (\<lambda>(reverse_info, it).
     rbind (next_account_info it) (\<lambda>(owner_info, it).
     rbind (next_account_info it) (\<lambda>(system_program, it).
     rbind (next_account_info it) (\<lambda>(rent_sysvar, it).
     if \<not> is_signer owner_info then Inl MissingRequiredSignature
     else
     rbind (load_ns (name_codec c) (key name_info) v) (\<lambda>n.
     if name_owner n \<noteq> key owner_info then Inl (name_service_err NotOwner)
     else
     let (expected_pda, b) = find_program_address e [REVERSE_SEED, to_le_bytes (key owner_info)] program_id in
     if key reverse_info \<noteq> expected_pda then Inl InvalidSeeds
     else
     rbind (copy_account (reverse_codec c)
       \<lparr>reverse_is_initialized = True, reverse_address = key owner_info, reverse_name_hash = name_hash n,
        reverse_bump = b\<rparr> (key reverse_info) v) (\<lambda>v.
     copy_account (name_codec c) (n\<lparr>has_reverse := True\<rparr>) (key name_info) v)))))))"

definition process_remove_reverse_lookup :: "name_service_codecs \<Rightarrow> instruction_account list \<Rightarrow> vm \<Rightarrow> vm res" where
  "process_remove_reverse_lookup c ias v =
     rbind (next_account_info ias) (\<lambda>(reverse_info, it).
     rbind (next_account_info it) (\<lambda>(owner_info, it).
     if \<not> is_signer owner_info then Inl MissingRequiredSignature
     else
     rbind (load_ns (reverse_codec c) (key reverse_info) v) (\<lambda>r.
     if reverse_address r \<noteq> key owner_info then Inl (name_service_err NotOwner)
     else copy_account (reverse_codec c) (r\<lparr>reverse_is_initialized := False\<rparr>) (key reverse_info) v)))"

definition process_claim_expired_name :: "env \<Rightarrow> name_service_codecs \<Rightarrow> instruction_account list \<Rightarrow> vm \<Rightarrow> vm res" where
  "process_claim_expired_name e c ias v =
     rbind (next_account_info ias) (\<lambda>(name_info, it).
     rbind (next_account_info it) (\<lambda>(registry_info, it).
     rbind (next_account_info it) (\<lambda>(claimant_info, it).
     rbind (next_account_info it) (\<lambda>(treasury_info, it).
     rbind (next_account_info it) (\<lambda>(clock_sysvar, it).
     if \<not> is_signer claimant_info then Inl MissingRequiredSignature
     else
     rbind (clock_from_account_info e (key clock_sysvar) (mem v (key clock_sysvar))) (\<lambda>clk.
     rbind (load_ns (name_codec c) (key name_info) v) (\<lambda>n.
     rbind (claim_expired (unix_timestamp clk) (key claimant_info) n) (\<lambda>n.
     copy_account (name_codec c) n (key name_info) v))))))))"

fun name_service_dispatch ::
  "env \<Rightarrow> name_service_codecs \<Rightarrow> pubkey \<Rightarrow> name_service_instruction \<Rightarrow> instruction_account list \<Rightarrow> vm \<Rightarrow> vm res" where
  "name_service_dispatch e c pid InitializeRegistry = process_initialize_registry e c pid"
| "name_service_dispatch e c pid (RegisterName n) = process_register_name e c pid n"
| "name_service_dispatch e c pid RenewName = process_renew_name e c"
| "name_service_dispatch e c pid (TransferName own) = process_transfer_name c own"
| "name_service_dispatch e c pid (SetRecord k x) = process_set_record e c k x"
| "name_service_dispatch e c pid (DeleteRecord k) = process_delete_record c k"
| "name_service_dispatch e c pid (CreateSubdomain label own) = process_create_subdomain e c pid label own"
| "name_service_dispatch e c pid DeleteSubdomain = process_delete_subdomain c"
| "name_service_dispatch e c pid SetReverseLookup = process_set_reverse_lookup e c pid"
| "name_service_dispatch e c pid RemoveReverseLookup = process_remove_reverse_lookup c"
| "name_service_dispatch e c pid ClaimExpiredName = process_claim_expired_name e c"

definition name_service_process_instruction ::
  "env \<Rightarrow> name_service_codecs \<Rightarrow> pubkey \<Rightarrow> bytes \<Rightarrow> instruction_account list \<Rightarrow> vm \<Rightarrow> vm res" where
  "name_service_process_instruction e c program_id d ias v =
     (case try_from_slice (name_service_instruction_codec c) d of
        None \<Rightarrow> Inl InvalidInstructionData
      | Some ix \<Rightarrow> name_service_dispatch e c program_id ix ias v)"

section \<open>Balances\<close>

lemmas name_service_handlers = process_initialize_registry_def process_register_name_def process_renew_name_def
  process_transfer_name_def process_set_record_def process_delete_record_def process_create_subdomain_def
  process_delete_subdomain_def process_set_reverse_lookup_def process_remove_reverse_lookup_def
  process_claim_expired_name_def

lemma name_service_keeps: "keeps v (name_service_process_instruction e c pid d ias v)"
proof -
  have "keeps v (name_service_dispatch e c pid ix ias v)" for ix
    by (cases ix) (simp_all only: name_service_dispatch.simps name_service_handlers, (intro keeps_intros)+)
  then show ?thesis by (simp add: name_service_process_instruction_def keeps_Inl split: option.split)
qed

sublocale chain \<subseteq> name_service: onchain_program "name_service_process_instruction e c pid d" for c pid d
  by unfold_locales (metis keepsD name_service_keeps)

section \<open>Names and records\<close>

lemma validate_name_iff:
  "validate_name n = Inr () \<longleftrightarrow>
     1 \<le> length n \<and> length n \<le> 64 \<and> (\<forall>b \<in> set n. name_char b) \<and> hd n \<noteq> 45 \<and> last n \<noteq> 45"
  by (auto simp: validate_name_def MAX_NAME_LEN_def MIN_NAME_LEN_def list_all_iff hd_conv_nth last_conv_nth Suc_le_eq)

text \<open>The records as a map: a record that was set is found, the others stay, and no key occurs twice.\<close>

definition lookup_record :: "record_key \<Rightarrow> name_record list \<Rightarrow> bytes option" where
  "lookup_record k rs = map_option record_value (find (\<lambda>r. record_key r = k) rs)"

lemma lookup_record_simps [simp]:
  "lookup_record k [] = None"
  "lookup_record k (r # rs) = (if record_key r = k then Some (record_value r) else lookup_record k rs)"
  by (simp_all add: lookup_record_def)

lemma lookup_record_append:
  "lookup_record k (rs @ rs') = (case lookup_record k rs of None \<Rightarrow> lookup_record k rs' | Some x \<Rightarrow> Some x)"
  by (induction rs) auto

lemma overwrite_record_None: "overwrite_record k x rs = None \<longleftrightarrow> k \<notin> record_key ` set rs"
  by (induction rs) auto

lemma overwrite_record_Some:
  "overwrite_record k x rs = Some rs' \<Longrightarrow> map record_key rs' = map record_key rs \<and> k \<in> record_key ` set rs \<and>
     (\<forall>j. lookup_record j rs' = (if j = k then Some x else lookup_record j rs))"
  by (induction rs arbitrary: rs') (auto split: if_splits)

lemma lookup_record_None: "lookup_record k rs = None \<longleftrightarrow> k \<notin> record_key ` set rs"
  by (induction rs) auto

lemma set_record_lookup:
  assumes "set_record k x rs = Inr rs'"
  shows "lookup_record j rs' = (if j = k then Some x else lookup_record j rs)"
proof (cases "overwrite_record k x rs")
  case None
  then have "lookup_record k rs = None" by (simp only: overwrite_record_None lookup_record_None not_False_eq_True)
  then show ?thesis using assms None by (auto simp: set_record_def lookup_record_append split: if_splits option.split)
next
  case (Some rs'')
  then show ?thesis using assms overwrite_record_Some [OF Some] by (simp add: set_record_def)
qed

lemma set_record_distinct:
  assumes "set_record k x rs = Inr rs'" and "distinct (map record_key rs)" and "length rs \<le> 16"
  shows "distinct (map record_key rs') \<and> length rs' \<le> 16"
proof (cases "overwrite_record k x rs")
  case None
  then show ?thesis
    using assms overwrite_record_None [of k x rs] by (auto simp: set_record_def MAX_RECORDS_def split: if_splits)
next
  case (Some rs'')
  then show ?thesis using assms overwrite_record_Some [OF Some] by (auto simp: set_record_def dest: map_eq_imp_length_eq)
qed

lemma delete_record_lookup:
  "delete_record k rs = Inr rs' \<Longrightarrow> distinct (map record_key rs) \<Longrightarrow>
     distinct (map record_key rs') \<and> record_key ` set rs' = record_key ` set rs - {k} \<and>
     lookup_record j rs' = (if j = k then None else lookup_record j rs)"
proof (induction rs arbitrary: rs')
  case (Cons r rs)
  show ?case
  proof (cases "record_key r = k")
    case True
    then have "lookup_record k rs = None" using Cons.prems by (simp add: lookup_record_None)
    then show ?thesis using True Cons.prems by auto
  next
    case False
    then obtain rs'' where rs'': "delete_record k rs = Inr rs''" "rs' = r # rs''"
      using Cons.prems(1) by (auto simp: rbind_eq_Inr)
    then show ?thesis using Cons.IH [OF rs''(1)] Cons.prems(2) False by auto
  qed
qed simp

text \<open>
  The owner can renew up to the end of the grace period and others can claim from then on: the two overlap in
  one second, and at no time is a name out of reach for both.
\<close>

lemma renew_or_claim:
  assumes "name_is_initialized n" and "i64_checked_add (expires_at n) GRACE_PERIOD_SECS = Some t"
    and "i64_fits (sint now + 365 * 24 * 60 * 60)" and "i64_fits (sint (expires_at n) + 365 * 24 * 60 * 60)"
  shows "(\<exists>n'. renew now n = Inr n') \<longleftrightarrow> sint now \<le> sint t"
    and "(\<exists>n'. claim_expired now k n = Inr n') \<longleftrightarrow> sint t \<le> sint now"
proof -
  have year: "sint REGISTRATION_PERIOD_SECS = 31536000" by (simp add: REGISTRATION_PERIOD_SECS_def)
  have ok: "\<exists>s. i64_checked_add x REGISTRATION_PERIOD_SECS = Some s" if "x = now \<or> x = expires_at n" for x
    using that sint_word_of_int_fits [OF assms(3)] sint_word_of_int_fits [OF assms(4)]
    by (auto simp: i64_checked_add_eq_Some year simp del: One_nat_def)
  show "(\<exists>n'. renew now n = Inr n') \<longleftrightarrow> sint now \<le> sint t"
    using assms(2) ok [of now] ok [of "expires_at n"] by (auto simp: renew_def ok_or_def Let_def)
  show "(\<exists>n'. claim_expired now k n = Inr n') \<longleftrightarrow> sint t \<le> sint now"
    using assms(1,2) ok [of now] by (auto simp: claim_expired_def ok_or_def)
qed

text \<open>
  The subdomain is not compared with the parent: the owner of any name deletes the subdomains of every other.
\<close>

lemma any_parent_deletes_subdomain:
  assumes "ias = parent_info # subdomain_info # owner_info # rest" and "is_signer owner_info"
    and "try_from_slice (name_codec c) (data (mem v (key parent_info))) = Some n" and "name_owner n = key owner_info"
    and "try_from_slice (subdomain_codec c) (data (mem v (key subdomain_info))) = Some s"
  shows "process_delete_subdomain c ias v =
    copy_account (subdomain_codec c) (s\<lparr>sub_is_initialized := False, sub_records := []\<rparr>) (key subdomain_info) v"
  using assms by (simp add: process_delete_subdomain_def load_or_def next_account_info_def)

end
