(* ===== verification/BatchTx.thy ===== *)
theory BatchTx
  imports Cpi
begin

text \<open>
  The batch transaction program (\<open>programs/batch-tx/src/lib.rs\<close>): transfers to many recipients at once, and
  scheduled, conditional and recurring transfers out of an escrow account.
\<close>

section \<open>Data\<close>

definition MAX_BATCH_RECIPIENTS :: nat where "MAX_BATCH_RECIPIENTS = 64"
definition MIN_SCHEDULE_DELAY_SLOTS :: u64 where "MIN_SCHEDULE_DELAY_SLOTS = 5"
definition SCHEDULE_SEED :: bytes where "SCHEDULE_SEED = ascii ''scheduled_tx''"
definition RECURRING_SEED :: bytes where "RECURRING_SEED = ascii ''recurring_tx''"
definition ESCROW_SEED :: bytes where "ESCROW_SEED = ascii ''batch_escrow''"

datatype batch_tx_error =
    TooManyRecipients | MismatchedArrays | InvalidAmount | BatchInsufficientFunds | NotYetDue | AlreadyExecuted
  | ConditionNotMet | IntervalNotElapsed | Unauthorized | BatchOverflow | InvalidPDA | NotInitialized
  | MaxTransfersReached | ScheduleTooSoon

fun batch_err :: "batch_tx_error \<Rightarrow> instruction_error" where
  "batch_err TooManyRecipients = Custom 0"
| "batch_err MismatchedArrays = Custom 1"
| "batch_err InvalidAmount = Custom 2"
| "batch_err BatchInsufficientFunds = Custom 3"
| "batch_err NotYetDue = Custom 4"
| "batch_err AlreadyExecuted = Custom 5"
| "batch_err ConditionNotMet = Custom 6"
| "batch_err IntervalNotElapsed = Custom 7"
| "batch_err Unauthorized = Custom 8"
| "batch_err BatchOverflow = Custom 9"
| "batch_err InvalidPDA = Custom 10"
| "batch_err NotInitialized = Custom 11"
| "batch_err MaxTransfersReached = Custom 12"
| "batch_err ScheduleTooSoon = Custom 13"

datatype transfer_status = Pending | Executed | Cancelled

record batch_recipient =
  address :: pubkey
  batch_amount :: u64
  memo :: "512 word"

record scheduled_transfer =
  sched_is_initialized :: bool
  sched_status :: transfer_status
  sched_creator :: pubkey
  sched_recipient :: pubkey
  sched_amount :: u64
  execute_at_slot :: u64
  execute_at_timestamp :: i64
  sched_created_at :: i64
  sched_executed_at :: i64
  sched_bump :: u8
  sched_nonce :: u64

datatype condition_type = BalanceAbove | BalanceBelow

record conditional_transfer =
  cond_is_initialized :: bool
  cond_status :: transfer_status
  cond_creator :: pubkey
  cond_recipient :: pubkey
  cond_amount :: u64
  condition_account :: pubkey
  condition_type :: condition_type
  cond_threshold :: u64
  cond_expires_at :: i64
  cond_created_at :: i64
  cond_bump :: u8

record recurring_transfer =
  rec_is_initialized :: bool
  rec_status :: transfer_status
  rec_creator :: pubkey
  rec_recipient :: pubkey
  rec_amount :: u64
  interval_seconds :: i64
  max_executions :: u64
  executions_completed :: u64
  last_executed_at :: i64
  rec_created_at :: i64
  rec_bump :: u8
  rec_nonce :: u64

datatype batch_tx_instruction =
    BatchTransfer "batch_recipient list"
  | CreateScheduledTransfer pubkey u64 u64 i64 u64
  | ExecuteScheduledTransfer
  | CancelScheduledTransfer
  | CreateConditionalTransfer pubkey u64 pubkey condition_type u64 i64
  | ExecuteConditionalTransfer
  | CreateRecurringTransfer pubkey u64 i64 u64 u64
  | ExecuteRecurringTransfer

record batch_codecs =
  scheduled_codec :: "scheduled_transfer borsh"
  conditional_codec :: "conditional_transfer borsh"
  recurring_codec :: "recurring_transfer borsh"
  batch_instruction_codec :: "batch_tx_instruction borsh"

abbreviation ovf :: "'a option \<Rightarrow> 'a res" where
  "ovf m \<equiv> ok_or m (batch_err BatchOverflow)"

section \<open>Decisions\<close>

text \<open>A slot or a timestamp of zero means that it does not matter.\<close>

definition check_schedule :: "env \<Rightarrow> clock \<Rightarrow> u64 \<Rightarrow> i64 \<Rightarrow> unit res" where
  "check_schedule e clk at_slot at_time =
     rbind (if 0 < at_slot then rbind (op_add e (slot clk) MIN_SCHEDULE_DELAY_SLOTS) (\<lambda>s. Inr (at_slot < s)) else Inr False) (\<lambda>early.
     if early then Inl (batch_err ScheduleTooSoon)
     else if 0 < sint at_time \<and> sint at_time \<le> sint (unix_timestamp clk) then Inl (batch_err ScheduleTooSoon)
     else Inr ())"

definition schedule_due :: "clock \<Rightarrow> scheduled_transfer \<Rightarrow> bool" where
  "schedule_due clk s \<longleftrightarrow>
     (execute_at_slot s = 0 \<or> execute_at_slot s \<le> slot clk) \<and>
     (execute_at_timestamp s = 0 \<or> sint (execute_at_timestamp s) \<le> sint (unix_timestamp clk))"

fun condition_met :: "condition_type \<Rightarrow> u64 \<Rightarrow> u64 \<Rightarrow> bool" where
  "condition_met BalanceAbove threshold balance \<longleftrightarrow> threshold \<le> balance"
| "condition_met BalanceBelow threshold balance \<longleftrightarrow> balance \<le> threshold"

definition total_escrow :: "u64 \<Rightarrow> u64 \<Rightarrow> u64 res" where
  "total_escrow amount executions =
     (if 0 < executions then ovf (checked_mul amount executions) else ovf (checked_mul amount 12))"

definition advance_recurring :: "i64 \<Rightarrow> recurring_transfer \<Rightarrow> recurring_transfer res" where
  "advance_recurring now r =
     rbind (ovf (checked_add (executions_completed r) 1)) (\<lambda>n.
     let r = r\<lparr>executions_completed := n, last_executed_at := now\<rparr> in
     Inr (if 0 < max_executions r \<and> max_executions r \<le> executions_completed r then r\<lparr>rec_status := Executed\<rparr> else r))"

fun batch_total :: "u64 \<Rightarrow> batch_recipient list \<Rightarrow> u64 res" where
  "batch_total acc [] = Inr acc"
| "batch_total acc (r # rs) = rbind (ovf (checked_add acc (batch_amount r))) (\<lambda>acc. batch_total acc rs)"

section \<open>Handlers\<close>

fun pay_recipients ::
  "env \<Rightarrow> pubkey \<Rightarrow> instruction_account list \<Rightarrow> instruction_account \<Rightarrow> instruction_account \<Rightarrow>
     batch_recipient list \<Rightarrow> instruction_account list \<Rightarrow> vm \<Rightarrow> vm res" where
  "pay_recipients e program_id ias sender system_program [] it v = Inr v"
| "pay_recipients e program_id ias sender system_program (r # rs) it v =
     (if batch_amount r = 0 then pay_recipients e program_id ias sender system_program rs it v
      else
      rbind (next_account_info it) (\<lambda>(recipient_account, it).
      if key recipient_account \<noteq> address r then Inl InvalidAccountData
      else
      rbind (invoke e program_id ias (system_transfer (key sender) (address r) (batch_amount r))
               [sender, recipient_account, system_program] v) (\<lambda>v.
      pay_recipients e program_id ias sender system_program rs it v)))"

definition process_batch_transfer ::
  "env \<Rightarrow> pubkey \<Rightarrow> batch_recipient list \<Rightarrow> instruction_account list \<Rightarrow> vm \<Rightarrow> vm res" where
  "process_batch_transfer e program_id recipients ias v =
     (if recipients = [] \<or> MAX_BATCH_RECIPIENTS < length recipients then Inl (batch_err TooManyRecipients)
      else
      rbind (next_account_info ias) (\<lambda>(sender, it).
      rbind (next_account_info it) (\<lambda>(system_program, it).
      if \<not> is_signer sender then Inl MissingRequiredSignature
      else
      rbind (batch_total 0 recipients) (\<lambda>sum.
      if lamports (mem v (key sender)) < sum then Inl (batch_err BatchInsufficientFunds)
      else pay_recipients e program_id ias sender system_program recipients it v))))"

text \<open>The account of a transfer and its escrow are created one after the other.\<close>

definition create_with_escrow ::
  "env \<Rightarrow> pubkey \<Rightarrow> instruction_account list \<Rightarrow> instruction_account \<Rightarrow> instruction_account \<Rightarrow> instruction_account \<Rightarrow>
     instruction_account \<Rightarrow> bytes list \<Rightarrow> nat \<Rightarrow> u64 \<Rightarrow> u8 \<Rightarrow> vm \<Rightarrow> vm res" where
  "create_with_escrow e program_id ias creator transfer_account escrow_account system_program seeds space amount escrow_bump v =
     rbind (rent_get e) (\<lambda>minimum_balance.
     rbind (invoke_signed e program_id ias
              (system_create_account (key creator) (key transfer_account) (minimum_balance space) (word_of_nat space) program_id)
              [creator, transfer_account, system_program] [seeds] v) (\<lambda>v.
     invoke_signed e program_id ias
       (system_create_account (key creator) (key escrow_account) amount 0 program_id)
       [creator, escrow_account, system_program] [[ESCROW_SEED, to_le_bytes (key transfer_account), [escrow_bump]]] v))"

definition process_create_scheduled ::
  "env \<Rightarrow> batch_codecs \<Rightarrow> pubkey \<Rightarrow> pubkey \<Rightarrow> u64 \<Rightarrow> u64 \<Rightarrow> i64 \<Rightarrow> u64 \<Rightarrow> instruction_account list \<Rightarrow> vm \<Rightarrow> vm res" where
  "process_create_scheduled e c program_id recipient amount at_slot at_time nonce ias v =
     rbind (next_account_info ias) (\<lambda>(creator, it).
     rbind (next_account_info it) (\<lambda>(schedule_account, it).
     rbind (next_account_info it) (\<lambda>(escrow_account, it).
     rbind (next_account_info it) (\<lambda>(system_program, it).
     if \<not> is_signer creator then Inl MissingRequiredSignature
     else if amount = 0 then Inl (batch_err InvalidAmount)
     else
     rbind (clock_get e) (\<lambda>clk.
     rbind (check_schedule e clk at_slot at_time) (\<lambda>_.
     let seeds = [SCHEDULE_SEED, to_le_bytes (key creator), to_le_bytes nonce];
         (schedule_pda, schedule_bump) = find_program_address e seeds program_id in
     if schedule_pda \<noteq> key schedule_account then Inl (batch_err InvalidPDA)
     else
     let (escrow_pda, escrow_bump) = find_program_address e [ESCROW_SEED, to_le_bytes (key schedule_account)] program_id in
     if escrow_pda \<noteq> key escrow_account then Inl (batch_err InvalidPDA)
     else
     rbind (create_with_escrow e program_id ias creator schedule_account escrow_account system_program
              (seeds @ [[schedule_bump]]) (1 + 1 + 32 + 32 + 8 + 8 + 8 + 8 + 8 + 1 + 8) amount escrow_bump v) (\<lambda>v.
     store_account (scheduled_codec c)
       \<lparr>sched_is_initialized = True, sched_status = Pending, sched_creator = key creator, sched_recipient = recipient,
        sched_amount = amount, execute_at_slot = at_slot, execute_at_timestamp = at_time,
        sched_created_at = unix_timestamp clk, sched_executed_at = 0, sched_bump = schedule_bump, sched_nonce = nonce\<rparr>
       (key schedule_account) v)))))))"

definition load_scheduled :: "batch_codecs \<Rightarrow> pubkey \<Rightarrow> pubkey \<Rightarrow> vm \<Rightarrow> scheduled_transfer res" where
  "load_scheduled c program_id k v =
     (if owner (mem v k) \<noteq> program_id then Inl IncorrectProgramId
      else
      rbind (load_account (scheduled_codec c) k v) (\<lambda>s.
      if \<not> sched_is_initialized s then Inl (batch_err NotInitialized)
      else if sched_status s \<noteq> Pending then Inl (batch_err AlreadyExecuted)
      else Inr s))"

definition process_execute_scheduled ::
  "env \<Rightarrow> batch_codecs \<Rightarrow> pubkey \<Rightarrow> instruction_account list \<Rightarrow> vm \<Rightarrow> vm res" where
  "process_execute_scheduled e c program_id ias v =
     rbind (next_account_info ias) (\<lambda>(executor, it).
     rbind (next_account_info it) (\<lambda>(schedule_account, it).
     rbind (next_account_info it) (\<lambda>(escrow_account, it).
     rbind (next_account_info it) (\<lambda>(recipient_account, it).
     rbind (next_account_info it) (\<lambda>(system_program, it).
     rbind (load_scheduled c program_id (key schedule_account) v) (\<lambda>s.
     if key recipient_account \<noteq> sched_recipient s then Inl InvalidAccountData
     else
     rbind (clock_get e) (\<lambda>clk.
     if \<not> schedule_due clk s then Inl (batch_err NotYetDue)
     else
     let escrow_lamports = lamports (mem v (key escrow_account)) in
     rbind (move_lamports (batch_err BatchOverflow) (key escrow_account) escrow_lamports (key recipient_account)
              escrow_lamports v) (\<lambda>v.
     store_account (scheduled_codec c) (s\<lparr>sched_status := Executed, sched_executed_at := unix_timestamp clk\<rparr>)
       (key schedule_account) v))))))))"

definition process_cancel_scheduled :: "batch_codecs \<Rightarrow> pubkey \<Rightarrow> instruction_account list \<Rightarrow> vm \<Rightarrow> vm res" where
  "process_cancel_scheduled c program_id ias v =
     rbind (next_account_info ias) (\<lambda>(creator, it).
     rbind (next_account_info it) (\<lambda>(schedule_account, it).
     rbind (next_account_info it) (\<lambda>(escrow_account, it).
     rbind (next_account_info it) (\<lambda>(system_program, it).
     if \<not> is_signer creator then Inl MissingRequiredSignature
     else
     rbind (load_scheduled c program_id (key schedule_account) v) (\<lambda>s.
     if sched_creator s \<noteq> key creator then Inl (batch_err Unauthorized)
     else
     let escrow_lamports = lamports (mem v (key escrow_account)) in
     rbind (move_lamports (batch_err BatchOverflow) (key escrow_account) escrow_lamports (key creator) escrow_lamports v) (\<lambda>v.
     store_account (scheduled_codec c) (s\<lparr>sched_status := Cancelled\<rparr>) (key schedule_account) v))))))"

definition process_create_conditional ::
  "env \<Rightarrow> batch_codecs \<Rightarrow> pubkey \<Rightarrow> pubkey \<Rightarrow> u64 \<Rightarrow> pubkey \<Rightarrow> condition_type \<Rightarrow> u64 \<Rightarrow> i64 \<Rightarrow>
     instruction_account list \<Rightarrow> vm \<Rightarrow> vm res" where
  "process_create_conditional e c program_id recipient amount watched kind threshold ttl_seconds ias v =
     rbind (next_account_info ias) (\<lambda>(creator, it).
     rbind (next_account_info it) (\<lambda>(cond_transfer_account, it).
     rbind (next_account_info it) (\<lambda>(escrow_account, it).
     rbind (next_account_info it) (\<lambda>(system_program, it).
     if \<not> is_signer creator then Inl MissingRequiredSignature
     else if amount = 0 then Inl (batch_err InvalidAmount)
     else
     rbind (clock_get e) (\<lambda>clk.
     let seeds = [ascii ''conditional_tx'', to_le_bytes (key creator), to_le_bytes watched, to_le_bytes amount];
         (cond_pda, b) = find_program_address e seeds program_id in
     if cond_pda \<noteq> key cond_transfer_account then Inl (batch_err InvalidPDA)
     else
     let (escrow_pda, escrow_bump) = find_program_address e [ESCROW_SEED, to_le_bytes (key cond_transfer_account)] program_id in
     if escrow_pda \<noteq> key escrow_account then Inl (batch_err InvalidPDA)
     else
     rbind (create_with_escrow e program_id ias creator cond_transfer_account escrow_account system_program
              (seeds @ [[b]]) (1 + 1 + 32 + 32 + 8 + 32 + 1 + 8 + 8 + 8 + 1) amount escrow_bump v) (\<lambda>v.
     store_account (conditional_codec c)
       \<lparr>cond_is_initialized = True, cond_status = Pending, cond_creator = key creator, cond_recipient = recipient,
        cond_amount = amount, condition_account = watched, condition_type = kind, cond_threshold = threshold,
        cond_expires_at = i64_saturating_add (unix_timestamp clk) ttl_seconds, cond_created_at = unix_timestamp clk,
        cond_bump = b\<rparr> (key cond_transfer_account) v))))))"

definition process_execute_conditional ::
  "env \<Rightarrow> batch_codecs \<Rightarrow> pubkey \<Rightarrow> instruction_account list \<Rightarrow> vm \<Rightarrow> vm res" where
  "process_execute_conditional e c program_id ias v =
     rbind (next_account_info ias) (\<lambda>(executor, it).
     rbind (next_account_info it) (\<lambda>(cond_account, it).
     rbind (next_account_info it) (\<lambda>(escrow_account, it).
     rbind (next_account_info it) (\<lambda>(recipient_account, it).
     rbind (next_account_info it) (\<lambda>(condition_check_account, it).
     rbind (next_account_info it) (\<lambda>(system_program, it).
     if owner (mem v (key cond_account)) \<noteq> program_id then Inl IncorrectProgramId
     else
     rbind (load_account (conditional_codec c) (key cond_account) v) (\<lambda>t.
     if \<not> cond_is_initialized t then Inl (batch_err NotInitialized)
     else if cond_status t \<noteq> Pending then Inl (batch_err AlreadyExecuted)
     else if key recipient_account \<noteq> cond_recipient t then Inl InvalidAccountData
     else if key condition_check_account \<noteq> condition_account t then Inl InvalidAccountData
     else
     rbind (clock_get e) (\<lambda>clk.
     if sint (cond_expires_at t) < sint (unix_timestamp clk) then Inl (batch_err AlreadyExecuted)
     else if \<not> condition_met (condition_type t) (cond_threshold t) (lamports (mem v (key condition_check_account)))
     then Inl (batch_err ConditionNotMet)
     else
     let escrow_lamports = lamports (mem v (key escrow_account)) in
     rbind (move_lamports (batch_err BatchOverflow) (key escrow_account) escrow_lamports (key recipient_account)
              escrow_lamports v) (\<lambda>v.
     store_account (conditional_codec c) (t\<lparr>cond_status := Executed\<rparr>) (key cond_account) v)))))))))"

definition process_create_recurring ::
  "env \<Rightarrow> batch_codecs \<Rightarrow> pubkey \<Rightarrow> pubkey \<Rightarrow> u64 \<Rightarrow> i64 \<Rightarrow> u64 \<Rightarrow> u64 \<Rightarrow> instruction_account list \<Rightarrow> vm \<Rightarrow> vm res" where
  "process_create_recurring e c program_id recipient amount interval executions nonce ias v =
     rbind (next_account_info ias) (\<lambda>(creator, it).
     rbind (next_account_info it) (\<lambda>(recurring_account, it).
     rbind (next_account_info it) (\<lambda>(escrow_account, it).
     rbind (next_account_info it) (\<lambda>(system_program, it).
     if \<not> is_signer creator then Inl MissingRequiredSignature
     else if amount = 0 then Inl (batch_err InvalidAmount)
     else if sint interval \<le> 0 then Inl (batch_err InvalidAmount)
     else
     rbind (clock_get e) (\<lambda>clk.
     rbind (total_escrow amount executions) (\<lambda>deposit.
     let seeds = [RECURRING_SEED, to_le_bytes (key creator), to_le_bytes nonce];
         (recurring_pda, b) = find_program_address e seeds program_id in
     if recurring_pda \<noteq> key recurring_account then Inl (batch_err InvalidPDA)
     else
     let (escrow_pda, escrow_bump) = find_program_address e [ESCROW_SEED, to_le_bytes (key recurring_account)] program_id in
     if escrow_pda \<noteq> key escrow_account then Inl (batch_err InvalidPDA)
     else
     rbind (create_with_escrow e program_id ias creator recurring_account escrow_account system_program
              (seeds @ [[b]]) (1 + 1 + 32 + 32 + 8 + 8 + 8 + 8 + 8 + 8 + 1 + 8) deposit escrow_bump v) (\<lambda>v.
     store_account (recurring_codec c)
       \<lparr>rec_is_initialized = True, rec_status = Pending, rec_creator = key creator, rec_recipient = recipient,
        rec_amount = amount, interval_seconds = interval, max_executions = executions, executions_completed = 0,
        last_executed_at = unix_timestamp clk, rec_created_at = unix_timestamp clk, rec_bump = b, rec_nonce = nonce\<rparr>
       (key recurring_account) v)))))))"

definition process_execute_recurring ::
  "env \<Rightarrow> batch_codecs \<Rightarrow> pubkey \<Rightarrow> instruction_account list \<Rightarrow> vm \<Rightarrow> vm res" where
  "process_execute_recurring e c program_id ias v =
     rbind (next_account_info ias) (\<lambda>(executor, it).
     rbind (next_account_info it) (\<lambda>(recurring_account, it).
     rbind (next_account_info it) (\<lambda>(escrow_account, it).
     rbind (next_account_info it) (\<lambda>(recipient_account, it).
     rbind (next_account_info it) (\<lambda>(system_program, it).
     if owner (mem v (key recurring_account)) \<noteq> program_id then Inl IncorrectProgramId
     else
     rbind (load_account (recurring_codec c) (key recurring_account) v) (\<lambda>r.
     if \<not> rec_is_initialized r then Inl (batch_err NotInitialized)
     else if rec_status r \<noteq> Pending then Inl (batch_err AlreadyExecuted)
     else if key recipient_account \<noteq> rec_recipient r then Inl InvalidAccountData
     else
     rbind (clock_get e) (\<lambda>clk.
     if sint (i64_saturating_sub (unix_timestamp clk) (last_executed_at r)) < sint (interval_seconds r)
     then Inl (batch_err IntervalNotElapsed)
     else
     let escrow_balance = lamports (mem v (key escrow_account)) in
     if escrow_balance < rec_amount r then Inl (batch_err BatchInsufficientFunds)
     else
     rbind (move_lamports (batch_err BatchOverflow) (key escrow_account) escrow_balance (key recipient_account)
              (rec_amount r) v) (\<lambda>v.
     rbind (advance_recurring (unix_timestamp clk) r) (\<lambda>r.
     store_account (recurring_codec c) r (key recurring_account) v)))))))))"

fun batch_dispatch ::
  "env \<Rightarrow> batch_codecs \<Rightarrow> pubkey \<Rightarrow> batch_tx_instruction \<Rightarrow> instruction_account list \<Rightarrow> vm \<Rightarrow> vm res" where
  "batch_dispatch e c pid (BatchTransfer rs) = process_batch_transfer e pid rs"
| "batch_dispatch e c pid (CreateScheduledTransfer r n s t nonce) = process_create_scheduled e c pid r n s t nonce"
| "batch_dispatch e c pid ExecuteScheduledTransfer = process_execute_scheduled e c pid"
| "batch_dispatch e c pid CancelScheduledTransfer = process_cancel_scheduled c pid"
| "batch_dispatch e c pid (CreateConditionalTransfer r n w k t ttl) = process_create_conditional e c pid r n w k t ttl"
| "batch_dispatch e c pid ExecuteConditionalTransfer = process_execute_conditional e c pid"
| "batch_dispatch e c pid (CreateRecurringTransfer r n i m nonce) = process_create_recurring e c pid r n i m nonce"
| "batch_dispatch e c pid ExecuteRecurringTransfer = process_execute_recurring e c pid"

definition batch_process_instruction ::
  "env \<Rightarrow> batch_codecs \<Rightarrow> pubkey \<Rightarrow> bytes \<Rightarrow> instruction_account list \<Rightarrow> vm \<Rightarrow> vm res" where
  "batch_process_instruction e c program_id d ias v =
     (case try_from_slice (batch_instruction_codec c) d of
        None \<Rightarrow> Inl InvalidInstructionData
      | Some ix \<Rightarrow> batch_dispatch e c program_id ix ias v)"

section \<open>Balances\<close>

lemmas batch_handlers = process_batch_transfer_def process_create_scheduled_def process_execute_scheduled_def
  process_cancel_scheduled_def process_create_conditional_def process_execute_conditional_def process_create_recurring_def
  process_execute_recurring_def create_with_escrow_def

context chain
begin

lemma keeps_pay_recipients: "keeps v (pay_recipients e pid ias s sys rs it v)"
proof (induction rs arbitrary: it v)
  case (Cons r rs)
  show ?case unfolding pay_recipients.simps by (intro keeps_intros keeps_invoke Cons.IH)
qed (simp add: keeps_Inr)

lemma batch_keeps: "keeps v (batch_process_instruction e c pid d ias v)"
proof -
  have "keeps v (batch_dispatch e c pid ix ias v)" for ix
    by (cases ix; simp only: batch_dispatch.simps batch_handlers; intro keeps_intros keeps_invoke keeps_pay_recipients)
  then show ?thesis by (simp add: batch_process_instruction_def keeps_Inl split: option.split)
qed

end

sublocale chain \<subseteq> batch: onchain_program "batch_process_instruction e c pid d" for c pid d
  by unfold_locales (metis keepsD batch_keeps)

section \<open>Amounts\<close>

lemma batch_total_eq_Inr:
  "batch_total acc rs = Inr n \<longleftrightarrow> unat n = unat acc + (\<Sum>r\<leftarrow>rs. unat (batch_amount r))"
proof (induction rs arbitrary: acc)
  case Nil
  then show ?case by (auto simp: word_unat_eq_iff)
next
  case (Cons r rs)
  show ?case
  proof (cases "checked_add acc (batch_amount r)")
    case None
    have "unat n < 2 ^ 64" using unsigned_less [of n, where ?'a = nat] by simp
    moreover have "2 ^ 64 \<le> unat acc + unat (batch_amount r)" using None by (simp add: checked_add_eq_None)
    ultimately show ?thesis by (simp add: None ok_or_def)
  next
    case (Some a)
    have "unat a = unat acc + unat (batch_amount r)" using Some by (simp add: checked_add_eq_Some)
    then show ?thesis using Cons.IH [of a] by (simp add: ok_or_def Some add.assoc)
  qed
qed

text \<open>A created schedule is not due yet, unless neither a slot nor a time was asked for.\<close>

lemma new_schedule_not_due:
  assumes "check_schedule e clk (execute_at_slot s) (execute_at_timestamp s) = Inr ()"
    and "0 < sint (execute_at_timestamp s) \<or> 0 < execute_at_slot s \<and> unat (slot clk) + 5 < 2 ^ 64"
  shows "\<not> schedule_due clk s"
proof (cases "0 < sint (execute_at_timestamp s)")
  case True
  then show ?thesis using assms(1) by (auto simp: check_schedule_def schedule_due_def rbind_eq_Inr split: if_splits)
next
  case False
  then have slots: "0 < execute_at_slot s" "unat (slot clk + 5) = unat (slot clk) + 5"
    using assms(2) by (auto simp: unat_word_ariths)
  then have "\<not> execute_at_slot s < slot clk + 5"
    using assms by (auto simp: check_schedule_def op_add_def MIN_SCHEDULE_DELAY_SLOTS_def rbind_eq_Inr False split: if_splits)
  then have "slot clk < execute_at_slot s" using slots(2) by (simp add: word_less_nat_alt)
  then show ?thesis using slots(1) by (auto simp: schedule_due_def)
qed

text \<open>
  The escrow of a recurring transfer with a bound pays for every execution: the balance is always the amount
  times the executions that are left, and the transfer ends with the last one.
\<close>

definition recurring_funded :: "u64 \<Rightarrow> recurring_transfer \<Rightarrow> bool" where
  "recurring_funded balance r \<longleftrightarrow> executions_completed r \<le> max_executions r \<and>
     unat balance = unat (rec_amount r) * (unat (max_executions r) - unat (executions_completed r)) \<and>
     (rec_status r = Executed \<longleftrightarrow> executions_completed r = max_executions r)"

lemma new_recurring_funded:
  assumes "total_escrow (rec_amount r) (max_executions r) = Inr n" and "0 < max_executions r"
    and "executions_completed r = 0" and "rec_status r = Pending"
  shows "recurring_funded n r"
  using assms by (auto simp: total_escrow_def recurring_funded_def rust_simps)

lemma recurring_stays_funded:
  assumes "recurring_funded balance r" and "rec_status r = Pending" and "0 < max_executions r"
  shows "rec_amount r \<le> balance"
    and "advance_recurring now r = Inr r' \<Longrightarrow> recurring_funded (balance - rec_amount r) r'"
proof -
  have lt: "unat (executions_completed r) < unat (max_executions r)"
    using assms(1,2) by (auto simp: recurring_funded_def word_le_nat_alt word_unat_eq_iff order_le_less)
  then obtain m where m: "unat (max_executions r) - unat (executions_completed r) = Suc m" by (auto simp: less_iff_Suc_add)
  then have bal: "unat balance = unat (rec_amount r) + unat (rec_amount r) * m"
    using assms(1) by (simp add: recurring_funded_def)
  then show le: "rec_amount r \<le> balance" by (simp add: word_le_nat_alt)
  have rest: "unat (balance - rec_amount r) = unat (rec_amount r) * m" using bal le by (simp add: unat_sub)
  assume "advance_recurring now r = Inr r'"
  then obtain n where n: "unat n = unat (executions_completed r) + 1"
    and r': "r' = (let r = r\<lparr>executions_completed := n, last_executed_at := now\<rparr> in
      if 0 < max_executions r \<and> max_executions r \<le> executions_completed r then r\<lparr>rec_status := Executed\<rparr> else r)"
    by (auto simp: advance_recurring_def rust_simps Let_def)
  have "unat (max_executions r) - unat n = m" using m n by simp
  then show "recurring_funded (balance - rec_amount r) r'"
    using lt n rest assms(2,3) by (auto simp: r' recurring_funded_def Let_def word_le_nat_alt word_unat_eq_iff)
qed

text \<open>
  The escrow is not compared with the transfer: whoever cancels a schedule of their own collects the balance of
  any account that is passed as its escrow.
\<close>

lemma cancel_takes_any_escrow:
  assumes "ias = creator # schedule_account # escrow_account # system_program # rest" and "is_signer creator"
    and "load_scheduled c pid (key schedule_account) v = Inr s" and "sched_creator s = key creator"
    and "key escrow_account \<noteq> key creator" and "process_cancel_scheduled c pid ias v = Inr v'"
  shows "lamports (mem v' (key escrow_account)) = 0"
    and "unat (lamports (mem v' (key creator))) =
      unat (lamports (mem v (key creator))) + unat (lamports (mem v (key escrow_account)))"
proof -
  obtain u where u: "move_lamports (batch_err BatchOverflow) (key escrow_account) (lamports (mem v (key escrow_account)))
      (key creator) (lamports (mem v (key escrow_account))) v = Inr u"
    and v': "store_account (scheduled_codec c) (s\<lparr>sched_status := Cancelled\<rparr>) (key schedule_account) u = Inr v'"
    using assms by (auto simp: process_cancel_scheduled_def next_account_info_def rbind_eq_Inr Let_def)
  have keep: "lamports (mem v' k) = lamports (mem u k)" for k
    using v' by (auto simp: store_account_eq_Inr set_mem_data_def)
  show "lamports (mem v' (key escrow_account)) = 0"
    using u assms(5) by (auto simp: keep move_lamports_def lamports_assign_def rust_simps unat_eq_zero)
  show "unat (lamports (mem v' (key creator))) =
      unat (lamports (mem v (key creator))) + unat (lamports (mem v (key escrow_account)))"
    using u assms(5) by (auto simp: keep move_lamports_def lamports_assign_def rust_simps)
qed

end
