(* ===== verification/EthereumBridge.thy ===== *)
theory EthereumBridge
  imports Cpi
begin

text \<open>
  The Ethereum bridge (\<open>bridges/ethereum/program/src/lib.rs\<close>): tokens are locked or burned towards Ethereum, and
  transfers from Ethereum are attested by guardians and then minted. The instruction builders of the token crate are
  parameters. Arrays of bytes are the words of their bytes, as keys are.
\<close>

section \<open>Data\<close>

record bridge_state =
  bridge_is_initialized :: bool
  bridge_admin :: pubkey
  ethereum_contract_address :: "160 word"
  total_locked :: u64
  total_minted :: u64
  bridge_nonce :: u64
  bridge_guardians :: "pubkey list"
  guardian_threshold :: u8

record wrapped_token =
  wrapped_is_initialized :: bool
  original_chain :: u8
  original_address :: "256 word"
  wrapped_mint :: pubkey
  wrapped_name :: "256 word"
  wrapped_symbol :: "64 word"
  wrapped_decimals :: u8

datatype transaction_status = Pending | Confirmed | Completed | Failed

record bridge_transaction =
  tx_nonce :: u64
  from_chain :: u8
  to_chain :: u8
  tx_token :: pubkey
  tx_amount :: u64
  tx_sender :: "256 word"
  tx_recipient :: "256 word"
  tx_status :: transaction_status
  signatures :: "pubkey list"

datatype bridge_instruction =
    InitializeBridge "160 word" "pubkey list" u8
  | RegisterToken u8 "256 word" "256 word" "64 word" u8
  | LockAndMint u64 "160 word"
  | SubmitVaa u64 u64 "160 word" pubkey "256 word"
  | CompleteTransfer u64
  | Redeem u64 "160 word"

record bridge_codecs =
  bridge_state_codec :: "bridge_state borsh"
  wrapped_token_codec :: "wrapped_token borsh"
  bridge_tx_codec :: "bridge_transaction borsh"
  bridge_instruction_codec :: "bridge_instruction borsh"
  token_transfer :: "pubkey \<Rightarrow> pubkey \<Rightarrow> pubkey \<Rightarrow> pubkey \<Rightarrow> u64 \<Rightarrow> cpi_instruction res"
  token_mint_to :: "pubkey \<Rightarrow> pubkey \<Rightarrow> pubkey \<Rightarrow> pubkey \<Rightarrow> u64 \<Rightarrow> cpi_instruction res"
  token_burn :: "pubkey \<Rightarrow> pubkey \<Rightarrow> pubkey \<Rightarrow> pubkey \<Rightarrow> u64 \<Rightarrow> cpi_instruction res"

section \<open>Bridge transactions\<close>

text \<open>An Ethereum address fills the last 20 of 32 bytes.\<close>

definition pad_address :: "160 word \<Rightarrow> 256 word" where
  "pad_address a = push_bit 96 (ucast a)"

definition outgoing_transaction :: "u64 \<Rightarrow> pubkey \<Rightarrow> u64 \<Rightarrow> pubkey \<Rightarrow> 160 word \<Rightarrow> bridge_transaction" where
  "outgoing_transaction n token amount sender recipient =
     \<lparr>tx_nonce = n, from_chain = 4, to_chain = 1, tx_token = token, tx_amount = amount, tx_sender = sender,
      tx_recipient = pad_address recipient, tx_status = Pending, signatures = []\<rparr>"

definition incoming_transaction ::
  "bridge_codecs \<Rightarrow> u64 \<Rightarrow> u64 \<Rightarrow> 160 word \<Rightarrow> pubkey \<Rightarrow> 256 word \<Rightarrow> bytes \<Rightarrow> bridge_transaction res" where
  "incoming_transaction c n amount sender recipient token d =
     (if 0 < length d \<and> d ! 0 \<noteq> 0 then load (bridge_tx_codec c) d
      else Inr \<lparr>tx_nonce = n, from_chain = 1, to_chain = 4, tx_token = token, tx_amount = amount,
             tx_sender = pad_address sender, tx_recipient = recipient, tx_status = Pending, signatures = []\<rparr>)"

definition sign_transaction :: "u8 \<Rightarrow> pubkey \<Rightarrow> bridge_transaction \<Rightarrow> bridge_transaction res" where
  "sign_transaction threshold g t =
     (if g \<in> set (signatures t) then Inl InvalidArgument
      else
      let t = t\<lparr>signatures := signatures t @ [g]\<rparr> in
      Inr (if unat threshold \<le> length (signatures t) then t\<lparr>tx_status := Confirmed\<rparr> else t))"

section \<open>Handlers\<close>

text \<open>An account of the size of the record that is stored in it.\<close>

definition create_for ::
  "env \<Rightarrow> pubkey \<Rightarrow> instruction_account list \<Rightarrow> instruction_account \<Rightarrow> instruction_account \<Rightarrow> instruction_account \<Rightarrow>
     bytes list \<Rightarrow> 'a borsh \<Rightarrow> 'a \<Rightarrow> vm \<Rightarrow> vm res" where
  "create_for e program_id ias payer new_account system_program seeds codec x v =
     (let space = length (to_vec codec x) in
      rbind (rent_get e) (\<lambda>minimum_balance.
      rbind (invoke_signed e program_id ias
               (system_create_account (key payer) (key new_account) (minimum_balance space) (word_of_nat space) program_id)
               [payer, new_account, system_program] [seeds] v) (\<lambda>v.
      store_account codec x (key new_account) v)))"

definition process_initialize_bridge ::
  "env \<Rightarrow> bridge_codecs \<Rightarrow> pubkey \<Rightarrow> 160 word \<Rightarrow> pubkey list \<Rightarrow> u8 \<Rightarrow> instruction_account list \<Rightarrow> vm \<Rightarrow> vm res" where
  "process_initialize_bridge e c program_id contract gs threshold ias v =
     rbind (next_account_info ias) (\<lambda>(adm, it).
     rbind (next_account_info it) (\<lambda>(bridge_state_account, it).
     rbind (next_account_info it) (\<lambda>(system_program, it).
     if \<not> is_signer adm then Inl MissingRequiredSignature
     else if threshold = 0 \<or> length gs < unat threshold then Inl InvalidArgument
     else
     let (bridge_pda, b) = find_program_address e [ascii ''bridge_state''] program_id in
     if key bridge_state_account \<noteq> bridge_pda then Inl InvalidSeeds
     else create_for e program_id ias adm bridge_state_account system_program [ascii ''bridge_state'', [b]]
       (bridge_state_codec c)
       \<lparr>bridge_is_initialized = True, bridge_admin = key adm, ethereum_contract_address = contract, total_locked = 0,
        total_minted = 0, bridge_nonce = 0, bridge_guardians = gs, guardian_threshold = threshold\<rparr> v)))"

definition process_register_token ::
  "env \<Rightarrow> bridge_codecs \<Rightarrow> pubkey \<Rightarrow> u8 \<Rightarrow> 256 word \<Rightarrow> 256 word \<Rightarrow> 64 word \<Rightarrow> u8 \<Rightarrow> instruction_account list \<Rightarrow> vm \<Rightarrow> vm res" where
  "process_register_token e c program_id chain_id origin nm sy dec ias v =
     rbind (next_account_info ias) (\<lambda>(adm, it).
     rbind (next_account_info it) (\<lambda>(bridge_state_account, it).
     rbind (next_account_info it) (\<lambda>(wrapped_token_account, it).
     rbind (next_account_info it) (\<lambda>(mint_account, it).
     rbind (next_account_info it) (\<lambda>(token_program, it).
     rbind (next_account_info it) (\<lambda>(system_program, it).
     rbind (next_account_info it) (\<lambda>(rent_sysvar, it).
     if \<not> is_signer adm then Inl MissingRequiredSignature
     else
     rbind (load_account (bridge_state_codec c) (key bridge_state_account) v) (\<lambda>s.
     if \<not> bridge_is_initialized s then Inl UninitializedAccount
     else if bridge_admin s \<noteq> key adm then Inl InvalidAccountData
     else
     let (wrapped_pda, b) = find_program_address e [ascii ''wrapped_token'', to_le_bytes origin] program_id in
     if key wrapped_token_account \<noteq> wrapped_pda then Inl InvalidSeeds
     else
     let (mint_pda, mint_bump) = find_program_address e [ascii ''mint'', to_le_bytes origin] program_id in
     if key mint_account \<noteq> mint_pda then Inl InvalidSeeds
     else create_for e program_id ias adm wrapped_token_account system_program
       [ascii ''wrapped_token'', to_le_bytes origin, [b]] (wrapped_token_codec c)
       \<lparr>wrapped_is_initialized = True, original_chain = chain_id, original_address = origin, wrapped_mint = mint_pda,
        wrapped_name = nm, wrapped_symbol = sy, wrapped_decimals = dec\<rparr> v))))))))"

definition process_lock_and_mint ::
  "env \<Rightarrow> bridge_codecs \<Rightarrow> pubkey \<Rightarrow> u64 \<Rightarrow> 160 word \<Rightarrow> instruction_account list \<Rightarrow> vm \<Rightarrow> vm res" where
  "process_lock_and_mint e c program_id amount recipient ias v =
     rbind (next_account_info ias) (\<lambda>(user, it).
     rbind (next_account_info it) (\<lambda>(user_token_account, it).
     rbind (next_account_info it) (\<lambda>(vault_token_account, it).
     rbind (next_account_info it) (\<lambda>(bridge_state_account, it).
     rbind (next_account_info it) (\<lambda>(bridge_tx_account, it).
     rbind (next_account_info it) (\<lambda>(token_program, it).
     rbind (next_account_info it) (\<lambda>(system_program, it).
     if \<not> is_signer user then Inl MissingRequiredSignature
     else if amount = 0 then Inl InvalidArgument
     else
     rbind (load_account (bridge_state_codec c) (key bridge_state_account) v) (\<lambda>s.
     if \<not> bridge_is_initialized s then Inl UninitializedAccount
     else
     rbind (token_transfer c (key token_program) (key user_token_account) (key vault_token_account) (key user) amount) (\<lambda>ix.
     rbind (invoke e program_id ias ix [user_token_account, vault_token_account, user, token_program] v) (\<lambda>v.
     rbind (op_add e (bridge_nonce s) 1) (\<lambda>n.
     rbind (op_add e (total_locked s) amount) (\<lambda>locked.
     let (tx_pda, b) = find_program_address e [ascii ''bridge_tx'', to_le_bytes n] program_id in
     if key bridge_tx_account \<noteq> tx_pda then Inl InvalidSeeds
     else
     rbind (create_for e program_id ias user bridge_tx_account system_program [ascii ''bridge_tx'', to_le_bytes n, [b]]
              (bridge_tx_codec c) (outgoing_transaction n (key vault_token_account) amount (key user) recipient) v) (\<lambda>v.
     store_account (bridge_state_codec c) (s\<lparr>bridge_nonce := n, total_locked := locked\<rparr>) (key bridge_state_account) v)))))))))))))"

definition process_submit_vaa ::
  "bridge_codecs \<Rightarrow> u64 \<Rightarrow> u64 \<Rightarrow> 160 word \<Rightarrow> pubkey \<Rightarrow> 256 word \<Rightarrow> instruction_account list \<Rightarrow> vm \<Rightarrow> vm res" where
  "process_submit_vaa c n amount sender recipient token ias v =
     rbind (next_account_info ias) (\<lambda>(guardian, it).
     rbind (next_account_info it) (\<lambda>(bridge_state_account, it).
     rbind (next_account_info it) (\<lambda>(bridge_tx_account, it).
     if \<not> is_signer guardian then Inl MissingRequiredSignature
     else
     rbind (load_account (bridge_state_codec c) (key bridge_state_account) v) (\<lambda>s.
     if \<not> bridge_is_initialized s then Inl UninitializedAccount
     else if key guardian \<notin> set (bridge_guardians s) then Inl InvalidAccountData
     else
     rbind (incoming_transaction c n amount sender recipient token (data (mem v (key bridge_tx_account)))) (\<lambda>t.
     rbind (sign_transaction (guardian_threshold s) (key guardian) t) (\<lambda>t.
     store_account (bridge_tx_codec c) t (key bridge_tx_account) v))))))"

definition process_complete_transfer ::
  "env \<Rightarrow> bridge_codecs \<Rightarrow> pubkey \<Rightarrow> u64 \<Rightarrow> instruction_account list \<Rightarrow> vm \<Rightarrow> vm res" where
  "process_complete_transfer e c program_id n ias v =
     rbind (next_account_info ias) (\<lambda>(relayer, it).
     rbind (next_account_info it) (\<lambda>(bridge_state_account, it).
     rbind (next_account_info it) (\<lambda>(bridge_tx_account, it).
     rbind (next_account_info it) (\<lambda>(mint_account, it).
     rbind (next_account_info it) (\<lambda>(recipient_token_account, it).
     rbind (next_account_info it) (\<lambda>(mint_authority, it).
     rbind (next_account_info it) (\<lambda>(token_program, it).
     rbind (load_account (bridge_state_codec c) (key bridge_state_account) v) (\<lambda>s.
     rbind (load_account (bridge_tx_codec c) (key bridge_tx_account) v) (\<lambda>t.
     if tx_status t \<noteq> Confirmed then Inl InvalidAccountData
     else if tx_nonce t \<noteq> n then Inl InvalidArgument
     else
     let (authority_pda, b) = find_program_address e [ascii ''mint_authority''] program_id in
     if key mint_authority \<noteq> authority_pda then Inl InvalidSeeds
     else
     rbind (token_mint_to c (key token_program) (key mint_account) (key recipient_token_account) authority_pda (tx_amount t)) (\<lambda>ix.
     rbind (invoke_signed e program_id ias ix [mint_account, recipient_token_account, mint_authority, token_program]
              [[ascii ''mint_authority'', [b]]] v) (\<lambda>v.
     rbind (op_add e (total_minted s) (tx_amount t)) (\<lambda>minted.
     rbind (store_account (bridge_tx_codec c) (t\<lparr>tx_status := Completed\<rparr>) (key bridge_tx_account) v) (\<lambda>v.
     store_account (bridge_state_codec c) (s\<lparr>total_minted := minted\<rparr>) (key bridge_state_account) v)))))))))))))"

definition process_redeem ::
  "env \<Rightarrow> bridge_codecs \<Rightarrow> pubkey \<Rightarrow> u64 \<Rightarrow> 160 word \<Rightarrow> instruction_account list \<Rightarrow> vm \<Rightarrow> vm res" where
  "process_redeem e c program_id amount recipient ias v =
     rbind (next_account_info ias) (\<lambda>(user, it).
     rbind (next_account_info it) (\<lambda>(user_token_account, it).
     rbind (next_account_info it) (\<lambda>(mint_account, it).
     rbind (next_account_info it) (\<lambda>(bridge_state_account, it).
     rbind (next_account_info it) (\<lambda>(bridge_tx_account, it).
     rbind (next_account_info it) (\<lambda>(token_program, it).
     rbind (next_account_info it) (\<lambda>(system_program, it).
     if \<not> is_signer user then Inl MissingRequiredSignature
     else if amount = 0 then Inl InvalidArgument
     else
     rbind (load_account (bridge_state_codec c) (key bridge_state_account) v) (\<lambda>s.
     rbind (token_burn c (key token_program) (key user_token_account) (key mint_account) (key user) amount) (\<lambda>ix.
     rbind (invoke e program_id ias ix [user_token_account, mint_account, user, token_program] v) (\<lambda>v.
     rbind (op_add e (bridge_nonce s) 1) (\<lambda>n.
     let (tx_pda, b) = find_program_address e [ascii ''bridge_tx'', to_le_bytes n] program_id in
     if key bridge_tx_account \<noteq> tx_pda then Inl InvalidSeeds
     else
     rbind (create_for e program_id ias user bridge_tx_account system_program [ascii ''bridge_tx'', to_le_bytes n, [b]]
              (bridge_tx_codec c) (outgoing_transaction n (key mint_account) amount (key user) recipient) v) (\<lambda>v.
     store_account (bridge_state_codec c)
       (s\<lparr>bridge_nonce := n, total_minted := saturating_sub (total_minted s) amount\<rparr>) (key bridge_state_account) v))))))))))))"

definition bridge_process_instruction ::
  "env \<Rightarrow> bridge_codecs \<Rightarrow> pubkey \<Rightarrow> bytes \<Rightarrow> instruction_account list \<Rightarrow> vm \<Rightarrow> vm res" where
  "bridge_process_instruction e c program_id d ias v =
     rbind (ok_or (try_from_slice (bridge_instruction_codec c) d) InvalidInstructionData) (\<lambda>ix.
     case ix of
       InitializeBridge contract gs threshold \<Rightarrow> process_initialize_bridge e c program_id contract gs threshold ias v
     | RegisterToken chain_id origin nm sy dec \<Rightarrow> process_register_token e c program_id chain_id origin nm sy dec ias v
     | LockAndMint amount recipient \<Rightarrow> process_lock_and_mint e c program_id amount recipient ias v
     | SubmitVaa n amount sender recipient token \<Rightarrow> process_submit_vaa c n amount sender recipient token ias v
     | CompleteTransfer n \<Rightarrow> process_complete_transfer e c program_id n ias v
     | Redeem amount recipient \<Rightarrow> process_redeem e c program_id amount recipient ias v)"

section \<open>Balances\<close>

lemmas bridge_handlers = process_initialize_bridge_def process_register_token_def process_lock_and_mint_def
  process_submit_vaa_def process_complete_transfer_def process_redeem_def create_for_def

context chain
begin

lemma bridge_keeps: "keeps v (bridge_process_instruction e c pid d ias v)"
  unfolding bridge_process_instruction_def
  by (rule keeps_bind, rename_tac ix, case_tac ix; simp only: bridge_instruction.case bridge_handlers;
      intro keeps_intros keeps_invoke)

end

sublocale chain \<subseteq> ethereum_bridge: onchain_program "bridge_process_instruction e c pid d" for c pid d
  by unfold_locales (metis keepsD bridge_keeps)

section \<open>Attestations\<close>

text \<open>Each guardian signs once, and a signature confirms the transaction exactly when the threshold is reached.\<close>

lemma sign_transaction_eq_Inr:
  "sign_transaction m g t = Inr t' \<longleftrightarrow> g \<notin> set (signatures t) \<and>
     t' = t\<lparr>signatures := signatures t @ [g],
            tx_status := if unat m \<le> length (signatures t) + 1 then Confirmed else tx_status t\<rparr>"
  by (auto simp: sign_transaction_def Let_def)

fun sign_all :: "u8 \<Rightarrow> pubkey list \<Rightarrow> bridge_transaction \<Rightarrow> bridge_transaction res" where
  "sign_all m [] t = Inr t"
| "sign_all m (g # gs) t = rbind (sign_transaction m g t) (sign_all m gs)"

lemma sign_all_confirmed:
  assumes "sign_all m gs t = Inr t'" and "distinct (signatures t)"
    and "tx_status t = Confirmed \<longrightarrow> unat m \<le> length (signatures t)"
  shows "signatures t' = signatures t @ gs \<and> distinct (signatures t') \<and>
    (tx_status t' = Confirmed \<longrightarrow> unat m \<le> length (signatures t'))"
  using assms
proof (induction gs arbitrary: t)
  case (Cons g gs)
  then obtain u where u: "sign_transaction m g t = Inr u" "sign_all m gs u = Inr t'" by (auto simp: rbind_eq_Inr)
  then show ?case using Cons.IH [OF u(2)] Cons.prems by (auto simp: sign_transaction_eq_Inr split: if_splits)
qed auto

text \<open>
  A completed transfer can be confirmed again: any guardian that has not signed yet sets the status back, and the
  transfer can be minted once more.
\<close>

lemma completed_is_confirmed_again:
  assumes "tx_status t = Completed" and "unat m \<le> length (signatures t)" and "g \<notin> set (signatures t)"
  shows "\<exists>t'. sign_transaction m g t = Inr t' \<and> tx_status t' = Confirmed \<and> tx_amount t' = tx_amount t"
  using assms by (auto simp: sign_transaction_eq_Inr)

text \<open>
  A transaction whose first byte is zero, which is the low byte of the nonce, counts as absent: every signature
  starts it anew, and with a threshold above one it is never confirmed.
\<close>

lemma zero_byte_forgets_signatures:
  assumes "d \<noteq> [] \<longrightarrow> d ! 0 = 0" and "1 < unat m"
    and "incoming_transaction c n amount sender recipient token d = Inr t" and "sign_transaction m g t = Inr t'"
  shows "signatures t' = [g] \<and> tx_status t' = Pending"
  using assms by (auto simp: incoming_transaction_def sign_transaction_eq_Inr)

lemma low_byte_of_nonce: "to_le_bytes n ! 0 = 0 \<longleftrightarrow> unat n mod 256 = 0" for n :: u64
proof -
  have "to_le_bytes n ! 0 = word_of_nat (unat n)"
    using nat_le.simps(2) [of 7 "unat n"] by (simp add: to_le_bytes_def del: nat_le.simps)
  then show ?thesis by (simp only: word_unat_eq_iff unat_of_nat) (simp add: take_bit_eq_mod)
qed

text \<open>The padded address has twelve zero bytes in front, as \<open>recipient_padded[12..32]\<close> says.\<close>

lemma nat_le_shift: "nat_le (k + n) (x * 256 ^ k) = replicate k 0 @ nat_le n x"
proof (induction k)
  case (Suc k)
  have "x * 256 ^ Suc k div 256 = x * 256 ^ k" by simp
  moreover have "word_of_nat (x * 256 ^ Suc k) = (0 :: u8)"
    by (simp only: word_of_nat_eq_0_iff) (simp add: dvd_mult)
  ultimately show ?case using Suc by (simp only: add_Suc nat_le.simps replicate_Suc append_Cons)
qed simp

lemma pad_address_bytes: "to_le_bytes (pad_address a) = replicate 12 0 @ to_le_bytes a"
proof -
  have "unat a * 2 ^ 96 < 2 ^ 256" using unsigned_less [of a, where ?'a = nat] by simp
  then have "unat (pad_address a) = unat a * 256 ^ 12"
    by (simp add: pad_address_def push_bit_eq_mult unat_word_ariths unsigned_ucast_eq take_bit_nat_eq_self)
  then show ?thesis using nat_le_shift [of 12 20 "unat a"] by (simp add: to_le_bytes_def)
qed

end
