(* ===== verification/Spec2Isabelle.thy ===== *)
theory Spec2Isabelle
  imports FeeBurn Vesting Staking AtomicSwap FlashLoan PusdStablecoin SolSwap SolLend Scusd Multisig SocialRecovery Oracle Governance NameService BatchTx EthereumBridge
begin

text \<open>
  A verification of the on-chain programs of the Prism chain and of the part of the validator they run on.

  \<^bold>\<open>The program.\<close> The repository is a fork of a Solana validator with the programs of its own chain. A
  transaction names a set of accounts and runs a list of instructions, each addressed to a program. The
  validator gives the program a copy of the accounts it named, runs it, and writes the copy back through checks on
  ownership, on the signer and writable flags, and on the sum of the balances. A program may invoke another one
  with some of its accounts. The state of a program is the data of its accounts, in the Borsh encoding.

  \<^bold>\<open>The theories.\<close> Sources are relative to \<open>src/\<close>.

  \<^item> \<open>Prelude\<close>: Rust's integers as words, checked, saturating and casting operations, results and the \<open>?\<close> operator
    (\<open>rbind\<close>), bytes; \<open>rust_simps\<close> inverts a successful run into the equations it established.
  \<^item> \<open>Borsh\<close>: errors; a reader and a writer per type as a parameter (\<open>borsh\<close>), the laws the programs rely on
    as the locales \<open>borsh_struct\<close>, \<open>borsh_type\<close> and \<open>borsh_exact\<close>, and the documented byte layouts at which they are
    interpreted.
  \<^item> \<open>Runtime\<close>: \<open>validator/transaction-context\<close> (the account table, \<open>BorrowedInstructionAccount\<close>, \<open>pop\<close>) and
    \<open>validator/program-runtime/src/serialization.rs\<close> and \<open>vm.rs\<close>: entering a program and writing its memory back.
  \<^item> \<open>SystemProgram\<close>: \<open>validator/programs/system/src/system_processor.rs\<close>.
  \<^item> \<open>Cpi\<close>: \<open>validator/program-runtime/src/invoke_context.rs\<close> and \<open>cpi.rs\<close>, and the idioms of the programs
    (\<open>next_account_info\<close>, loading and storing an account, moving lamports).
  \<^item> \<open>FeeBurn\<close>, \<open>Vesting\<close>, \<open>Staking\<close>, \<open>AtomicSwap\<close>, \<open>FlashLoan\<close>, \<open>PusdStablecoin\<close>, \<open>Multisig\<close>, \<open>SocialRecovery\<close>,
    \<open>Oracle\<close>, \<open>Governance\<close>, \<open>NameService\<close>, \<open>BatchTx\<close>: the programs of \<open>programs/\<close> of these names.
  \<^item> \<open>SolSwap\<close>, \<open>SolLend\<close>, \<open>Scusd\<close>: \<open>defi/solswap\<close>, \<open>defi/sollend\<close> and \<open>defi/scusd\<close>; \<open>EthereumBridge\<close>: \<open>bridges/ethereum\<close>.
  \<^item> this theory: transactions that mix instructions of all of them.

  \<^bold>\<open>State and operations.\<close> A transaction is a \<open>tx_accounts\<close> (balances, data and owners by key, and \<open>lamports_delta\<close>);
  what a running program sees is a \<open>vm\<close>, the table and its own copy \<open>mem\<close>. Each program theory has its structs
  as records, its enums as datatypes, its error enum with the codes it returns, the decisions of the handlers as functions
  on the records, and one definition per handler that takes the instruction's accounts and the \<open>vm\<close> and returns the new
  \<open>vm\<close> or the error, with the checks in the order of the source. \<open><program>_process_instruction\<close> is the entry point
  and decodes the instruction. A panic is the error \<open>ProgramFailedToComplete\<close>; plain arithmetic panics or wraps as the
  flag \<open>overflow_checks\<close> of the build says.

  \<^bold>\<open>Parameters.\<close> The record \<open>env\<close> holds what is not in the repository: address derivation, rent and clock, SHA-256, the
  programs other than the system program (above all the token program), the loaders and precompiles that may not be
  called, a feature flag and the build mode. The
  codecs are parameters of each program. Hypotheses on them are named: \<open>callees_tracked\<close> (the other programs
  change balances through the runtime only), \<open>derivation_ok\<close>, \<open>spl_token_contract\<close> (what a token transfer moves), and the
  codec locales. \<open>native_env\<close>, \<open>token_chain\<close> and the layouts are concrete instances.

  \<^bold>\<open>What is shown.\<close>

  \<^item> Runtime (C1 to C5): lamports are conserved along any transaction of the modelled programs (C1, through the locale
    \<open>onchain_program\<close>, to which every program is connected by a \<open>sublocale\<close> of \<open>chain\<close>); a write-back changes only what the
    flags and the owner allow (C2); an invocation never gains a privilege (C3); transfers and creations are exact (C4, C5).
  \<^item> Fee burn (C6 to C8): the split is exact, the shares stay a whole, and a distribution that burns is always refused.
  \<^item> Vesting (C9 to C14): the curve refines its specification over the integers and is monotone; creation, claims and
    revocations keep the books, but for the count of active schedules; a claim is one token transfer of the claimable amount, through
    a program and between token accounts that the caller chooses.
  \<^item> Staking (C15 to C19): locks (without the early withdrawal and the cooldown of the feature list), the pool total as the sum of
    the positions under every instruction, slashing (without the promised limit), and two errors in the reward bookkeeping.
  \<^item> Atomic swap (C20 to C23): secret and time lock and what a claim moves (nothing for SPL tokens), settling once, never stuck,
    and the unchecked vault.
  \<^item> Flash loan (C24 to C26): the fee, solvency of the books along any run, and why no pool can be set up.
  \<^item> pUSD (C27, C28): the scale of the collateral ratio; vaults stay backed by their pools under the instructions
    on them, but for deposits into another account.
  \<^item> SolSwap (C29 to C31): Newton's square root is exact and terminates, the value of a liquidity token never falls, the base-58
    encoder can be inverted.
  \<^item> SolLend (C32, C33): a fresh loan is healthy; the market of a position is not compared.
  \<^item> scUSD (C34, C35): unpaid fees block liquidation; minting and withdrawing leave a vault collateralised.
  \<^item> Multisig (C36, C37): no vote fits the account it was read from, so no transaction account of the program ever records a
    decision; a record changes by proposal and by its proposer's cancellation only.
  \<^item> Social recovery (C38): an approved request takes over any configuration; \<open>config_updates_wf\<close> keeps the guardians well formed.
  \<^item> Oracle (C39): a minority of sources cannot move the median.
  \<^item> Governance (C40): the count equals a rule over the natural numbers, and \<open>veto_or_execute\<close> gives the time windows.
  \<^item> Name service, batch transactions and the Ethereum bridge are covered by C1; their theories add that records form a
    map with distinct keys (\<open>set_record_lookup\<close>, \<open>delete_record_lookup\<close>), that a name is always in reach of its owner or of a
    claimant (\<open>renew_or_claim\<close>), that a bounded recurring transfer stays funded (\<open>recurring_stays_funded\<close>), and that
    confirmations rest on distinct guardians (\<open>sign_all_confirmed\<close>), with the gaps found in each.

  \<^bold>\<open>Bounds.\<close> All integers have the width of the source. Every loop of the modelled code is structurally recursive or has
  a termination proof; no fuel is used. Limits such as the number of signers or providers are those of the source.

  \<^bold>\<open>Not modelled.\<close>

  \<^item> The rest of the validator (consensus, gossip, ledger, storage, RPC, the virtual machine and compute metering): concurrent
    and I/O-bound code around the execution of instructions. Of the modelled files, the nonce instructions of the
    system program, rent epochs, the executable flag, return data, the size limits of instructions, call depth and re-entrancy
    rules are left out.
  \<^item> The privacy program of \<open>programs/\<close>, \<open>defi/oracle\<close>, the Bitcoin and Solana bridges, \<open>governance/\<close>, \<open>nft-marketplace/\<close>,
    \<open>privacy/\<close> and \<open>ecosystem/\<close>: of the same kind as the modelled programs, and independent of them.
  \<^item> The vendored program library and metaplex, the program templates, and the wallets, explorer, SDKs and scripts: other people's
    programs, examples, and user interfaces.
  \<^item> Log output and events of all programs.
\<close>

section \<open>Chains of instructions\<close>

record codecs =
  fee_burn_codecs :: fee_burn_codecs
  vesting_codecs :: vesting_codecs
  staking_codecs :: staking_codecs
  swap_codecs :: swap_codecs
  flash_codecs :: flash_codecs
  pusd_codecs :: pusd_codecs
  solswap_codecs :: solswap_codecs
  lending_codecs :: lending_codecs
  scusd_codecs :: scusd_codecs
  multisig_codecs :: multisig_codecs
  recovery_codecs :: recovery_codecs
  oracle_codecs :: oracle_codecs
  governance_codecs :: governance_codecs
  name_service_codecs :: name_service_codecs
  batch_codecs :: batch_codecs
  bridge_codecs :: bridge_codecs

text \<open>One instruction of a transaction: of the system program, or of one of the programs.\<close>

inductive chain_step :: "env \<Rightarrow> codecs \<Rightarrow> tx_accounts \<Rightarrow> tx_accounts \<Rightarrow> bool" for e cs where
  system: "system_process (create_with_seed e) (allow_prefund e) ix ias t = Inr u \<Longrightarrow> pop u = Inr t' \<Longrightarrow>
    chain_step e cs t t'"
| fee_burn: "process_instruction pid (fee_burn_process_instruction e (fee_burn_codecs cs) pid d) ias t = Inr t' \<Longrightarrow>
    chain_step e cs t t'"
| vesting: "process_instruction pid (vesting_process_instruction e (vesting_codecs cs) pid d) ias t = Inr t' \<Longrightarrow>
    chain_step e cs t t'"
| staking: "process_instruction pid (staking_process_instruction e (staking_codecs cs) pid d) ias t = Inr t' \<Longrightarrow>
    chain_step e cs t t'"
| swap: "process_instruction pid (swap_process_instruction e (swap_codecs cs) pid d) ias t = Inr t' \<Longrightarrow>
    chain_step e cs t t'"
| flash: "process_instruction pid (flash_process_instruction e (flash_codecs cs) pid d) ias t = Inr t' \<Longrightarrow>
    chain_step e cs t t'"
| pusd: "process_instruction pid (pusd_process_instruction e (pusd_codecs cs) pid d) ias t = Inr t' \<Longrightarrow>
    chain_step e cs t t'"
| solswap: "process_instruction pid (solswap_process_instruction e (solswap_codecs cs) d) ias t = Inr t' \<Longrightarrow>
    chain_step e cs t t'"
| lending: "process_instruction pid (lending_process_instruction e (lending_codecs cs) d) ias t = Inr t' \<Longrightarrow>
    chain_step e cs t t'"
| scusd: "process_instruction pid (scusd_process_instruction e (scusd_codecs cs) pid d) ias t = Inr t' \<Longrightarrow>
    chain_step e cs t t'"
| multisig: "process_instruction pid (multisig_process_instruction e (multisig_codecs cs) pid d) ias t = Inr t' \<Longrightarrow>
    chain_step e cs t t'"
| recovery: "process_instruction pid (recovery_process_instruction e (recovery_codecs cs) pid d) ias t = Inr t' \<Longrightarrow>
    chain_step e cs t t'"
| price_oracle: "process_instruction pid (oracle_process_instruction e (oracle_codecs cs) pid d) ias t = Inr t' \<Longrightarrow>
    chain_step e cs t t'"
| governance: "process_instruction pid (governance_process_instruction e (governance_codecs cs) pid d) ias t = Inr t' \<Longrightarrow>
    chain_step e cs t t'"
| name_service: "process_instruction pid (name_service_process_instruction e (name_service_codecs cs) pid d) ias t = Inr t' \<Longrightarrow>
    chain_step e cs t t'"
| batch: "process_instruction pid (batch_process_instruction e (batch_codecs cs) pid d) ias t = Inr t' \<Longrightarrow>
    chain_step e cs t t'"
| ethereum_bridge: "process_instruction pid (bridge_process_instruction e (bridge_codecs cs) pid d) ias t = Inr t' \<Longrightarrow>
    chain_step e cs t t'"

context chain
begin

lemma system_step_conserves:
  assumes "system_process (create_with_seed e) (allow_prefund e) ix ias t = Inr u" and "pop u = Inr t'"
    and "lamports_delta t = 0"
  shows "total_lamports t' = total_lamports t" and "lamports_delta t' = 0" and "account_keys t' = account_keys t"
  using trackedD [OF tracked_system_process assms(1)] assms(2,3)
  by (auto simp: pop_def balance_potential_def split: if_splits)

lemma chain_step_conserves:
  assumes "chain_step e cs t t'" and "lamports_delta t = 0"
  shows "total_lamports t' = total_lamports t \<and> lamports_delta t' = 0 \<and> account_keys t' = account_keys t"
  using assms(1)
proof cases
  case (system ix ias u)
  then show ?thesis using system_step_conserves [OF _ _ assms(2)] by blast
next
  case (fee_burn pid d ias)
  then show ?thesis using fee_burn.conserves_lamports [OF _ assms(2)] by blast
next
  case (vesting pid d ias)
  then show ?thesis using vesting.conserves_lamports [OF _ assms(2)] by blast
next
  case (staking pid d ias)
  then show ?thesis using staking.conserves_lamports [OF _ assms(2)] by blast
next
  case (swap pid d ias)
  then show ?thesis using swap.conserves_lamports [OF _ assms(2)] by blast
next
  case (flash pid d ias)
  then show ?thesis using flash.conserves_lamports [OF _ assms(2)] by blast
next
  case (pusd pid d ias)
  then show ?thesis using pusd.conserves_lamports [OF _ assms(2)] by blast
next
  case (solswap pid d ias)
  then show ?thesis using solswap.conserves_lamports [OF _ assms(2)] by blast
next
  case (lending pid d ias)
  then show ?thesis using lending.conserves_lamports [OF _ assms(2)] by blast
next
  case (scusd pid d ias)
  then show ?thesis using scusd.conserves_lamports [OF _ assms(2)] by blast
next
  case (multisig pid d ias)
  then show ?thesis using multisig.conserves_lamports [OF _ assms(2)] by blast
next
  case (recovery pid d ias)
  then show ?thesis using recovery.conserves_lamports [OF _ assms(2)] by blast
next
  case (price_oracle pid d ias)
  then show ?thesis using price_oracle.conserves_lamports [OF _ assms(2)] by blast
next
  case (governance pid d ias)
  then show ?thesis using governance.conserves_lamports [OF _ assms(2)] by blast
next
  case (name_service pid d ias)
  then show ?thesis using name_service.conserves_lamports [OF _ assms(2)] by blast
next
  case (batch pid d ias)
  then show ?thesis using batch.conserves_lamports [OF _ assms(2)] by blast
next
  case (ethereum_bridge pid d ias)
  then show ?thesis using ethereum_bridge.conserves_lamports [OF _ assms(2)] by blast
qed

lemma chain_steps_conserve:
  "(chain_step e cs)\<^sup>*\<^sup>* t t' \<Longrightarrow> lamports_delta t = 0 \<Longrightarrow>
     total_lamports t' = total_lamports t \<and> lamports_delta t' = 0 \<and> account_keys t' = account_keys t"
  by (induction rule: rtranclp_induct) (auto dest: chain_step_conserves)

end

text \<open>A codec that reads nothing, for the programs that the sample transaction does not run.\<close>

definition unreadable :: "'a borsh" where
  "unreadable = \<lparr>try_from_slice = (\<lambda>_. None), to_vec = (\<lambda>_. [])\<rparr>"

definition sample_codecs :: codecs where
  "sample_codecs =
     \<lparr>fee_burn_codecs = fee_burn_layouts FeeBurn.Initialize, vesting_codecs = vesting_layouts,
      staking_codecs = staking_layouts UpdateRewards, swap_codecs = swap_layouts RefundSwap,
      flash_codecs = flash_layouts FlashLoan.Repay, pusd_codecs = pusd_layouts PusdStablecoin.Liquidate,
      solswap_codecs = solswap_layouts (Swap 0 0 AtoB), lending_codecs = lending_layouts AccrueInterest,
      scusd_codecs = scusd_layouts OpenVault,
      multisig_codecs = multisig_layouts ApproveTransaction,
      recovery_codecs = recovery_layouts ApproveRecovery,
      oracle_codecs = oracle_layouts ReadPrice,
      governance_codecs = \<lparr>governance_state_codec = unreadable, proposal_codec = unreadable, vote_record_codec = unreadable,
        delegation_codec = unreadable, governance_instruction_codec = unreadable,
        rent_from_account_info = (\<lambda>_ _. Inl InvalidArgument)\<rparr>,
      name_service_codecs = \<lparr>registry_codec = unreadable, name_codec = unreadable, subdomain_codec = unreadable,
        reverse_codec = unreadable, name_service_instruction_codec = unreadable\<rparr>,
      batch_codecs = \<lparr>scheduled_codec = unreadable, conditional_codec = unreadable, recurring_codec = unreadable,
        batch_instruction_codec = unreadable\<rparr>,
      bridge_codecs = \<lparr>bridge_state_codec = unreadable, wrapped_token_codec = unreadable, bridge_tx_codec = unreadable,
        bridge_instruction_codec = unreadable, token_transfer = (\<lambda>_ _ _ _ _. Inl InvalidArgument),
        token_mint_to = (\<lambda>_ _ _ _ _. Inl InvalidArgument), token_burn = (\<lambda>_ _ _ _ _. Inl InvalidArgument)\<rparr>\<rparr>"

text \<open>
  C1. Lamports are conserved. Whatever instructions of the system program and of the modelled programs
  a transaction executes, one after the other and with whatever accounts and data, every instruction
  that is accepted leaves the total balance of the transaction's accounts unchanged.
\<close>

theorem lamports_conserved:
  assumes "callees_tracked e" and "(chain_step e cs)\<^sup>*\<^sup>* t t'" and "lamports_delta t = 0"
  shows "total_lamports t' = total_lamports t \<and> lamports_delta t' = 0 \<and> account_keys t' = account_keys t"
  by (rule chain.chain_steps_conserve [OF chain.intro [OF assms(1)] assms(2,3)])

theorem lamports_conserved_witness:
  "\<exists>t'. (chain_step fee_burn_chain sample_codecs)\<^sup>*\<^sup>*
      (tx_of [1, 2] (\<lambda>_. wallet 100)) t' \<and>
    unat (lamports (accounts t' 2)) = 130 \<and> total_lamports t' = 200"
proof -
  let ?t = "tx_of [1, 2] (\<lambda>_. wallet 100)"
  obtain t' where run: "system_process (create_with_seed fee_burn_chain) (allow_prefund fee_burn_chain) (Transfer 30)
      [account_ref 1 True True, account_ref 2 False True] ?t = Inr t'"
    and res: "pop t' = Inr t'" "unat (lamports (accounts t' 2)) = 130"
    by (simp add: runtime_eval system_eval)
  have steps: "(chain_step fee_burn_chain sample_codecs)\<^sup>*\<^sup>* ?t t'"
    using chain_step.system [OF run res(1)] by blast
  have "callees_tracked fee_burn_chain" "lamports_delta ?t = 0" "total_lamports ?t = 200"
    by (simp_all add: fee_burn_chain_def native_env_ok tx_of_def total_lamports_def)
  then show ?thesis using lamports_conserved [OF _ steps] steps res(2) by auto
qed

end
